(* ===== verification/Prelude.thy ===== *)
theory Prelude imports Main "HOL-Library.Finite_Map" "HOL-Library.State_Monad" "HOL-Library.List_Lexorder" "HOL-Library.Char_ord" begin

text \<open>
  What every component shares: the Go string functions the code calls, errors as values,
  Go maps as finite maps (a nil map is \<open>None\<close>), and the contract of the
  find-or-append operations.

  Strings are lists of bytes. \<open>TrimSpace\<close>, \<open>Fields\<close>, \<open>ToLower\<close> and \<open>EqualFold\<close> are
  given on ASCII bytes; on them they are the functions of the Go package strings. The
  texts they are applied to (label values, annotation values, resource names, guest
  commands) are ASCII.
\<close>

section \<open>Strings\<close>

definition newline :: string where
  "newline = [CHR 0x0A]"

definition bslash :: string where
  "bslash = [CHR 0x5C]"

definition squote :: string where
  "squote = [CHR 0x27]"

definition tab :: string where
  "tab = [CHR 0x09]"

definition unlines :: "string list \<Rightarrow> string" where
  "unlines ls = concat (map (\<lambda>l. l @ newline) ls)"

definition is_space :: "char \<Rightarrow> bool" where
  "is_space c \<longleftrightarrow> c = CHR '' '' \<or> c = CHR 0x09 \<or> c = CHR 0x0A \<or> c = CHR 0x0B \<or> c = CHR 0x0C \<or> c = CHR 0x0D"

definition TrimSpace :: "string \<Rightarrow> string" where
  "TrimSpace s = rev (dropWhile is_space (rev (dropWhile is_space s)))"

definition lower_char :: "char \<Rightarrow> char" where
  "lower_char c = (if 65 \<le> (of_char c :: nat) \<and> (of_char c :: nat) \<le> 90
     then char_of ((of_char c :: nat) + 32) else c)"

definition ToLower :: "string \<Rightarrow> string" where
  "ToLower s = map lower_char s"

definition EqualFold :: "string \<Rightarrow> string \<Rightarrow> bool" where
  "EqualFold a b \<longleftrightarrow> ToLower a = ToLower b"

fun HasPrefix :: "string \<Rightarrow> string \<Rightarrow> bool" where
  "HasPrefix s [] = True"
| "HasPrefix [] (p # ps) = False"
| "HasPrefix (c # cs) (p # ps) = (c = p \<and> HasPrefix cs ps)"

definition HasSuffix :: "string \<Rightarrow> string \<Rightarrow> bool" where
  "HasSuffix s p \<longleftrightarrow> HasPrefix (rev s) (rev p)"

definition TrimPrefix :: "string \<Rightarrow> string \<Rightarrow> string" where
  "TrimPrefix s p = (if HasPrefix s p then drop (length p) s else s)"

fun Contains :: "string \<Rightarrow> string \<Rightarrow> bool" where
  "Contains [] p = (p = [])"
| "Contains (c # cs) p = (HasPrefix (c # cs) p \<or> Contains cs p)"

function Fields :: "string \<Rightarrow> string list" where
  "Fields s = (let t = dropWhile is_space s in
     if t = [] then []
     else takeWhile (\<lambda>c. \<not> is_space c) t # Fields (dropWhile (\<lambda>c. \<not> is_space c) t))"
  by pat_completeness auto
termination
proof (relation "measure length")
  fix s t :: string
  assume t: "t = dropWhile is_space s" and ne: "t \<noteq> []"
  from ne obtain c cs where c: "t = c # cs" by (cases t) auto
  with t have "\<not> is_space c" by (metis hd_dropWhile list.distinct(1) list.sel(1))
  with c have "length (dropWhile (\<lambda>c. \<not> is_space c) t) < length t"
    by (simp add: le_imp_less_Suc length_dropWhile_le)
  also have "\<dots> \<le> length s" unfolding t by (rule length_dropWhile_le)
  finally show "(dropWhile (\<lambda>c. \<not> is_space c) t, s) \<in> measure length" by simp
qed simp

declare Fields.simps [simp del]

fun Join :: "string list \<Rightarrow> string \<Rightarrow> string" where
  "Join [] sep = []"
| "Join [x] sep = x"
| "Join (x # y # zs) sep = x @ sep @ Join (y # zs) sep"

text \<open>
  \<open>strings.ReplaceAll\<close> and \<open>strings.Replace(\<dots>, 1)\<close> for a nonempty pattern, the only
  kind the code passes.
\<close>

function ReplaceAll :: "string \<Rightarrow> string \<Rightarrow> string \<Rightarrow> string" where
  "ReplaceAll s p r =
     (if p = [] \<or> s = [] then s
      else if HasPrefix s p then r @ ReplaceAll (drop (length p) s) p r
      else hd s # ReplaceAll (tl s) p r)"
  by pat_completeness auto
termination
  by (relation "measure (\<lambda>(s, p, r). length s)") auto

declare ReplaceAll.simps [simp del]

fun ReplaceOnce :: "string \<Rightarrow> string \<Rightarrow> string \<Rightarrow> string" where
  "ReplaceOnce [] p r = []"
| "ReplaceOnce (c # cs) p r =
     (if p \<noteq> [] \<and> HasPrefix (c # cs) p then r @ drop (length p) (c # cs)
      else c # ReplaceOnce cs p r)"

fun nat_digits :: "nat \<Rightarrow> string" where
  "nat_digits n = (if n < 10 then [char_of (48 + n)]
     else nat_digits (n div 10) @ [char_of (48 + n mod 10)])"

declare nat_digits.simps [simp del]

definition Itoa :: "int \<Rightarrow> string" where
  "Itoa i = (if i < 0 then CHR ''-'' # nat_digits (nat (- i)) else nat_digits (nat i))"

section \<open>Facts about strings\<close>

lemma HasPrefix_iff: "HasPrefix s p \<longleftrightarrow> (\<exists>t. s = p @ t)"
  by (induction s p rule: HasPrefix.induct) auto

lemma HasPrefix_append [simp]: "HasPrefix (p @ t) p"
  by (auto simp: HasPrefix_iff)

lemma HasPrefix_refl [simp]: "HasPrefix p p"
  using HasPrefix_append [of p "[]"] by simp

lemma Contains_iff: "Contains s p \<longleftrightarrow> (\<exists>a b. s = a @ p @ b)"
proof (induction s)
  case Nil
  then show ?case by auto
next
  case (Cons c cs)
  show ?case
  proof
    assume "Contains (c # cs) p"
    then consider "HasPrefix (c # cs) p" | "Contains cs p" by auto
    then show "\<exists>a b. c # cs = a @ p @ b"
    proof cases
      case 1
      then obtain t where "c # cs = p @ t" by (auto simp: HasPrefix_iff)
      then have "c # cs = [] @ p @ t" by simp
      then show ?thesis by blast
    next
      case 2
      then obtain a b where "cs = a @ p @ b" using Cons.IH by blast
      then have "c # cs = (c # a) @ p @ b" by simp
      then show ?thesis by blast
    qed
  next
    assume "\<exists>a b. c # cs = a @ p @ b"
    then obtain a b where eq: "c # cs = a @ p @ b" by blast
    show "Contains (c # cs) p"
    proof (cases a)
      case Nil
      with eq have "HasPrefix (c # cs) p" by simp
      then show ?thesis by simp
    next
      case (Cons d ds)
      with eq have "cs = ds @ p @ b" by simp
      then have "Contains cs p" using Cons.IH by blast
      then show ?thesis by simp
    qed
  qed
qed

lemma Contains_append1: "Contains s p \<Longrightarrow> Contains (s @ t) p"
  by (auto simp: Contains_iff) (metis append.assoc)

lemma Contains_append2: "Contains t p \<Longrightarrow> Contains (s @ t) p"
  by (auto simp: Contains_iff) (metis append.assoc)

lemma Contains_mid: "Contains (a @ p @ b) p"
  by (auto simp: Contains_iff)

lemma lower_char_idem [simp]: "lower_char (lower_char c) = lower_char c"
proof -
  let ?n = "of_char c :: nat"
  have "of_char (char_of (?n + 32) :: char) = ?n + 32" if "?n \<le> 90"
    using that by (simp only: of_char_of) simp
  then show ?thesis by (auto simp: lower_char_def)
qed

lemma ToLower_idem [simp]: "ToLower (ToLower s) = ToLower s"
  by (simp add: ToLower_def)

lemma EqualFold_refl [simp]: "EqualFold s s"
  by (simp add: EqualFold_def)

lemma dropWhile_dropWhile [simp]: "dropWhile P (dropWhile P xs) = dropWhile P xs"
  by (induction xs) auto

lemma dropWhile_eq_self_hd: "xs = [] \<or> \<not> P (hd xs) \<Longrightarrow> dropWhile P xs = xs"
  by (cases xs) auto

lemma TrimSpace_idem [simp]: "TrimSpace (TrimSpace s) = TrimSpace s"
proof -
  let ?u = "dropWhile is_space s"
  let ?v = "rev (dropWhile is_space (rev ?u))"
  have "dropWhile is_space ?v = ?v"
  proof (cases "?v = []")
    case False
    have u: "?u = ?v @ rev (takeWhile is_space (rev ?u))"
      by (metis rev_append rev_rev_ident takeWhile_dropWhile_id)
    obtain c cs where v: "?v = c # cs" using False by (cases ?v) auto
    with u have cu: "?u = c # cs @ rev (takeWhile is_space (rev ?u))" by (metis append_Cons)
    then have "\<not> is_space c" by (metis hd_dropWhile list.distinct(1) list.sel(1))
    with v show ?thesis by (simp add: dropWhile_eq_self_hd)
  next
    case True
    then show ?thesis by (metis dropWhile.simps(1))
  qed
  then show ?thesis by (simp add: TrimSpace_def)
qed

section \<open>Errors\<close>

text \<open>
  A Go error is its class, as \<open>apierrors.IsNotFound\<close>, \<open>IsAlreadyExists\<close> and
  \<open>meta.IsNoMatchError\<close> see it through any number of \<open>%w\<close> wrappings, and its message.
  A run-time panic is the class \<open>KPanic\<close>: no error branch of the source handles it.
\<close>

datatype errkind = KPlain | KNotFound | KAlreadyExists | KNoMatch | KPanic

datatype goerr = GoErr (ekind: errkind) (Error: string)

definition Errorf :: "string \<Rightarrow> goerr" where
  "Errorf msg = GoErr KPlain msg"

definition Wrapf :: "string \<Rightarrow> goerr \<Rightarrow> goerr" where
  "Wrapf pre e = GoErr (ekind e) (pre @ Error e)"

definition IsNotFound :: "goerr \<Rightarrow> bool" where
  "IsNotFound e \<longleftrightarrow> ekind e = KNotFound"

definition IsAlreadyExists :: "goerr \<Rightarrow> bool" where
  "IsAlreadyExists e \<longleftrightarrow> ekind e = KAlreadyExists"

definition IsNoMatchError :: "goerr \<Rightarrow> bool" where
  "IsNoMatchError e \<longleftrightarrow> ekind e = KNoMatch"

definition is_panic :: "goerr \<Rightarrow> bool" where
  "is_panic e \<longleftrightarrow> ekind e = KPanic"

definition nil_deref :: goerr where
  "nil_deref = GoErr KPanic ''runtime error: invalid memory address or nil pointer dereference''"

definition is_Inl :: "'a + 'b \<Rightarrow> bool" where
  "is_Inl r \<longleftrightarrow> (case r of Inl _ \<Rightarrow> True | Inr _ \<Rightarrow> False)"

lemma ekind_simps [simp]:
  "ekind (Errorf m) = KPlain" "ekind (Wrapf p e) = ekind e"
  "Error (Errorf m) = m" "Error (Wrapf p e) = p @ Error e"
  by (simp_all add: Errorf_def Wrapf_def)

lemma is_Inl_simps [simp]: "is_Inl (Inl e)" "\<not> is_Inl (Inr x)"
  by (simp_all add: is_Inl_def)

section \<open>Maps\<close>

type_synonym smap = "(string, string) fmap"

definition mget :: "smap option \<Rightarrow> string \<Rightarrow> string" where
  "mget m k = (case m of None \<Rightarrow> '''' | Some f \<Rightarrow> (case fmlookup f k of None \<Rightarrow> '''' | Some v \<Rightarrow> v))"

definition mhas :: "smap option \<Rightarrow> string \<Rightarrow> bool" where
  "mhas m k \<longleftrightarrow> (case m of None \<Rightarrow> False | Some f \<Rightarrow> fmlookup f k \<noteq> None)"

definition non_nil :: "smap option \<Rightarrow> smap" where
  "non_nil m = (case m of None \<Rightarrow> fmempty | Some f \<Rightarrow> f)"

definition sorted_keys :: "(string, 'v) fmap \<Rightarrow> string list" where
  "sorted_keys m = sorted_list_of_fset (fmdom m)"

lemma mget_simps [simp]:
  "mget None k = ''''"
  "mget (Some fmempty) k = ''''"
  "mget (Some (fmupd k v f)) k' = (if k = k' then v else mget (Some f) k')"
  "mget (Some (fmdrop k f)) k' = (if k = k' then '''' else mget (Some f) k')"
  by (auto simp: mget_def)

lemma mhas_simps [simp]:
  "\<not> mhas None k"
  "\<not> mhas (Some fmempty) k"
  "mhas (Some (fmupd k v f)) k' \<longleftrightarrow> k = k' \<or> mhas (Some f) k'"
  "mhas (Some (fmdrop k f)) k' \<longleftrightarrow> k \<noteq> k' \<and> mhas (Some f) k'"
  by (auto simp: mhas_def)

lemma non_nil_simps [simp]: "non_nil None = fmempty" "non_nil (Some f) = f"
  by (simp_all add: non_nil_def)

lemma mget_non_nil [simp]: "mget (Some (non_nil m)) k = mget m k"
  by (cases m) simp_all

lemma mhas_non_nil [simp]: "mhas (Some (non_nil m)) k = mhas m k"
  by (cases m) simp_all

lemma mget_not_mhas: "\<not> mhas m k \<Longrightarrow> mget m k = ''''"
  by (auto simp: mhas_def mget_def split: option.splits)

lemma set_sorted_keys [simp]: "set (sorted_keys m) = fmdom' m"
  by (simp add: sorted_keys_def fmdom'_alt_def)

section \<open>Find or append\<close>

text \<open>
  Many operations of the operator look for an entry in a list and append one when none
  matches. The contract: a match survives appending, and the appended entry matches.
\<close>

locale append_unless =
  fixes present :: "'a list \<Rightarrow> bool"
    and fresh :: "'a list \<Rightarrow> 'a"
    and ensure :: "'a list \<Rightarrow> 'a list \<times> bool"
  assumes present_fresh: "\<not> present xs \<Longrightarrow> present (xs @ [fresh xs])"
    and ensure_eq: "ensure xs = (if present xs then (xs, False) else (xs @ [fresh xs], True))"
begin

lemma ensured: "present (fst (ensure xs))"
  by (simp add: ensure_eq present_fresh)

lemma ensure_idem: "ensure (fst (ensure xs)) = (fst (ensure xs), False)"
  using ensured [of xs] by (simp add: ensure_eq)

lemma ensure_keeps: "\<exists>ys. fst (ensure xs) = xs @ ys \<and> length ys \<le> 1"
  by (auto simp: ensure_eq)

lemma ensure_changed: "snd (ensure xs) \<longleftrightarrow> fst (ensure xs) \<noteq> xs"
  by (simp add: ensure_eq)

end

section \<open>The first element with a property\<close>

fun index_where :: "('a \<Rightarrow> bool) \<Rightarrow> 'a list \<Rightarrow> nat option" where
  "index_where P [] = None"
| "index_where P (x # xs) = (if P x then Some 0 else map_option Suc (index_where P xs))"

lemma index_where_Some:
  "index_where P xs = Some i \<Longrightarrow> i < length xs \<and> P (xs ! i) \<and> (\<forall>j<i. \<not> P (xs ! j))"
proof (induction xs arbitrary: i)
  case (Cons x xs)
  then show ?case by (auto split: if_splits simp: less_Suc_eq_0_disj nth_Cons split: nat.splits)
qed simp

lemma index_where_None: "index_where P xs = None \<longleftrightarrow> list_all (\<lambda>x. \<not> P x) xs"
  by (induction xs) auto

lemma index_where_append:
  "index_where P xs = None \<Longrightarrow> P x \<Longrightarrow> index_where P (xs @ [x]) = Some (length xs)"
  by (induction xs) (auto split: if_splits)

lemma index_where_update:
  "index_where P xs = Some i \<Longrightarrow> P y \<Longrightarrow> index_where P (xs[i := y]) = Some i"
  by (induction xs arbitrary: i) (auto split: if_splits)

section \<open>The data key of a Secret or ConfigMap\<close>

definition find_key :: "string list \<Rightarrow> (string \<Rightarrow> bool) \<Rightarrow> (string, 'v) fmap \<Rightarrow> string option" where
  "find_key preferred accepts m = (case List.find (\<lambda>k. fmlookup m k \<noteq> None) preferred of
     Some k \<Rightarrow> Some k
   | None \<Rightarrow> List.find accepts (sorted_keys m))"

lemma find_SomeD: "List.find P xs = Some x \<Longrightarrow> x \<in> set xs \<and> P x"
  by (auto simp: find_Some_iff)

lemma find_key_cases:
  assumes "find_key preferred accepts m = Some k"
  obtains "k \<in> set preferred" "fmlookup m k \<noteq> None"
  | "\<forall>p\<in>set preferred. fmlookup m p = None" "List.find accepts (sorted_keys m) = Some k"
proof (cases "List.find (\<lambda>k. fmlookup m k \<noteq> None) preferred")
  case None
  then have "\<forall>p\<in>set preferred. fmlookup m p = None" by (auto simp: find_None_iff)
  with None assms that(2) show ?thesis by (simp add: find_key_def)
next
  case (Some p)
  with assms find_SomeD [OF Some] that(1) show ?thesis by (simp add: find_key_def)
qed

lemma in_sorted_keys: "k \<in> set (sorted_keys m) \<longleftrightarrow> fmlookup m k \<noteq> None"
  by (simp add: fmlookup_dom'_iff)

text \<open>
  The search for the data key: the preferred keys in their order, else the least key (in
  the byte order of \<open>sort.Strings\<close>) that is accepted. The outcome does not depend on the
  order in which Go ranges over the map.
\<close>

locale key_finder =
  fixes find_in :: "(string, 'v) fmap \<Rightarrow> string option"
    and preferred :: "string list"
    and accepts :: "string \<Rightarrow> bool"
  assumes find_in_eq: "find_in m = find_key preferred accepts m"
begin

lemma found_in_map:
  assumes "find_in m = Some k"
  shows "fmlookup m k \<noteq> None"
  using assms unfolding find_in_eq
proof (cases rule: find_key_cases)
  case 2
  from find_SomeD [OF 2(2)] show ?thesis by (simp only: in_sorted_keys) simp
qed simp

lemma not_found_iff:
  "find_in m = None \<longleftrightarrow> (\<forall>k. fmlookup m k = None \<or> k \<notin> set preferred \<and> \<not> accepts k)"
proof -
  have "find_in m = None \<longleftrightarrow> (\<forall>k\<in>set preferred. fmlookup m k = None) \<and> (\<forall>k\<in>set (sorted_keys m). \<not> accepts k)"
  proof (cases "List.find (\<lambda>k. fmlookup m k \<noteq> None) preferred")
    case None
    then have "\<forall>k\<in>set preferred. fmlookup m k = None" unfolding find_None_iff by blast
    moreover have "find_in m = List.find accepts (sorted_keys m)" by (simp only: find_in_eq find_key_def None option.case)
    ultimately show ?thesis by (simp only: find_None_iff) blast
  next
    case (Some k)
    then have "find_in m = Some k" by (simp only: find_in_eq find_key_def option.case)
    then have "find_in m \<noteq> None" by simp
    moreover from find_SomeD [OF Some] have "\<not> (\<forall>k\<in>set preferred. fmlookup m k = None)" by auto
    ultimately show ?thesis by blast
  qed
  then show ?thesis unfolding in_sorted_keys Ball_def by metis
qed

lemma preferred_first:
  assumes "find_in m = Some k" and "k' \<in> set preferred" and "fmlookup m k' \<noteq> None"
  shows "k \<in> set preferred"
  using assms(1) unfolding find_in_eq by (cases rule: find_key_cases) (use assms(2,3) in auto)

lemma least_accepted:
  assumes "find_in m = Some k" and "k \<notin> set preferred" and "accepts k'" and "fmlookup m k' \<noteq> None"
  shows "k \<le> k'"
  using assms(1) unfolding find_in_eq
proof (cases rule: find_key_cases)
  case 2
  then obtain i where i: "i < length (sorted_keys m)" "sorted_keys m ! i = k"
    and before: "\<forall>j<i. \<not> accepts (sorted_keys m ! j)"
    by (auto simp: find_Some_iff)
  from assms(4) have "k' \<in> set (sorted_keys m)" by (simp only: in_sorted_keys) simp
  then obtain j where j: "j < length (sorted_keys m)" "sorted_keys m ! j = k'"
    by (metis in_set_conv_nth)
  with before assms(3) have "i \<le> j" by (metis not_le_imp_less)
  moreover have "sorted (sorted_keys m)" by (simp add: sorted_keys_def sorted_list_of_fset.rep_eq)
  ultimately show ?thesis using i j by (metis sorted_nth_mono)
qed (use assms(2) in simp)

lemma find_spec:
  "(find_in m = None \<longrightarrow> (\<forall>k. fmlookup m k = None \<or> k \<notin> set preferred \<and> \<not> accepts k))
   \<and> (find_in m = Some k \<longrightarrow> fmlookup m k \<noteq> None
      \<and> (\<forall>k'. fmlookup m k' \<noteq> None \<longrightarrow> k' \<in> set preferred \<longrightarrow> k \<in> set preferred)
      \<and> (\<forall>k'. fmlookup m k' \<noteq> None \<longrightarrow> accepts k' \<longrightarrow> k \<notin> set preferred \<longrightarrow> k \<le> k'))"
  using not_found_iff [of m] found_in_map [of m k] preferred_first [of m k] least_accepted [of m k]
  by blast

end

end
