(* ===== verification/Api.thy ===== *)
theory Api imports Prelude begin

text \<open>
  The annotation keys, status values and names of \<open>api/constants.go\<close>, and the annotation
  keys the code spells as literals (\<open>AnnBootstrapStartedAt\<close> and the four after it). All
  annotation keys are pairwise different, which \<open>ann_neq\<close> gives to the simplifier.
\<close>

definition AnnDisableMonitoring :: string where
  \<open>AnnDisableMonitoring = ''kubevirt-observability.io/disable-kubevirt-observability''\<close>

definition AnnBootstrapManaged :: string where
  \<open>AnnBootstrapManaged = ''kubevirt-observability.io/bootstrap-managed''\<close>

definition AnnBootstrapOS :: string where
  \<open>AnnBootstrapOS = ''kubevirt-observability.io/bootstrap-os''\<close>

definition AnnBootstrapType :: string where
  \<open>AnnBootstrapType = ''kubevirt-observability.io/bootstrap-type''\<close>

definition AnnBootstrapVersion :: string where
  \<open>AnnBootstrapVersion = ''kubevirt-observability.io/bootstrap-version''\<close>

definition AnnStatus :: string where
  \<open>AnnStatus = ''kubevirt-observability.io/status''\<close>

definition AnnReason :: string where
  \<open>AnnReason = ''kubevirt-observability.io/reason''\<close>

definition AnnExporter :: string where
  \<open>AnnExporter = ''kubevirt-observability.io/exporter''\<close>

definition AnnLegacyAlloy :: string where
  \<open>AnnLegacyAlloy = ''kubevirt-observability.io/alloy''\<close>

definition AnnSysprepMergeRequired :: string where
  \<open>AnnSysprepMergeRequired = ''kubevirt-observability.io/sysprep-merge-required''\<close>

definition AnnSysprepMerged :: string where
  \<open>AnnSysprepMerged = ''kubevirt-observability.io/sysprep-merged''\<close>

definition AnnSysprepMergeError :: string where
  \<open>AnnSysprepMergeError = ''kubevirt-observability.io/sysprep-merge-error''\<close>

definition AnnCloudInitSecretMergeRequired :: string where
  \<open>AnnCloudInitSecretMergeRequired = ''kubevirt-observability.io/cloudinit-secret-merge-required''\<close>

definition AnnCloudInitSecretMerged :: string where
  \<open>AnnCloudInitSecretMerged = ''kubevirt-observability.io/cloudinit-secret-merged''\<close>

definition AnnCloudInitSecretMergeError :: string where
  \<open>AnnCloudInitSecretMergeError = ''kubevirt-observability.io/cloudinit-secret-merge-error''\<close>

definition AnnBootstrapInlineSkipped :: string where
  \<open>AnnBootstrapInlineSkipped = ''kubevirt-observability.io/bootstrap-inline-skipped''\<close>

definition AnnRemediationRequired :: string where
  \<open>AnnRemediationRequired = ''kubevirt-observability.io/remediation-required''\<close>

definition AnnRemediationReason :: string where
  \<open>AnnRemediationReason = ''kubevirt-observability.io/remediation-reason''\<close>

definition AnnRemediationCompleted :: string where
  \<open>AnnRemediationCompleted = ''kubevirt-observability.io/remediation-completed''\<close>

definition AnnRemediationError :: string where
  \<open>AnnRemediationError = ''kubevirt-observability.io/remediation-error''\<close>

definition AnnLoggingEnabled :: string where
  \<open>AnnLoggingEnabled = ''kubevirt-observability.io/logging-enabled''\<close>

definition AnnAlloyInstalled :: string where
  \<open>AnnAlloyInstalled = ''kubevirt-observability.io/alloy-installed''\<close>

definition AnnAlloyConfigHash :: string where
  \<open>AnnAlloyConfigHash = ''kubevirt-observability.io/alloy-config-hash''\<close>

definition AnnAlloyError :: string where
  \<open>AnnAlloyError = ''kubevirt-observability.io/alloy-error''\<close>

definition AnnLoggingStatus :: string where
  \<open>AnnLoggingStatus = ''kubevirt-observability.io/logging-status''\<close>

definition AnnLinuxSSHUser :: string where
  \<open>AnnLinuxSSHUser = ''kubevirt-observability.io/linux-ssh-user''\<close>

definition AnnWindowsSSHEnabled :: string where
  \<open>AnnWindowsSSHEnabled = ''kubevirt-observability.io/windows-ssh-enabled''\<close>

definition WindowsBootstrapDoneMarker :: string where
  \<open>WindowsBootstrapDoneMarker = ''C:'' @ [CHR 0x5C] @ ''kubevirt-observability'' @ [CHR 0x5C] @ ''bootstrap.done''\<close>

definition WindowsBootstrapFailedMarker :: string where
  \<open>WindowsBootstrapFailedMarker = ''C:'' @ [CHR 0x5C] @ ''kubevirt-observability'' @ [CHR 0x5C] @ ''bootstrap.failed''\<close>

definition StatusPending :: string where
  \<open>StatusPending = ''pending''\<close>

definition StatusReady :: string where
  \<open>StatusReady = ''ready''\<close>

definition StatusFailed :: string where
  \<open>StatusFailed = ''failed''\<close>

definition StatusSkipped :: string where
  \<open>StatusSkipped = ''skipped''\<close>

definition LinuxServiceName :: string where
  \<open>LinuxServiceName = ''vm-linux-monitoring-service''\<close>

definition WindowsScheduledTask :: string where
  \<open>WindowsScheduledTask = ''KubeVirt Observability Bootstrap''\<close>

definition LinuxSSHSecretName :: string where
  \<open>LinuxSSHSecretName = ''lin-vm-mon-secret''\<close>

definition BootstrapVersion :: string where
  \<open>BootstrapVersion = ''v1''\<close>

definition AnnBootstrapStartedAt :: string where
  \<open>AnnBootstrapStartedAt = ''kubevirt-observability.io/bootstrap-started-at''\<close>

definition AnnSSHBootstrapComplete :: string where
  \<open>AnnSSHBootstrapComplete = ''kubevirt-observability.io/ssh-bootstrap-complete''\<close>

definition AnnBootstrapReady :: string where
  \<open>AnnBootstrapReady = ''kubevirt-observability.io/bootstrap-ready''\<close>

definition AnnReconcileAt :: string where
  \<open>AnnReconcileAt = ''kubevirt-observability.io/reconcile-at''\<close>

definition AnnDebugWebhookVersion :: string where
  \<open>AnnDebugWebhookVersion = ''kubevirt-observability.io/debug-webhook-version''\<close>

definition annotation_keys :: "string list" where
  "annotation_keys = [AnnDisableMonitoring, AnnBootstrapManaged, AnnBootstrapOS, AnnBootstrapType, AnnBootstrapVersion, AnnStatus, AnnReason, AnnExporter, AnnLegacyAlloy, AnnSysprepMergeRequired, AnnSysprepMerged, AnnSysprepMergeError, AnnCloudInitSecretMergeRequired, AnnCloudInitSecretMerged, AnnCloudInitSecretMergeError, AnnBootstrapInlineSkipped, AnnRemediationRequired, AnnRemediationReason, AnnRemediationCompleted, AnnRemediationError, AnnLoggingEnabled, AnnAlloyInstalled, AnnAlloyConfigHash, AnnAlloyError, AnnLoggingStatus, AnnLinuxSSHUser, AnnWindowsSSHEnabled, AnnBootstrapStartedAt, AnnSSHBootstrapComplete, AnnBootstrapReady, AnnReconcileAt, AnnDebugWebhookVersion]"

lemmas ann_defs =
  AnnDisableMonitoring_def AnnBootstrapManaged_def AnnBootstrapOS_def AnnBootstrapType_def AnnBootstrapVersion_def AnnStatus_def AnnReason_def AnnExporter_def AnnLegacyAlloy_def AnnSysprepMergeRequired_def AnnSysprepMerged_def AnnSysprepMergeError_def AnnCloudInitSecretMergeRequired_def AnnCloudInitSecretMerged_def AnnCloudInitSecretMergeError_def AnnBootstrapInlineSkipped_def AnnRemediationRequired_def AnnRemediationReason_def AnnRemediationCompleted_def AnnRemediationError_def AnnLoggingEnabled_def AnnAlloyInstalled_def AnnAlloyConfigHash_def AnnAlloyError_def AnnLoggingStatus_def AnnLinuxSSHUser_def AnnWindowsSSHEnabled_def AnnBootstrapStartedAt_def AnnSSHBootstrapComplete_def AnnBootstrapReady_def AnnReconcileAt_def AnnDebugWebhookVersion_def

lemmas status_defs = StatusPending_def StatusReady_def StatusFailed_def StatusSkipped_def

lemma annotation_keys_distinct: "distinct annotation_keys"
  by code_simp

lemma annotation_keys_distinct_rev: "distinct (rev annotation_keys)"
  by (simp only: distinct_rev annotation_keys_distinct)

lemmas ann_neq [simp] =
  annotation_keys_distinct [unfolded annotation_keys_def, simplified]
  annotation_keys_distinct_rev [unfolded annotation_keys_def, simplified]

lemma status_neq [simp]:
  "StatusPending \<noteq> StatusReady" "StatusPending \<noteq> StatusSkipped" "StatusReady \<noteq> StatusPending"
  "StatusReady \<noteq> StatusSkipped" "StatusSkipped \<noteq> StatusPending" "StatusSkipped \<noteq> StatusReady"
  by (simp_all add: status_defs)

end
