(* ===== verification/Kube.thy ===== *)
theory Kube imports Prelude Api begin

text \<open>
  The objects the operator reads and writes, with the fields its code mentions, and the
  effects it has. The Kubernetes client, the guest connections and the clock are not code
  of the repository: a \<open>client\<close> record of functions over an abstract world \<open>'w\<close> stands for
  them, and every definition that uses them takes it as its first argument. Each call is
  recorded in \<open>acts\<close>, in order, so that what an operation does to the cluster and to the
  guests can be stated about the calls it makes, whatever they return.
\<close>

section \<open>Objects\<close>

text \<open>\<open>interface{}\<close> values, as the YAML and JSON decoders build them.\<close>

datatype gval = GNil | GBool bool | GInt int | GFloat string | GString string
  | GSlice "gval list" | GMap "(string \<times> gval) list"

record CloudInitNoCloudSource =
  UserData :: string
  UserDataBase64 :: string
  UserDataSecretRef :: "string option"

record CloudInitConfigDriveSource =
  cd_UserData :: string
  cd_UserDataBase64 :: string

record SysprepSource =
  sp_ConfigMap :: "string option"
  sp_Secret :: "string option"

record Volume =
  v_Name :: string
  CloudInitNoCloud :: "CloudInitNoCloudSource option"
  CloudInitConfigDrive :: "CloudInitConfigDriveSource option"
  v_Sysprep :: "SysprepSource option"

record Disk =
  d_Name :: string
  d_Bus :: "string option"

text \<open>An access credential's \<open>SSHPublicKey\<close>: the secret of its source, and the users the
  QEMU guest agent propagates it to.\<close>

record SSHPublicKeyCredential =
  SecretName :: "string option"
  Users :: "string list"

record AccessCredential =
  SSHPublicKey :: "SSHPublicKeyCredential option"

record VMTemplate =
  t_Labels :: "smap option"
  Volumes :: "Volume list"
  Disks :: "Disk list"
  AccessCredentials :: "AccessCredential list"

record VirtualMachine =
  vm_Name :: string
  vm_Namespace :: string
  vm_Labels :: "smap option"
  Annotations :: "smap option"
  Template :: "VMTemplate option"

text \<open>Of a VirtualMachineInstance the code reads the addresses of \<open>Status.Interfaces\<close>.\<close>

record VirtualMachineInstance =
  vmi_IPs :: "string list"

record ObjectMeta =
  o_Name :: string
  o_Namespace :: string
  o_Labels :: "smap option"
  o_Annotations :: "smap option"

record Secret =
  sec_Meta :: ObjectMeta
  sec_Type :: string
  sec_Data :: "smap option"

record ConfigMap =
  cm_Meta :: ObjectMeta
  cm_Data :: "smap option"

record Namespace =
  ns_Name :: string
  ns_Labels :: "smap option"

record ServicePort =
  sp_Name :: string
  sp_Port :: int
  sp_Protocol :: string
  sp_TargetPort :: int

record Service =
  svc_Meta :: ObjectMeta
  svc_Ports :: "ServicePort list"

record EndpointPort =
  ep_PortName :: string
  ep_Port :: int
  ep_Protocol :: string

record EndpointSubset =
  es_Addresses :: "string list"
  es_Ports :: "EndpointPort list"

record Endpoints =
  eps_Meta :: ObjectMeta
  eps_Subsets :: "EndpointSubset list"

record MonitorEndpoint =
  me_Port :: string
  me_Path :: string
  me_Interval :: string

record ServiceMonitor =
  sm_Meta :: ObjectMeta
  sm_MatchLabels :: smap
  sm_TargetLabels :: "string list"
  sm_Endpoints :: "MonitorEndpoint list"

record Subject =
  sub_Kind :: string
  sub_Name :: string
  sub_Namespace :: string

record RoleRef =
  rr_APIGroup :: string
  rr_Kind :: string
  rr_Name :: string

record RoleBinding =
  rb_Meta :: ObjectMeta
  rb_Subjects :: "Subject list"
  rb_RoleRef :: RoleRef

text \<open>
  An \<open>unstructured.Unstructured\<close>: its kind and metadata, which the code reads and sets
  through accessors, and the rest of the object.
\<close>

record Unstructured =
  u_APIVersion :: string
  u_Kind :: string
  u_Meta :: ObjectMeta
  u_ResourceVersion :: string
  u_UID :: string
  u_CreationTimestamp :: string
  u_Generation :: int
  u_Body :: gval

text \<open>
  Objects that only the command line tool handles. The fields its code does not mention are
  one JSON value, so that what is sent is whole. The source of an environment variable is
  a key of a Secret or something else, the volume of a pod a ConfigMap or another one.
  \<open>OStringSecret\<close> is a Secret whose data is sent as \<open>StringData\<close>.
\<close>

record ServiceAccount =
  sa_Meta :: ObjectMeta
  sa_Rest :: gval

record PolicyRule =
  APIGroups :: "string list"
  Resources :: "string list"
  ResourceNames :: "string list"
  Verbs :: "string list"
  pr_Rest :: gval

record ClusterRole =
  cr_Meta :: ObjectMeta
  cr_Rules :: "PolicyRule list"
  cr_Rest :: gval

record ClusterRoleBinding =
  crb_Meta :: ObjectMeta
  crb_RoleRef :: RoleRef
  crb_Subjects :: "Subject list"
  crb_Rest :: gval

record EnvVarSource =
  SecretKeyRef :: "(string \<times> string) option"
  evs_Rest :: gval

record EnvVar =
  env_Name :: string
  env_Value :: string
  ValueFrom :: "EnvVarSource option"

record VolumeMount =
  mnt_Name :: string
  MountPath :: string
  mnt_Rest :: gval

record Container =
  ctr_Name :: string
  Image :: string
  Env :: "EnvVar list"
  VolumeMounts :: "VolumeMount list"
  ctr_Rest :: gval

record PodVolume =
  pv_Name :: string
  pv_ConfigMap :: "string option"
  pv_Rest :: gval

record Deployment =
  dep_Meta :: ObjectMeta
  dep_ResourceVersion :: string
  Generation :: int
  Containers :: "Container list"
  PodVolumes :: "PodVolume list"
  dep_Rest :: gval
  ObservedGeneration :: int
  ReadyReplicas :: int
  AvailableReplicas :: int

record ClusterService =
  cs_Meta :: ObjectMeta
  cs_ResourceVersion :: string
  ClusterIP :: string
  ClusterIPs :: "string list"
  IPFamilies :: "string list"
  IPFamilyPolicy :: "string option"
  HealthCheckNodePort :: int
  cs_Rest :: gval

record WebhookConfiguration =
  wh_Meta :: ObjectMeta
  wh_ResourceVersion :: string
  wh_Rest :: gval

datatype kobj = OVM VirtualMachine | OSecret Secret | OConfigMap ConfigMap
  | ONamespace Namespace | OService Service | OEndpoints Endpoints
  | OServiceMonitor ServiceMonitor | ORoleBinding RoleBinding | OUnstructured Unstructured
  | OServiceAccount ServiceAccount | OClusterRole ClusterRole | OClusterRoleBinding ClusterRoleBinding
  | ODeployment Deployment | OClusterService ClusterService | OWebhook WebhookConfiguration
  | OStringSecret Secret

definition meta :: "string \<Rightarrow> string \<Rightarrow> smap option \<Rightarrow> smap option \<Rightarrow> ObjectMeta" where
  "meta ns name ls ans = \<lparr>o_Name = name, o_Namespace = ns, o_Labels = ls, o_Annotations = ans\<rparr>"

text \<open>The namespace an object lives in; a Namespace object is cluster-scoped and stands for
  itself.\<close>

fun namespace_of :: "kobj \<Rightarrow> string" where
  "namespace_of (OVM vm) = vm_Namespace vm"
| "namespace_of (OSecret s) = o_Namespace (sec_Meta s)"
| "namespace_of (OConfigMap c) = o_Namespace (cm_Meta c)"
| "namespace_of (ONamespace n) = ns_Name n"
| "namespace_of (OService s) = o_Namespace (svc_Meta s)"
| "namespace_of (OEndpoints e) = o_Namespace (eps_Meta e)"
| "namespace_of (OServiceMonitor m) = o_Namespace (sm_Meta m)"
| "namespace_of (ORoleBinding r) = o_Namespace (rb_Meta r)"
| "namespace_of (OUnstructured u) = o_Namespace (u_Meta u)"
| "namespace_of (OServiceAccount a) = o_Namespace (sa_Meta a)"
| "namespace_of (OClusterRole r) = o_Namespace (cr_Meta r)"
| "namespace_of (OClusterRoleBinding b) = o_Namespace (crb_Meta b)"
| "namespace_of (ODeployment d) = o_Namespace (dep_Meta d)"
| "namespace_of (OClusterService s) = o_Namespace (cs_Meta s)"
| "namespace_of (OWebhook w) = o_Namespace (wh_Meta w)"
| "namespace_of (OStringSecret s) = o_Namespace (sec_Meta s)"

section \<open>Effects\<close>

datatype kind = KVM | KVMI | KSecret | KConfigMap | KNamespace | KService | KEndpoints
  | KServiceMonitor | KRoleBinding | KRoute | KUnstructured string string
  | KServiceAccount | KClusterRole | KClusterRoleBinding | KDeployment | KWebhook | KStorageClass

text \<open>
  What the command line tool asks of the dynamic and the typed client, of the discovery API
  and of the machine it runs on; \<open>GVR\<close> is a group, a version and a resource.
\<close>

datatype gvr = GVR string string string

datatype request =
    DGet gvr string string
  | DList gvr string
  | DCreate gvr string gval
  | DUpdate gvr string gval
  | DMergePatch gvr string string gval
  | TUpdate kobj
  | TList string string
  | GroupVersion string
  | AccessReview string string string string
  | NewClient string
  | LookPath string
  | Stat string
  | RunCommand string "string list"
  | Print string
  | ReadPassword
  | Tick
  | CreateToken string string int
  | GenerateKey nat
  | ReadFile string
  | ReadDir string

datatype action =
    Req request
  | Get kind string string
  | Create kobj
  | Patch kobj kobj
  | Event string string string string string
  | DialTCP string nat
  | SSHDial string string nat
  | SSHSession nat
  | SSHExec nat string string
  | CloseSession nat
  | CloseClient nat
  | Now

type_synonym 'a go = "goerr + 'a"

text \<open>\<open>if err != nil { return err }\<close> in a function without effects.\<close>

definition goE :: "'a go \<Rightarrow> ('a \<Rightarrow> 'b go) \<Rightarrow> 'b go" where
  "goE r f = (case r of Inl e \<Rightarrow> Inl e | Inr x \<Rightarrow> f x)"

lemma goE_simps [simp]: "goE (Inl e) f = Inl e" "goE (Inr x) f = f x"
  by (simp_all add: goE_def)

lemma goE_Inr: "goE r f = Inr y \<longleftrightarrow> (\<exists>x. r = Inr x \<and> f x = Inr y)"
  by (cases r) simp_all

lemma goE_InrE: "goE r f = Inr y \<Longrightarrow> (\<And>x. r = Inr x \<Longrightarrow> f x = Inr y \<Longrightarrow> P) \<Longrightarrow> P"
  by (cases r) simp_all

text \<open>
  The client. Gets take a namespace and a name. \<open>patchVM\<close> returns the object as the server
  answers it, which the typed client stores in the pointer it was given. Connections and
  sessions are named by numbers. \<open>ssh_exec\<close> gives the error, if any, and what the command
  wrote on its output and error streams, \<open>ssh_combined\<close> both streams as they were
  interleaved. Times are nanoseconds since the epoch.
\<close>

record 'w client =
  getVM :: "string \<Rightarrow> string \<Rightarrow> 'w \<Rightarrow> VirtualMachine go \<times> 'w"
  getVMIObj :: "string \<Rightarrow> string \<Rightarrow> 'w \<Rightarrow> VirtualMachineInstance go \<times> 'w"
  getSecret :: "string \<Rightarrow> string \<Rightarrow> 'w \<Rightarrow> Secret go \<times> 'w"
  getConfigMap :: "string \<Rightarrow> string \<Rightarrow> 'w \<Rightarrow> ConfigMap go \<times> 'w"
  getNamespace :: "string \<Rightarrow> 'w \<Rightarrow> Namespace go \<times> 'w"
  getService :: "string \<Rightarrow> string \<Rightarrow> 'w \<Rightarrow> Service go \<times> 'w"
  getEndpoints :: "string \<Rightarrow> string \<Rightarrow> 'w \<Rightarrow> Endpoints go \<times> 'w"
  getServiceMonitor :: "string \<Rightarrow> string \<Rightarrow> 'w \<Rightarrow> ServiceMonitor go \<times> 'w"
  getRoleBinding :: "string \<Rightarrow> string \<Rightarrow> 'w \<Rightarrow> RoleBinding go \<times> 'w"
  getRouteHost :: "string \<Rightarrow> string \<Rightarrow> 'w \<Rightarrow> string go \<times> 'w"
  getUnstructured :: "string \<Rightarrow> string \<Rightarrow> string \<Rightarrow> string \<Rightarrow> 'w \<Rightarrow> Unstructured go \<times> 'w"
  createObj :: "kobj \<Rightarrow> 'w \<Rightarrow> unit go \<times> 'w"
  patchObj :: "kobj \<Rightarrow> kobj \<Rightarrow> 'w \<Rightarrow> unit go \<times> 'w"
  patchVMObj :: "VirtualMachine \<Rightarrow> VirtualMachine \<Rightarrow> 'w \<Rightarrow> VirtualMachine go \<times> 'w"
  dial_tcp :: "string \<Rightarrow> nat \<Rightarrow> 'w \<Rightarrow> unit go \<times> 'w"
  ssh_parse_key :: "string \<Rightarrow> string go"
  ssh_dial :: "string \<Rightarrow> string \<Rightarrow> string \<Rightarrow> nat \<Rightarrow> 'w \<Rightarrow> nat go \<times> 'w"
  ssh_session :: "nat \<Rightarrow> 'w \<Rightarrow> nat go \<times> 'w"
  ssh_exec :: "nat \<Rightarrow> string \<Rightarrow> string \<Rightarrow> 'w \<Rightarrow> (goerr option \<times> string \<times> string) \<times> 'w"
  ssh_combined :: "nat \<Rightarrow> string \<Rightarrow> string \<Rightarrow> 'w \<Rightarrow> (goerr option \<times> string) \<times> 'w"
  time_now :: "'w \<Rightarrow> int \<times> 'w"

record 'w st =
  world :: 'w
  acts :: "action list"

type_synonym ('w, 'a) io = "('w st, 'a) state"

definition call :: "action \<Rightarrow> ('w \<Rightarrow> 'a \<times> 'w) \<Rightarrow> ('w, 'a) io" where
  "call a f = State (\<lambda>s. case f (world s) of (r, w) \<Rightarrow> (r, \<lparr>world = w, acts = acts s @ [a]\<rparr>))"

abbreviation ret :: "'a \<Rightarrow> ('w, 'a) io" where
  "ret \<equiv> State_Monad.return"

abbreviation ok :: "'a \<Rightarrow> ('w, 'a go) io" where
  "ok x \<equiv> State_Monad.return (Inr x)"

abbreviation fail :: "goerr \<Rightarrow> ('w, 'a go) io" where
  "fail e \<equiv> State_Monad.return (Inl e)"

text \<open>\<open>if err != nil { return err }\<close>, and the same with the error wrapped.\<close>

definition bindE :: "('w, 'a go) io \<Rightarrow> ('a \<Rightarrow> ('w, 'b go) io) \<Rightarrow> ('w, 'b go) io" where
  "bindE m f = do { r \<leftarrow> m; case r of Inl e \<Rightarrow> fail e | Inr x \<Rightarrow> f x }"

definition wrapE :: "string \<Rightarrow> ('w, 'a go) io \<Rightarrow> ('w, 'a go) io" where
  "wrapE pre m = do { r \<leftarrow> m; ret (case r of Inl e \<Rightarrow> Inl (Wrapf pre e) | Inr x \<Rightarrow> Inr x) }"

definition eventf :: "VirtualMachine \<Rightarrow> string \<Rightarrow> string \<Rightarrow> string \<Rightarrow> ('w, unit) io" where
  "eventf vm typ reason msg =
     call (Event (vm_Namespace vm) (vm_Name vm) typ reason msg) (\<lambda>w. ((), w))"

definition Get_VM where "Get_VM C ns n = call (Get KVM ns n) (getVM C ns n)"
definition Get_VMI where "Get_VMI C ns n = call (Get KVMI ns n) (getVMIObj C ns n)"
definition Get_Secret where "Get_Secret C ns n = call (Get KSecret ns n) (getSecret C ns n)"
definition Get_ConfigMap where "Get_ConfigMap C ns n = call (Get KConfigMap ns n) (getConfigMap C ns n)"
definition Get_Namespace where "Get_Namespace C n = call (Get KNamespace '''' n) (getNamespace C n)"
definition Get_Service where "Get_Service C ns n = call (Get KService ns n) (getService C ns n)"
definition Get_Endpoints where "Get_Endpoints C ns n = call (Get KEndpoints ns n) (getEndpoints C ns n)"
definition Get_ServiceMonitor where
  "Get_ServiceMonitor C ns n = call (Get KServiceMonitor ns n) (getServiceMonitor C ns n)"
definition Get_RoleBinding where
  "Get_RoleBinding C ns n = call (Get KRoleBinding ns n) (getRoleBinding C ns n)"
definition Get_RouteHost where "Get_RouteHost C ns n = call (Get KRoute ns n) (getRouteHost C ns n)"
definition Get_Unstructured where
  "Get_Unstructured C v k ns n = call (Get (KUnstructured v k) ns n) (getUnstructured C v k ns n)"
definition Create_Obj where "Create_Obj C x = call (Create x) (createObj C x)"
definition Patch_Obj where "Patch_Obj C b x = call (Patch b x) (patchObj C b x)"
definition Patch_VM where "Patch_VM C b vm = call (Patch (OVM b) (OVM vm)) (patchVMObj C b vm)"
definition Dial_TCP where "Dial_TCP C addr t = call (DialTCP addr t) (dial_tcp C addr t)"
definition Dial_SSH where
  "Dial_SSH C addr user key t = call (SSHDial addr user t) (ssh_dial C addr user key t)"
definition New_Session where "New_Session C c = call (SSHSession c) (ssh_session C c)"
definition Exec where "Exec C s stdin cmd = call (SSHExec s stdin cmd) (ssh_exec C s stdin cmd)"
definition Combined_Output where
  "Combined_Output C s stdin cmd = call (SSHExec s stdin cmd) (ssh_combined C s stdin cmd)"
definition Close_Session :: "nat \<Rightarrow> ('w, unit) io" where
  "Close_Session s = call (CloseSession s) (\<lambda>w. ((), w))"
definition Close_Client :: "nat \<Rightarrow> ('w, unit) io" where
  "Close_Client c = call (CloseClient c) (\<lambda>w. ((), w))"
definition Time_Now where "Time_Now C = call Now (time_now C)"

lemmas prim_defs = eventf_def Get_VM_def Get_VMI_def Get_Secret_def Get_ConfigMap_def
  Get_Namespace_def Get_Service_def Get_Endpoints_def Get_ServiceMonitor_def Get_RoleBinding_def
  Get_RouteHost_def Get_Unstructured_def Create_Obj_def Patch_Obj_def Patch_VM_def Dial_TCP_def
  Dial_SSH_def New_Session_def Exec_def Combined_Output_def Close_Session_def Close_Client_def Time_Now_def

text \<open>\<open>ctrl.Result\<close>: seconds to the requeue, 0 for none.\<close>

datatype Result = Result (RequeueAfter: nat)

section \<open>Reasoning about the calls an operation makes\<close>

named_theorems wp "rules of does"

text \<open>
  \<open>does m Q\<close>: whatever the client answers, the operation \<open>m\<close> appends calls \<open>l\<close> to the
  record and returns \<open>r\<close> with \<open>Q r l\<close>. \<open>emits P m\<close>: every call satisfies \<open>P\<close>.
\<close>

definition does :: "('w, 'a) io \<Rightarrow> ('a \<Rightarrow> action list \<Rightarrow> bool) \<Rightarrow> bool" where
  "does m Q \<longleftrightarrow> (\<forall>s. \<exists>l. acts (snd (run_state m s)) = acts s @ l \<and> Q (fst (run_state m s)) l)"

definition emits :: "(action \<Rightarrow> bool) \<Rightarrow> ('w, 'a) io \<Rightarrow> bool" where
  "emits P m \<longleftrightarrow> does m (\<lambda>r l. list_all P l)"

text \<open>The calls an operation appends to the record and its result, from a given state.\<close>

definition trace :: "('w, 'a) io \<Rightarrow> 'w st \<Rightarrow> action list" where
  "trace m s = drop (length (acts s)) (acts (snd (run_state m s)))"

definition result :: "('w, 'a) io \<Rightarrow> 'w st \<Rightarrow> 'a" where
  "result m s = fst (run_state m s)"

lemma does_trace: "does m Q \<Longrightarrow> Q (result m s) (trace m s)"
  by (auto simp: does_def trace_def result_def) (metis append_eq_conv_conj)

lemma does_mono: "does m Q \<Longrightarrow> (\<And>r l. Q r l \<Longrightarrow> Q' r l) \<Longrightarrow> does m Q'"
  by (fastforce simp: does_def)

lemma does_return: "Q x [] \<Longrightarrow> does (ret x) Q"
  by (simp add: does_def)

lemma does_call: "(\<And>r. Q r [a]) \<Longrightarrow> does (call a f) Q"
  by (auto simp: does_def call_def split: prod.splits)

lemma does_bind:
  assumes "does m (\<lambda>x l1. does (f x) (\<lambda>r l2. Q r (l1 @ l2)))"
  shows "does (m \<bind> f) Q"
  unfolding does_def
proof
  fix s
  obtain x s1 where m: "run_state m s = (x, s1)" by fastforce
  with assms obtain l1 where l1: "acts s1 = acts s @ l1" "does (f x) (\<lambda>r l2. Q r (l1 @ l2))"
    unfolding does_def [of m] by (metis fst_conv snd_conv)
  then show "\<exists>l. acts (snd (run_state (m \<bind> f) s)) = acts s @ l \<and> Q (fst (run_state (m \<bind> f) s)) l"
    using m unfolding does_def [of "f x"] by (metis (no_types, lifting) append.assoc case_prod_conv run_state_bind)
qed

lemma does_bindE:
  assumes "does m (\<lambda>x l1. case x of Inl e \<Rightarrow> Q (Inl e) l1 | Inr y \<Rightarrow> does (f y) (\<lambda>r l2. Q r (l1 @ l2)))"
  shows "does (bindE m f) Q"
  unfolding bindE_def
  by (rule does_bind, rule does_mono [OF assms]) (auto split: sum.splits intro: does_return)

lemma does_wrapE:
  assumes "does m (\<lambda>x l. Q (case x of Inl e \<Rightarrow> Inl (Wrapf p e) | Inr y \<Rightarrow> Inr y) l)"
  shows "does (wrapE p m) Q"
  unfolding wrapE_def
  by (rule does_bind, rule does_mono [OF assms]) (auto intro: does_return)

named_theorems does_intros "stepping through an operation"

lemmas [does_intros] = does_return does_call does_bind does_bindE does_wrapE

lemma does_case_sum [does_intros]:
  "(\<And>e. r = Inl e \<Longrightarrow> does (f e) Q) \<Longrightarrow> (\<And>x. r = Inr x \<Longrightarrow> does (g x) Q) \<Longrightarrow>
    does (case r of Inl e \<Rightarrow> f e | Inr x \<Rightarrow> g x) Q"
  by (cases r) auto

lemma does_case_option [does_intros]:
  "(r = None \<Longrightarrow> does f Q) \<Longrightarrow> (\<And>x. r = Some x \<Longrightarrow> does (g x) Q) \<Longrightarrow>
    does (case r of None \<Rightarrow> f | Some x \<Rightarrow> g x) Q"
  by (cases r) auto

lemma does_case_prod [does_intros]:
  "(\<And>a b. r = (a, b) \<Longrightarrow> does (f a b) Q) \<Longrightarrow> does (case r of (a, b) \<Rightarrow> f a b) Q"
  by (cases r) auto

lemma does_if [does_intros]:
  "(b \<Longrightarrow> does m Q) \<Longrightarrow> (\<not> b \<Longrightarrow> does n Q) \<Longrightarrow> does (if b then m else n) Q"
  by simp

lemma does_let [does_intros]: "(\<And>x. x = t \<Longrightarrow> does (f x) Q) \<Longrightarrow> does (let x = t in f x) Q"
  by simp

lemma emits_return [wp]: "emits P (ret x)"
  by (simp add: emits_def does_return)

lemma emits_call [wp]: "P a \<Longrightarrow> emits P (call a f)"
  by (simp add: emits_def does_call)

lemma emits_bind [wp]:
  assumes "emits P m" and "\<And>x. emits P (f x)"
  shows "emits P (m \<bind> f)"
  using assms unfolding emits_def
  by (intro does_bind) (auto elim!: does_mono)

lemma emits_bindE [wp]: "emits P m \<Longrightarrow> (\<And>x. emits P (f x)) \<Longrightarrow> emits P (bindE m f)"
  unfolding bindE_def by (auto intro!: wp split: sum.splits)

lemma emits_wrapE [wp]: "emits P m \<Longrightarrow> emits P (wrapE p m)"
  unfolding wrapE_def by (auto intro!: wp)

lemma emits_case_sum [wp]:
  "(\<And>e. r = Inl e \<Longrightarrow> emits P (f e)) \<Longrightarrow> (\<And>x. r = Inr x \<Longrightarrow> emits P (g x)) \<Longrightarrow>
    emits P (case r of Inl e \<Rightarrow> f e | Inr x \<Rightarrow> g x)"
  by (cases r) auto

lemma emits_case_option [wp]:
  "(r = None \<Longrightarrow> emits P f) \<Longrightarrow> (\<And>x. r = Some x \<Longrightarrow> emits P (g x)) \<Longrightarrow>
    emits P (case r of None \<Rightarrow> f | Some x \<Rightarrow> g x)"
  by (cases r) auto

lemma emits_case_prod [wp]:
  "(\<And>a b. r = (a, b) \<Longrightarrow> emits P (f a b)) \<Longrightarrow> emits P (case r of (a, b) \<Rightarrow> f a b)"
  by (cases r) auto

lemma emits_if [wp]:
  "(b \<Longrightarrow> emits P m) \<Longrightarrow> (\<not> b \<Longrightarrow> emits P n) \<Longrightarrow> emits P (if b then m else n)"
  by simp

lemma emits_let [wp]: "(\<And>x. x = t \<Longrightarrow> emits P (f x)) \<Longrightarrow> emits P (let x = t in f x)"
  by simp

lemma emits_mono: "emits P m \<Longrightarrow> (\<And>a. P a \<Longrightarrow> Q a) \<Longrightarrow> emits Q m"
  unfolding emits_def by (erule does_mono) (auto simp: list_all_iff)

lemma emits_trace: "emits P m \<Longrightarrow> a \<in> set (trace m s) \<Longrightarrow> P a"
  unfolding emits_def by (drule does_trace [of _ _ s]) (auto simp: list_all_iff)

lemma run_call [simp]:
  "run_state (call a f) s = (case f (world s) of (r, w) \<Rightarrow> (r, \<lparr>world = w, acts = acts s @ [a]\<rparr>))"
  by (simp add: call_def)

text \<open>The writes among the calls.\<close>

definition is_write :: "action \<Rightarrow> bool" where
  "is_write a \<longleftrightarrow> (case a of Create _ \<Rightarrow> True | Patch _ _ \<Rightarrow> True | Req _ \<Rightarrow> True | _ \<Rightarrow> False)"

definition guest_act :: "action \<Rightarrow> bool" where
  "guest_act a \<longleftrightarrow> (case a of SSHDial _ _ _ \<Rightarrow> True | SSHSession _ \<Rightarrow> True | SSHExec _ _ _ \<Rightarrow> True | _ \<Rightarrow> False)"

end
