(* ===== verification/OsDetect.thy ===== *)
theory OsDetect imports Kube begin

text \<open>
  \<open>internal/osdetect/detect.go\<close>: the OS family of a VM from its \<open>kubevirt.io/os\<close> label, and
  \<open>internal/bootstrapdetect/detect.go\<close>: the first volume that carries boot-time user data.
  The locale \<open>keyword_classifier\<close> is the contract of a label classifier; the onboarding
  command has a second one (\<open>normalizeOS\<close>), and both are instances.
\<close>

datatype Family = Linux | Windows | Unknown

instantiation Family :: linorder
begin

fun family_rank :: "Family \<Rightarrow> nat" where
  "family_rank Linux = 0"
| "family_rank Windows = 1"
| "family_rank Unknown = 2"

definition less_eq_Family :: "Family \<Rightarrow> Family \<Rightarrow> bool" where
  "less_eq_Family a b \<longleftrightarrow> family_rank a \<le> family_rank b"

definition less_Family :: "Family \<Rightarrow> Family \<Rightarrow> bool" where
  "less_Family a b \<longleftrightarrow> family_rank a < family_rank b"

instance
proof
  fix a b c :: Family
  show "a < b \<longleftrightarrow> a \<le> b \<and> \<not> b \<le> a" by (auto simp: less_Family_def less_eq_Family_def)
  show "a \<le> a" by (simp add: less_eq_Family_def)
  show "a \<le> b \<Longrightarrow> b \<le> c \<Longrightarrow> a \<le> c" by (simp add: less_eq_Family_def)
  show "a \<le> b \<Longrightarrow> b \<le> a \<Longrightarrow> a = b" by (cases a; cases b) (simp_all add: less_eq_Family_def)
  show "a \<le> b \<or> b \<le> a" by (auto simp: less_eq_Family_def)
qed

end

fun family_string :: "Family \<Rightarrow> string" where
  "family_string Linux = ''linux''"
| "family_string Windows = ''windows''"
| "family_string Unknown = ''unknown''"

definition linux_keywords :: "string list" where
  "linux_keywords = [''linux'', ''ubuntu'', ''debian'', ''rhel'', ''centos'', ''rocky'', ''alma'',
     ''oel'', ''fedora'']"

definition osLabel :: string where
  "osLabel = ''kubevirt.io/os''"

definition classify_label :: "string \<Rightarrow> Family" where
  "classify_label raw = (let l = ToLower raw in
     if Contains l ''win'' then Windows
     else if list_ex (Contains l) linux_keywords then Linux
     else Unknown)"

definition Detect :: "VirtualMachine \<Rightarrow> Family" where
  "Detect vm = (case vm_Labels vm of
     None \<Rightarrow> Unknown
   | Some ls \<Rightarrow> classify_label (mget (Some ls) osLabel))"

datatype BootstrapKind = KCloudInitNoCloud | KCloudInitConfigDrv | KSysprep | KNone

fun kind_string :: "BootstrapKind \<Rightarrow> string" where
  "kind_string KCloudInitNoCloud = ''cloudInitNoCloud''"
| "kind_string KCloudInitConfigDrv = ''cloudInitConfigDrive''"
| "kind_string KSysprep = ''sysprep''"
| "kind_string KNone = ''none''"

record BootstrapResult =
  br_Kind :: BootstrapKind
  VolumeIndex :: int
  VolumeName :: string

fun detect_from :: "nat \<Rightarrow> Volume list \<Rightarrow> BootstrapResult" where
  "detect_from i [] = \<lparr>br_Kind = KNone, VolumeIndex = -1, VolumeName = ''''\<rparr>"
| "detect_from i (v # vs) =
     (if CloudInitNoCloud v \<noteq> None then
        \<lparr>br_Kind = KCloudInitNoCloud, VolumeIndex = int i, VolumeName = v_Name v\<rparr>
      else if CloudInitConfigDrive v \<noteq> None then
        \<lparr>br_Kind = KCloudInitConfigDrv, VolumeIndex = int i, VolumeName = v_Name v\<rparr>
      else if v_Sysprep v \<noteq> None then
        \<lparr>br_Kind = KSysprep, VolumeIndex = int i, VolumeName = v_Name v\<rparr>
      else detect_from (Suc i) vs)"

text \<open>\<open>Detect\<close> of bootstrapdetect; a VM without a template is a nil dereference.\<close>

definition DetectBootstrap :: "VirtualMachine \<Rightarrow> BootstrapResult go" where
  "DetectBootstrap vm = (case Template vm of
     None \<Rightarrow> Inl nil_deref
   | Some t \<Rightarrow> Inr (detect_from 0 (Volumes t)))"

section \<open>Label classifiers\<close>

text \<open>
  A classifier lower-cases its input and decides by keywords, the Windows one first. The
  laws say it looks at the lower-cased text only, and that its Windows answer is exactly
  the Windows keyword.
\<close>

locale keyword_classifier =
  fixes classify :: "string \<Rightarrow> 'f"
    and windows other :: 'f
    and keyword :: "string \<Rightarrow> bool"
  assumes folds: "classify (ToLower s) = classify s"
    and windows_iff: "classify s = windows \<longleftrightarrow> Contains (ToLower s) ''win''"
    and other_iff: "classify s = other \<longleftrightarrow> \<not> Contains (ToLower s) ''win'' \<and> \<not> keyword (ToLower s)"
begin

lemma case_insensitive: "EqualFold a b \<Longrightarrow> classify a = classify b"
  by (metis EqualFold_def folds)

lemma windows_wins: "Contains (ToLower s) ''win'' \<Longrightarrow> classify s = windows"
  by (simp add: windows_iff)

lemma windows_neq_other: "Contains (ToLower s) ''win'' \<Longrightarrow> classify s \<noteq> other"
  by (simp add: other_iff)

end

interpretation od: keyword_classifier classify_label Windows Unknown
  "\<lambda>l. list_ex (Contains l) linux_keywords"
  by unfold_locales (auto simp: classify_label_def Let_def)

lemma Detect_no_labels [simp]: "vm_Labels vm = None \<Longrightarrow> Detect vm = Unknown"
  by (simp add: Detect_def)

lemma Detect_cong: "vm_Labels a = vm_Labels b \<Longrightarrow> Detect a = Detect b"
  by (simp add: Detect_def)

section \<open>The bootstrap volume\<close>

definition carries_bootstrap :: "Volume \<Rightarrow> bool" where
  "carries_bootstrap v \<longleftrightarrow> CloudInitNoCloud v \<noteq> None \<or> CloudInitConfigDrive v \<noteq> None \<or> v_Sysprep v \<noteq> None"

definition volume_kind :: "Volume \<Rightarrow> BootstrapKind" where
  "volume_kind v = (if CloudInitNoCloud v \<noteq> None then KCloudInitNoCloud
     else if CloudInitConfigDrive v \<noteq> None then KCloudInitConfigDrv
     else if v_Sysprep v \<noteq> None then KSysprep else KNone)"

lemma detect_from_none:
  "br_Kind (detect_from i vs) = KNone \<longleftrightarrow> (\<forall>v\<in>set vs. \<not> carries_bootstrap v)"
  by (induction i vs rule: detect_from.induct) (auto simp: carries_bootstrap_def)

lemma detect_from_index:
  assumes "br_Kind (detect_from i vs) \<noteq> KNone"
  shows "\<exists>j < length vs. VolumeIndex (detect_from i vs) = int (i + j) \<and> carries_bootstrap (vs ! j)
    \<and> br_Kind (detect_from i vs) = volume_kind (vs ! j) \<and> VolumeName (detect_from i vs) = v_Name (vs ! j)
    \<and> (\<forall>k<j. \<not> carries_bootstrap (vs ! k))"
  using assms
proof (induction i vs rule: detect_from.induct)
  case (1 i)
  then show ?case by simp
next
  case (2 i v vs)
  show ?case
  proof (cases "carries_bootstrap v")
    case True
    then show ?thesis
      by (intro exI [of _ 0]) (auto simp: carries_bootstrap_def volume_kind_def)
  next
    case False
    then have step: "detect_from i (v # vs) = detect_from (Suc i) vs"
      by (simp add: carries_bootstrap_def)
    with False "2" obtain j where "j < length vs" "VolumeIndex (detect_from (Suc i) vs) = int (Suc i + j)"
      "carries_bootstrap (vs ! j)" "br_Kind (detect_from (Suc i) vs) = volume_kind (vs ! j)"
      "VolumeName (detect_from (Suc i) vs) = v_Name (vs ! j)" "\<forall>k<j. \<not> carries_bootstrap (vs ! k)"
      by (auto simp: carries_bootstrap_def)
    with False step show ?thesis
      by (intro exI [of _ "Suc j"]) (auto simp: nth_Cons split: nat.splits)
  qed
qed

end
