(* ===== verification/GoBase64.thy ===== *)
theory GoBase64 imports Prelude begin

text \<open>
  \<open>base64.StdEncoding\<close> of the Go library: encoding with padding, and decoding as
  \<open>DecodeString\<close> does it (line breaks are skipped, padding is required, the unused bits of
  the last character are not checked). The locale \<open>codec\<close> is the contract of an encoding;
  \<open>b64\<close> is its instance.
\<close>

definition b64_char :: "nat \<Rightarrow> char" where
  "b64_char n = char_of (if n < 26 then 65 + n else if n < 52 then 71 + n
     else if n < 62 then n - 4 else if n = 62 then 43 else 47)"

definition b64_val :: "char \<Rightarrow> nat option" where
  "b64_val c = (let n = of_char c in
     if 65 \<le> n \<and> n \<le> 90 then Some (n - 65)
     else if 97 \<le> n \<and> n \<le> 122 then Some (n - 71)
     else if 48 \<le> n \<and> n \<le> 57 then Some (n + 4)
     else if n = 43 then Some 62
     else if n = 47 then Some 63 else None)"

definition pad :: char where
  "pad = CHR ''=''"

definition enc1 :: "nat \<Rightarrow> char" where "enc1 a = b64_char (a div 4)"
definition enc2 :: "nat \<Rightarrow> nat \<Rightarrow> char" where "enc2 a b = b64_char (a mod 4 * 16 + b div 16)"
definition enc3 :: "nat \<Rightarrow> nat \<Rightarrow> char" where "enc3 b c = b64_char (b mod 16 * 4 + c div 64)"
definition enc4 :: "nat \<Rightarrow> char" where "enc4 c = b64_char (c mod 64)"

fun EncodeToString :: "string \<Rightarrow> string" where
  "EncodeToString [] = []"
| "EncodeToString [a] = [enc1 (of_char a), enc2 (of_char a) 0, pad, pad]"
| "EncodeToString [a, b] =
     [enc1 (of_char a), enc2 (of_char a) (of_char b), enc3 (of_char b) 0, pad]"
| "EncodeToString (a # b # c # rest) =
     enc1 (of_char a) # enc2 (of_char a) (of_char b) # enc3 (of_char b) (of_char c)
       # enc4 (of_char c) # EncodeToString rest"

definition dec1 :: "nat \<Rightarrow> nat \<Rightarrow> char" where "dec1 x y = char_of (x * 4 + y div 16)"
definition dec2 :: "nat \<Rightarrow> nat \<Rightarrow> char" where "dec2 y z = char_of (y mod 16 * 16 + z div 4)"
definition dec3 :: "nat \<Rightarrow> nat \<Rightarrow> char" where "dec3 z u = char_of (z mod 4 * 64 + u)"

text \<open>One quantum of four characters; padding ends the input.\<close>

fun decode_quanta :: "string \<Rightarrow> string option" where
  "decode_quanta [] = Some []"
| "decode_quanta (p # q # r # s # rest) =
     (case (b64_val p, b64_val q) of
        (Some x, Some y) \<Rightarrow>
          (if r = pad then (if s = pad \<and> rest = [] then Some [dec1 x y] else None)
           else case b64_val r of
              None \<Rightarrow> None
            | Some z \<Rightarrow>
                (if s = pad then (if rest = [] then Some [dec1 x y, dec2 y z] else None)
                 else case b64_val s of
                    None \<Rightarrow> None
                  | Some u \<Rightarrow> (case decode_quanta rest of
                        None \<Rightarrow> None
                      | Some t \<Rightarrow> Some (dec1 x y # dec2 y z # dec3 z u # t))))
      | _ \<Rightarrow> None)"
| "decode_quanta _ = None"

definition DecodeString :: "string \<Rightarrow> string option" where
  "DecodeString s = decode_quanta (filter (\<lambda>c. c \<noteq> CHR 0x0A \<and> c \<noteq> CHR 0x0D) s)"

section \<open>Round trip\<close>

lemma b64_val_char [simp]: "n < 64 \<Longrightarrow> b64_val (b64_char n) = Some n"
  by (auto simp: b64_val_def b64_char_def Let_def)

lemma b64_char_neq: "n < 64 \<Longrightarrow> b64_char n \<noteq> pad \<and> b64_char n \<noteq> CHR 0x0A \<and> b64_char n \<noteq> CHR 0x0D"
  by (auto simp: pad_def dest!: arg_cong [where f = b64_val]) (auto simp: b64_val_def)

lemma pack:
  assumes "y < (k::nat)"
  shows "(x * k + y) div k = x" "(x * k + y) mod k = y"
  using assms by simp_all

lemma digit_bounds: "x < 256 \<Longrightarrow> x div 16 < (16::nat)" "x < 256 \<Longrightarrow> x div 64 < (4::nat)"
  "x < 256 \<Longrightarrow> x div 4 < (64::nat)"
  by simp_all

lemma dec_enc:
  fixes a b c :: nat
  assumes "a < 256" "b < 256" "c < 256"
  shows "dec1 (a div 4) (a mod 4 * 16 + b div 16) = char_of a"
    and "dec2 (a mod 4 * 16 + b div 16) (b mod 16 * 4 + c div 64) = char_of b"
    and "dec3 (b mod 16 * 4 + c div 64) (c mod 64) = char_of c"
  using digit_bounds assms by (simp_all only: dec1_def dec2_def dec3_def pack div_mult_mod_eq)

lemma sextets:
  fixes a b c :: nat
  shows "a < 256 \<Longrightarrow> a div 4 < 64" "b < 256 \<Longrightarrow> a mod 4 * 16 + b div 16 < 64"
    "c < 256 \<Longrightarrow> b mod 16 * 4 + c div 64 < 64" "c mod 64 < 64"
proof -
  show "a < 256 \<Longrightarrow> a div 4 < 64" by simp
  have "a mod 4 < 4" "b mod 16 < 16" by simp_all
  then show "b < 256 \<Longrightarrow> a mod 4 * 16 + b div 16 < 64" "c < 256 \<Longrightarrow> b mod 16 * 4 + c div 64 < 64"
    using digit_bounds(1) [of b] digit_bounds(2) [of c] by linarith+
qed simp

lemma b64_val_enc [simp]:
  "a < 256 \<Longrightarrow> b64_val (enc1 a) = Some (a div 4)"
  "b < 256 \<Longrightarrow> b64_val (enc2 a b) = Some (a mod 4 * 16 + b div 16)"
  "c < 256 \<Longrightarrow> b64_val (enc3 b c) = Some (b mod 16 * 4 + c div 64)"
  "b64_val (enc4 c) = Some (c mod 64)"
  using sextets by (simp_all add: enc1_def enc2_def enc3_def enc4_def)

lemma enc_neq [simp]: "c < 256 \<Longrightarrow> enc3 b c \<noteq> pad" "enc4 c \<noteq> pad"
  using sextets b64_char_neq by (simp_all add: enc3_def enc4_def)

lemma decode_quanta_encode: "decode_quanta (EncodeToString s) = Some s"
proof (induction s rule: EncodeToString.induct)
  case 1
  then show ?case by simp
next
  case (2 a)
  then show ?case using dec_enc(1) [of "of_char a" 0 0] by simp
next
  case (3 a b)
  then show ?case using dec_enc [of "of_char a" "of_char b" 0] by simp
next
  case (4 a b c rest)
  then show ?case using dec_enc [of "of_char a" "of_char b" "of_char c"] by simp
qed

lemma encode_no_breaks:
  "filter (\<lambda>c. c \<noteq> CHR 0x0A \<and> c \<noteq> CHR 0x0D) (EncodeToString s) = EncodeToString s"
proof -
  have enc [simp]: "a < 256 \<Longrightarrow> enc1 a \<noteq> CHR 0x0A \<and> enc1 a \<noteq> CHR 0x0D"
    "b < 256 \<Longrightarrow> enc2 a b \<noteq> CHR 0x0A \<and> enc2 a b \<noteq> CHR 0x0D"
    "c < 256 \<Longrightarrow> enc3 b c \<noteq> CHR 0x0A \<and> enc3 b c \<noteq> CHR 0x0D"
    "enc4 c \<noteq> CHR 0x0A \<and> enc4 c \<noteq> CHR 0x0D" for a b c :: nat
    using sextets b64_char_neq by (simp_all add: enc1_def enc2_def enc3_def enc4_def)
  have "\<forall>c\<in>set (EncodeToString s). c \<noteq> CHR 0x0A \<and> c \<noteq> CHR 0x0D"
    by (induction s rule: EncodeToString.induct) (simp_all add: pad_def)
  then show ?thesis by (simp add: filter_id_conv)
qed

lemma DecodeString_encode: "DecodeString (EncodeToString s) = Some s"
  by (simp add: DecodeString_def encode_no_breaks decode_quanta_encode)

lemma length_EncodeToString: "length (EncodeToString s) = 4 * ((length s + 2) div 3)"
proof (induction s rule: EncodeToString.induct)
  case (4 a b c rest)
  have "(length (a # b # c # rest) + 2) div 3 = Suc ((length rest + 2) div 3)"
    by simp
  with "4" show ?case by simp
qed simp_all

locale codec =
  fixes encode :: "string \<Rightarrow> string" and decode :: "string \<Rightarrow> string option"
  assumes decode_encode: "decode (encode s) = Some s"
begin

lemma encode_inj: "encode s = encode t \<Longrightarrow> s = t"
  by (metis decode_encode option.inject)

end

interpretation b64: codec EncodeToString DecodeString
  by unfold_locales (rule DecodeString_encode)

lemma EncodeToString_nonempty [simp]: "EncodeToString s = [] \<longleftrightarrow> s = []"
  by (cases s rule: EncodeToString.cases) auto

end
