(* ===== verification/CloudInitScripts.thy ===== *)
theory CloudInitScripts imports Prelude Api begin

text \<open>
  The guest scripts of \<open>internal/cloudinitmerge/merge.go\<close>, line by line: the Linux bootstrap
  script and its systemd unit, the Windows bootstrap script with the place of the public
  key, and the command that starts it.
\<close>

definition linuxSystemdUnit_lines :: "string list" where
  \<open>linuxSystemdUnit_lines = [''[Unit]'',
     ''Description=VM Linux KubeVirt Observability Bootstrap Service'',
     ''After=network-online.target'',
     ''Wants=network-online.target'',
     '''',
     ''[Service]'',
     ''Type=oneshot'',
     ''ExecStart=/usr/local/bin/bootstrap-kubevirt-observability.sh'',
     ''RemainAfterExit=yes'',
     '''',
     ''[Install]'',
     ''WantedBy=multi-user.target'']\<close>

definition linuxSystemdUnit :: string where
  \<open>linuxSystemdUnit = unlines linuxSystemdUnit_lines\<close>

definition linuxBootstrapScript_lines :: "string list" where
  \<open>linuxBootstrapScript_lines = [''#!/usr/bin/env bash'',
     ''set -euo pipefail'',
     '''',
     ''MARKER="/var/lib/kubevirt-observability-bootstrap.done"'',
     ''mkdir -p /var/lib'',
     '''',
     ''if [ -f "${MARKER}" ]; then'',
     ''  exit 0'',
     ''fi'',
     '''',
     ''ARCH="$(uname -m)"'',
     ''case "${ARCH}" in'',
     ''  x86_64) NODE_ARCH="amd64" ;;'',
     ''  aarch64|arm64) NODE_ARCH="arm64" ;;'',
     ''  *) NODE_ARCH="amd64" ;;'',
     ''esac'',
     '''',
     ''install_node_exporter() {'',
     ''  if command -v node_exporter >/dev/null 2>&1; then'',
     ''    return 0'',
     ''  fi'',
     '''',
     ''  TMP_DIR="$(mktemp -d)"'',
     ''  cd "${TMP_DIR}"'',
     '''',
     ''  VERSION="1.10.2"'',
     ''  curl -fL -o node_exporter.tar.gz '' @ bslash,
     ''    "https://github.com/prometheus/node_exporter/releases/download/v${VERSION}/node_exporter-${VERSION}.linux-${NODE_ARCH}.tar.gz"'',
     '''',
     ''  tar -xzf node_exporter.tar.gz'',
     ''  install -m 0755 "node_exporter-${VERSION}.linux-${NODE_ARCH}/node_exporter" /usr/local/bin/node_exporter'',
     '''',
     ''  id -u node_exporter >/dev/null 2>&1 || useradd --system --no-create-home --shell /usr/sbin/nologin node_exporter || true'',
     '''',
     ''  cat >/etc/systemd/system/node_exporter.service <<'SERVICE'' @ squote,
     ''[Unit]'',
     ''Description=Prometheus Node Exporter'',
     ''Wants=network-online.target'',
     ''After=network-online.target'',
     '''',
     ''[Service]'',
     ''User=node_exporter'',
     ''Group=node_exporter'',
     ''Type=simple'',
     ''ExecStart=/usr/local/bin/node_exporter'',
     '''',
     ''[Install]'',
     ''WantedBy=multi-user.target'',
     ''SERVICE'',
     '''',
     ''  systemctl daemon-reload'',
     ''  systemctl enable --now node_exporter'',
     ''}'',
     '''',
     ''install_alloy() {'',
     ''  if systemctl list-unit-files | grep -q '^alloy.service'; then'',
     ''    systemctl enable --now alloy || true'',
     ''    return 0'',
     ''  fi'',
     '''',
     ''  if [ -f /etc/os-release ]; then'',
     ''    . /etc/os-release'',
     ''  fi'',
     '''',
     ''  if command -v apt-get >/dev/null 2>&1; then'',
     ''    mkdir -p /etc/apt/keyrings'',
     ''    curl -fsSL https://apt.grafana.com/gpg.key -o /etc/apt/keyrings/grafana.asc'',
     ''    chmod 0644 /etc/apt/keyrings/grafana.asc'',
     ''    echo "deb [signed-by=/etc/apt/keyrings/grafana.asc] https://apt.grafana.com stable main" >/etc/apt/sources.list.d/grafana.list'',
     ''    apt-get update'',
     ''    DEBIAN_FRONTEND=noninteractive apt-get install -y alloy'',
     ''  elif command -v dnf >/dev/null 2>&1; then'',
     ''    rpm --import https://rpm.grafana.com/gpg.key || true'',
     ''    cat >/etc/yum.repos.d/grafana.repo <<'REPO'' @ squote,
     ''[grafana]'',
     ''name=grafana'',
     ''baseurl=https://rpm.grafana.com'',
     ''repo_gpgcheck=1'',
     ''enabled=1'',
     ''gpgcheck=1'',
     ''gpgkey=https://rpm.grafana.com/gpg.key'',
     ''sslverify=1'',
     ''REPO'',
     ''    dnf install -y alloy'',
     ''  elif command -v yum >/dev/null 2>&1; then'',
     ''    rpm --import https://rpm.grafana.com/gpg.key || true'',
     ''    cat >/etc/yum.repos.d/grafana.repo <<'REPO'' @ squote,
     ''[grafana]'',
     ''name=grafana'',
     ''baseurl=https://rpm.grafana.com'',
     ''repo_gpgcheck=1'',
     ''enabled=1'',
     ''gpgcheck=1'',
     ''gpgkey=https://rpm.grafana.com/gpg.key'',
     ''sslverify=1'',
     ''REPO'',
     ''    yum install -y alloy'',
     ''  else'',
     ''    return 0'',
     ''  fi'',
     '''',
     ''  mkdir -p /etc/alloy'',
     ''  if [ ! -f /etc/alloy/config.alloy ]; then'',
     ''    cat >/etc/alloy/config.alloy <<'CONFIG'' @ squote,
     ''logging {'',
     ''  level = "info"'',
     ''}'',
     ''CONFIG'',
     ''  fi'',
     '''',
     ''  systemctl enable --now alloy || true'',
     ''}'',
     '''',
     ''install_node_exporter'',
     ''install_alloy'',
     '''',
     ''touch "${MARKER}"'']\<close>

definition linuxBootstrapScript :: string where
  \<open>linuxBootstrapScript = unlines linuxBootstrapScript_lines\<close>

definition windowsBootstrapTemplate_lines :: "string list" where
  \<open>windowsBootstrapTemplate_lines = [''$stateDir = 'C:'' @ bslash @ ''ProgramData'' @ bslash @ ''KubeVirtObservability'' @ squote,
     '''',
     ''New-Item -ItemType Directory -Path $stateDir -Force | Out-Null'',
     '''',
     ''$doneMarker = 'C:'' @ bslash @ ''ProgramData'' @ bslash @ ''KubeVirtObservability'' @ bslash @ ''bootstrap.done'' @ squote,
     ''$failedMarker = 'C:'' @ bslash @ ''ProgramData'' @ bslash @ ''KubeVirtObservability'' @ bslash @ ''bootstrap.failed'' @ squote,
     '''',
     ''$marker = 'C:'' @ bslash @ ''ProgramData'' @ bslash @ ''KubeVirtObservability'' @ bslash @ ''bootstrap.done'' @ squote,
     ''if (Test-Path $marker) { exit 0 }'',
     '''',
     ''$ErrorActionPreference = 'Stop'' @ squote,
     ''$ProgressPreference = 'SilentlyContinue'' @ squote,
     '''',
     ''# Force UTC timezone for Loki timestamp consistency'',
     ''Set-TimeZone -Id "UTC"'',
     '''',
     ''# Ensure Windows time sync service enabled'',
     ''Set-Service w32time -StartupType Automatic'',
     '''',
     ''# Start time sync service'',
     ''Start-Service w32time'',
     '''',
     ''# Force immediate time synchronization'',
     ''w32tm /resync'',
     '''',
     ''function Configure-OpenSSH {'',
     ''    $authKeys = "C:'' @ bslash @ ''ProgramData'' @ bslash @ ''ssh'' @ bslash @ ''administrators_authorized_keys"'',
     '''',
     ''    New-Item -ItemType Directory -Force -Path "C:'' @ bslash @ ''ProgramData'' @ bslash @ ''ssh" | Out-Null'',
     '''',
     ''@'' @ squote,
     ''__WINDOWS_SSH_PUBLIC_KEY__'',
     squote @ ''@ | Set-Content -Path $authKeys -Encoding ascii'',
     '''',
     ''    icacls $authKeys /inheritance:r | Out-Null'',
     ''    icacls $authKeys /grant "Administrators:F" | Out-Null'',
     ''    icacls $authKeys /grant "SYSTEM:F" | Out-Null'',
     '''',
     ''    Set-Service sshd -StartupType Automatic'',
     ''    Start-Service sshd'',
     '''',
     ''    New-NetFirewallRule -DisplayName "OpenSSH Server" -Direction Inbound -Protocol TCP -LocalPort 22 -Action Allow -ErrorAction SilentlyContinue | Out-Null'',
     ''}'',
     '''',
     ''function Enable-WinRMForObservability {'',
     ''    Enable-PSRemoting -Force'',
     '''',
     ''    winrm set winrm/config/service/auth '@'' @ ''{Basic="true"}'' @ squote,
     ''    winrm set winrm/config/service '@'' @ ''{AllowUnencrypted="true"}'' @ squote,
     '''',
     ''    Set-Item -Path WSMan:'' @ bslash @ ''localhost'' @ bslash @ ''Service'' @ bslash @ ''Auth'' @ bslash @ ''Basic -Value $true'',
     ''    Set-Item -Path WSMan:'' @ bslash @ ''localhost'' @ bslash @ ''Service'' @ bslash @ ''AllowUnencrypted -Value $true'',
     '''',
     ''    try {'',
     ''        Enable-NetFirewallRule -DisplayGroup 'Windows Remote Management' -ErrorAction Stop'',
     ''    } catch {'',
     ''        New-NetFirewallRule -DisplayName 'Allow WinRM HTTP 5985' -Direction Inbound -Protocol TCP -LocalPort 5985 -Action Allow -ErrorAction SilentlyContinue | Out-Null'',
     ''    }'',
     '''',
     ''    Set-Service WinRM -StartupType Automatic'',
     ''    Start-Service WinRM'',
     ''}'',
     '''',
     ''function Install-WindowsExporter {'',
     ''    if (Get-Service windows_exporter -ErrorAction SilentlyContinue) { return }'',
     '''',
     ''    [Net.ServicePointManager]::SecurityProtocol = [Net.SecurityProtocolType]::Tls12'',
     '''',
     ''    $version = '0.31.5'' @ squote,
     ''    $msi = "windows_exporter-$version-amd64.msi"'',
     ''    $url = "https://github.com/prometheus-community/windows_exporter/releases/download/v$version/$msi"'',
     ''    $out = "C:'' @ bslash @ ''ProgramData'' @ bslash @ ''KubeVirtObservability'' @ bslash @ ''$msi"'',
     '''',
     ''    curl.exe -L -o $out $url'',
     '''',
     ''    $arguments = @('',
     ''      '/i','',
     ''      $out,'',
     tab @ ''  'ENABLED_COLLECTORS=[defaults],mssql,textfile','',
     ''      'LISTEN_PORT=9182','',
     ''      'ADDLOCAL=FirewallException','',
     ''      '/qn'' @ squote,
     ''    )'',
     '''',
     ''    Start-Process -FilePath 'msiexec.exe' -ArgumentList $arguments -Wait -NoNewWindow'',
     '''',
     ''    Set-Service windows_exporter -StartupType Automatic'',
     ''    '',
     tab @ ''Start-Sleep -Seconds 5'',
     '''',
     tab @ ''$svc = Get-Service windows_exporter -ErrorAction SilentlyContinue'',
     '''',
     tab @ ''if ($svc.Status -ne 'Running') {'',
     ''    '' @ tab @ ''Get-EventLog -LogName Application -Newest 50 | Out-File C:'' @ bslash @ ''ProgramData'' @ bslash @ ''KubeVirtObservability'' @ bslash @ ''windows-exporter-error.log'',
     ''    '' @ tab @ ''Write-Output "windows_exporter failed to stay running"'',
     tab @ tab @ ''return'',
     tab @ ''}'',
     '''',
     ''    if (-not (Get-Service windows_exporter -ErrorAction SilentlyContinue)) {'',
     ''        throw "windows_exporter service missing"'',
     ''    }'',
     '''',
     ''    curl.exe -f http://127.0.0.1:9182/metrics | Out-Null'',
     '''',
     tab @ ''New-Item -ItemType File -Path C:'' @ bslash @ ''ProgramData'' @ bslash @ ''KubeVirtObservability'' @ bslash @ ''exporter.ready -Force | Out-Null'',
     ''}'',
     '''',
     ''function Install-Alloy {'',
     '''',
     ''    [Net.ServicePointManager]::SecurityProtocol = [Net.SecurityProtocolType]::Tls12'',
     '''',
     ''    if (-not (Get-Service Alloy -ErrorAction SilentlyContinue)) {'',
     '''',
     ''        $installer = 'C:'' @ bslash @ ''ProgramData'' @ bslash @ ''KubeVirtObservability'' @ bslash @ ''alloy-installer-windows-amd64.exe'' @ squote,
     tab @ tab @ ''$version = "v1.15.1"'',
     '''',
     tab @ tab @ ''$url = "https://github.com/grafana/alloy/releases/download/$version/alloy-installer-windows-amd64.exe"'',
     '''',
     ''        curl.exe -L -o $installer $url'',
     '''',
     ''        Start-Process -FilePath $installer -ArgumentList "/S" -Wait -NoNewWindow'',
     ''    }'',
     '''',
     ''    $dataDir = "C:'' @ bslash @ ''ProgramData'' @ bslash @ ''GrafanaLabs'' @ bslash @ ''Alloy'' @ bslash @ ''data"'',
     '''',
     ''    New-Item -ItemType Directory -Force -Path $dataDir | Out-Null'',
     '''',
     ''    Remove-Item "$dataDir'' @ bslash @ ''*" -Recurse -Force -ErrorAction SilentlyContinue | Out-Null'',
     '''',
     ''    New-Item -ItemType Directory -Force -Path "$dataDir'' @ bslash @ ''loki.source.windowsevent.application" | Out-Null'',
     '''',
     ''    New-Item -ItemType Directory -Force -Path "$dataDir'' @ bslash @ ''loki.source.windowsevent.system" | Out-Null'',
     '''',
     ''    icacls "$dataDir" /grant "SYSTEM:(OI)(CI)F" /T | Out-Null'',
     '''',
     ''    Set-Service Alloy -StartupType Automatic'',
     '''',
     ''    New-Item -ItemType File -Path C:'' @ bslash @ ''ProgramData'' @ bslash @ ''KubeVirtObservability'' @ bslash @ ''alloy.ready -Force | Out-Null'',
     ''}'',
     '''',
     ''try {'',
     ''    Configure-OpenSSH'',
     ''    Enable-WinRMForObservability'',
     ''    Install-WindowsExporter'',
     ''    Install-Alloy'',
     '''',
     ''    New-Item -ItemType File -Path $doneMarker -Force | Out-Null'',
     ''} catch {'',
     ''    $_ | Out-File $failedMarker'',
     ''    exit 1'',
     ''}'']\<close>

definition windowsBootstrapTemplate :: string where
  \<open>windowsBootstrapTemplate = unlines windowsBootstrapTemplate_lines\<close>

definition windowsBootstrapScript :: "string \<Rightarrow> string" where
  "windowsBootstrapScript pubKey =
     (let key = (if pubKey = '''' then ''ssh-rsa placeholder'' else pubKey)
      in ReplaceOnce windowsBootstrapTemplate ''__WINDOWS_SSH_PUBLIC_KEY__'' key)"

definition windowsBootstrapPath :: string where
  \<open>windowsBootstrapPath = ''C:'' @ bslash @ ''ProgramData'' @ bslash @ ''KubeVirtObservability'' @ bslash @ ''bootstrap-kubevirt-observability.ps1''\<close>

definition windowsScheduledTaskCommand :: string where
  \<open>windowsScheduledTaskCommand = ''powershell.exe -ExecutionPolicy Bypass -File C:'' @ bslash @ ''ProgramData'' @ bslash @ ''KubeVirtObservability'' @ bslash @ ''bootstrap-kubevirt-observability.ps1''\<close>

definition linuxBootstrapPath :: string where
  \<open>linuxBootstrapPath = ''/usr/local/bin/bootstrap-kubevirt-observability.sh''\<close>

definition linuxUnitPath :: string where
  \<open>linuxUnitPath = ''/etc/systemd/system/'' @ LinuxServiceName @ ''.service''\<close>

end
