(* ===== verification/CloudInit.thy ===== *)
theory CloudInit imports Kube GoBase64 CloudInitScripts begin

text \<open>
  \<open>internal/cloudinitmerge\<close>: merging the monitoring bootstrap into cloud-init user data
  (\<open>merge.go\<close>) and into the Secret that holds it (\<open>source.go\<close>). YAML reading and writing are
  the functions of a \<open>cc_yaml\<close> record. The search for the data key
  meets the contract \<open>key_finder\<close> of the prelude.
\<close>

datatype OSType = OSLinux | OSWindows | OSOther string

fun os_string :: "OSType \<Rightarrow> string" where
  "os_string OSLinux = ''linux''"
| "os_string OSWindows = ''windows''"
| "os_string (OSOther s) = s"

type_synonym gobj = "(string, gval) fmap"

record cloudConfig =
  PackageUpdate :: gval
  Packages :: "gval list"
  WriteFiles :: "gobj list"
  RunCmd :: "gval list"
  BootCmd :: "gval list"
  Raw :: "gobj option"

record cc_yaml =
  cc_unmarshal :: "string \<Rightarrow> cloudConfig go"
  cc_marshal :: "cloudConfig \<Rightarrow> string go"

definition empty_config :: cloudConfig where
  "empty_config = \<lparr>PackageUpdate = GNil, Packages = [], WriteFiles = [], RunCmd = [], BootCmd = [],
     Raw = None\<rparr>"

text \<open>A type assertion \<open>m[k].(string)\<close> on a possibly nil map, and \<open>.([]interface{})\<close>.\<close>

definition as_string :: "gobj option \<Rightarrow> string \<Rightarrow> string option" where
  "as_string m k = (case m of None \<Rightarrow> None | Some f \<Rightarrow>
     (case fmlookup f k of Some (GString s) \<Rightarrow> Some s | _ \<Rightarrow> None))"

definition as_slice :: "gobj option \<Rightarrow> string \<Rightarrow> gval list option" where
  "as_slice m k = (case m of None \<Rightarrow> None | Some f \<Rightarrow>
     (case fmlookup f k of Some (GSlice xs) \<Rightarrow> Some xs | _ \<Rightarrow> None))"

text \<open>\<open>fmt.Sprintf("%v", x)\<close>.\<close>

fun show_v :: "gval \<Rightarrow> string" where
  "show_v GNil = ''<nil>''"
| "show_v (GBool b) = (if b then ''true'' else ''false'')"
| "show_v (GInt i) = Itoa i"
| "show_v (GFloat f) = f"
| "show_v (GString s) = s"
| "show_v (GSlice xs) = ''['' @ Join (map show_v xs) '' '' @ '']''"
| "show_v (GMap kvs) = ''map['' @
     Join (map snd (sort_key fst (map (\<lambda>(k, v). (k, k @ '':'' @ show_v v)) kvs))) '' '' @ '']''"

definition normalizeCommand :: "string \<Rightarrow> string" where
  "normalizeCommand s = Join (Fields (TrimSpace s)) '' ''"

definition write_file_at :: "string \<Rightarrow> gobj \<Rightarrow> bool" where
  "write_file_at path f = (case fmlookup f ''path'' of
     None \<Rightarrow> False
   | Some v \<Rightarrow> (case v of GString s \<Rightarrow> EqualFold s path | _ \<Rightarrow> False))"

definition hasWriteFile :: "gobj list \<Rightarrow> string \<Rightarrow> bool" where
  "hasWriteFile files path = list_ex (write_file_at path) files"

definition run_cmd_is :: "string \<Rightarrow> gval \<Rightarrow> bool" where
  "run_cmd_is wanted c = (case c of
     GString v \<Rightarrow> normalizeCommand v = normalizeCommand wanted
   | GSlice v \<Rightarrow> normalizeCommand (Join (map show_v v) '' '') = normalizeCommand wanted
   | _ \<Rightarrow> False)"

definition hasRunCmd :: "gval list \<Rightarrow> string \<Rightarrow> bool" where
  "hasRunCmd cmds wanted = list_ex (run_cmd_is wanted) cmds"

definition file_entry :: "string \<Rightarrow> string \<Rightarrow> string \<Rightarrow> gobj" where
  "file_entry path perm body = fmupd ''path'' (GString path)
     (fmupd ''permissions'' (GString perm) (fmupd ''content'' (GString body) fmempty))"

text \<open>\<open>if !hasWriteFile(...) { append; changed = true }\<close>, and the same for a command.\<close>

definition add_file :: "string \<Rightarrow> string \<Rightarrow> string \<Rightarrow> gobj list \<Rightarrow> gobj list \<times> bool" where
  "add_file path perm body files =
     (if hasWriteFile files path then (files, False) else (files @ [file_entry path perm body], True))"

definition add_cmd :: "string \<Rightarrow> gval list \<Rightarrow> gval list \<times> bool" where
  "add_cmd cmd cmds = (if hasRunCmd cmds cmd then (cmds, False) else (cmds @ [GString cmd], True))"

definition user_named :: "string \<Rightarrow> gval \<Rightarrow> bool" where
  "user_named user u = (case u of
     GMap m \<Rightarrow> (case map_of m ''name'' of Some (GString name) \<Rightarrow> name = user | _ \<Rightarrow> False)
   | _ \<Rightarrow> False)"

definition user_entry :: "string \<Rightarrow> string \<Rightarrow> gval" where
  "user_entry user pubKey = GMap ([(''name'', GString user),
     (''ssh_authorized_keys'', GSlice [GString pubKey])] @
     (if user \<noteq> ''root'' then [(''sudo'', GString ''ALL=(ALL) NOPASSWD:ALL''), (''shell'', GString ''/bin/bash'')]
      else []))"

definition HintUser :: string where "HintUser = ''observability_ssh_user''"
definition HintKey :: string where "HintKey = ''observability_ssh_public_key''"

definition ensureLinuxSSH :: "cloudConfig \<Rightarrow> cloudConfig \<times> bool" where
  "ensureLinuxSSH cfg = (case (as_string (Raw cfg) HintUser, as_string (Raw cfg) HintKey) of
     (Some user, Some pubKey) \<Rightarrow>
       (if user = '''' \<or> pubKey = '''' then (cfg, False)
        else
          let users = (case as_slice (Raw cfg) ''users'' of Some us \<Rightarrow> us | None \<Rightarrow> [])
          in if list_ex (user_named user) users then (cfg, False)
             else
               let raw = (case Raw cfg of Some r \<Rightarrow> r | None \<Rightarrow> fmempty);
                   raw = (if user \<noteq> ''root'' then raw else fmupd ''disable_root'' (GBool False) raw)
               in (cfg\<lparr>Raw := Some (fmupd ''users'' (GSlice (users @ [user_entry user pubKey])) raw)\<rparr>, True))
   | _ \<Rightarrow> (cfg, False))"

definition ensureLinuxWriteFiles :: "cloudConfig \<Rightarrow> cloudConfig \<times> bool" where
  "ensureLinuxWriteFiles cfg =
     (let (cfg, c1) = ensureLinuxSSH cfg;
          (files, c2) = add_file linuxBootstrapPath ''0755'' linuxBootstrapScript (WriteFiles cfg);
          (files, c3) = add_file linuxUnitPath ''0644'' linuxSystemdUnit files
      in (cfg\<lparr>WriteFiles := files\<rparr>, c1 \<or> c2 \<or> c3))"

definition linux_cmds :: "string list" where
  "linux_cmds = [''systemctl daemon-reload'', ''systemctl enable --now '' @ LinuxServiceName]"

fun add_cmds :: "string list \<Rightarrow> gval list \<Rightarrow> gval list \<times> bool" where
  "add_cmds [] cmds = (cmds, False)"
| "add_cmds (c # cs) cmds =
     (let (cmds, ch) = add_cmd c cmds; (cmds, chs) = add_cmds cs cmds in (cmds, ch \<or> chs))"

definition ensureLinuxRunCmd :: "cloudConfig \<Rightarrow> cloudConfig \<times> bool" where
  "ensureLinuxRunCmd cfg =
     (let (cmds, ch) = add_cmds linux_cmds (RunCmd cfg) in (cfg\<lparr>RunCmd := cmds\<rparr>, ch))"

definition ensureWindowsWriteFiles :: "cloudConfig \<Rightarrow> string \<Rightarrow> cloudConfig \<times> bool" where
  "ensureWindowsWriteFiles cfg pubKey =
     (let (files, ch) = add_file windowsBootstrapPath ''0644'' (windowsBootstrapScript pubKey) (WriteFiles cfg)
      in (cfg\<lparr>WriteFiles := files\<rparr>, ch))"

definition ensureWindowsRunCmd :: "cloudConfig \<Rightarrow> cloudConfig \<times> bool" where
  "ensureWindowsRunCmd cfg =
     (let (cmds, ch) = add_cmd windowsScheduledTaskCommand (RunCmd cfg) in (cfg\<lparr>RunCmd := cmds\<rparr>, ch))"

text \<open>User data that is taken for a raw PowerShell script.\<close>

definition looks_raw :: "string \<Rightarrow> bool" where
  "looks_raw t \<longleftrightarrow> HasPrefix t ''#ps1'' \<or> HasPrefix t ''powershell'' \<or> HasPrefix t ''net user''
     \<or> Contains t ''winrm ''"

definition CloudHeader :: string where
  "CloudHeader = ''#cloud-config''"

definition strip_header :: "string \<Rightarrow> string" where
  "strip_header userData = (let t = TrimSpace userData in
     if HasPrefix t CloudHeader then TrimSpace (TrimPrefix t CloudHeader) else t)"

definition parseCloudConfig :: "cc_yaml \<Rightarrow> string \<Rightarrow> cloudConfig go" where
  "parseCloudConfig Y userData = (let trimmed = strip_header userData in
     if trimmed = '''' then Inr empty_config
     else if looks_raw trimmed then
       Inr (empty_config\<lparr>Raw := Some (fmupd ''raw_userdata'' (GString trimmed) fmempty)\<rparr>)
     else case cc_unmarshal Y trimmed of
         Inl e \<Rightarrow> Inl (Wrapf ''failed to parse cloud-init userdata: '' e)
       | Inr cfg \<Rightarrow> Inr (if Raw cfg = None then cfg\<lparr>Raw := Some fmempty\<rparr> else cfg))"

definition drop_hints :: "cloudConfig \<Rightarrow> cloudConfig" where
  "drop_hints cfg = cfg\<lparr>Raw := map_option (\<lambda>r. fmdrop HintUser (fmdrop HintKey r)) (Raw cfg)\<rparr>"

definition renderCloudConfig :: "cc_yaml \<Rightarrow> cloudConfig \<Rightarrow> string go" where
  "renderCloudConfig Y cfg = (case cc_marshal Y (drop_hints cfg) of
     Inl e \<Rightarrow> Inl (Wrapf ''failed to marshal cloud-init userdata: '' e)
   | Inr d \<Rightarrow> Inr (CloudHeader @ newline @ d))"

text \<open>The \<open>switch osType\<close> of \<open>Merge\<close>.\<close>

definition apply_os :: "OSType \<Rightarrow> cloudConfig \<Rightarrow> (cloudConfig \<times> bool) go" where
  "apply_os os cfg = (case os of
     OSLinux \<Rightarrow> (let (cfg, c1) = ensureLinuxWriteFiles cfg; (cfg, c2) = ensureLinuxRunCmd cfg
        in Inr (cfg, c1 \<or> c2))
   | OSWindows \<Rightarrow>
       (let pubKey = (case as_string (Raw cfg) HintKey of Some k \<Rightarrow> k | None \<Rightarrow> '''');
            (cfg, c1) = ensureWindowsWriteFiles cfg pubKey; (cfg, c2) = ensureWindowsRunCmd cfg
        in Inr (cfg, c1 \<or> c2))
   | OSOther s \<Rightarrow> Inl (Errorf (''unsupported os type: '' @ s)))"

definition Merge :: "cc_yaml \<Rightarrow> string \<Rightarrow> OSType \<Rightarrow> (string \<times> bool) go" where
  "Merge Y userData os = (case parseCloudConfig Y userData of
     Inl e \<Rightarrow> Inl e
   | Inr cfg \<Rightarrow>
       (case as_string (Raw cfg) ''raw_userdata'' of
          Some raw \<Rightarrow> Inr (raw, False)
        | None \<Rightarrow>
            (case apply_os os cfg of
               Inl e \<Rightarrow> Inl e
             | Inr (cfg, changed) \<Rightarrow>
                 (case renderCloudConfig Y cfg of Inl e \<Rightarrow> Inl e | Inr out \<Rightarrow> Inr (out, changed)))))"

section \<open>Secret data\<close>

definition preferredCloudInitKeys :: "string list" where
  "preferredCloudInitKeys = [''userdata'', ''userData'']"

definition cloudinit_key :: "string \<Rightarrow> bool" where
  "cloudinit_key k = (let lk = ToLower (TrimSpace k) in
     lk = ''userdata'' \<or> lk = ''userdata.yaml'' \<or> lk = ''cloud-config'')"

definition findCloudInitSecretKey :: "smap \<Rightarrow> string option" where
  "findCloudInitSecretKey = find_key preferredCloudInitKeys cloudinit_key"

definition cloudinit_markers :: "string list" where
  "cloudinit_markers = [''#cloud-config'', ''runcmd:'', ''bootcmd:'', ''write_files:'']"

definition maybeDecodeBase64 :: "string \<Rightarrow> string \<times> bool" where
  "maybeDecodeBase64 inp = (let trimmed = TrimSpace inp in
     if trimmed = '''' then ('''', False)
     else case DecodeString trimmed of
         None \<Rightarrow> (inp, False)
       | Some d \<Rightarrow> if list_ex (Contains d) cloudinit_markers then (d, True) else (inp, False))"

definition MergeSecretData ::
  "cc_yaml \<Rightarrow> smap option \<Rightarrow> OSType \<Rightarrow> (smap \<times> string \<times> bool) go" where
  "MergeSecretData Y data os = (case data of
     None \<Rightarrow> Inl (Errorf ''nil secret data'')
   | Some m \<Rightarrow>
       (case findCloudInitSecretKey m of
          None \<Rightarrow> Inl (Errorf ''no userdata or userData key found'')
        | Some key \<Rightarrow>
            (let (decoded, wasBase64) = maybeDecodeBase64 (mget (Some m) key)
             in case Merge Y decoded os of
                  Inl e \<Rightarrow> Inl e
                | Inr (merged, changed) \<Rightarrow>
                    if \<not> changed then Inr (m, key, False)
                    else Inr (fmupd key (if wasBase64 then EncodeToString merged else merged) m, key, True))))"

section \<open>Files and commands are found or appended\<close>

lemma write_file_at_entry [simp]: "write_file_at path (file_entry path perm body)"
  by (simp add: write_file_at_def file_entry_def)

lemma run_cmd_is_self [simp]: "run_cmd_is cmd (GString cmd)"
  by (simp add: run_cmd_is_def)

interpretation wf: append_unless "\<lambda>fs. hasWriteFile fs path" "\<lambda>_. file_entry path perm body"
  "add_file path perm body" for path perm body
  by unfold_locales (simp_all add: hasWriteFile_def add_file_def)

interpretation rc: append_unless "\<lambda>cs. hasRunCmd cs cmd" "\<lambda>_. GString cmd" "add_cmd cmd" for cmd
  by unfold_locales (simp_all add: hasRunCmd_def add_cmd_def)

lemma hasWriteFile_append [simp]: "hasWriteFile (xs @ ys) p \<longleftrightarrow> hasWriteFile xs p \<or> hasWriteFile ys p"
  by (simp add: hasWriteFile_def)

lemma hasRunCmd_append [simp]: "hasRunCmd (xs @ ys) c \<longleftrightarrow> hasRunCmd xs c \<or> hasRunCmd ys c"
  by (simp add: hasRunCmd_def)

lemma add_cmds_prefix: "\<exists>ys. fst (add_cmds cs cmds) = cmds @ ys"
proof (induction cs arbitrary: cmds)
  case (Cons c cs)
  obtain ys where "fst (add_cmd c cmds) = cmds @ ys" using rc.ensure_keeps by blast
  moreover obtain zs where "fst (add_cmds cs (fst (add_cmd c cmds))) = fst (add_cmd c cmds) @ zs"
    using Cons.IH by blast
  ultimately show ?case by (auto simp: split_beta Let_def)
qed simp

lemma add_cmds_present: "c \<in> set cs \<Longrightarrow> hasRunCmd (fst (add_cmds cs cmds)) c"
proof (induction cs arbitrary: cmds)
  case (Cons d cs)
  show ?case
  proof (cases "c = d")
    case True
    obtain ys where "fst (add_cmds cs (fst (add_cmd d cmds))) = fst (add_cmd d cmds) @ ys"
      using add_cmds_prefix by blast
    with True rc.ensured [of c cmds] show ?thesis by (simp add: split_beta Let_def)
  next
    case False
    with Cons show ?thesis by (simp add: split_beta Let_def)
  qed
qed simp

lemma add_cmds_no_change: "\<forall>c\<in>set cs. hasRunCmd cmds c \<Longrightarrow> add_cmds cs cmds = (cmds, False)"
  by (induction cs) (simp_all add: add_cmd_def)

lemma add_cmds_idem: "add_cmds cs (fst (add_cmds cs cmds)) = (fst (add_cmds cs cmds), False)"
  by (rule add_cmds_no_change) (simp add: add_cmds_present)

section \<open>The merged configuration\<close>

text \<open>What the operator needs from a configuration: its files and commands are there.\<close>

definition monitored :: "OSType \<Rightarrow> cloudConfig \<Rightarrow> bool" where
  "monitored os cfg = (case os of
     OSLinux \<Rightarrow> hasWriteFile (WriteFiles cfg) linuxBootstrapPath \<and> hasWriteFile (WriteFiles cfg) linuxUnitPath
       \<and> list_all (hasRunCmd (RunCmd cfg)) linux_cmds
   | OSWindows \<Rightarrow> hasWriteFile (WriteFiles cfg) windowsBootstrapPath
       \<and> hasRunCmd (RunCmd cfg) windowsScheduledTaskCommand
   | OSOther _ \<Rightarrow> False)"

text \<open>Everything the user wrote is kept: lists grow at the end, other keys do not change.\<close>

definition raw_get :: "cloudConfig \<Rightarrow> string \<Rightarrow> gval option" where
  "raw_get cfg k = (case Raw cfg of None \<Rightarrow> None | Some r \<Rightarrow> fmlookup r k)"

definition keeps_user :: "cloudConfig \<Rightarrow> cloudConfig \<Rightarrow> bool" where
  "keeps_user cfg cfg' \<longleftrightarrow> (\<exists>fs. WriteFiles cfg' = WriteFiles cfg @ fs) \<and> (\<exists>cs. RunCmd cfg' = RunCmd cfg @ cs)
     \<and> Packages cfg' = Packages cfg \<and> BootCmd cfg' = BootCmd cfg \<and> PackageUpdate cfg' = PackageUpdate cfg
     \<and> (\<forall>k. k \<noteq> ''users'' \<and> k \<noteq> ''disable_root'' \<longrightarrow> raw_get cfg' k = raw_get cfg k)
     \<and> (\<forall>us. as_slice (Raw cfg) ''users'' = Some us \<longrightarrow> (\<exists>vs. as_slice (Raw cfg') ''users'' = Some (us @ vs)))"

lemma as_string_upd:
  "k \<noteq> k' \<Longrightarrow> as_string (Some (fmupd k v r)) k' = as_string (Some r) k'"
  by (simp add: as_string_def)

lemma ensureLinuxSSH_fields [simp]:
  "WriteFiles (fst (ensureLinuxSSH cfg)) = WriteFiles cfg" "RunCmd (fst (ensureLinuxSSH cfg)) = RunCmd cfg"
  "Packages (fst (ensureLinuxSSH cfg)) = Packages cfg" "BootCmd (fst (ensureLinuxSSH cfg)) = BootCmd cfg"
  "PackageUpdate (fst (ensureLinuxSSH cfg)) = PackageUpdate cfg"
  by (auto simp: ensureLinuxSSH_def Let_def split: option.splits)

lemma hint_neq [simp]: "HintUser \<noteq> HintKey" "HintKey \<noteq> HintUser" "HintUser \<noteq> ''users''" "HintKey \<noteq> ''users''"
  "HintUser \<noteq> ''disable_root''" "HintKey \<noteq> ''disable_root''" "HintUser \<noteq> ''raw_userdata''"
  "HintKey \<noteq> ''raw_userdata''"
  by (simp_all add: HintUser_def HintKey_def)

lemma ensureLinuxSSH_raw:
  "k \<noteq> ''users'' \<Longrightarrow> k \<noteq> ''disable_root'' \<Longrightarrow>
    as_string (Raw (fst (ensureLinuxSSH cfg))) k = as_string (Raw cfg) k"
  by (auto simp: ensureLinuxSSH_def as_string_def Let_def split: option.splits gval.splits)

lemma ensureLinuxSSH_no_hints: "as_string (Raw cfg) HintUser = None \<Longrightarrow> ensureLinuxSSH cfg = (cfg, False)"
  by (simp add: ensureLinuxSSH_def)

lemma drop_hints_fields [simp]:
  "WriteFiles (drop_hints cfg) = WriteFiles cfg" "RunCmd (drop_hints cfg) = RunCmd cfg"
  "Packages (drop_hints cfg) = Packages cfg" "BootCmd (drop_hints cfg) = BootCmd cfg"
  "PackageUpdate (drop_hints cfg) = PackageUpdate cfg"
  by (simp_all add: drop_hints_def)

lemma as_string_drop_hints [simp]:
  "as_string (Raw (drop_hints cfg)) HintUser = None" "as_string (Raw (drop_hints cfg)) HintKey = None"
  by (auto simp: drop_hints_def as_string_def split: option.splits)

lemma as_string_drop_hints_other:
  "k \<noteq> HintUser \<Longrightarrow> k \<noteq> HintKey \<Longrightarrow> as_string (Raw (drop_hints cfg)) k = as_string (Raw cfg) k"
  by (auto simp: drop_hints_def as_string_def split: option.splits)

lemma drop_hints_idem [simp]: "drop_hints (drop_hints cfg) = drop_hints cfg"
proof -
  have "fmdrop HintUser (fmdrop HintKey (fmdrop HintUser (fmdrop HintKey r)))
      = fmdrop HintUser (fmdrop HintKey r)" for r :: gobj
    by (rule fmap_ext) simp
  then show ?thesis by (cases "Raw cfg") (simp_all add: drop_hints_def)
qed

lemma apply_os_monitored: "apply_os os cfg = Inr (cfg', ch) \<Longrightarrow> monitored os cfg'"
proof (cases os)
  case OSLinux
  assume eq: "apply_os os cfg = Inr (cfg', ch)"
  let ?f1 = "fst (add_file linuxBootstrapPath ''0755'' linuxBootstrapScript (WriteFiles cfg))"
  obtain ys where ys: "fst (add_file linuxUnitPath ''0644'' linuxSystemdUnit ?f1) = ?f1 @ ys"
    using wf.ensure_keeps by blast
  have "list_all (hasRunCmd (fst (add_cmds linux_cmds (RunCmd cfg)))) linux_cmds"
    by (simp add: list_all_iff add_cmds_present)
  moreover from eq OSLinux have "WriteFiles cfg' = fst (add_file linuxUnitPath ''0644'' linuxSystemdUnit ?f1)"
    "RunCmd cfg' = fst (add_cmds linux_cmds (RunCmd cfg))"
    by (auto simp: apply_os_def ensureLinuxWriteFiles_def ensureLinuxRunCmd_def Let_def split_beta)
  ultimately show ?thesis
    using wf.ensured [of linuxUnitPath "''0644''" linuxSystemdUnit ?f1]
      wf.ensured [of linuxBootstrapPath "''0755''" linuxBootstrapScript "WriteFiles cfg"] ys OSLinux
    by (simp add: monitored_def)
next
  case OSWindows
  assume "apply_os os cfg = Inr (cfg', ch)"
  with OSWindows show ?thesis
    by (auto simp: apply_os_def ensureWindowsWriteFiles_def ensureWindowsRunCmd_def Let_def split_beta
        monitored_def wf.ensured rc.ensured)
qed (simp add: apply_os_def)

lemma apply_os_no_change:
  assumes "monitored os cfg" and "as_string (Raw cfg) HintUser = None"
  shows "apply_os os cfg = Inr (cfg, False)"
proof (cases os)
  case OSLinux
  with assms have "add_cmds linux_cmds (RunCmd cfg) = (RunCmd cfg, False)"
    by (intro add_cmds_no_change) (simp add: monitored_def list_all_iff)
  with assms OSLinux show ?thesis
    by (simp add: apply_os_def ensureLinuxWriteFiles_def ensureLinuxRunCmd_def monitored_def
        ensureLinuxSSH_no_hints add_file_def)
next
  case OSWindows
  with assms show ?thesis
    by (simp add: apply_os_def ensureWindowsWriteFiles_def ensureWindowsRunCmd_def monitored_def
        add_file_def add_cmd_def Let_def)
qed (use assms in \<open>simp add: monitored_def\<close>)

lemma monitored_drop_hints [simp]: "monitored os (drop_hints cfg) = monitored os cfg"
  by (simp add: monitored_def split: OSType.splits)

lemma ensureLinuxSSH_keeps: "keeps_user cfg (fst (ensureLinuxSSH cfg))"
proof (cases "snd (ensureLinuxSSH cfg)")
  case False
  then have "fst (ensureLinuxSSH cfg) = cfg"
    by (auto simp: ensureLinuxSSH_def Let_def split: option.splits if_splits)
  then show ?thesis by (simp add: keeps_user_def)
next
  case True
  then obtain r where r: "Raw cfg = Some r"
    by (cases "Raw cfg") (auto simp: ensureLinuxSSH_def as_string_def)
  with True show ?thesis
    by (auto simp: keeps_user_def ensureLinuxSSH_def Let_def raw_get_def as_slice_def split: option.splits if_splits)
qed

lemma apply_os_keeps:
  assumes "apply_os os cfg = Inr (cfg', ch)"
  shows "keeps_user cfg cfg'"
proof (cases os)
  case OSLinux
  let ?c1 = "fst (ensureLinuxSSH cfg)"
  let ?f1 = "fst (add_file linuxBootstrapPath ''0755'' linuxBootstrapScript (WriteFiles cfg))"
  from assms OSLinux have cfg': "cfg' = ?c1\<lparr>WriteFiles := fst (add_file linuxUnitPath ''0644'' linuxSystemdUnit ?f1),
      RunCmd := fst (add_cmds linux_cmds (RunCmd cfg))\<rparr>"
    by (auto simp: apply_os_def ensureLinuxWriteFiles_def ensureLinuxRunCmd_def Let_def split_beta)
  obtain xs ys zs where "?f1 = WriteFiles cfg @ xs"
    "fst (add_file linuxUnitPath ''0644'' linuxSystemdUnit ?f1) = ?f1 @ ys"
    "fst (add_cmds linux_cmds (RunCmd cfg)) = RunCmd cfg @ zs"
    using wf.ensure_keeps add_cmds_prefix by metis
  with cfg' ensureLinuxSSH_keeps [of cfg] show ?thesis
    by (auto simp: keeps_user_def raw_get_def)
next
  case OSWindows
  let ?pk = "case as_string (Raw cfg) HintKey of Some k \<Rightarrow> k | None \<Rightarrow> ''''"
  let ?f = "fst (add_file windowsBootstrapPath ''0644'' (windowsBootstrapScript ?pk) (WriteFiles cfg))"
  obtain xs ys where "?f = WriteFiles cfg @ xs"
    "fst (add_cmd windowsScheduledTaskCommand (RunCmd cfg)) = RunCmd cfg @ ys"
    using wf.ensure_keeps rc.ensure_keeps by metis
  moreover from assms OSWindows have "cfg' = cfg\<lparr>WriteFiles := ?f, RunCmd := fst (add_cmd windowsScheduledTaskCommand (RunCmd cfg))\<rparr>"
    by (auto simp: apply_os_def ensureWindowsWriteFiles_def ensureWindowsRunCmd_def Let_def split_beta)
  ultimately show ?thesis by (simp add: keeps_user_def raw_get_def)
qed (use assms in \<open>simp add: apply_os_def\<close>)

section \<open>Reading back what was written\<close>

lemma TrimSpace_nonspace: "\<not> is_space c \<Longrightarrow> TrimSpace (c # s) = rev (dropWhile is_space (rev (c # s)))"
  by (simp add: TrimSpace_def)

lemma TrimSpace_drop_right: "\<forall>c\<in>set w. is_space c \<Longrightarrow> TrimSpace (s @ w) = TrimSpace s"
proof (cases "\<forall>c\<in>set s. is_space c")
  case True
  assume "\<forall>c\<in>set w. is_space c"
  with True have "\<forall>c\<in>set (s @ w). is_space c" by auto
  with True have "dropWhile is_space (s @ w) = []" "dropWhile is_space s = []"
    by (metis dropWhile_eq_Nil_conv)+
  then show ?thesis by (simp only: TrimSpace_def)
next
  case False
  assume w: "\<forall>c\<in>set w. is_space c"
  from False obtain c where "c \<in> set s" "\<not> is_space c" by blast
  then have "dropWhile is_space (s @ w) = dropWhile is_space s @ w" by (rule dropWhile_append1)
  moreover have "dropWhile is_space (rev w @ x) = dropWhile is_space x" for x
    using w by (intro dropWhile_append2) simp
  ultimately show ?thesis by (simp add: TrimSpace_def)
qed

lemma TrimSpace_drop_left: "\<forall>c\<in>set w. is_space c \<Longrightarrow> TrimSpace (w @ s) = TrimSpace s"
  by (simp add: TrimSpace_def dropWhile_append2)

text \<open>Reading a rendered configuration gives the text the YAML library wrote.\<close>

lemma strip_header_render: "strip_header (CloudHeader @ newline @ d) = TrimSpace d"
proof -
  obtain w e where d: "d = e @ w" "\<forall>c\<in>set w. is_space c" "e = [] \<or> \<not> is_space (last e)"
  proof
    show "d = rev (dropWhile is_space (rev d)) @ rev (takeWhile is_space (rev d))"
      by (metis rev_append rev_rev_ident takeWhile_dropWhile_id)
    show "\<forall>c\<in>set (rev (takeWhile is_space (rev d))). is_space c" by (auto dest: set_takeWhileD)
    show "rev (dropWhile is_space (rev d)) = [] \<or> \<not> is_space (last (rev (dropWhile is_space (rev d))))"
      by (metis hd_dropWhile last_rev rev_is_Nil_conv)
  qed
  have nl: "\<forall>c\<in>set newline. is_space c" by (simp add: newline_def is_space_def)
  have trimmed: "TrimSpace (CloudHeader @ x) = CloudHeader @ x"
    if "x = [] \<or> \<not> is_space (last x)" for x
  proof -
    have "dropWhile is_space (CloudHeader @ x) = CloudHeader @ x"
      by (simp add: CloudHeader_def is_space_def)
    moreover have "\<not> is_space (last (CloudHeader @ x))"
      using that by (cases "x = []") (simp_all add: CloudHeader_def is_space_def)
    moreover have "CloudHeader @ x \<noteq> []" by (simp add: CloudHeader_def)
    ultimately show ?thesis
      by (metis TrimSpace_def dropWhile_eq_self_hd hd_rev rev_rev_ident)
  qed
  show ?thesis
  proof (cases "e = []")
    case True
    with d nl have "TrimSpace (CloudHeader @ newline @ d) = CloudHeader"
      using TrimSpace_drop_right [of "newline @ d" CloudHeader] trimmed [of "[]"] by auto
    moreover from True d have "TrimSpace d = ''''"
      using TrimSpace_drop_right [of w "[]"] by (simp add: TrimSpace_def)
    ultimately show ?thesis
      using HasPrefix_refl [of CloudHeader] by (simp add: strip_header_def Let_def TrimPrefix_def TrimSpace_def)
  next
    case False
    with d have "TrimSpace (CloudHeader @ newline @ d) = CloudHeader @ newline @ e"
      using TrimSpace_drop_right [of w "CloudHeader @ newline @ e"] trimmed [of "newline @ e"] by auto
    moreover have "TrimSpace (newline @ e) = TrimSpace d"
      using d nl TrimSpace_drop_left TrimSpace_drop_right by simp
    ultimately show ?thesis by (simp add: strip_header_def Let_def TrimPrefix_def)
  qed
qed

text \<open>
  What the merge relies on of the YAML library: a written configuration is not blank and
  reads back as itself (a missing inline map may come back empty), and a missing inline
  map is written like an empty one.
\<close>

definition norm_raw :: "cloudConfig \<Rightarrow> cloudConfig" where
  "norm_raw cfg = cfg\<lparr>Raw := Some (case Raw cfg of None \<Rightarrow> fmempty | Some r \<Rightarrow> r)\<rparr>"

definition yaml_law :: "cc_yaml \<Rightarrow> bool" where
  "yaml_law Y \<longleftrightarrow>
     (\<forall>cfg d. cc_marshal Y cfg = Inr d \<longrightarrow> TrimSpace d \<noteq> '''' \<and>
        (\<exists>cfg'. cc_unmarshal Y (TrimSpace d) = Inr cfg' \<and> norm_raw cfg' = norm_raw cfg))
     \<and> (\<forall>cfg. cc_marshal Y (norm_raw cfg) = cc_marshal Y cfg)"

lemma norm_raw_fields [simp]:
  "WriteFiles (norm_raw cfg) = WriteFiles cfg" "RunCmd (norm_raw cfg) = RunCmd cfg"
  "Raw (norm_raw cfg) = Some (case Raw cfg of None \<Rightarrow> fmempty | Some r \<Rightarrow> r)"
  "norm_raw (norm_raw cfg) = norm_raw cfg"
  by (simp_all add: norm_raw_def)

lemma norm_raw_drop_hints:
  "norm_raw (drop_hints cfg) = (norm_raw cfg)\<lparr>Raw := Some (fmdrop HintUser (fmdrop HintKey (the (Raw (norm_raw cfg)))))\<rparr>"
  by (cases "Raw cfg") (simp_all add: drop_hints_def norm_raw_def)

lemma norm_raw_eqD:
  assumes "norm_raw a = norm_raw b"
  shows "WriteFiles a = WriteFiles b" "RunCmd a = RunCmd b" "as_string (Raw a) k = as_string (Raw b) k"
    "norm_raw (drop_hints a) = norm_raw (drop_hints b)"
proof -
  show "WriteFiles a = WriteFiles b" "RunCmd a = RunCmd b"
    using assms by (metis norm_raw_fields(1), metis norm_raw_fields(2))
  have "(case Raw a of None \<Rightarrow> fmempty | Some r \<Rightarrow> r) = (case Raw b of None \<Rightarrow> fmempty | Some r \<Rightarrow> r)"
    using assms by (metis norm_raw_fields(3) option.inject)
  then show "as_string (Raw a) k = as_string (Raw b) k"
    by (auto simp: as_string_def split: option.splits)
  show "norm_raw (drop_hints a) = norm_raw (drop_hints b)"
    using assms by (simp only: norm_raw_drop_hints)
qed

lemma monitored_cong:
  "WriteFiles a = WriteFiles b \<Longrightarrow> RunCmd a = RunCmd b \<Longrightarrow> monitored os a = monitored os b"
  by (simp add: monitored_def split: OSType.splits)

section \<open>Properties of the merge\<close>

lemma apply_os_raw_userdata:
  assumes "apply_os os cfg = Inr (cfg', ch)"
  shows "as_string (Raw cfg') ''raw_userdata'' = as_string (Raw cfg) ''raw_userdata''"
proof -
  have "raw_get cfg' ''raw_userdata'' = raw_get cfg ''raw_userdata''"
    using apply_os_keeps [OF assms] by (simp add: keeps_user_def)
  then show ?thesis by (auto simp: raw_get_def as_string_def split: option.splits)
qed

lemma Merge_cases:
  assumes "Merge Y u os = Inr (out, ch)"
  obtains (raw) cfg where "parseCloudConfig Y u = Inr cfg" "as_string (Raw cfg) ''raw_userdata'' = Some out" "\<not> ch"
  | (merged) cfg cfg' d where "parseCloudConfig Y u = Inr cfg" "as_string (Raw cfg) ''raw_userdata'' = None"
      "apply_os os cfg = Inr (cfg', ch)" "cc_marshal Y (drop_hints cfg') = Inr d"
      "out = CloudHeader @ newline @ d"
  using assms
  by (auto simp: Merge_def renderCloudConfig_def split: sum.splits option.splits prod.splits)

lemma Merge_raw:
  assumes "looks_raw (TrimSpace body)"
  shows "Merge Y (CloudHeader @ newline @ body) os = Inr (TrimSpace body, False)"
proof -
  from assms have "TrimSpace body \<noteq> ''''" by (auto simp: looks_raw_def)
  with assms show ?thesis
    by (simp add: Merge_def parseCloudConfig_def strip_header_render as_string_def)
qed



text \<open>
  User data that looks like raw PowerShell is returned unmerged, and without the
  \<open>#cloud-config\<close> header it may have had: a cloud-config that mentions \<open>winrm\<close> anywhere
  comes back as text that is no longer a cloud-config.
\<close>
theorem Merge_raw_drops_header:
  assumes "looks_raw (TrimSpace body)"
  shows "Merge Y (CloudHeader @ newline @ body) os = Inr (TrimSpace body, False)"
  using assms by (rule Merge_raw)

section \<open>Properties of the Secret merge\<close>

interpretation ck: key_finder findCloudInitSecretKey preferredCloudInitKeys cloudinit_key
  by unfold_locales (simp add: findCloudInitSecretKey_def)

text \<open>
  Merging into a Secret touches one entry of its data, an existing one; nothing else
  changes, and nothing at all when the merge reports no change. A changed entry holds the
  merged text in the encoding the entry had: what was base64 decodes back to the merged
  text.
\<close>
theorem MergeSecretData_frame:
  assumes "MergeSecretData Y (Some m) os = Inr (m', key, ch)"
  shows "fmlookup m key \<noteq> None \<and> (\<forall>k. k \<noteq> key \<longrightarrow> fmlookup m' k = fmlookup m k) \<and> (\<not> ch \<longrightarrow> m' = m)
    \<and> (ch \<longrightarrow> (\<exists>out. Merge Y (fst (maybeDecodeBase64 (mget (Some m) key))) os = Inr (out, True)
        \<and> (if snd (maybeDecodeBase64 (mget (Some m) key)) then DecodeString (mget (Some m') key) = Some out
           else mget (Some m') key = out)))"
proof -
  from assms have key: "findCloudInitSecretKey m = Some key"
    by (auto simp: MergeSecretData_def Let_def split: option.splits prod.splits sum.splits if_splits)
  obtain d b where db: "maybeDecodeBase64 (mget (Some m) key) = (d, b)" by fastforce
  with assms key obtain out where out: "Merge Y d os = Inr (out, ch)"
    "m' = (if ch then fmupd key (if b then EncodeToString out else out) m else m)"
    by (auto simp: MergeSecretData_def split: sum.splits prod.splits if_splits)
  show ?thesis
    using ck.found_in_map [OF key] out db by (auto simp: b64.decode_encode)
qed

text \<open>
  The data key of a cloud-init Secret: found exactly when some key is \<open>userdata\<close> or
  \<open>userData\<close> or one of the accepted spellings; a preferred key wins, and otherwise the
  least accepted key is taken.
\<close>
theorem findCloudInitSecretKey_spec:
  "((findCloudInitSecretKey m = None) = (\<forall>k. fmlookup m k = None \<or> k \<notin> set preferredCloudInitKeys \<and> \<not> cloudinit_key k))
   \<and> (findCloudInitSecretKey m = Some k \<longrightarrow> fmlookup m k \<noteq> None
      \<and> (\<forall>k'. fmlookup m k' \<noteq> None \<longrightarrow> k' \<in> set preferredCloudInitKeys \<longrightarrow> k \<in> set preferredCloudInitKeys)
      \<and> (\<forall>k'. fmlookup m k' \<noteq> None \<longrightarrow> cloudinit_key k' \<longrightarrow> k \<notin> set preferredCloudInitKeys \<longrightarrow> k \<le> k'))"
  using ck.not_found_iff [of m] ck.found_in_map [of m k] ck.preferred_first [of m k] ck.least_accepted [of m k]
  by blast

section \<open>Windows output reads as raw user data\<close>

text \<open>
  The Windows bootstrap script calls \<open>winrm \<dots>\<close>, so a merged Windows configuration, read
  again, is taken for raw PowerShell: under the documented behaviour that YAML output
  keeps the lines of a block scalar, the second merge returns it without its header.
\<close>

lemma Contains_concat: "l \<in> set ls \<Longrightarrow> Contains l p \<Longrightarrow> Contains (concat ls) p"
  by (induction ls) (auto intro: Contains_append1 Contains_append2)

lemma Contains_unlines: "l \<in> set ls \<Longrightarrow> Contains l p \<Longrightarrow> Contains (unlines ls) p"
  unfolding unlines_def by (rule Contains_concat [of "l @ newline"]) (auto intro: Contains_append1)

lemma windows_template_winrm: "Contains windowsBootstrapTemplate ''winrm set winrm/config/service''"
proof -
  have "list_ex (\<lambda>l. Contains l ''winrm set winrm/config/service'') windowsBootstrapTemplate_lines" by code_simp
  then show ?thesis
    by (auto simp: list_ex_iff windowsBootstrapTemplate_def intro: Contains_unlines)
qed

lemma HasPrefix_ReplaceOnce:
  "HasPrefix s w \<Longrightarrow> set w \<inter> set p = {} \<Longrightarrow> p \<noteq> [] \<Longrightarrow> HasPrefix (ReplaceOnce s p r) w"
proof (induction s w rule: HasPrefix.induct)
  case (3 c cs d ds)
  then have "\<not> HasPrefix (c # cs) p" by (cases p) auto
  with 3 show ?case by auto
qed auto

lemma Contains_skip:
  "Contains (p @ t) w \<Longrightarrow> set w \<inter> set p = {} \<Longrightarrow> w \<noteq> [] \<Longrightarrow> Contains t w"
proof (induction p)
  case (Cons c p)
  then have "\<not> HasPrefix ((c # p) @ t) w" by (cases w) auto
  with Cons show ?case by auto
qed simp

lemma Contains_ReplaceOnce:
  assumes "Contains s w" "set w \<inter> set p = {}" "w \<noteq> []" "p \<noteq> []"
  shows "Contains (ReplaceOnce s p r) w"
  using assms
proof (induction s)
  case (Cons c cs)
  show ?case
  proof (cases "HasPrefix (c # cs) p")
    case True
    then obtain t where "c # cs = p @ t" by (auto simp: HasPrefix_iff)
    with Cons.prems Contains_skip [of p t w] have "Contains t w" "drop (length p) (c # cs) = t" by auto
    with True Cons.prems(4) show ?thesis by (simp add: Contains_append2)
  next
    case False
    then have eq: "ReplaceOnce (c # cs) p r = c # ReplaceOnce cs p r" by simp
    from Cons.prems(1) show ?thesis
    proof (cases "HasPrefix (c # cs) w")
      case True
      then show ?thesis using HasPrefix_ReplaceOnce [of "c # cs" w p r] Cons.prems eq by auto
    qed (use Cons eq in auto)
  qed
qed simp

lemma windowsBootstrapScript_winrm: "Contains (windowsBootstrapScript pubKey) ''winrm set winrm/config/service''"
  unfolding windowsBootstrapScript_def Let_def
  by (rule Contains_ReplaceOnce [OF windows_template_winrm]) auto

lemma Contains_dropWhile:
  "Contains s w \<Longrightarrow> w \<noteq> [] \<Longrightarrow> \<not> P (hd w) \<Longrightarrow> Contains (dropWhile P s) w"
proof (induction s)
  case (Cons c s)
  show ?case
  proof (cases "P c")
    case True
    with Cons.prems have "\<not> HasPrefix (c # s) w" by (cases w) auto
    with Cons True show ?thesis by auto
  qed (use Cons in simp)
qed simp

lemma Contains_rev: "Contains s w \<Longrightarrow> Contains (rev s) (rev w)"
  by (auto simp: Contains_iff) (metis append.assoc)

lemma Contains_TrimSpace:
  assumes "Contains s w" "w \<noteq> []" "\<not> is_space (hd w)" "\<not> is_space (last w)"
  shows "Contains (TrimSpace s) w"
proof -
  from assms have "Contains (rev (dropWhile is_space s)) (rev w)"
    by (intro Contains_rev Contains_dropWhile)
  with assms have "Contains (dropWhile is_space (rev (dropWhile is_space s))) (rev w)"
    by (intro Contains_dropWhile) (simp_all add: hd_rev)
  then show ?thesis using Contains_rev unfolding TrimSpace_def by fastforce
qed

text \<open>
  The words of a file's content stand in the document as they are: what a YAML writer
  does with letters, digits, blanks and slashes in any of its string styles.
\<close>

definition plain_char :: "char \<Rightarrow> bool" where
  "plain_char c \<longleftrightarrow> c \<in> set ''abcdefghijklmnopqrstuvwxyz /''"

definition keeps_words :: "cc_yaml \<Rightarrow> bool" where
  "keeps_words Y \<longleftrightarrow> (\<forall>cfg d f s w. cc_marshal Y cfg = Inr d \<longrightarrow> f \<in> set (WriteFiles cfg) \<longrightarrow>
     fmlookup f ''content'' = Some (GString s) \<longrightarrow> Contains s w \<longrightarrow> list_all plain_char w \<longrightarrow> Contains d w)"

lemma Contains_trans: "Contains s w \<Longrightarrow> Contains w v \<Longrightarrow> Contains s v"
  by (auto simp: Contains_iff) (metis append.assoc)

text \<open>
  C17. A merged Windows configuration is read as raw PowerShell user data by the next merge:
  the bootstrap script in it says \<open>winrm set\<close>. So the next merge, for either OS, reports no
  change and returns the document without its \<open>#cloud-config\<close> header, which is no longer a
  cloud-config.
\<close>
theorem Merge_windows_reread:
  assumes words: "keeps_words Y"
    and parse: "parseCloudConfig Y u = Inr cfg" "\<not> hasWriteFile (WriteFiles cfg) windowsBootstrapPath"
    and m: "Merge Y u OSWindows = Inr (out, True)"
  shows "\<exists>d. out = CloudHeader @ newline @ d \<and> (\<forall>os. Merge Y out os = Inr (TrimSpace d, False))"
  using m
proof (cases rule: Merge_cases)
  case (merged cfg0 cfg' d)
  let ?key = "case as_string (Raw cfg) HintKey of Some k \<Rightarrow> k | None \<Rightarrow> ''''"
  let ?f = "file_entry windowsBootstrapPath ''0644'' (windowsBootstrapScript ?key)"
  from merged parse have "?f \<in> set (WriteFiles cfg')"
    by (auto simp: apply_os_def ensureWindowsWriteFiles_def ensureWindowsRunCmd_def add_file_def Let_def split_beta)
  moreover have "fmlookup ?f ''content'' = Some (GString (windowsBootstrapScript ?key))"
    by (simp add: file_entry_def)
  moreover have "list_all plain_char ''winrm set winrm/config/service''"
    by (simp add: plain_char_def)
  ultimately have "Contains d ''winrm set winrm/config/service''"
    using words merged(4) windowsBootstrapScript_winrm [of ?key]
    unfolding keeps_words_def by (metis drop_hints_fields(1))
  then have "Contains (TrimSpace d) ''winrm set winrm/config/service''"
    by (rule Contains_TrimSpace) (simp_all add: is_space_def)
  then have "Contains (TrimSpace d) ''winrm ''" by (rule Contains_trans) simp
  then have "looks_raw (TrimSpace d)" by (simp add: looks_raw_def)
  with Merge_raw merged(5) show ?thesis by blast
qed simp

text \<open>Witnesses: a YAML library that writes one configuration and reads it back.\<close>

definition linux_merged :: cloudConfig where
  "linux_merged = (case apply_os OSLinux empty_config of Inr (c, _) \<Rightarrow> drop_hints c | Inl _ \<Rightarrow> empty_config)"

definition windows_merged :: cloudConfig where
  "windows_merged = (case apply_os OSWindows empty_config of Inr (c, _) \<Rightarrow> drop_hints c | Inl _ \<Rightarrow> empty_config)"

definition single_yaml :: "cloudConfig \<Rightarrow> string \<Rightarrow> cc_yaml" where
  "single_yaml c doc = \<lparr>cc_unmarshal = (\<lambda>s. if s = doc then Inr c else Inl (Errorf ''yaml'')),
     cc_marshal = (\<lambda>x. if norm_raw x = norm_raw c then Inr doc else Inl (Errorf ''yaml''))\<rparr>"

lemma single_yaml_law: "TrimSpace doc = doc \<Longrightarrow> doc \<noteq> '''' \<Longrightarrow> yaml_law (single_yaml c doc)"
  by (auto simp: yaml_law_def single_yaml_def)

lemma apply_empty_changed:
  "apply_os OSLinux empty_config = Inr (fst (the (case apply_os OSLinux empty_config of Inr r \<Rightarrow> Some r | Inl _ \<Rightarrow> None)), True)"
  "apply_os OSWindows empty_config = Inr (fst (the (case apply_os OSWindows empty_config of Inr r \<Rightarrow> Some r | Inl _ \<Rightarrow> None)), True)"
  by (simp_all add: apply_os_def ensureLinuxWriteFiles_def ensureLinuxRunCmd_def ensureLinuxSSH_def
      ensureWindowsWriteFiles_def ensureWindowsRunCmd_def add_file_def add_cmd_def linux_cmds_def hasWriteFile_def
      hasRunCmd_def empty_config_def as_string_def Let_def split_beta)

lemma parse_blank: "parseCloudConfig Y '''' = Inr empty_config"
  by (simp add: parseCloudConfig_def strip_header_def CloudHeader_def TrimSpace_def)

lemma Merge_blank:
  "Merge (single_yaml linux_merged doc) '''' OSLinux = Inr (CloudHeader @ newline @ doc, True)"
  "Merge (single_yaml windows_merged doc) '''' OSWindows = Inr (CloudHeader @ newline @ doc, True)"
proof -
  have raw: "as_string (Raw empty_config) ''raw_userdata'' = None" by (simp add: empty_config_def as_string_def)
  obtain c where c: "apply_os OSLinux empty_config = Inr (c, True)" using apply_empty_changed(1) by blast
  then have "linux_merged = drop_hints c" by (simp add: linux_merged_def)
  with c raw show "Merge (single_yaml linux_merged doc) '''' OSLinux = Inr (CloudHeader @ newline @ doc, True)"
    by (simp add: Merge_def parse_blank renderCloudConfig_def single_yaml_def)
  obtain c where c: "apply_os OSWindows empty_config = Inr (c, True)" using apply_empty_changed(2) by blast
  then have "windows_merged = drop_hints c" by (simp add: windows_merged_def)
  with c raw show "Merge (single_yaml windows_merged doc) '''' OSWindows = Inr (CloudHeader @ newline @ doc, True)"
    by (simp add: Merge_def parse_blank renderCloudConfig_def single_yaml_def)
qed



theorem Merge_raw_drops_header_witness:
  "Merge (single_yaml linux_merged ''y'') (CloudHeader @ newline @ ''runcmd: [winrm quickconfig]'') OSLinux = Inr (''runcmd: [winrm quickconfig]'', False)"
proof -
  have "TrimSpace ''runcmd: [winrm quickconfig]'' = ''runcmd: [winrm quickconfig]''"
    by (simp add: TrimSpace_def is_space_def)
  then show ?thesis
    using Merge_raw_drops_header [of "''runcmd: [winrm quickconfig]''" "single_yaml linux_merged ''y''" OSLinux] by (simp add: looks_raw_def)
qed

lemma windows_merged_files:
  "WriteFiles windows_merged = [file_entry windowsBootstrapPath ''0644'' (windowsBootstrapScript '''')]"
  by (simp add: windows_merged_def apply_os_def ensureWindowsWriteFiles_def ensureWindowsRunCmd_def add_file_def
      add_cmd_def hasWriteFile_def hasRunCmd_def empty_config_def as_string_def drop_hints_def Let_def split_beta)

lemma windows_keeps_words: "keeps_words (single_yaml windows_merged (windowsBootstrapScript ''''))"
  unfolding keeps_words_def
proof (intro allI impI)
  fix cfg d f s w
  assume a: "cc_marshal (single_yaml windows_merged (windowsBootstrapScript '''')) cfg = Inr d"
    and f: "f \<in> set (WriteFiles cfg)" "fmlookup f ''content'' = Some (GString s)" and w: "Contains s w"
  from a have d: "d = windowsBootstrapScript ''''" and "norm_raw cfg = norm_raw windows_merged"
    by (auto simp: single_yaml_def split: if_splits)
  then have "WriteFiles cfg = [file_entry windowsBootstrapPath ''0644'' (windowsBootstrapScript '''')]"
    using norm_raw_eqD(1) windows_merged_files by metis
  with f have "s = windowsBootstrapScript ''''" by (simp add: file_entry_def)
  with w d show "Contains d w" by (simp only:)
qed

theorem Merge_windows_reread_witness:
  "\<exists>d. CloudHeader @ newline @ windowsBootstrapScript '''' = CloudHeader @ newline @ d
    \<and> (\<forall>os. Merge (single_yaml windows_merged (windowsBootstrapScript ''''))
         (CloudHeader @ newline @ windowsBootstrapScript '''') os = Inr (TrimSpace d, False))"
  by (rule Merge_windows_reread [OF windows_keeps_words parse_blank _ Merge_blank(2)])
    (simp add: hasWriteFile_def empty_config_def)

definition blank_userdata :: smap where
  "blank_userdata = fmupd ''userdata'' '''' fmempty"

lemma MergeSecretData_blank:
  "MergeSecretData (single_yaml linux_merged ''y'') (Some blank_userdata) OSLinux =
     Inr (fmupd ''userdata'' (CloudHeader @ newline @ ''y'') blank_userdata, ''userdata'', True)"
proof -
  have "findCloudInitSecretKey blank_userdata = Some ''userdata''"
    by (simp add: findCloudInitSecretKey_def find_key_def preferredCloudInitKeys_def blank_userdata_def)
  moreover have "maybeDecodeBase64 (mget (Some blank_userdata) ''userdata'') = ('''', False)"
    by (simp add: blank_userdata_def maybeDecodeBase64_def TrimSpace_def)
  ultimately show ?thesis by (simp add: MergeSecretData_def Merge_blank)
qed

theorem MergeSecretData_frame_witness:
  "fmlookup blank_userdata ''userdata'' \<noteq> None"
  using MergeSecretData_frame [OF MergeSecretData_blank] by blast

theorem findCloudInitSecretKey_spec_witness:
  "findCloudInitSecretKey (fmupd ''notes'' ''x'' (fmupd ''cloud-config'' ''y'' fmempty)) \<noteq> None"
proof
  let ?m = "fmupd ''notes'' ''x'' (fmupd ''cloud-config'' ''y'' fmempty)"
  assume "findCloudInitSecretKey ?m = None"
  then have "\<forall>k. fmlookup ?m k = None \<or> k \<notin> set preferredCloudInitKeys \<and> \<not> cloudinit_key k"
    using conjunct1 [OF findCloudInitSecretKey_spec [of ?m]] by (rule iffD1 [rotated])
  from spec [OF this, of "''cloud-config''"] have "\<not> cloudinit_key ''cloud-config''" by simp
  moreover have "cloudinit_key ''cloud-config''" by code_simp
  ultimately show False by simp
qed

end
