(* ===== verification/Patch.thy ===== *)
theory Patch imports OsDetect CloudInit begin

text \<open>
  \<open>internal/patch/vm_patch.go\<close>: what the admission webhook does to a VirtualMachine. The
  functions change the VM through a pointer; here they return the changed VM, or the error
  (after an error the webhook, their only caller, discards the VM). \<open>CY\<close> is the YAML library
  of the cloud-init merge.

  \<open>EnsureMonitoringBootstrap\<close> holds the annotation map in a local variable. When the VM has
  annotations, the variable and the VM share the map, so what the OS-specific part writes is
  in both. When it has none, the variable is a map of its own, and the final
  \<open>SetAnnotations\<close> replaces whatever the OS-specific part wrote.
\<close>

section \<open>Inline user data\<close>

definition maxInlineCloudInitBytes :: nat where
  "maxInlineCloudInitBytes = 2048"

definition inlineCloudInitFits :: "string \<Rightarrow> bool" where
  "inlineCloudInitFits userData \<longleftrightarrow> length userData \<le> maxInlineCloudInitBytes"

definition decode_user_data :: "string \<Rightarrow> string \<Rightarrow> (string \<times> bool) go" where
  "decode_user_data plain b64 =
     (if b64 \<noteq> '''' then
        (case DecodeString b64 of
           None \<Rightarrow> Inl (Errorf ''failed to decode UserDataBase64: illegal base64 data'')
         | Some d \<Rightarrow> Inr (d, True))
      else Inr (plain, False))"

definition getNoCloudUserData :: "CloudInitNoCloudSource option \<Rightarrow> (string \<times> bool) go" where
  "getNoCloudUserData source = (case source of
     None \<Rightarrow> Inl (Errorf ''nil CloudInitNoCloud source'')
   | Some s \<Rightarrow>
       if UserDataSecretRef s \<noteq> None
       then Inl (Errorf ''CloudInitNoCloud uses UserDataSecretRef; inline userdata is not available'')
       else decode_user_data (UserData s) (UserDataBase64 s))"

definition setNoCloudUserData ::
  "CloudInitNoCloudSource option \<Rightarrow> string \<Rightarrow> bool \<Rightarrow> CloudInitNoCloudSource go" where
  "setNoCloudUserData source userData asBase64 = (case source of
     None \<Rightarrow> Inl (Errorf ''nil CloudInitNoCloud source'')
   | Some s \<Rightarrow>
       if UserDataSecretRef s \<noteq> None
       then Inl (Errorf ''refusing to set inline userdata on secret-backed CloudInitNoCloud'')
       else if asBase64 then Inr (s\<lparr>UserDataBase64 := EncodeToString userData, UserData := ''''\<rparr>)
       else Inr (s\<lparr>UserData := userData, UserDataBase64 := ''''\<rparr>))"

definition getConfigDriveUserData :: "CloudInitConfigDriveSource option \<Rightarrow> (string \<times> bool) go" where
  "getConfigDriveUserData source = (case source of
     None \<Rightarrow> Inl (Errorf ''nil CloudInitConfigDrive source'')
   | Some s \<Rightarrow> decode_user_data (cd_UserData s) (cd_UserDataBase64 s))"

definition setConfigDriveUserData ::
  "CloudInitConfigDriveSource option \<Rightarrow> string \<Rightarrow> bool \<Rightarrow> CloudInitConfigDriveSource go" where
  "setConfigDriveUserData source userData asBase64 = (case source of
     None \<Rightarrow> Inl (Errorf ''nil CloudInitConfigDrive source'')
   | Some s \<Rightarrow>
       if asBase64 then Inr (s\<lparr>cd_UserDataBase64 := EncodeToString userData, cd_UserData := ''''\<rparr>)
       else Inr (s\<lparr>cd_UserData := userData, cd_UserDataBase64 := ''''\<rparr>))"

definition mergeCloudInitNoCloud ::
  "cc_yaml \<Rightarrow> CloudInitNoCloudSource option \<Rightarrow> OSType \<Rightarrow> CloudInitNoCloudSource go" where
  "mergeCloudInitNoCloud CY source os = (case source of
     None \<Rightarrow> Inl (Errorf ''nil CloudInitNoCloud source'')
   | Some s \<Rightarrow>
       if UserDataSecretRef s \<noteq> None
       then Inl (Errorf ''cannot inline-merge secret-backed CloudInitNoCloud; use controller-side secret merge'')
       else goE (getNoCloudUserData source) (\<lambda>(userData, isBase64).
            goE (Merge CY userData os) (\<lambda>(merged, _).
              setNoCloudUserData source merged isBase64)))"

definition mergeCloudInitConfigDrive ::
  "cc_yaml \<Rightarrow> CloudInitConfigDriveSource option \<Rightarrow> OSType \<Rightarrow> CloudInitConfigDriveSource go" where
  "mergeCloudInitConfigDrive CY source os =
     goE (getConfigDriveUserData source) (\<lambda>(userData, isBase64).
     goE (Merge CY userData os) (\<lambda>(merged, _).
       setConfigDriveUserData source merged isBase64))"

section \<open>The template\<close>

definition template :: "VirtualMachine \<Rightarrow> VMTemplate go" where
  "template vm = (case Template vm of None \<Rightarrow> Inl nil_deref | Some t \<Rightarrow> Inr t)"

text \<open>\<open>&vm.Spec.Template.Spec.Volumes[idx]\<close>.\<close>

definition volume_at :: "VirtualMachine \<Rightarrow> int \<Rightarrow> Volume go" where
  "volume_at vm idx = goE (template vm) (\<lambda>t.
     if 0 \<le> idx \<and> nat idx < length (Volumes t) then Inr (Volumes t ! nat idx)
     else Inl (GoErr KPanic ''runtime error: index out of range''))"

definition set_volume :: "VirtualMachine \<Rightarrow> int \<Rightarrow> Volume \<Rightarrow> VirtualMachine" where
  "set_volume vm idx v = vm\<lparr>Template := map_option (\<lambda>t. t\<lparr>Volumes := (Volumes t)[nat idx := v]\<rparr>) (Template vm)\<rparr>"

definition hasDisk :: "Disk list \<Rightarrow> string \<Rightarrow> bool" where
  "hasDisk disks name = list_ex (\<lambda>d. d_Name d = name) disks"

definition hasVolume :: "Volume list \<Rightarrow> string \<Rightarrow> bool" where
  "hasVolume vols name = list_ex (\<lambda>v. v_Name v = name) vols"

definition add_disk :: "string \<Rightarrow> string \<Rightarrow> Disk list \<Rightarrow> Disk list \<times> bool" where
  "add_disk name bus disks = (if hasDisk disks name then (disks, False)
     else (disks @ [\<lparr>d_Name = name, d_Bus = Some bus\<rparr>], True))"

definition nocloud_volume :: "string \<Rightarrow> string \<Rightarrow> Volume" where
  "nocloud_volume name userData = \<lparr>v_Name = name,
     CloudInitNoCloud = Some \<lparr>UserData = userData, UserDataBase64 = '''', UserDataSecretRef = None\<rparr>,
     CloudInitConfigDrive = None, v_Sysprep = None\<rparr>"

definition add_volume :: "string \<Rightarrow> string \<Rightarrow> Volume list \<Rightarrow> Volume list \<times> bool" where
  "add_volume name userData vols = (if hasVolume vols name then (vols, False)
     else (vols @ [nocloud_volume name userData], True))"

section \<open>SSH access\<close>

definition monitoring_credential :: "AccessCredential \<Rightarrow> bool" where
  "monitoring_credential cred \<longleftrightarrow> (case SSHPublicKey cred of
     None \<Rightarrow> False | Some k \<Rightarrow> SecretName k = Some LinuxSSHSecretName)"

definition credential_for :: "string \<Rightarrow> AccessCredential" where
  "credential_for user = \<lparr>SSHPublicKey = Some \<lparr>SecretName = Some LinuxSSHSecretName, Users = [user]\<rparr>\<rparr>"

definition add_credential :: "string \<Rightarrow> AccessCredential list \<Rightarrow> AccessCredential list \<times> bool" where
  "add_credential user creds = (if list_ex monitoring_credential creds then (creds, False)
     else (creds @ [credential_for user], True))"

definition detectLinuxSSHUser :: "VirtualMachine \<Rightarrow> string" where
  "detectLinuxSSHUser vm =
     (if mget (Annotations vm) ''username'' \<noteq> '''' then mget (Annotations vm) ''username''
      else case Template vm of
          None \<Rightarrow> ''ubuntu''
        | Some t \<Rightarrow> if mget (t_Labels t) ''username'' \<noteq> '''' then mget (t_Labels t) ''username'' else ''ubuntu'')"

definition ensureSSHAccess :: "string \<Rightarrow> VirtualMachine \<Rightarrow> VirtualMachine go" where
  "ensureSSHAccess user vm = goE (template vm) (\<lambda>t.
     Inr (vm\<lparr>Template := Some (t\<lparr>AccessCredentials := fst (add_credential user (AccessCredentials t))\<rparr>)\<rparr>))"

definition ensureLinuxSSHAccess :: "VirtualMachine \<Rightarrow> VirtualMachine go" where
  "ensureLinuxSSHAccess vm = ensureSSHAccess (detectLinuxSSHUser vm) vm"

definition ensureWindowsSSHAccess :: "VirtualMachine \<Rightarrow> VirtualMachine go" where
  "ensureWindowsSSHAccess vm = ensureSSHAccess ''Administrator'' vm"

section \<open>Annotations\<close>

text \<open>\<open>ann := vm.GetAnnotations(); if ann == nil { make }; ann[k] = v; vm.SetAnnotations(ann)\<close>.\<close>

definition annotate :: "string \<Rightarrow> string \<Rightarrow> VirtualMachine \<Rightarrow> VirtualMachine" where
  "annotate k v vm = vm\<lparr>Annotations := Some (fmupd k v (non_nil (Annotations vm)))\<rparr>"

definition markRemediationRequired :: "VirtualMachine \<Rightarrow> string \<Rightarrow> VirtualMachine" where
  "markRemediationRequired vm reason = vm\<lparr>Annotations := Some (
     fmdrop AnnCloudInitSecretMergeRequired (fmupd AnnRemediationReason reason
       (fmupd AnnRemediationRequired ''true'' (fmupd AnnBootstrapInlineSkipped ''true''
         (non_nil (Annotations vm))))))\<rparr>"

section \<open>The merge of each bootstrap source\<close>

definition mergeLinuxNoCloud :: "cc_yaml \<Rightarrow> VirtualMachine \<Rightarrow> int \<Rightarrow> VirtualMachine go" where
  "mergeLinuxNoCloud CY vm idx = goE (volume_at vm idx) (\<lambda>vol. case CloudInitNoCloud vol of
     None \<Rightarrow> Inl (Errorf (''volume '' @ v_Name vol @ '' has nil CloudInitNoCloud source''))
   | Some src \<Rightarrow>
       if UserDataSecretRef src \<noteq> None
       then ensureLinuxSSHAccess (annotate AnnCloudInitSecretMergeRequired ''true'' vm)
       else goE (getNoCloudUserData (Some src)) (\<lambda>(userData, isBase64).
            goE (Merge CY userData OSLinux) (\<lambda>(merged, _).
              if \<not> inlineCloudInitFits merged
              then ensureLinuxSSHAccess (markRemediationRequired vm ''cloudinit-size-limit'')
              else goE (setNoCloudUserData (Some src) merged isBase64) (\<lambda>src'.
                ensureLinuxSSHAccess (set_volume vm idx (vol\<lparr>CloudInitNoCloud := Some src'\<rparr>))))))"

definition mergeWindowsNoCloud :: "cc_yaml \<Rightarrow> VirtualMachine \<Rightarrow> int \<Rightarrow> VirtualMachine go" where
  "mergeWindowsNoCloud CY vm idx = goE (volume_at vm idx) (\<lambda>vol. case CloudInitNoCloud vol of
     None \<Rightarrow> Inl (Errorf (''volume '' @ v_Name vol @ '' has nil CloudInitNoCloud source''))
   | Some src \<Rightarrow>
       if UserDataSecretRef src \<noteq> None then Inr (annotate AnnCloudInitSecretMergeRequired ''true'' vm)
       else goE (getNoCloudUserData (Some src)) (\<lambda>(userData, isBase64).
            if HasPrefix userData ''#ps1''
            then Inr (markRemediationRequired vm ''windows-raw-powershell-userdata'')
            else goE (Merge CY userData OSWindows) (\<lambda>(merged, _).
              if \<not> inlineCloudInitFits merged
              then Inr (annotate AnnCloudInitSecretMergeRequired ''true''
                (set_volume vm idx (vol\<lparr>CloudInitNoCloud := Some (src\<lparr>UserData := '''', UserDataBase64 := '''',
                   UserDataSecretRef := Some (vm_Name vm @ ''-cloudinit'')\<rparr>)\<rparr>)))
              else goE (setNoCloudUserData (Some src) merged isBase64) (\<lambda>src'.
                Inr (set_volume vm idx (vol\<lparr>CloudInitNoCloud := Some src'\<rparr>))))))"

definition mergeLinuxConfigDrive :: "cc_yaml \<Rightarrow> VirtualMachine \<Rightarrow> int \<Rightarrow> VirtualMachine go" where
  "mergeLinuxConfigDrive CY vm idx = goE (volume_at vm idx) (\<lambda>vol.
     goE (mergeCloudInitConfigDrive CY (CloudInitConfigDrive vol) OSLinux) (\<lambda>src'.
       ensureLinuxSSHAccess (set_volume vm idx (vol\<lparr>CloudInitConfigDrive := Some src'\<rparr>))))"

definition mergeWindowsConfigDrive :: "cc_yaml \<Rightarrow> VirtualMachine \<Rightarrow> int \<Rightarrow> VirtualMachine go" where
  "mergeWindowsConfigDrive CY vm idx = goE (volume_at vm idx) (\<lambda>vol. case CloudInitConfigDrive vol of
     None \<Rightarrow> Inl (Errorf (''volume '' @ v_Name vol @ '' has nil CloudInitConfigDrive source''))
   | Some src \<Rightarrow>
       goE (getConfigDriveUserData (Some src)) (\<lambda>(userData, isBase64).
       goE (Merge CY userData OSWindows) (\<lambda>(merged, _).
         if \<not> inlineCloudInitFits merged
         then Inr (annotate AnnCloudInitSecretMergeRequired ''true'' vm)
         else goE (setConfigDriveUserData (Some src) merged isBase64) (\<lambda>src'.
           Inr (set_volume vm idx (vol\<lparr>CloudInitConfigDrive := Some src'\<rparr>))))))"

definition mergeWindowsSysprep :: "VirtualMachine \<Rightarrow> VirtualMachine go" where
  "mergeWindowsSysprep vm = Inr (annotate AnnSysprepMergeRequired ''true'' vm)"

definition injectNoCloud :: "cc_yaml \<Rightarrow> OSType \<Rightarrow> string \<Rightarrow> VirtualMachine \<Rightarrow> VirtualMachine go" where
  "injectNoCloud CY os bus vm = goE (template vm) (\<lambda>t.
     (let disks = fst (add_disk ''monitoring-cloudinitdisk'' bus (Disks t))
      in goE (Merge CY '''' os) (\<lambda>(userData, _).
           Inr (vm\<lparr>Template := Some (t\<lparr>Disks := disks,
             Volumes := fst (add_volume ''monitoring-cloudinit'' userData (Volumes t))\<rparr>)\<rparr>))))"

definition injectWindowsBootstrap :: "cc_yaml \<Rightarrow> VirtualMachine \<Rightarrow> VirtualMachine go" where
  "injectWindowsBootstrap CY vm = injectNoCloud CY OSWindows ''sata'' vm"

definition injectLinuxNoCloud :: "cc_yaml \<Rightarrow> VirtualMachine \<Rightarrow> VirtualMachine go" where
  "injectLinuxNoCloud CY vm = goE (injectNoCloud CY OSLinux ''virtio'' vm) ensureLinuxSSHAccess"

definition ensureLinux :: "cc_yaml \<Rightarrow> VirtualMachine \<Rightarrow> BootstrapResult \<Rightarrow> VirtualMachine go" where
  "ensureLinux CY vm bt = (case br_Kind bt of
     KCloudInitNoCloud \<Rightarrow> mergeLinuxNoCloud CY vm (VolumeIndex bt)
   | KCloudInitConfigDrv \<Rightarrow> mergeLinuxConfigDrive CY vm (VolumeIndex bt)
   | KNone \<Rightarrow> injectLinuxNoCloud CY vm
   | KSysprep \<Rightarrow> Inl (Errorf ''linux VM cannot use sysprep bootstrap''))"

definition ensureWindows :: "cc_yaml \<Rightarrow> VirtualMachine \<Rightarrow> BootstrapResult \<Rightarrow> VirtualMachine go" where
  "ensureWindows CY vm bt = goE (case br_Kind bt of
       KCloudInitNoCloud \<Rightarrow> mergeWindowsNoCloud CY vm (VolumeIndex bt)
     | KCloudInitConfigDrv \<Rightarrow> mergeWindowsConfigDrive CY vm (VolumeIndex bt)
     | KSysprep \<Rightarrow> mergeWindowsSysprep vm
     | KNone \<Rightarrow> injectWindowsBootstrap CY vm)
     ensureWindowsSSHAccess"

text \<open>The annotations written before the OS-specific part.\<close>

definition base_annotations :: "BootstrapKind \<Rightarrow> smap \<Rightarrow> smap" where
  "base_annotations k ann =
     (let ann = fmupd AnnBootstrapType (kind_string k) (fmupd AnnBootstrapVersion BootstrapVersion
                  (fmupd AnnBootstrapManaged ''true'' ann));
          ann = (if mhas (Some ann) AnnLoggingEnabled then ann else fmupd AnnLoggingEnabled ''true'' ann)
      in fmdrop AnnLegacyAlloy ann)"

definition os_annotations :: "Family \<Rightarrow> smap \<Rightarrow> smap" where
  "os_annotations f ann = (case f of
     Linux \<Rightarrow> fmupd AnnExporter ''node_exporter'' (fmupd AnnBootstrapOS ''linux'' ann)
   | Windows \<Rightarrow> fmupd AnnExporter ''windows_exporter'' (fmupd AnnBootstrapOS ''windows'' ann)
   | Unknown \<Rightarrow> fmupd AnnExporter ''unknown'' (fmupd AnnBootstrapOS ''unknown'' ann))"

definition EnsureMonitoringBootstrap :: "cc_yaml \<Rightarrow> VirtualMachine \<Rightarrow> VirtualMachine go" where
  "EnsureMonitoringBootstrap CY vm =
     (let shared = (Annotations vm \<noteq> None); ann = non_nil (Annotations vm)
      in if mget (Some ann) AnnDisableMonitoring = ''true'' then Inr vm
         else goE (DetectBootstrap vm) (\<lambda>bt.
           (let osFamily = Detect vm;
                ann = os_annotations osFamily (base_annotations (br_Kind bt) ann);
                vm = (if shared then vm\<lparr>Annotations := Some ann\<rparr> else vm);
                done = (\<lambda>vm. if shared then Inr vm else Inr (vm\<lparr>Annotations := Some ann\<rparr>))
            in case osFamily of
                 Linux \<Rightarrow> goE (ensureLinux CY vm bt) done
               | Windows \<Rightarrow> goE (ensureWindows CY vm bt) done
               | Unknown \<Rightarrow> Inr vm)))"

interpretation dk: append_unless "\<lambda>ds. hasDisk ds n" "\<lambda>_. \<lparr>d_Name = n, d_Bus = Some bus\<rparr>" "add_disk n bus" for n bus
  by unfold_locales (simp_all add: hasDisk_def add_disk_def)

interpretation vl: append_unless "\<lambda>vs. hasVolume vs n" "\<lambda>_. nocloud_volume n u" "add_volume n u" for n u
  by unfold_locales (simp_all add: hasVolume_def add_volume_def nocloud_volume_def)

interpretation cr: append_unless "list_ex monitoring_credential" "\<lambda>_. credential_for u" "add_credential u" for u
  by unfold_locales (simp_all add: add_credential_def monitoring_credential_def credential_for_def)

section \<open>What a mutation may touch\<close>

text \<open>
  The annotations of the OS-specific part, and what it leaves alone: the VM's identity and
  labels, every other annotation, the volumes other than the one at \<open>idx\<close> and all volume
  names, the disks and credentials that were there.
\<close>

definition merge_keys :: "string list" where
  "merge_keys = [AnnCloudInitSecretMergeRequired, AnnSysprepMergeRequired, AnnBootstrapInlineSkipped,
     AnnRemediationRequired, AnnRemediationReason]"

definition template_frame :: "int \<Rightarrow> VMTemplate \<Rightarrow> VMTemplate \<Rightarrow> bool" where
  "template_frame idx t t' \<longleftrightarrow> t_Labels t' = t_Labels t \<and> length (Volumes t) \<le> length (Volumes t')
     \<and> (\<forall>i<length (Volumes t). v_Name (Volumes t' ! i) = v_Name (Volumes t ! i)
          \<and> (int i \<noteq> idx \<longrightarrow> Volumes t' ! i = Volumes t ! i))
     \<and> (\<exists>ds. Disks t' = Disks t @ ds) \<and> (\<exists>cs. AccessCredentials t' = AccessCredentials t @ cs)"

definition annotation_frame :: "smap option \<Rightarrow> smap option \<Rightarrow> bool" where
  "annotation_frame a a' \<longleftrightarrow> (a \<noteq> None \<longrightarrow> a' \<noteq> None)
     \<and> (\<forall>k. k \<notin> set merge_keys \<longrightarrow> fmlookup (non_nil a') k = fmlookup (non_nil a) k)"

definition vm_frame :: "int \<Rightarrow> VirtualMachine \<Rightarrow> VirtualMachine \<Rightarrow> bool" where
  "vm_frame idx vm vm' \<longleftrightarrow> vm_Name vm' = vm_Name vm \<and> vm_Namespace vm' = vm_Namespace vm
     \<and> vm_Labels vm' = vm_Labels vm \<and> rel_option (template_frame idx) (Template vm) (Template vm')
     \<and> annotation_frame (Annotations vm) (Annotations vm')"

named_theorems frame_intros "operations that keep the frame"

lemma template_frame_refl [simp]: "template_frame idx t t"
  by (simp add: template_frame_def)

lemma template_frame_trans:
  assumes "template_frame idx a b" "template_frame idx b c"
  shows "template_frame idx a c"
proof -
  have "Volumes c ! i = Volumes a ! i \<or> int i = idx" "v_Name (Volumes c ! i) = v_Name (Volumes a ! i)"
    if "i < length (Volumes a)" for i
    using assms that unfolding template_frame_def by (metis order_less_le_trans)+
  with assms show ?thesis unfolding template_frame_def by (auto dest: order_trans)
qed

lemma annotation_frame_trans: "annotation_frame a b \<Longrightarrow> annotation_frame b c \<Longrightarrow> annotation_frame a c"
  by (simp add: annotation_frame_def)

lemma vm_frame_refl [simp]: "vm_frame idx vm vm"
  by (auto simp: vm_frame_def annotation_frame_def option.rel_refl)

lemma vm_frame_trans: "vm_frame idx a b \<Longrightarrow> vm_frame idx b c \<Longrightarrow> vm_frame idx a c"
  unfolding vm_frame_def by (auto elim!: option.rel_cases intro: template_frame_trans annotation_frame_trans)

lemma merge_keys_in [simp]:
  "AnnCloudInitSecretMergeRequired \<in> set merge_keys" "AnnSysprepMergeRequired \<in> set merge_keys"
  "AnnBootstrapInlineSkipped \<in> set merge_keys" "AnnRemediationRequired \<in> set merge_keys"
  "AnnRemediationReason \<in> set merge_keys"
  by (simp_all add: merge_keys_def)

lemma annotate_frame [frame_intros]:
  assumes "vm_frame idx vm vm1" "k \<in> set merge_keys"
  shows "vm_frame idx vm (annotate k v vm1)"
proof -
  from assms(2) have "vm_frame idx vm1 (annotate k v vm1)"
    by (auto simp: vm_frame_def annotation_frame_def annotate_def option.rel_refl)
  with assms(1) show ?thesis by (rule vm_frame_trans)
qed

lemma markRemediation_frame [frame_intros]: "vm_frame idx vm (markRemediationRequired vm r)"
proof -
  have "k \<noteq> AnnCloudInitSecretMergeRequired \<and> AnnRemediationReason \<noteq> k \<and> AnnRemediationRequired \<noteq> k
      \<and> AnnBootstrapInlineSkipped \<noteq> k" if "k \<notin> set merge_keys" for k
    using that by (auto simp: merge_keys_def)
  then show ?thesis
    by (auto simp: vm_frame_def annotation_frame_def markRemediationRequired_def option.rel_refl)
qed

lemma set_volume_frame:
  assumes "volume_at vm idx = Inr vol" "v_Name vol' = v_Name vol"
  shows "vm_frame idx vm (set_volume vm idx vol')"
proof -
  from assms(1) obtain t where t: "Template vm = Some t" and i: "0 \<le> idx" "nat idx < length (Volumes t)"
    and v: "vol = Volumes t ! nat idx"
    by (auto simp: volume_at_def template_def goE_Inr split: option.splits if_splits)
  have "template_frame idx t (t\<lparr>Volumes := (Volumes t)[nat idx := vol']\<rparr>)"
    using i v assms(2) by (auto simp: template_frame_def nth_list_update)
  with t show ?thesis
    by (simp add: vm_frame_def set_volume_def annotation_frame_def)
qed

lemma set_source_frame [frame_intros]:
  "volume_at vm idx = Inr vol \<Longrightarrow> vm_frame idx vm (set_volume vm idx (vol\<lparr>CloudInitNoCloud := n\<rparr>))"
  "volume_at vm idx = Inr vol \<Longrightarrow> vm_frame idx vm (set_volume vm idx (vol\<lparr>CloudInitConfigDrive := c\<rparr>))"
  by (rule set_volume_frame, assumption, simp)+

lemma ensureSSHAccess_frame:
  assumes "ensureSSHAccess user vm = Inr vm'"
  shows "vm_frame idx vm vm'"
proof -
  from assms obtain t where t: "Template vm = Some t"
    "vm' = vm\<lparr>Template := Some (t\<lparr>AccessCredentials := fst (add_credential user (AccessCredentials t))\<rparr>)\<rparr>"
    by (auto simp: ensureSSHAccess_def template_def goE_Inr split: option.splits)
  then show ?thesis
    using cr.ensure_keeps [of user "AccessCredentials t"]
    by (auto simp: vm_frame_def template_frame_def annotation_frame_def)
qed

lemma injectNoCloud_frame:
  assumes "injectNoCloud CY os bus vm = Inr vm'"
  shows "vm_frame idx vm vm'"
proof -
  from assms obtain t u where t: "Template vm = Some t"
    "vm' = vm\<lparr>Template := Some (t\<lparr>Disks := fst (add_disk ''monitoring-cloudinitdisk'' bus (Disks t)),
       Volumes := fst (add_volume ''monitoring-cloudinit'' u (Volumes t))\<rparr>)\<rparr>"
    by (auto simp: injectNoCloud_def template_def goE_Inr Let_def split: option.splits)
  then show ?thesis
    using dk.ensure_keeps [of "''monitoring-cloudinitdisk''" bus "Disks t"]
      vl.ensure_keeps [of "''monitoring-cloudinit''" u "Volumes t"]
    by (auto simp: vm_frame_def template_frame_def annotation_frame_def nth_append)
qed

lemma ssh_after:
  assumes "vm_frame idx vm vm1" and "ensureSSHAccess user vm1 = Inr vm'"
  shows "vm_frame idx vm vm'"
  using assms ensureSSHAccess_frame vm_frame_trans by blast

lemma mergeLinuxNoCloud_frame: "mergeLinuxNoCloud CY vm idx = Inr vm' \<Longrightarrow> vm_frame idx vm vm'"
  unfolding mergeLinuxNoCloud_def ensureLinuxSSHAccess_def
  by (auto elim!: goE_InrE split: option.split_asm if_split_asm elim!: ssh_after [rotated] intro!: frame_intros)

lemma mergeWindowsNoCloud_frame: "mergeWindowsNoCloud CY vm idx = Inr vm' \<Longrightarrow> vm_frame idx vm vm'"
  unfolding mergeWindowsNoCloud_def
  by (auto elim!: goE_InrE split: option.split_asm if_split_asm intro!: frame_intros)

lemma mergeLinuxConfigDrive_frame: "mergeLinuxConfigDrive CY vm idx = Inr vm' \<Longrightarrow> vm_frame idx vm vm'"
  unfolding mergeLinuxConfigDrive_def ensureLinuxSSHAccess_def
  by (auto elim!: goE_InrE elim!: ssh_after [rotated] intro!: frame_intros)

lemma mergeWindowsConfigDrive_frame: "mergeWindowsConfigDrive CY vm idx = Inr vm' \<Longrightarrow> vm_frame idx vm vm'"
  unfolding mergeWindowsConfigDrive_def
  by (auto elim!: goE_InrE split: option.split_asm if_split_asm intro!: frame_intros)

lemma ensureLinux_frame: "ensureLinux CY vm bt = Inr vm' \<Longrightarrow> vm_frame (VolumeIndex bt) vm vm'"
  unfolding ensureLinux_def injectLinuxNoCloud_def ensureLinuxSSHAccess_def
  by (auto elim!: goE_InrE split: BootstrapKind.split_asm
      intro: mergeLinuxNoCloud_frame mergeLinuxConfigDrive_frame ssh_after [OF injectNoCloud_frame])

lemma ensureWindows_frame:
  assumes "ensureWindows CY vm bt = Inr vm'"
  shows "vm_frame (VolumeIndex bt) vm vm'"
proof -
  from assms obtain vm1 where 1: "(case br_Kind bt of
       KCloudInitNoCloud \<Rightarrow> mergeWindowsNoCloud CY vm (VolumeIndex bt)
     | KCloudInitConfigDrv \<Rightarrow> mergeWindowsConfigDrive CY vm (VolumeIndex bt)
     | KSysprep \<Rightarrow> mergeWindowsSysprep vm
     | KNone \<Rightarrow> injectWindowsBootstrap CY vm) = Inr vm1" and 2: "ensureSSHAccess ''Administrator'' vm1 = Inr vm'"
    unfolding ensureWindows_def ensureWindowsSSHAccess_def by (elim goE_InrE)
  from 1 have "vm_frame (VolumeIndex bt) vm vm1"
    by (auto simp: injectWindowsBootstrap_def mergeWindowsSysprep_def split: BootstrapKind.split_asm
        intro: mergeWindowsNoCloud_frame mergeWindowsConfigDrive_frame injectNoCloud_frame annotate_frame)
  then show ?thesis using 2 by (rule ssh_after)
qed

lemma ssh_credential:
  "ensureSSHAccess user vm = Inr vm' \<Longrightarrow> \<exists>t. Template vm' = Some t \<and> list_ex monitoring_credential (AccessCredentials t)"
  by (auto simp: ensureSSHAccess_def cr.ensured elim!: goE_InrE)

lemma ensureWindows_credential:
  "ensureWindows CY vm bt = Inr vm' \<Longrightarrow> \<exists>t. Template vm' = Some t \<and> list_ex monitoring_credential (AccessCredentials t)"
  unfolding ensureWindows_def ensureWindowsSSHAccess_def by (elim goE_InrE) (rule ssh_credential)

lemma ensureLinux_credential:
  assumes "ensureLinux CY vm bt = Inr vm'"
  shows "\<exists>t. Template vm' = Some t \<and> list_ex monitoring_credential (AccessCredentials t)"
proof -
  from assms obtain user vm1 where "ensureSSHAccess user vm1 = Inr vm'"
    by (auto simp: ensureLinux_def mergeLinuxNoCloud_def mergeLinuxConfigDrive_def injectLinuxNoCloud_def
        ensureLinuxSSHAccess_def elim!: goE_InrE split: BootstrapKind.split_asm option.split_asm if_split_asm)
  then show ?thesis by (rule ssh_credential)
qed

section \<open>Properties of the mutation\<close>

definition disabled :: "VirtualMachine \<Rightarrow> bool" where
  "disabled vm \<longleftrightarrow> mget (Annotations vm) AnnDisableMonitoring = ''true''"

definition managed_annotations :: "VirtualMachine \<Rightarrow> BootstrapResult \<Rightarrow> smap" where
  "managed_annotations vm bt =
     os_annotations (Detect vm) (base_annotations (br_Kind bt) (non_nil (Annotations vm)))"

lemma vm_frame_annotations:
  "vm_frame idx vm vm' \<Longrightarrow> vm_frame idx (vm\<lparr>Annotations := Some a\<rparr>) (vm'\<lparr>Annotations := Some a\<rparr>)"
  by (simp add: vm_frame_def annotation_frame_def)

text \<open>The mutation of a VM of a known OS, as a frame around the annotations it writes first.\<close>

lemma EnsureMonitoringBootstrap_known:
  assumes "EnsureMonitoringBootstrap CY vm = Inr vm'" "\<not> disabled vm" "Detect vm \<noteq> Unknown"
  shows "\<exists>bt. DetectBootstrap vm = Inr bt
    \<and> vm_frame (VolumeIndex bt) (vm\<lparr>Annotations := Some (managed_annotations vm bt)\<rparr>) vm'
    \<and> (\<exists>t. Template vm' = Some t \<and> list_ex monitoring_credential (AccessCredentials t))
    \<and> (Annotations vm = None \<longrightarrow> Annotations vm' = Some (managed_annotations vm bt))"
proof -
  let ?sh = "Annotations vm \<noteq> None"
  from assms obtain bt where bt: "DetectBootstrap vm = Inr bt"
    by (auto simp: EnsureMonitoringBootstrap_def disabled_def Let_def elim!: goE_InrE split: if_splits)
  let ?ann = "managed_annotations vm bt"
  define vm1 where "vm1 = (if ?sh then vm\<lparr>Annotations := Some ?ann\<rparr> else vm)"
  from assms bt obtain vm2 where run: "ensureLinux CY vm1 bt = Inr vm2 \<or> ensureWindows CY vm1 bt = Inr vm2"
    and vm': "vm' = (if ?sh then vm2 else vm2\<lparr>Annotations := Some ?ann\<rparr>)"
    by (cases "Detect vm")
      (auto simp: EnsureMonitoringBootstrap_def disabled_def managed_annotations_def vm1_def Let_def
        elim!: goE_InrE split: if_splits)
  have fr: "vm_frame (VolumeIndex bt) vm1 vm2" using run ensureLinux_frame ensureWindows_frame by blast
  have "vm_frame (VolumeIndex bt) (vm\<lparr>Annotations := Some ?ann\<rparr>) vm'"
    using fr vm_frame_annotations [of "VolumeIndex bt" vm vm2 ?ann] by (auto simp: vm1_def vm')
  moreover from run ensureLinux_credential ensureWindows_credential
  have "\<exists>t. Template vm' = Some t \<and> list_ex monitoring_credential (AccessCredentials t)"
    by (cases ?sh) (simp_all add: vm', blast+)
  ultimately show ?thesis using bt vm' by auto
qed

lemma mget_frame: "annotation_frame a a' \<Longrightarrow> k \<notin> set merge_keys \<Longrightarrow> mget a' k = mget a k \<and> mhas a' k = mhas a k"
proof -
  assume "annotation_frame a a'" "k \<notin> set merge_keys"
  then have "fmlookup (non_nil a') k = fmlookup (non_nil a) k" by (simp add: annotation_frame_def)
  then have "mget (Some (non_nil a')) k = mget (Some (non_nil a)) k" "mhas (Some (non_nil a')) k = mhas (Some (non_nil a)) k"
    by (simp_all add: mget_def mhas_def)
  then show ?thesis by simp
qed

definition operator_keys :: "string list" where
  "operator_keys = merge_keys @ [AnnBootstrapManaged, AnnBootstrapVersion, AnnBootstrapType, AnnLoggingEnabled,
     AnnLegacyAlloy, AnnBootstrapOS, AnnExporter]"

lemma managed_annotations_gets:
  assumes "Detect vm \<noteq> Unknown"
  shows "mget (Some (managed_annotations vm bt)) AnnBootstrapManaged = ''true''"
    "mget (Some (managed_annotations vm bt)) AnnBootstrapVersion = BootstrapVersion"
    "mget (Some (managed_annotations vm bt)) AnnBootstrapType = kind_string (br_Kind bt)"
    "mget (Some (managed_annotations vm bt)) AnnBootstrapOS = family_string (Detect vm)"
    "mget (Some (managed_annotations vm bt)) AnnLoggingEnabled
       = (if mhas (Annotations vm) AnnLoggingEnabled then mget (Annotations vm) AnnLoggingEnabled else ''true'')"
    "\<not> mhas (Some (managed_annotations vm bt)) AnnLegacyAlloy"
    "k \<notin> set operator_keys \<Longrightarrow> mget (Some (managed_annotations vm bt)) k = mget (Annotations vm) k"
  using assms
  by (cases "Detect vm"; auto simp: managed_annotations_def os_annotations_def base_annotations_def Let_def
      operator_keys_def)+

lemma admitted_managed:
  assumes "EnsureMonitoringBootstrap CY vm = Inr vm'" "\<not> disabled vm" "Detect vm \<noteq> Unknown"
  shows "fmlookup (non_nil (Annotations vm')) AnnBootstrapManaged = Some ''true''"
proof -
  from EnsureMonitoringBootstrap_known [OF assms] obtain bt where
    "vm_frame (VolumeIndex bt) (vm\<lparr>Annotations := Some (managed_annotations vm bt)\<rparr>) vm'" by blast
  then have "annotation_frame (Some (managed_annotations vm bt)) (Annotations vm')" by (simp add: vm_frame_def)
  moreover have "AnnBootstrapManaged \<notin> set merge_keys" by (simp add: merge_keys_def)
  ultimately have "fmlookup (non_nil (Annotations vm')) AnnBootstrapManaged = fmlookup (managed_annotations vm bt) AnnBootstrapManaged"
    by (simp add: annotation_frame_def)
  with managed_annotations_gets(1) [OF assms(3), of bt] show ?thesis
    by (auto simp: mget_def split: option.splits)
qed

text \<open>
  C11. What the admission of a VM of a known OS records: the VM is marked as managed with the
  version, the kind of its first bootstrap volume and its OS; logging is on unless the user
  said otherwise; the legacy key is gone; every annotation that is not the operator's is
  the user's; and the SSH credential of the operator is in the template.
\<close>
theorem EnsureMonitoringBootstrap_marks:
  assumes "EnsureMonitoringBootstrap CY vm = Inr vm'" "\<not> disabled vm" "Detect vm \<noteq> Unknown"
  shows "\<exists>bt t'. DetectBootstrap vm = Inr bt
    \<and> mget (Annotations vm') AnnBootstrapManaged = ''true'' \<and> mget (Annotations vm') AnnBootstrapVersion = BootstrapVersion
    \<and> mget (Annotations vm') AnnBootstrapType = kind_string (br_Kind bt)
    \<and> mget (Annotations vm') AnnBootstrapOS = family_string (Detect vm)
    \<and> mget (Annotations vm') AnnLoggingEnabled
        = (if mhas (Annotations vm) AnnLoggingEnabled then mget (Annotations vm) AnnLoggingEnabled else ''true'')
    \<and> \<not> mhas (Annotations vm') AnnLegacyAlloy
    \<and> (\<forall>k. k \<notin> set operator_keys \<longrightarrow> mget (Annotations vm') k = mget (Annotations vm) k)
    \<and> Template vm' = Some t' \<and> list_ex monitoring_credential (AccessCredentials t')"
proof -
  from EnsureMonitoringBootstrap_known [OF assms] obtain bt t' where bt: "DetectBootstrap vm = Inr bt"
    and fr: "vm_frame (VolumeIndex bt) (vm\<lparr>Annotations := Some (managed_annotations vm bt)\<rparr>) vm'"
    and t': "Template vm' = Some t'" "list_ex monitoring_credential (AccessCredentials t')"
    by blast
  then have an: "annotation_frame (Some (managed_annotations vm bt)) (Annotations vm')" by (simp add: vm_frame_def)
  have keep: "mget (Annotations vm') k = mget (Some (managed_annotations vm bt)) k"
    "mhas (Annotations vm') k = mhas (Some (managed_annotations vm bt)) k" if "k \<notin> set merge_keys" for k
    using mget_frame [OF an that] by blast+
  have "k \<notin> set merge_keys" if "k \<notin> set operator_keys" for k
    using that by (simp add: operator_keys_def)
  moreover have "set [AnnBootstrapManaged, AnnBootstrapVersion, AnnBootstrapType, AnnLoggingEnabled, AnnLegacyAlloy,
      AnnBootstrapOS, AnnExporter] \<inter> set merge_keys = {}"
    by (simp add: merge_keys_def)
  ultimately show ?thesis
    using bt t' managed_annotations_gets [OF assms(3), where bt = bt] by (auto simp: keep)
qed

text \<open>
  C14. Nothing of the user's VM is lost by the mutation: identity, labels, every volume but
  the first bootstrap volume (whose name stays), the disks and the access credentials are
  there as they were; additions come at the end of their lists.
\<close>
theorem EnsureMonitoringBootstrap_frame:
  assumes "EnsureMonitoringBootstrap CY vm = Inr vm'"
  shows "vm_Name vm' = vm_Name vm \<and> vm_Namespace vm' = vm_Namespace vm \<and> vm_Labels vm' = vm_Labels vm
    \<and> (\<exists>idx. rel_option (template_frame idx) (Template vm) (Template vm')
         \<and> (\<forall>bt. DetectBootstrap vm = Inr bt \<longrightarrow> idx = VolumeIndex bt))"
proof (cases "disabled vm \<or> Detect vm = Unknown")
  case True
  with assms have "vm' = vm \<or> (\<exists>a. vm' = vm\<lparr>Annotations := Some a\<rparr>)"
    by (auto simp: EnsureMonitoringBootstrap_def disabled_def Let_def elim!: goE_InrE split: if_splits)
  then have "vm_Name vm' = vm_Name vm" "vm_Namespace vm' = vm_Namespace vm" "vm_Labels vm' = vm_Labels vm"
    "Template vm' = Template vm"
    by auto
  then show ?thesis
    by (cases "DetectBootstrap vm") (auto intro!: exI option.rel_refl)
next
  case False
  with EnsureMonitoringBootstrap_known [OF assms] obtain bt where "DetectBootstrap vm = Inr bt"
    "vm_frame (VolumeIndex bt) (vm\<lparr>Annotations := Some (managed_annotations vm bt)\<rparr>) vm'"
    by blast
  then show ?thesis by (auto simp: vm_frame_def)
qed

text \<open>
  A VM that was created without annotations loses what its OS-specific part recorded:
  the annotations after admission are exactly the ones written before it, so no request for
  a Secret merge, a sysprep merge or a remediation survives, although the user data of the
  VM may have been moved to a Secret that only such a request creates.
\<close>
theorem nil_annotations_lose_merge_requests:
  assumes "EnsureMonitoringBootstrap CY vm = Inr vm'" "Annotations vm = None"
  shows "\<forall>k\<in>set merge_keys. \<not> mhas (Annotations vm') k"
proof -
  have nd: "\<not> disabled vm" using assms(2) by (simp add: disabled_def)
  show ?thesis
  proof (cases "Detect vm = Unknown")
    case True
    with assms nd have "vm' = vm"
      by (auto simp: EnsureMonitoringBootstrap_def disabled_def Let_def elim!: goE_InrE split: if_splits)
    with assms(2) show ?thesis by simp
  next
    case False
    with EnsureMonitoringBootstrap_known [OF assms(1) nd] assms(2) obtain bt
      where a: "Annotations vm' = Some (managed_annotations vm bt)"
      by blast
    show ?thesis
      unfolding a using assms(2)
      by (cases "Detect vm"; simp add: managed_annotations_def os_annotations_def base_annotations_def Let_def merge_keys_def)
  qed
qed

section \<open>Inline user data\<close>

text \<open>
  Writing user data into a source and reading it back gives the data, in the encoding
  that was asked for (empty data is read as plain text).
\<close>
theorem NoCloud_user_data_roundtrip:
  assumes "setNoCloudUserData (Some s) d b = Inr s'"
  shows "getNoCloudUserData (Some s') = Inr (d, b \<and> d \<noteq> '''')"
  using assms EncodeToString_nonempty [of d]
  by (cases "d = ''''")
    (auto simp: setNoCloudUserData_def getNoCloudUserData_def decode_user_data_def b64.decode_encode EncodeToString.simps
      split: if_splits)

text \<open>
  The length of YAML output: at least that of every string scalar in it, in any of the
  string styles.
\<close>

definition keeps_length :: "cc_yaml \<Rightarrow> bool" where
  "keeps_length Y \<longleftrightarrow> (\<forall>cfg d f s. cc_marshal Y cfg = Inr d \<longrightarrow> f \<in> set (WriteFiles cfg) \<longrightarrow>
     fmlookup f ''content'' = Some (GString s) \<longrightarrow> length s \<le> length d)"

lemma linuxBootstrapScript_length: "length linuxBootstrapScript = 2798"
  by code_simp

lemma windowsBootstrapTemplate_length: "length windowsBootstrapTemplate = 4828"
  by code_simp

lemma length_ReplaceOnce: "length s \<le> length (ReplaceOnce s p r) + length p"
  by (induction s) auto

lemma windowsBootstrapScript_length: "4700 \<le> length (windowsBootstrapScript pubKey)"
proof -
  have "length ''__WINDOWS_SSH_PUBLIC_KEY__'' \<le> 100" by simp
  with windowsBootstrapTemplate_length show ?thesis
    unfolding windowsBootstrapScript_def Let_def
    using length_ReplaceOnce [of windowsBootstrapTemplate "''__WINDOWS_SSH_PUBLIC_KEY__''"
        "if pubKey = '''' then ''ssh-rsa placeholder'' else pubKey"]
    by linarith
qed

text \<open>The script is in the configuration that is written, when no file of that path was there.\<close>

definition bootstrap_path :: "OSType \<Rightarrow> string" where
  "bootstrap_path os = (case os of OSLinux \<Rightarrow> linuxBootstrapPath | _ \<Rightarrow> windowsBootstrapPath)"

lemma Merge_oversize:
  assumes law: "keeps_length Y" and parse: "parseCloudConfig Y u = Inr cfg" "as_string (Raw cfg) ''raw_userdata'' = None"
    "\<not> hasWriteFile (WriteFiles cfg) (bootstrap_path os)" and m: "Merge Y u os = Inr (out, ch)"
  shows "2048 < length out"
  using m
proof (cases rule: Merge_cases)
  case (merged cfg0 cfg' d)
  have "\<exists>f s. f \<in> set (WriteFiles cfg') \<and> fmlookup f ''content'' = Some (GString s) \<and> 2048 < length s"
  proof (cases os)
    case OSLinux
    with merged parse have "file_entry linuxBootstrapPath ''0755'' linuxBootstrapScript \<in> set (WriteFiles cfg')"
      by (auto simp: apply_os_def ensureLinuxWriteFiles_def ensureLinuxRunCmd_def add_file_def Let_def split_beta
          bootstrap_path_def)
    moreover have "2048 < length linuxBootstrapScript" using linuxBootstrapScript_length by linarith
    ultimately show ?thesis by (auto simp: file_entry_def)
  next
    case OSWindows
    let ?key = "case as_string (Raw cfg) HintKey of Some k \<Rightarrow> k | None \<Rightarrow> ''''"
    from OSWindows merged parse
    have "file_entry windowsBootstrapPath ''0644'' (windowsBootstrapScript ?key) \<in> set (WriteFiles cfg')"
      by (auto simp: apply_os_def ensureWindowsWriteFiles_def ensureWindowsRunCmd_def add_file_def Let_def split_beta
          bootstrap_path_def)
    moreover have "2048 < length (windowsBootstrapScript ?key)" using windowsBootstrapScript_length [of ?key] by linarith
    ultimately show ?thesis by (auto simp: file_entry_def)
  next
    case (OSOther o)
    with merged show ?thesis by (simp add: apply_os_def)
  qed
  then obtain f s where f: "f \<in> set (WriteFiles cfg')" "fmlookup f ''content'' = Some (GString s)" "2048 < length s"
    by blast
  from f(1) have "f \<in> set (WriteFiles (drop_hints cfg'))" by simp
  with law merged(4) f(2) have "length s \<le> length d" unfolding keeps_length_def by blast
  with f(3) merged(5) show ?thesis by simp
qed (use parse in simp)

text \<open>
  Inline user data of a Linux VM that does not have the bootstrap script yet is never
  rewritten: the merged text is larger than the 2048 bytes KubeVirt allows inline, so the
  volumes stay as they are and the VM is marked for remediation over SSH, with the
  monitoring credential in its template.
\<close>
theorem linux_inline_is_remediated:
  assumes law: "keeps_length CY"
    and vol: "volume_at vm idx = Inr vol" "CloudInitNoCloud vol = Some src" "UserDataSecretRef src = None"
    and data: "getNoCloudUserData (Some src) = Inr (u, b)"
    and parse: "parseCloudConfig CY u = Inr cfg" "as_string (Raw cfg) ''raw_userdata'' = None"
      "\<not> hasWriteFile (WriteFiles cfg) linuxBootstrapPath"
    and m: "mergeLinuxNoCloud CY vm idx = Inr vm'"
  shows "mget (Annotations vm') AnnRemediationRequired = ''true''
    \<and> mget (Annotations vm') AnnRemediationReason = ''cloudinit-size-limit''
    \<and> map_option Volumes (Template vm') = map_option Volumes (Template vm)"
proof -
  have big: "\<not> inlineCloudInitFits out" if "Merge CY u OSLinux = Inr (out, ch)" for out ch
    using Merge_oversize [OF law parse(1,2) _ that] parse(3)
    by (simp add: inlineCloudInitFits_def maxInlineCloudInitBytes_def bootstrap_path_def)
  from m vol data big have "ensureLinuxSSHAccess (markRemediationRequired vm ''cloudinit-size-limit'') = Inr vm'"
    by (auto simp: mergeLinuxNoCloud_def elim!: goE_InrE)
  then show ?thesis
    by (auto simp: ensureLinuxSSHAccess_def ensureSSHAccess_def template_def markRemediationRequired_def
        elim!: goE_InrE split: option.splits)
qed

text \<open>
  Inline user data of a Windows VM that does not have the bootstrap script yet is
  dropped: the merged text does not fit, the source is pointed at the Secret
  \<open><vm>-cloudinit\<close>, and neither the user's text nor the merged one is kept in the VM.
\<close>
theorem windows_inline_is_dropped:
  assumes law: "keeps_length CY"
    and vol: "volume_at vm idx = Inr vol" "CloudInitNoCloud vol = Some src" "UserDataSecretRef src = None"
    and data: "getNoCloudUserData (Some src) = Inr (u, b)" "\<not> HasPrefix u ''#ps1''"
    and parse: "parseCloudConfig CY u = Inr cfg" "as_string (Raw cfg) ''raw_userdata'' = None"
      "\<not> hasWriteFile (WriteFiles cfg) windowsBootstrapPath"
    and m: "mergeWindowsNoCloud CY vm idx = Inr vm'"
  shows "mget (Annotations vm') AnnCloudInitSecretMergeRequired = ''true''
    \<and> (\<exists>vol'. volume_at vm' idx = Inr vol' \<and> CloudInitNoCloud vol' =
         Some \<lparr>UserData = '''', UserDataBase64 = '''', UserDataSecretRef = Some (vm_Name vm @ ''-cloudinit'')\<rparr>)"
proof -
  have big: "\<not> inlineCloudInitFits out" if "Merge CY u OSWindows = Inr (out, ch)" for out ch
    using Merge_oversize [OF law parse(1,2) _ that] parse(3)
    by (simp add: inlineCloudInitFits_def maxInlineCloudInitBytes_def bootstrap_path_def)
  from m vol data big have vm': "vm' = annotate AnnCloudInitSecretMergeRequired ''true''
      (set_volume vm idx (vol\<lparr>CloudInitNoCloud := Some (src\<lparr>UserData := '''', UserDataBase64 := '''',
         UserDataSecretRef := Some (vm_Name vm @ ''-cloudinit'')\<rparr>)\<rparr>))"
    by (auto simp: mergeWindowsNoCloud_def elim!: goE_InrE)
  from vol(1) show ?thesis
    unfolding vm' by (cases src)
      (auto simp: annotate_def set_volume_def volume_at_def template_def elim!: goE_InrE split: option.splits if_splits)
qed

text \<open>
  A VM whose OS label is not recognised is admitted unmutated in its template; its
  annotations say that the OS is unknown only if it had some, and without annotations it is
  not marked at all.
\<close>
theorem unknown_os_not_mutated:
  assumes "EnsureMonitoringBootstrap CY vm = Inr vm'" "Detect vm = Unknown" "\<not> disabled vm"
  shows "Template vm' = Template vm \<and> (Annotations vm = None \<longrightarrow> vm' = vm)
    \<and> (Annotations vm \<noteq> None \<longrightarrow> mget (Annotations vm') AnnBootstrapOS = ''unknown''
         \<and> mget (Annotations vm') AnnBootstrapManaged = ''true'')"
  using assms
  by (auto simp: EnsureMonitoringBootstrap_def disabled_def os_annotations_def base_annotations_def Let_def
      elim!: goE_InrE split: if_splits)

section \<open>Witnesses\<close>

definition demo_vm :: "string \<Rightarrow> smap option \<Rightarrow> Volume list \<Rightarrow> VirtualMachine" where
  "demo_vm os ann vols = \<lparr>vm_Name = ''vm1'', vm_Namespace = ''ns'', vm_Labels = Some (fmupd osLabel os fmempty),
     Annotations = ann, Template = Some \<lparr>t_Labels = None, Volumes = vols, Disks = [], AccessCredentials = []\<rparr>\<rparr>"

definition blank_nocloud :: Volume where
  "blank_nocloud = nocloud_volume ''cloudinitdisk'' ''''"

lemma Detect_demo [simp]: "Detect (demo_vm os ann vols) = classify_label os"
  by (simp add: Detect_def demo_vm_def)

lemma classify_demo [simp]:
  "classify_label ''ubuntu'' = Linux" "classify_label ''windows'' = Windows" "classify_label ''plan9'' = Unknown"
  by code_simp+

lemma DetectBootstrap_demo [simp]: "DetectBootstrap (demo_vm os ann vols) = Inr (detect_from 0 vols)"
  by (simp add: DetectBootstrap_def demo_vm_def)

lemma disabled_demo [simp]: "disabled (demo_vm os None vols) = False"
  by (simp add: disabled_def demo_vm_def)

lemma demo_linux_run:
  "\<exists>vm'. EnsureMonitoringBootstrap (single_yaml linux_merged ''y'') (demo_vm ''ubuntu'' None []) = Inr vm'"
  by (simp add: EnsureMonitoringBootstrap_def Let_def ensureLinux_def injectLinuxNoCloud_def injectNoCloud_def
      template_def Merge_blank)
    (simp add: demo_vm_def ensureLinuxSSHAccess_def ensureSSHAccess_def template_def)

theorem EnsureMonitoringBootstrap_marks_witness:
  "\<exists>vm'. EnsureMonitoringBootstrap (single_yaml linux_merged ''y'') (demo_vm ''ubuntu'' None []) = Inr vm'
    \<and> mget (Annotations vm') AnnBootstrapType = ''none''"
proof -
  obtain vm' where r: "EnsureMonitoringBootstrap (single_yaml linux_merged ''y'') (demo_vm ''ubuntu'' None []) = Inr vm'"
    using demo_linux_run by blast
  from EnsureMonitoringBootstrap_marks [OF r] have "mget (Annotations vm') AnnBootstrapType = ''none''" by auto
  with r show ?thesis by blast
qed

theorem EnsureMonitoringBootstrap_frame_witness:
  "\<exists>vm'. EnsureMonitoringBootstrap (single_yaml linux_merged ''y'') (demo_vm ''ubuntu'' None []) = Inr vm'
    \<and> vm_Labels vm' = Some (fmupd osLabel ''ubuntu'' fmempty)"
proof -
  obtain vm' where r: "EnsureMonitoringBootstrap (single_yaml linux_merged ''y'') (demo_vm ''ubuntu'' None []) = Inr vm'"
    using demo_linux_run by blast
  from EnsureMonitoringBootstrap_frame [OF r] have "vm_Labels vm' = Some (fmupd osLabel ''ubuntu'' fmempty)"
    by (auto simp: demo_vm_def)
  with r show ?thesis by blast
qed

text \<open>A Windows VM with a sysprep volume, which needs a sysprep merge, and no annotations.\<close>

definition sysprep_volume :: Volume where
  "sysprep_volume = \<lparr>v_Name = ''sysprep'', CloudInitNoCloud = None, CloudInitConfigDrive = None,
     v_Sysprep = Some \<lparr>sp_ConfigMap = Some ''answers'', sp_Secret = None\<rparr>\<rparr>"

theorem nil_annotations_lose_merge_requests_witness:
  "\<exists>vm'. EnsureMonitoringBootstrap (single_yaml windows_merged ''y'') (demo_vm ''windows'' None [sysprep_volume]) = Inr vm'
    \<and> mget (Annotations vm') AnnBootstrapType = ''sysprep'' \<and> \<not> mhas (Annotations vm') AnnSysprepMergeRequired"
proof -
  have "\<exists>vm'. EnsureMonitoringBootstrap (single_yaml windows_merged ''y'') (demo_vm ''windows'' None [sysprep_volume]) = Inr vm'"
    by (simp add: EnsureMonitoringBootstrap_def Let_def ensureWindows_def sysprep_volume_def mergeWindowsSysprep_def
        ensureWindowsSSHAccess_def ensureSSHAccess_def template_def annotate_def)
      (simp add: demo_vm_def)
  then obtain vm' where r: "EnsureMonitoringBootstrap (single_yaml windows_merged ''y'') (demo_vm ''windows'' None [sysprep_volume]) = Inr vm'"
    by blast
  have "Annotations (demo_vm ''windows'' None [sysprep_volume]) = None" by (simp add: demo_vm_def)
  with nil_annotations_lose_merge_requests [OF r] have n: "\<not> mhas (Annotations vm') AnnSysprepMergeRequired" by simp
  have none: "Annotations (demo_vm ''windows'' None [sysprep_volume]) = None" by (simp add: demo_vm_def)
  from EnsureMonitoringBootstrap_known [OF r] none
  have "Annotations vm' = Some (managed_annotations (demo_vm ''windows'' None [sysprep_volume]) (detect_from 0 [sysprep_volume]))"
    by auto
  moreover have "br_Kind (detect_from 0 [sysprep_volume]) = KSysprep" by (simp add: sysprep_volume_def)
  ultimately have "mget (Annotations vm') AnnBootstrapType = ''sysprep''" by (simp add: managed_annotations_gets)
  with r n show ?thesis by blast
qed

theorem NoCloud_user_data_roundtrip_witness:
  "getNoCloudUserData (Some \<lparr>UserData = '''', UserDataBase64 = EncodeToString ''hi'', UserDataSecretRef = None\<rparr>)
     = Inr (''hi'', True)"
  using NoCloud_user_data_roundtrip [of "\<lparr>UserData = '''', UserDataBase64 = '''', UserDataSecretRef = None\<rparr>" "''hi''" True
      "\<lparr>UserData = '''', UserDataBase64 = EncodeToString ''hi'', UserDataSecretRef = None\<rparr>"]
  by (simp add: setNoCloudUserData_def)

lemma single_keeps_length:
  assumes "\<And>f s. f \<in> set (WriteFiles c) \<Longrightarrow> fmlookup f ''content'' = Some (GString s) \<Longrightarrow> length s \<le> length doc"
  shows "keeps_length (single_yaml c doc)"
  unfolding keeps_length_def
proof (intro allI impI)
  fix cfg d f s
  assume a: "cc_marshal (single_yaml c doc) cfg = Inr d" and f: "f \<in> set (WriteFiles cfg)"
    "fmlookup f ''content'' = Some (GString s)"
  from a have "norm_raw cfg = norm_raw c" "d = doc" by (auto simp: single_yaml_def split: if_splits)
  with f(1) have "f \<in> set (WriteFiles c)" using norm_raw_eqD(1) [of cfg c] by simp
  from assms [OF this f(2)] \<open>d = doc\<close> show "length s \<le> length d" by simp
qed

lemma linux_merged_files:
  "WriteFiles linux_merged = [file_entry linuxBootstrapPath ''0755'' linuxBootstrapScript,
     file_entry linuxUnitPath ''0644'' linuxSystemdUnit]"
proof -
  have "\<not> EqualFold linuxBootstrapPath linuxUnitPath" by code_simp
  then show ?thesis
    by (simp add: linux_merged_def apply_os_def ensureLinuxWriteFiles_def ensureLinuxRunCmd_def ensureLinuxSSH_def
        add_file_def hasWriteFile_def write_file_at_def file_entry_def empty_config_def as_string_def drop_hints_def
        Let_def split_beta)
qed

lemma linux_keeps_length: "keeps_length (single_yaml linux_merged linuxBootstrapScript)"
proof (rule single_keeps_length)
  fix f s
  assume f: "f \<in> set (WriteFiles linux_merged)" "fmlookup f ''content'' = Some (GString s)"
  have "length linuxSystemdUnit \<le> length linuxBootstrapScript" by code_simp
  with f linux_merged_files show "length s \<le> length linuxBootstrapScript" by (auto simp: file_entry_def)
qed

lemma windows_keeps_length: "keeps_length (single_yaml windows_merged (windowsBootstrapScript ''''))"
  by (rule single_keeps_length) (auto simp: windows_merged_files file_entry_def)

lemma blank_source:
  "volume_at (demo_vm os ann [blank_nocloud]) 0 = Inr blank_nocloud"
  "CloudInitNoCloud blank_nocloud = Some \<lparr>UserData = '''', UserDataBase64 = '''', UserDataSecretRef = None\<rparr>"
  "getNoCloudUserData (Some \<lparr>UserData = '''', UserDataBase64 = '''', UserDataSecretRef = None\<rparr>) = Inr ('''', False)"
  by (simp_all add: volume_at_def template_def demo_vm_def blank_nocloud_def nocloud_volume_def getNoCloudUserData_def
      decode_user_data_def)

lemma empty_config_facts:
  "as_string (Raw empty_config) ''raw_userdata'' = None" "\<not> hasWriteFile (WriteFiles empty_config) p"
  by (simp_all add: empty_config_def as_string_def hasWriteFile_def)

theorem linux_inline_is_remediated_witness:
  "\<exists>vm'. mergeLinuxNoCloud (single_yaml linux_merged linuxBootstrapScript) (demo_vm ''ubuntu'' None [blank_nocloud]) 0 = Inr vm'
    \<and> mget (Annotations vm') AnnRemediationRequired = ''true''"
proof -
  have "\<not> inlineCloudInitFits (CloudHeader @ newline @ linuxBootstrapScript)"
    by (simp add: inlineCloudInitFits_def maxInlineCloudInitBytes_def linuxBootstrapScript_length)
  then have "\<exists>vm'. mergeLinuxNoCloud (single_yaml linux_merged linuxBootstrapScript) (demo_vm ''ubuntu'' None [blank_nocloud]) 0 = Inr vm'"
    by (simp add: mergeLinuxNoCloud_def blank_source Merge_blank ensureLinuxSSHAccess_def ensureSSHAccess_def
        template_def markRemediationRequired_def)
      (simp add: demo_vm_def)
  then obtain vm' where r: "mergeLinuxNoCloud (single_yaml linux_merged linuxBootstrapScript) (demo_vm ''ubuntu'' None [blank_nocloud]) 0 = Inr vm'"
    by blast
  have "mget (Annotations vm') AnnRemediationRequired = ''true''"
    using linux_inline_is_remediated [OF linux_keeps_length blank_source(1,2) _ blank_source(3) parse_blank
        empty_config_facts r] by simp
  with r show ?thesis by blast
qed

theorem windows_inline_is_dropped_witness:
  "\<exists>vm'. mergeWindowsNoCloud (single_yaml windows_merged (windowsBootstrapScript '''')) (demo_vm ''windows'' None [blank_nocloud]) 0 = Inr vm'
    \<and> mget (Annotations vm') AnnCloudInitSecretMergeRequired = ''true''"
proof -
  have "\<not> inlineCloudInitFits (CloudHeader @ newline @ windowsBootstrapScript '''')"
    using windowsBootstrapScript_length [of "''''"] by (simp add: inlineCloudInitFits_def maxInlineCloudInitBytes_def)
  then obtain vm' where r: "mergeWindowsNoCloud (single_yaml windows_merged (windowsBootstrapScript ''''))
      (demo_vm ''windows'' None [blank_nocloud]) 0 = Inr vm'"
    by (simp add: mergeWindowsNoCloud_def blank_source Merge_blank)
  have "mget (Annotations vm') AnnCloudInitSecretMergeRequired = ''true''"
    using windows_inline_is_dropped [OF windows_keeps_length blank_source(1,2) _ blank_source(3) _ parse_blank
        empty_config_facts r] by simp
  with r show ?thesis by blast
qed

theorem unknown_os_not_mutated_witness:
  "\<exists>vm'. EnsureMonitoringBootstrap (single_yaml linux_merged ''y'') (demo_vm ''plan9'' (Some fmempty) []) = Inr vm'
    \<and> mget (Annotations vm') AnnBootstrapOS = ''unknown''"
proof -
  have nd: "\<not> disabled (demo_vm ''plan9'' (Some fmempty) [])" by (simp add: disabled_def demo_vm_def)
  then obtain vm' where r: "EnsureMonitoringBootstrap (single_yaml linux_merged ''y'') (demo_vm ''plan9'' (Some fmempty) []) = Inr vm'"
    by (simp add: EnsureMonitoringBootstrap_def disabled_def Let_def)
  have "Annotations (demo_vm ''plan9'' (Some fmempty) []) \<noteq> None" by (simp add: demo_vm_def)
  with unknown_os_not_mutated [OF r _ nd] have "mget (Annotations vm') AnnBootstrapOS = ''unknown''" by simp
  with r show ?thesis by blast
qed

end
