(* ===== verification/Webhook.thy ===== *)
theory Webhook imports Patch begin

text \<open>
  \<open>webhook/vm_mutator.go\<close>: the mutating admission webhook for VirtualMachines. The decoder
  and the JSON encoding of a VM are arguments; a response with a patch holds the two
  documents the patch is computed from. The annotation the handler sets after encoding the
  mutated VM is part of the model, although nothing reads it.
\<close>

datatype response = Allowed string | Denied string | Errored nat goerr | PatchResponseFromRaw string string

record VMMutator =
  Decoder :: "(string \<Rightarrow> VirtualMachine go) option"

record Request =
  Operation :: string
  Object :: string

definition StatusInternalServerError :: nat where "StatusInternalServerError = 500"
definition StatusBadRequest :: nat where "StatusBadRequest = 400"

text \<open>The handler without its deferred recovery: a panic is an error of the class \<open>KPanic\<close>.\<close>

definition handle_body ::
  "cc_yaml \<Rightarrow> (VirtualMachine \<Rightarrow> string go) \<Rightarrow> VMMutator \<Rightarrow> Request \<Rightarrow> (response \<times> VirtualMachine option) go" where
  "handle_body CY marshal m req =
     (if Operation req \<noteq> ''CREATE'' then Inr (Allowed ''only create requests are mutated'', None)
      else case Decoder m of
        None \<Rightarrow> Inr (Errored StatusInternalServerError (Errorf ''webhook decoder is nil''), None)
      | Some decode \<Rightarrow>
      (case decode (Object req) of
        Inl e \<Rightarrow> Inr (Errored StatusBadRequest e, None)
      | Inr vm \<Rightarrow>
        if mget (Annotations vm) AnnDisableMonitoring = ''true''
        then Inr (Allowed ''kubevirt observability disabled'', None)
        else
        (case marshal vm of
          Inl e \<Rightarrow> Inr (Errored StatusInternalServerError e, None)
        | Inr original \<Rightarrow>
        (case EnsureMonitoringBootstrap CY vm of
          Inl e \<Rightarrow> if is_panic e then Inl e else Inr (Errored StatusBadRequest e, None)
        | Inr vm' \<Rightarrow>
        (case template vm' of
          Inl e \<Rightarrow> Inl e
        | Inr _ \<Rightarrow>
        (case marshal vm' of
          Inl e \<Rightarrow> Inr (Errored StatusInternalServerError e, None)
        | Inr mutated \<Rightarrow>
            Inr (PatchResponseFromRaw original mutated,
              Some (annotate AnnDebugWebhookVersion ''windows-inline-skip-v1'' vm'))))))))"

definition Handle ::
  "cc_yaml \<Rightarrow> (VirtualMachine \<Rightarrow> string go) \<Rightarrow> string \<Rightarrow> VMMutator \<Rightarrow> Request \<Rightarrow> response" where
  "Handle CY marshal stack m req = (case handle_body CY marshal m req of
     Inl e \<Rightarrow> Denied (''panic: '' @ Error e @ newline @ stack)
   | Inr (resp, _) \<Rightarrow> resp)"

definition InjectDecoder :: "VMMutator \<Rightarrow> (string \<Rightarrow> VirtualMachine go) \<Rightarrow> VMMutator" where
  "InjectDecoder m d = m\<lparr>Decoder := Some d\<rparr>"

lemma non_panic_errors:
  "handle_body CY marshal m req = Inl e \<Longrightarrow> \<exists>decode vm. Decoder m = Some decode \<and> decode (Object req) = Inr vm
     \<and> (EnsureMonitoringBootstrap CY vm = Inl e \<or> (\<exists>vm'. EnsureMonitoringBootstrap CY vm = Inr vm' \<and> Template vm' = None))"
  by (auto simp: handle_body_def template_def split: if_split_asm option.split_asm sum.split_asm)

text \<open>
  C23. The patch of an admission is the difference between the VM that was sent and what the
  bootstrap mutation made of it, nothing else: it exists only for a create request of a VM
  that has not opted out, and the debug annotation the handler writes after encoding is not
  in it.
\<close>
theorem webhook_patch:
  assumes "Handle CY marshal stack m req = PatchResponseFromRaw original mutated"
  shows "\<exists>decode vm vm'. Operation req = ''CREATE'' \<and> Decoder m = Some decode \<and> decode (Object req) = Inr vm
    \<and> \<not> disabled vm \<and> EnsureMonitoringBootstrap CY vm = Inr vm'
    \<and> marshal vm = Inr original \<and> marshal vm' = Inr mutated
    \<and> mget (Annotations vm') AnnDebugWebhookVersion = mget (Annotations vm) AnnDebugWebhookVersion"
proof -
  from assms obtain x where "handle_body CY marshal m req = Inr (PatchResponseFromRaw original mutated, x)"
    by (auto simp: Handle_def split: sum.splits)
  then obtain decode vm vm' where h: "Operation req = ''CREATE''" "Decoder m = Some decode" "decode (Object req) = Inr vm"
    "\<not> disabled vm" "EnsureMonitoringBootstrap CY vm = Inr vm'" "marshal vm = Inr original" "marshal vm' = Inr mutated"
    by (auto simp: handle_body_def disabled_def split: if_split_asm option.split_asm sum.split_asm)
  have "mget (Annotations vm') AnnDebugWebhookVersion = mget (Annotations vm) AnnDebugWebhookVersion"
  proof (cases "Detect vm = Unknown")
    case True
    with h show ?thesis
      by (auto simp: EnsureMonitoringBootstrap_def disabled_def os_annotations_def base_annotations_def Let_def
          elim!: goE_InrE split: if_splits)
  next
    case False
    with EnsureMonitoringBootstrap_known [OF h(5,4)] obtain bt
      where "annotation_frame (Some (managed_annotations vm bt)) (Annotations vm')" by (auto simp: vm_frame_def)
    then have "mget (Annotations vm') AnnDebugWebhookVersion = mget (Some (managed_annotations vm bt)) AnnDebugWebhookVersion"
      by (intro conjunct1 [OF mget_frame]) (simp_all add: merge_keys_def)
    also have "\<dots> = mget (Annotations vm) AnnDebugWebhookVersion"
      using False by (intro managed_annotations_gets(7)) (simp_all add: operator_keys_def merge_keys_def)
    finally show ?thesis .
  qed
  with h show ?thesis by blast
qed

text \<open>
  A VM without a template makes the mutation panic, and the recovery turns the panic
  into a refusal of the admission; a VM that opted out is admitted unchanged even so.
\<close>
theorem webhook_no_template:
  assumes "Operation req = ''CREATE''" "Decoder m = Some decode" "decode (Object req) = Inr vm" "Template vm = None"
    "marshal vm = Inr original"
  shows "Handle CY marshal stack m req =
    (if disabled vm then Allowed ''kubevirt observability disabled''
     else Denied (''panic: '' @ Error nil_deref @ newline @ stack))"
  using assms
  by (simp add: Handle_def handle_body_def disabled_def EnsureMonitoringBootstrap_def DetectBootstrap_def Let_def
      nil_deref_def is_panic_def)

text \<open>Requests other than creations are admitted without looking at them.\<close>
theorem webhook_only_creates:
  "Operation req \<noteq> ''CREATE'' \<longrightarrow> Handle CY marshal stack m req = Allowed ''only create requests are mutated''"
  by (simp add: Handle_def handle_body_def)

text \<open>Witnesses.\<close>

definition demo_mutator :: "VirtualMachine \<Rightarrow> VMMutator" where
  "demo_mutator vm = InjectDecoder \<lparr>Decoder = None\<rparr> (\<lambda>s. if s = ''vm'' then Inr vm else Inl (Errorf ''decode''))"

definition name_marshal :: "VirtualMachine \<Rightarrow> string go" where
  "name_marshal vm = Inr (vm_Name vm @ (if mhas (Annotations vm) AnnBootstrapManaged then '' managed'' else ''''))"

theorem webhook_patch_witness:
  "Handle (single_yaml linux_merged ''y'') name_marshal '''' (demo_mutator (demo_vm ''ubuntu'' None []))
     \<lparr>Operation = ''CREATE'', Object = ''vm''\<rparr> = PatchResponseFromRaw ''vm1'' ''vm1 managed''
   \<and> (\<exists>vm'. EnsureMonitoringBootstrap (single_yaml linux_merged ''y'') (demo_vm ''ubuntu'' None []) = Inr vm'
        \<and> name_marshal vm' = Inr ''vm1 managed'')"
proof -
  let ?vm = "demo_vm ''ubuntu'' None []" and ?Y = "single_yaml linux_merged ''y''"
  obtain vm' where r: "EnsureMonitoringBootstrap ?Y ?vm = Inr vm'" using demo_linux_run by blast
  have "\<not> disabled ?vm" "Detect ?vm \<noteq> Unknown" by simp_all
  from EnsureMonitoringBootstrap_known [OF r this] obtain bt t where
    fr: "vm_frame (VolumeIndex bt) (?vm\<lparr>Annotations := Some (managed_annotations ?vm bt)\<rparr>) vm'"
    and t: "Template vm' = Some t"
    by blast
  from fr have an: "annotation_frame (Some (managed_annotations ?vm bt)) (Annotations vm')" and nm: "vm_Name vm' = ''vm1''"
    by (simp_all add: vm_frame_def demo_vm_def)
  have "mhas (Some (managed_annotations ?vm bt)) AnnBootstrapManaged"
    by (simp add: managed_annotations_def os_annotations_def base_annotations_def Let_def)
  then have "mhas (Annotations vm') AnnBootstrapManaged"
    using mget_frame [OF an, of AnnBootstrapManaged] by (simp add: merge_keys_def)
  with nm have m: "name_marshal vm' = Inr ''vm1 managed''" by (simp add: name_marshal_def)
  have o: "name_marshal ?vm = Inr ''vm1''" "mget (Annotations ?vm) AnnDisableMonitoring \<noteq> ''true''"
    by (simp_all add: name_marshal_def demo_vm_def)
  have h: "Handle ?Y name_marshal '''' (demo_mutator ?vm) \<lparr>Operation = ''CREATE'', Object = ''vm''\<rparr>
      = PatchResponseFromRaw ''vm1'' ''vm1 managed''"
    using r t m o by (simp add: Handle_def handle_body_def demo_mutator_def InjectDecoder_def template_def)
  from webhook_patch [OF h] have "\<exists>vm'. EnsureMonitoringBootstrap ?Y ?vm = Inr vm' \<and> name_marshal vm' = Inr ''vm1 managed''"
    by (auto simp: demo_mutator_def InjectDecoder_def)
  with h show ?thesis by blast
qed

theorem webhook_no_template_witness:
  "Handle (single_yaml linux_merged ''y'') name_marshal ''stack''
     (demo_mutator ((demo_vm ''ubuntu'' None [])\<lparr>Template := None\<rparr>)) \<lparr>Operation = ''CREATE'', Object = ''vm''\<rparr>
   = Denied (''panic: '' @ Error nil_deref @ newline @ ''stack'')"
  using webhook_no_template [of "\<lparr>Operation = ''CREATE'', Object = ''vm''\<rparr>"
      "demo_mutator ((demo_vm ''ubuntu'' None [])\<lparr>Template := None\<rparr>)" _ "(demo_vm ''ubuntu'' None [])\<lparr>Template := None\<rparr>"
      name_marshal]
  by (simp add: demo_mutator_def InjectDecoder_def name_marshal_def disabled_def demo_vm_def)

theorem webhook_only_creates_witness:
  "Handle (single_yaml linux_merged ''y'') name_marshal '''' (demo_mutator (demo_vm ''ubuntu'' None []))
     \<lparr>Operation = ''UPDATE'', Object = ''vm''\<rparr> = Allowed ''only create requests are mutated''"
  using webhook_only_creates [of "\<lparr>Operation = ''UPDATE'', Object = ''vm''\<rparr>"] by simp

end
