(* ===== verification/Sysprep.thy ===== *)
theory Sysprep imports Kube CloudInitScripts begin

text \<open>
  \<open>internal/sysprepmerge\<close>: adding the bootstrap command to a Windows answer file
  (\<open>merge.go\<close>) and to the ConfigMap or Secret that holds it (\<open>source.go\<close>). Reading and
  writing XML are the functions of an \<open>xml_codec\<close> record (the package encoding/xml driven
  by the struct tags). A Go \<open>int\<close> is a 64-bit integer, with its wrap-around written out.
\<close>

section \<open>The answer file\<close>

record RunSynchronousCommand =
  WcmAction :: string
  Order :: int
  Description :: string
  Path :: string

record RunSynchronousBlock =
  Commands :: "RunSynchronousCommand list"

record Component =
  c_Name :: string
  ProcessorArchitecture :: string
  PublicKeyToken :: string
  Language :: string
  VersionScope :: string
  XmlnsWcm :: string
  XmlnsXsi :: string
  RunSynchronous :: "RunSynchronousBlock option"

record Setting =
  Pass :: string
  Components :: "Component list"

record Unattend =
  XMLName :: "string \<times> string"
  Xmlns :: string
  Settings :: "Setting list"

record xml_codec =
  xml_unmarshal :: "string \<Rightarrow> Unattend go"
  xml_encode :: "Unattend \<Rightarrow> string go"
  xml_flush :: "Unattend \<Rightarrow> unit go"

definition xml_Header :: string where
  \<open>xml_Header = ''<?xml version="1.0" encoding="UTF-8"?>'' @ newline\<close>

definition managedDescription :: string where
  "managedDescription = ''KubeVirt Observability Bootstrap''"

definition unattendNS :: string where
  "unattendNS = ''urn:schemas-microsoft-com:unattend''"

definition DeploymentComponent :: string where
  "DeploymentComponent = ''Microsoft-Windows-Deployment''"

section \<open>The bootstrap command\<close>

definition windowsBootstrapScriptForSysprep_lines :: "string list" where
  \<open>windowsBootstrapScriptForSysprep_lines = [''New-Item -ItemType Directory -Path C:'' @ bslash @ ''ProgramData'' @ bslash @ ''KubeVirtObservability -Force | Out-Null'',
     ''$marker = 'C:'' @ bslash @ ''ProgramData'' @ bslash @ ''KubeVirtObservability'' @ bslash @ ''bootstrap.done'' @ squote,
     ''if (Test-Path $marker) { exit 0 }'',
     '''',
     ''$ProgressPreference = 'SilentlyContinue'' @ squote,
     '''',
     ''function Enable-WinRMForObservability {'',
     ''    Enable-PSRemoting -Force'',
     ''    Set-Item -Path WSMan:'' @ bslash @ ''localhost'' @ bslash @ ''Service'' @ bslash @ ''Auth'' @ bslash @ ''Basic -Value $true'',
     ''    Set-Item -Path WSMan:'' @ bslash @ ''localhost'' @ bslash @ ''Service'' @ bslash @ ''AllowUnencrypted -Value $true'',
     ''    Enable-NetFirewallRule -DisplayGroup 'Windows Remote Management'' @ squote,
     ''}'',
     '''',
     ''function Install-WindowsExporter {'',
     ''    if (Get-Service windows_exporter -ErrorAction SilentlyContinue) { return }'',
     '''',
     ''    $version = '0.31.5'' @ squote,
     ''    $msi = "windows_exporter-$version-amd64.msi"'',
     ''    $url = "https://github.com/prometheus-community/windows_exporter/releases/download/v$version/$msi"'',
     ''    $out = "C:'' @ bslash @ ''ProgramData'' @ bslash @ ''KubeVirtObservability'' @ bslash @ ''$msi"'',
     '''',
     ''    Invoke-WebRequest -Uri $url -OutFile $out'',
     ''    $arguments = @('',
     ''      '/i','',
     ''      $out,'',
     ''      'ENABLED_COLLECTORS=[defaults],mssql,textfile','',
     ''      'LISTEN_PORT=9182','',
     ''      'ADDLOCAL=FirewallException','',
     ''      '/qn'' @ squote,
     ''    )'',
     ''    Start-Process -FilePath 'msiexec.exe' -ArgumentList $arguments -Wait -NoNewWindow'',
     ''    Start-Service windows_exporter'',
     ''}'',
     '''',
     ''Enable-WinRMForObservability'',
     ''Install-WindowsExporter'',
     '''',
     ''New-Item -ItemType File -Path $marker -Force | Out-Null'']\<close>

definition windowsBootstrapScriptForSysprep :: string where
  "windowsBootstrapScriptForSysprep = Join windowsBootstrapScriptForSysprep_lines newline"

definition escapeForSingleQuotedHereString :: "string \<Rightarrow> string" where
  "escapeForSingleQuotedHereString inp = inp"

definition sysprepBootstrapCommand :: string where
  \<open>sysprepBootstrapCommand =
     ''powershell.exe -ExecutionPolicy Bypass -Command "$dir='C:'' @ bslash @ ''ProgramData'' @ bslash @ ''KubeVirtObservability'; New-Item -ItemType Directory -Path $dir -Force | Out-Null; $script='' @ squote @ windowsBootstrapPath @
     squote @ ''; Set-Content -Path $script -Encoding ASCII -Value @'' @ squote @ newline @
     escapeForSingleQuotedHereString windowsBootstrapScriptForSysprep @ newline @
     squote @ ''@; powershell.exe -ExecutionPolicy Bypass -File $script"''\<close>

section \<open>The merge\<close>

definition wrap64 :: "int \<Rightarrow> int" where
  "wrap64 i = (i + 2 ^ 63) mod 2 ^ 64 - 2 ^ 63"

definition nextOrder :: "RunSynchronousCommand list \<Rightarrow> int" where
  "nextOrder cmds = wrap64 (foldl (\<lambda>m c. if Order c > m then Order c else m) 0 cmds + 1)"

definition is_bootstrap :: "RunSynchronousCommand \<Rightarrow> bool" where
  "is_bootstrap cmd \<longleftrightarrow> EqualFold (TrimSpace (Description cmd)) managedDescription
     \<or> Contains (ToLower (Path cmd)) (ToLower windowsBootstrapPath)"

definition bootstrap_command :: "RunSynchronousCommand list \<Rightarrow> RunSynchronousCommand" where
  "bootstrap_command cmds = \<lparr>WcmAction = ''add'', Order = nextOrder cmds,
     Description = managedDescription, Path = sysprepBootstrapCommand\<rparr>"

definition add_bootstrap :: "RunSynchronousCommand list \<Rightarrow> RunSynchronousCommand list \<times> bool" where
  "add_bootstrap cmds = (if list_ex is_bootstrap cmds then (cmds, False)
     else (cmds @ [bootstrap_command cmds], True))"

definition pass_is :: "string \<Rightarrow> Setting \<Rightarrow> bool" where
  "pass_is pass s \<longleftrightarrow> EqualFold (TrimSpace (Pass s)) pass"

definition is_deployment :: "Component \<Rightarrow> bool" where
  "is_deployment c \<longleftrightarrow> EqualFold (TrimSpace (c_Name c)) DeploymentComponent"

definition ensureSetting :: "Unattend \<Rightarrow> string \<Rightarrow> Unattend \<times> nat" where
  "ensureSetting doc pass = (case index_where (pass_is pass) (Settings doc) of
     Some i \<Rightarrow> (doc, i)
   | None \<Rightarrow> (doc\<lparr>Settings := Settings doc @ [\<lparr>Pass = pass, Components = []\<rparr>]\<rparr>, length (Settings doc)))"

definition default_attr :: "string \<Rightarrow> string \<Rightarrow> string" where
  "default_attr s d = (if s = '''' then d else s)"

definition ensureComponentAttrs :: "Component \<Rightarrow> Component" where
  "ensureComponentAttrs c = c\<lparr>
     ProcessorArchitecture := default_attr (ProcessorArchitecture c) ''amd64'',
     PublicKeyToken := default_attr (PublicKeyToken c) ''31bf3856ad364e35'',
     Language := default_attr (Language c) ''neutral'',
     VersionScope := default_attr (VersionScope c) ''nonSxS'',
     XmlnsWcm := default_attr (XmlnsWcm c) ''http://schemas.microsoft.com/WMIConfig/2002/State'',
     XmlnsXsi := default_attr (XmlnsXsi c) ''http://www.w3.org/2001/XMLSchema-instance''\<rparr>"

definition new_deployment :: Component where
  "new_deployment = \<lparr>c_Name = DeploymentComponent, ProcessorArchitecture = ''amd64'',
     PublicKeyToken = ''31bf3856ad364e35'', Language = ''neutral'', VersionScope = ''nonSxS'',
     XmlnsWcm = ''http://schemas.microsoft.com/WMIConfig/2002/State'',
     XmlnsXsi = ''http://www.w3.org/2001/XMLSchema-instance'', RunSynchronous = None\<rparr>"

definition ensureDeploymentComponent :: "Setting \<Rightarrow> Setting \<times> nat" where
  "ensureDeploymentComponent s = (case index_where is_deployment (Components s) of
     Some i \<Rightarrow> (s\<lparr>Components := (Components s)[i := ensureComponentAttrs (Components s ! i)]\<rparr>, i)
   | None \<Rightarrow> (s\<lparr>Components := Components s @ [new_deployment]\<rparr>, length (Components s)))"

definition ensureBootstrapCommand :: "Unattend \<Rightarrow> Unattend \<times> bool" where
  "ensureBootstrapCommand doc =
     (let (doc, si) = ensureSetting doc ''specialize'';
          (s, ci) = ensureDeploymentComponent (Settings doc ! si);
          comp = Components s ! ci;
          cmds = (case RunSynchronous comp of None \<Rightarrow> [] | Some r \<Rightarrow> Commands r);
          (cmds, changed) = add_bootstrap cmds;
          comp = comp\<lparr>RunSynchronous := Some \<lparr>Commands = cmds\<rparr>\<rparr>;
          s = s\<lparr>Components := (Components s)[ci := comp]\<rparr>
      in (doc\<lparr>Settings := (Settings doc)[si := s]\<rparr>, changed))"

definition empty_unattend :: Unattend where
  "empty_unattend = \<lparr>XMLName = ('''', ''''), Xmlns = unattendNS, Settings = []\<rparr>"

definition parse :: "xml_codec \<Rightarrow> string \<Rightarrow> Unattend go" where
  "parse X inp = (let trimmed = TrimSpace inp in
     if trimmed = '''' then Inr empty_unattend
     else case xml_unmarshal X trimmed of
         Inl e \<Rightarrow> Inl (Wrapf ''failed to parse sysprep xml: '' e)
       | Inr doc \<Rightarrow> Inr (if Xmlns doc = '''' then doc\<lparr>Xmlns := unattendNS\<rparr> else doc))"

definition render :: "xml_codec \<Rightarrow> Unattend \<Rightarrow> string go" where
  "render X doc = (case xml_encode X doc of
     Inl e \<Rightarrow> Inl (Wrapf ''failed to render sysprep xml: '' e)
   | Inr d \<Rightarrow> (case xml_flush X doc of
         Inl e \<Rightarrow> Inl (Wrapf ''failed to flush sysprep xml: '' e)
       | Inr _ \<Rightarrow> Inr (xml_Header @ d)))"

definition sysprep_Merge :: "xml_codec \<Rightarrow> string \<Rightarrow> (string \<times> bool) go" where
  "sysprep_Merge X s = (case parse X s of
     Inl e \<Rightarrow> Inl e
   | Inr doc \<Rightarrow> (let (doc, changed) = ensureBootstrapCommand doc in
       (case render X doc of Inl e \<Rightarrow> Inl e | Inr out \<Rightarrow> Inr (out, changed))))"

section \<open>The ConfigMap and the Secret\<close>

definition preferredKeys :: "string list" where
  "preferredKeys = [''Autounattend.xml'', ''Unattend.xml'']"

definition answer_key :: "string \<Rightarrow> bool" where
  "answer_key k = (let lk = ToLower (TrimSpace k) in
     HasSuffix lk ''.xml'' \<and> (Contains lk ''autounattend'' \<or> Contains lk ''unattend''))"

definition findAnswerFileKeyString :: "smap \<Rightarrow> string option" where
  "findAnswerFileKeyString = find_key preferredKeys answer_key"

definition findAnswerFileKeyBytes :: "smap \<Rightarrow> string option" where
  "findAnswerFileKeyBytes = find_key preferredKeys answer_key"

definition MergeMapData :: "xml_codec \<Rightarrow> smap option \<Rightarrow> (smap \<times> string \<times> bool) go" where
  "MergeMapData X data = (case data of
     None \<Rightarrow> Inl (Errorf ''nil sysprep data'')
   | Some m \<Rightarrow> (case findAnswerFileKeyString m of
       None \<Rightarrow> Inl (Errorf ''no Autounattend.xml or Unattend.xml key found'')
     | Some key \<Rightarrow> (case sysprep_Merge X (mget (Some m) key) of
         Inl e \<Rightarrow> Inl e
       | Inr (merged, changed) \<Rightarrow>
           if \<not> changed then Inr (m, key, False) else Inr (fmupd key merged m, key, True))))"

definition MergeByteData :: "xml_codec \<Rightarrow> smap option \<Rightarrow> (smap \<times> string \<times> bool) go" where
  "MergeByteData X data = (case data of
     None \<Rightarrow> Inl (Errorf ''nil sysprep binary data'')
   | Some m \<Rightarrow> (case findAnswerFileKeyBytes m of
       None \<Rightarrow> Inl (Errorf ''no Autounattend.xml or Unattend.xml key found'')
     | Some key \<Rightarrow> (case sysprep_Merge X (mget (Some m) key) of
         Inl e \<Rightarrow> Inl e
       | Inr (merged, changed) \<Rightarrow>
           if \<not> changed then Inr (m, key, False) else Inr (fmupd key merged m, key, True))))"

interpretation sk: key_finder findAnswerFileKeyString preferredKeys answer_key
  by unfold_locales (simp add: findAnswerFileKeyString_def)

interpretation sb: key_finder findAnswerFileKeyBytes preferredKeys answer_key
  by unfold_locales (simp add: findAnswerFileKeyBytes_def)

section \<open>Orders\<close>

lemma foldl_max_ge:
  "m \<le> foldl (\<lambda>m c. if f c > m then f c else m) (m::int) cs
   \<and> (\<forall>c\<in>set cs. f c \<le> foldl (\<lambda>m c. if f c > m then f c else m) m cs)"
proof (induction cs arbitrary: m)
  case (Cons c cs)
  let ?m = "if f c > m then f c else m"
  from Cons [of ?m] have "?m \<le> foldl (\<lambda>m c. if f c > m then f c else m) ?m cs" by blast
  with Cons [of ?m] show ?case by (auto split: if_splits)
qed simp

lemma foldl_max_in:
  "foldl (\<lambda>m c. if f c > m then f c else m) (m::int) cs \<in> insert m (f ` set cs)"
proof (induction cs arbitrary: m)
  case (Cons c cs)
  from Cons [of "if f c > m then f c else m"] show ?case by (auto split: if_splits)
qed simp

lemma wrap64_id: "- (2 ^ 63) \<le> i \<Longrightarrow> i < 2 ^ 63 \<Longrightarrow> wrap64 i = i"
  by (simp add: wrap64_def)

lemma nextOrder_fresh:
  assumes "\<forall>c\<in>set cmds. Order c < 2 ^ 63 - 1"
  shows "1 \<le> nextOrder cmds \<and> (\<forall>c\<in>set cmds. Order c < nextOrder cmds)"
proof -
  let ?m = "foldl (\<lambda>m c. if Order c > m then Order c else m) 0 cmds"
  have ge: "0 \<le> ?m" "\<forall>c\<in>set cmds. Order c \<le> ?m" using foldl_max_ge [where f = Order] by blast+
  have "?m < 2 ^ 63 - 1" using foldl_max_in [where f = Order and m = 0 and cs = cmds] assms by auto
  with ge have "nextOrder cmds = ?m + 1" by (simp add: nextOrder_def wrap64_id)
  with ge show ?thesis by auto
qed

section \<open>The command is there once\<close>

lemma bootstrap_command_is: "is_bootstrap (bootstrap_command cmds)"
proof -
  have "TrimSpace managedDescription = managedDescription"
    by (simp add: managedDescription_def TrimSpace_def is_space_def)
  then show ?thesis by (simp add: is_bootstrap_def bootstrap_command_def)
qed

interpretation bc: append_unless "list_ex is_bootstrap" bootstrap_command add_bootstrap
  by unfold_locales (simp_all add: add_bootstrap_def bootstrap_command_is)

text \<open>The commands of the deployment component of the specialize pass, where Windows runs them.\<close>

definition component_cmds :: "Component \<Rightarrow> RunSynchronousCommand list" where
  "component_cmds c = (case RunSynchronous c of None \<Rightarrow> [] | Some r \<Rightarrow> Commands r)"

definition setting_cmds :: "Setting \<Rightarrow> RunSynchronousCommand list" where
  "setting_cmds s = (case index_where is_deployment (Components s) of
     None \<Rightarrow> [] | Some i \<Rightarrow> component_cmds (Components s ! i))"

definition specialize_cmds :: "Unattend \<Rightarrow> RunSynchronousCommand list" where
  "specialize_cmds doc = (case index_where (pass_is ''specialize'') (Settings doc) of
     None \<Rightarrow> [] | Some i \<Rightarrow> setting_cmds (Settings doc ! i))"

lemma TrimSpace_names [simp]:
  "TrimSpace ''specialize'' = ''specialize''" "TrimSpace DeploymentComponent = DeploymentComponent"
  by (simp_all add: TrimSpace_def is_space_def DeploymentComponent_def)

lemma is_deployment_simps [simp]:
  "is_deployment new_deployment" "is_deployment (ensureComponentAttrs c) = is_deployment c"
  "is_deployment (c\<lparr>RunSynchronous := r\<rparr>) = is_deployment c"
  by (simp_all add: is_deployment_def new_deployment_def ensureComponentAttrs_def)

lemma component_cmds_simps [simp]:
  "component_cmds new_deployment = []" "component_cmds (ensureComponentAttrs c) = component_cmds c"
  "component_cmds (c\<lparr>RunSynchronous := Some \<lparr>Commands = cs\<rparr>\<rparr>) = cs"
  by (simp_all add: component_cmds_def new_deployment_def ensureComponentAttrs_def)

lemma ensureComponentAttrs_idem [simp]: "ensureComponentAttrs (ensureComponentAttrs c) = ensureComponentAttrs c"
  "ensureComponentAttrs new_deployment = new_deployment"
  "ensureComponentAttrs (c\<lparr>RunSynchronous := r\<rparr>) = (ensureComponentAttrs c)\<lparr>RunSynchronous := r\<rparr>"
  by (simp_all add: ensureComponentAttrs_def default_attr_def new_deployment_def DeploymentComponent_def)

text \<open>What the two searches guarantee: the index is in range, and finds the entry again.\<close>

lemma ensureSetting_spec:
  assumes "ensureSetting doc ''specialize'' = (doc', i)"
  shows "i < length (Settings doc') \<and> index_where (pass_is ''specialize'') (Settings doc') = Some i
    \<and> setting_cmds (Settings doc' ! i) = specialize_cmds doc
    \<and> (\<exists>xs. Settings doc' = Settings doc @ xs \<and> list_all (\<lambda>s. s = \<lparr>Pass = ''specialize'', Components = []\<rparr>) xs)"
proof (cases "index_where (pass_is ''specialize'') (Settings doc)")
  case None
  moreover have "pass_is ''specialize'' \<lparr>Pass = ''specialize'', Components = []\<rparr>" by (simp add: pass_is_def)
  ultimately show ?thesis
    using assms index_where_append [OF None]
    by (auto simp: ensureSetting_def specialize_cmds_def setting_cmds_def)
next
  case (Some j)
  with assms index_where_Some [OF Some] show ?thesis
    by (auto simp: ensureSetting_def specialize_cmds_def)
qed

lemma ensureDeploymentComponent_spec:
  assumes "ensureDeploymentComponent s = (s', i)"
  shows "i < length (Components s') \<and> index_where is_deployment (Components s') = Some i
    \<and> component_cmds (Components s' ! i) = setting_cmds s \<and> Pass s' = Pass s
    \<and> length (Components s) \<le> length (Components s')
    \<and> (\<forall>j<length (Components s). j \<noteq> i \<longrightarrow> Components s' ! j = Components s ! j)
    \<and> ensureComponentAttrs (Components s' ! i) = Components s' ! i"
proof (cases "index_where is_deployment (Components s)")
  case None
  then show ?thesis
    using assms index_where_append [OF None]
    by (auto simp: ensureDeploymentComponent_def setting_cmds_def nth_append)
next
  case (Some j)
  then show ?thesis
    using assms index_where_Some [OF Some] index_where_update [OF Some]
    by (auto simp: ensureDeploymentComponent_def setting_cmds_def)
qed

text \<open>The document after the command is ensured, in terms of the two searches.\<close>

lemma ensureBootstrapCommand_cases:
  obtains doc1 si s ci where "ensureSetting doc ''specialize'' = (doc1, si)"
    "ensureDeploymentComponent (Settings doc1 ! si) = (s, ci)"
    "ensureBootstrapCommand doc = (doc1\<lparr>Settings := (Settings doc1)[si := s\<lparr>Components := (Components s)[ci :=
       (Components s ! ci)\<lparr>RunSynchronous := Some \<lparr>Commands = fst (add_bootstrap (specialize_cmds doc))\<rparr>\<rparr>]\<rparr>]\<rparr>,
       snd (add_bootstrap (specialize_cmds doc)))"
proof -
  obtain doc1 si where 1: "ensureSetting doc ''specialize'' = (doc1, si)" by fastforce
  obtain s ci where 2: "ensureDeploymentComponent (Settings doc1 ! si) = (s, ci)" by fastforce
  have "(case RunSynchronous (Components s ! ci) of None \<Rightarrow> [] | Some r \<Rightarrow> Commands r) = specialize_cmds doc"
    using ensureSetting_spec [OF 1] ensureDeploymentComponent_spec [OF 2] by (simp add: component_cmds_def)
  with 1 2 have "ensureBootstrapCommand doc = (doc1\<lparr>Settings := (Settings doc1)[si := s\<lparr>Components := (Components s)[ci :=
       (Components s ! ci)\<lparr>RunSynchronous := Some \<lparr>Commands = fst (add_bootstrap (specialize_cmds doc))\<rparr>\<rparr>]\<rparr>]\<rparr>,
       snd (add_bootstrap (specialize_cmds doc)))"
    by (simp add: ensureBootstrapCommand_def split_beta Let_def)
  with 1 2 that show ?thesis by blast
qed

lemma ensureBootstrapCommand_cmds:
  "specialize_cmds (fst (ensureBootstrapCommand doc)) = fst (add_bootstrap (specialize_cmds doc))
   \<and> snd (ensureBootstrapCommand doc) = snd (add_bootstrap (specialize_cmds doc))"
proof (cases rule: ensureBootstrapCommand_cases [of doc])
  case (1 doc1 si s ci)
  note s1 = ensureSetting_spec [OF 1(1)] and s2 = ensureDeploymentComponent_spec [OF 1(2)]
  let ?c = "(Components s ! ci)\<lparr>RunSynchronous := Some \<lparr>Commands = fst (add_bootstrap (specialize_cmds doc))\<rparr>\<rparr>"
  let ?s = "s\<lparr>Components := (Components s)[ci := ?c]\<rparr>"
  have dep: "is_deployment (Components s ! ci)" using s2 index_where_Some by blast
  have "pass_is ''specialize'' (Settings doc1 ! si)" using s1 index_where_Some by blast
  with s2 have "pass_is ''specialize'' ?s" by (simp add: pass_is_def)
  with s1 have "index_where (pass_is ''specialize'') ((Settings doc1)[si := ?s]) = Some si"
    by (simp add: index_where_update)
  moreover from dep s2 have "index_where is_deployment ((Components s)[ci := ?c]) = Some ci"
    by (simp add: index_where_update)
  ultimately show ?thesis using s1 s2 1(3) by (simp add: specialize_cmds_def setting_cmds_def)
qed

section \<open>Properties of the answer-file merge\<close>

text \<open>
  C22. After the bootstrap command is ensured, the specialize pass runs it exactly when it
  did already or it was appended, once, after the commands that were there, with an order
  larger than theirs (as long as an order is below the largest 64-bit integer).
\<close>
theorem ensureBootstrapCommand_appends:
  assumes "ensureBootstrapCommand doc = (doc', ch)" and "\<forall>c\<in>set (specialize_cmds doc). Order c < 2 ^ 63 - 1"
  shows "list_ex is_bootstrap (specialize_cmds doc') \<and> ch = (\<not> list_ex is_bootstrap (specialize_cmds doc))
    \<and> (\<not> ch \<longrightarrow> specialize_cmds doc' = specialize_cmds doc)
    \<and> (ch \<longrightarrow> (\<exists>b. specialize_cmds doc' = specialize_cmds doc @ [b] \<and> Path b = sysprepBootstrapCommand
         \<and> (\<forall>c\<in>set (specialize_cmds doc). Order c < Order b)))"
proof -
  from assms(1) ensureBootstrapCommand_cmds [of doc]
  have eq: "specialize_cmds doc' = fst (add_bootstrap (specialize_cmds doc))" "ch = snd (add_bootstrap (specialize_cmds doc))"
    by simp_all
  then have "list_ex is_bootstrap (specialize_cmds doc')" using bc.ensured by simp
  with eq nextOrder_fresh [OF assms(2)] show ?thesis
    by (auto simp: add_bootstrap_def bootstrap_command_def split: if_splits)
qed

text \<open>
  Nothing else of the document is touched: no setting disappears or moves, every
  setting but the first specialize one is as it was, and in that one only the first
  deployment component differs.
\<close>
theorem ensureBootstrapCommand_frame:
  assumes "ensureBootstrapCommand doc = (doc', ch)" and "i < length (Settings doc)"
  shows "XMLName doc' = XMLName doc \<and> Xmlns doc' = Xmlns doc \<and> i < length (Settings doc')
    \<and> Pass (Settings doc' ! i) = Pass (Settings doc ! i)
    \<and> (Settings doc' ! i = Settings doc ! i \<or> index_where (pass_is ''specialize'') (Settings doc) = Some i
        \<and> (\<forall>j<length (Components (Settings doc ! i)).
             Components (Settings doc' ! i) ! j = Components (Settings doc ! i) ! j
             \<or> index_where is_deployment (Components (Settings doc ! i)) = Some j))"
proof (cases rule: ensureBootstrapCommand_cases [of doc])
  case (1 doc1 si s ci)
  note s1 = ensureSetting_spec [OF 1(1)] and s2 = ensureDeploymentComponent_spec [OF 1(2)]
  from 1(1) have same: "XMLName doc1 = XMLName doc" "Xmlns doc1 = Xmlns doc"
    by (auto simp: ensureSetting_def split: option.splits)
  have old: "Settings doc1 ! i = Settings doc ! i" using s1 assms(2) by (auto simp: nth_append)
  show ?thesis
  proof (cases "i = si")
    case False
    with 1(3) assms same old s1 show ?thesis by auto
  next
    case True
    have idx: "index_where (pass_is ''specialize'') (Settings doc) = Some i"
      using 1(1) True assms(2) by (auto simp: ensureSetting_def split: option.splits)
    have dep: "index_where is_deployment (Components (Settings doc ! i)) = Some ci"
      if "ci < length (Components (Settings doc ! i))"
      using 1(2) True old that by (auto simp: ensureDeploymentComponent_def split: option.splits)
    have "Components (Settings doc' ! i) ! j = Components (Settings doc ! i) ! j
        \<or> index_where is_deployment (Components (Settings doc ! i)) = Some j"
      if "j < length (Components (Settings doc ! i))" for j
      using 1(3) assms(1) s1 s2 True old dep that by (cases "j = ci") auto
    moreover have "Pass (Settings doc' ! i) = Pass (Settings doc ! i)"
      using 1(3) assms(1) s1 s2 True old by auto
    ultimately show ?thesis using 1(3) assms same s1 idx by auto
  qed
qed

text \<open>Ensuring the command a second time changes nothing in the document.\<close>
theorem ensureBootstrapCommand_idempotent:
  "ensureBootstrapCommand (fst (ensureBootstrapCommand doc)) = (fst (ensureBootstrapCommand doc), False)"
proof (cases rule: ensureBootstrapCommand_cases [of doc])
  case (1 doc1 si s ci)
  note s1 = ensureSetting_spec [OF 1(1)] and s2 = ensureDeploymentComponent_spec [OF 1(2)]
  let ?cs = "fst (add_bootstrap (specialize_cmds doc))"
  let ?c = "(Components s ! ci)\<lparr>RunSynchronous := Some \<lparr>Commands = ?cs\<rparr>\<rparr>"
  let ?s = "s\<lparr>Components := (Components s)[ci := ?c]\<rparr>"
  define D where "D = fst (ensureBootstrapCommand doc)"
  from 1(3) have doc: "D = doc1\<lparr>Settings := (Settings doc1)[si := ?s]\<rparr>" by (simp add: D_def)
  have dep: "is_deployment (Components s ! ci)" using s2 index_where_Some by blast
  have "pass_is ''specialize'' (Settings doc1 ! si)" using s1 index_where_Some by blast
  with s1 s2 have "index_where (pass_is ''specialize'') (Settings D) = Some si"
    by (simp add: doc index_where_update pass_is_def)
  then have e1: "ensureSetting D ''specialize'' = (D, si)" by (simp add: ensureSetting_def)
  from dep s2 have "index_where is_deployment ((Components s)[ci := ?c]) = Some ci"
    by (simp add: index_where_update)
  moreover have "ensureComponentAttrs ?c = ?c" using s2 by simp
  ultimately have e2: "ensureDeploymentComponent (Settings D ! si) = (?s, ci)"
    using s1 s2 by (simp add: doc ensureDeploymentComponent_def)
  have "add_bootstrap ?cs = (?cs, False)" by (rule bc.ensure_idem)
  with e1 e2 s2 have "ensureBootstrapCommand D = (D\<lparr>Settings := (Settings D)[si := ?s]\<rparr>, False)"
    by (simp add: ensureBootstrapCommand_def)
  moreover have "D\<lparr>Settings := (Settings D)[si := ?s]\<rparr> = D" by (simp add: doc)
  ultimately show ?thesis by (simp add: D_def)
qed

text \<open>
  What the merge relies on of encoding/xml: a document that is written is read back with
  the same passes, components and commands (orders, descriptions, paths), and a document
  with the same ones can be written too. The attributes
  \<open>wcm:action\<close> and \<open>xmlns:wcm\<close> are not asked for: the decoder does not match them with the
  struct's fields.
\<close>

definition skeleton :: "Unattend \<Rightarrow> (string \<times> (string \<times> (int \<times> string \<times> string) list option) list) list" where
  "skeleton doc = map (\<lambda>s. (Pass s, map (\<lambda>c. (c_Name c,
     map_option (\<lambda>r. map (\<lambda>k. (Order k, Description k, Path k)) (Commands r)) (RunSynchronous c)))
     (Components s))) (Settings doc)"

definition xml_law :: "xml_codec \<Rightarrow> bool" where
  "xml_law X \<longleftrightarrow> (\<forall>doc d. xml_encode X doc = Inr d \<longrightarrow> xml_flush X doc = Inr () \<longrightarrow>
     (\<exists>doc'. xml_unmarshal X (TrimSpace (xml_Header @ d)) = Inr doc' \<and> skeleton doc' = skeleton doc)
     \<and> (\<forall>doc'. skeleton doc' = skeleton doc \<longrightarrow> (\<exists>d'. xml_encode X doc' = Inr d' \<and> xml_flush X doc' = Inr ())))"

lemma index_where_map: "index_where P (map f xs) = index_where (P \<circ> f) xs"
  by (induction xs) simp_all

lemma index_where_cong:
  "map f xs = map f ys \<Longrightarrow> (\<And>x. P x = Q (f x)) \<Longrightarrow> index_where P xs = index_where P ys"
proof -
  assume m: "map f xs = map f ys" and "\<And>x. P x = Q (f x)"
  then have "P = Q \<circ> f" by auto
  with m show ?thesis by (metis index_where_map)
qed

abbreviation cmd_key :: "RunSynchronousCommand \<Rightarrow> int \<times> string \<times> string" where
  "cmd_key k \<equiv> (Order k, Description k, Path k)"

abbreviation component_key :: "Component \<Rightarrow> string \<times> (int \<times> string \<times> string) list option" where
  "component_key c \<equiv> (c_Name c, map_option (\<lambda>r. map cmd_key (Commands r)) (RunSynchronous c))"

lemma setting_cmds_cong:
  assumes "map component_key (Components s) = map component_key (Components s')"
  shows "map cmd_key (setting_cmds s) = map cmd_key (setting_cmds s')"
proof -
  have ix: "index_where is_deployment (Components s) = index_where is_deployment (Components s')"
    by (rule index_where_cong [OF assms, where Q = "\<lambda>(n, _). EqualFold (TrimSpace n) DeploymentComponent"])
      (simp add: is_deployment_def)
  show ?thesis
  proof (cases "index_where is_deployment (Components s)")
    case None
    with ix show ?thesis by (simp add: setting_cmds_def)
  next
    case (Some i)
    with ix have Some': "index_where is_deployment (Components s') = Some i" by simp
    have "i < length (Components s)" "i < length (Components s')"
      using index_where_Some [OF Some] index_where_Some [OF Some'] by blast+
    then have "component_key (Components s ! i) = component_key (Components s' ! i)"
      using arg_cong [OF assms, of "\<lambda>l. l ! i"] by (simp only: nth_map)
    with Some Some' show ?thesis
      by (auto simp: setting_cmds_def component_cmds_def split: option.splits)
  qed
qed

lemma specialize_cmds_cong:
  assumes "skeleton doc = skeleton doc'"
  shows "map cmd_key (specialize_cmds doc) = map cmd_key (specialize_cmds doc')"
proof -
  let ?f = "\<lambda>s. (Pass s, map component_key (Components s))"
  have m: "map ?f (Settings doc) = map ?f (Settings doc')" using assms by (simp add: skeleton_def)
  have ix: "index_where (pass_is ''specialize'') (Settings doc) = index_where (pass_is ''specialize'') (Settings doc')"
    by (rule index_where_cong [OF m, where Q = "\<lambda>(n, _). EqualFold (TrimSpace n) ''specialize''"])
      (simp add: pass_is_def)
  show ?thesis
  proof (cases "index_where (pass_is ''specialize'') (Settings doc)")
    case None
    with ix show ?thesis by (simp add: specialize_cmds_def)
  next
    case (Some i)
    with ix have Some': "index_where (pass_is ''specialize'') (Settings doc') = Some i" by simp
    have "i < length (Settings doc)" "i < length (Settings doc')"
      using index_where_Some [OF Some] index_where_Some [OF Some'] by blast+
    then have "?f (Settings doc ! i) = ?f (Settings doc' ! i)"
      using arg_cong [OF m, of "\<lambda>l. l ! i"] by (simp only: nth_map)
    then have "map component_key (Components (Settings doc ! i)) = map component_key (Components (Settings doc' ! i))"
      by (simp only: prod.inject)
    from setting_cmds_cong [OF this] show ?thesis
      by (simp only: specialize_cmds_def Some Some' option.case)
  qed
qed

lemma is_bootstrap_cong: "map cmd_key cs = map cmd_key cs' \<Longrightarrow> list_ex is_bootstrap cs = list_ex is_bootstrap cs'"
proof -
  assume m: "map cmd_key cs = map cmd_key cs'"
  have "is_bootstrap c = (\<lambda>(_, d, p). EqualFold (TrimSpace d) managedDescription
      \<or> Contains (ToLower p) (ToLower windowsBootstrapPath)) (cmd_key c)" for c
    by (simp add: is_bootstrap_def)
  then have "list_ex is_bootstrap cs = list_ex (\<lambda>(_, d, p). EqualFold (TrimSpace d) managedDescription
      \<or> Contains (ToLower p) (ToLower windowsBootstrapPath)) (map cmd_key cs)" for cs
    by (induction cs) auto
  with m show ?thesis by simp
qed

lemma ensure_no_change: "list_ex is_bootstrap (specialize_cmds doc) \<Longrightarrow> \<not> snd (ensureBootstrapCommand doc)"
  using ensureBootstrapCommand_cmds [of doc] by (simp add: add_bootstrap_def)

lemma map_list_update_same: "i < length xs \<Longrightarrow> f y = f (xs ! i) \<Longrightarrow> map f (xs[i := y]) = map f xs"
  by (metis list_update_id map_update)

lemma ensure_skeleton:
  assumes "list_ex is_bootstrap (specialize_cmds doc)"
  shows "skeleton (fst (ensureBootstrapCommand doc)) = skeleton doc"
proof -
  from assms have ne: "specialize_cmds doc \<noteq> []" by auto
  then obtain si where si: "index_where (pass_is ''specialize'') (Settings doc) = Some si"
    by (auto simp: specialize_cmds_def split: option.splits)
  let ?s = "Settings doc ! si"
  from ne si obtain ci where ci: "index_where is_deployment (Components ?s) = Some ci"
    by (auto simp: specialize_cmds_def setting_cmds_def split: option.splits)
  let ?c = "Components ?s ! ci"
  from ne si ci obtain r where r: "RunSynchronous ?c = Some r" and cmds: "specialize_cmds doc = Commands r"
    by (auto simp: specialize_cmds_def setting_cmds_def component_cmds_def split: option.splits)
  let ?c' = "(ensureComponentAttrs ?c)\<lparr>RunSynchronous := Some \<lparr>Commands = Commands r\<rparr>\<rparr>"
  have lens: "si < length (Settings doc)" "ci < length (Components ?s)"
    using index_where_Some [OF si] index_where_Some [OF ci] by blast+
  have ra: "RunSynchronous (ensureComponentAttrs ?c) = Some r" by (simp add: ensureComponentAttrs_def r)
  have "add_bootstrap (Commands r) = (Commands r, False)" using assms cmds by (simp add: add_bootstrap_def)
  then have "fst (ensureBootstrapCommand doc)
      = doc\<lparr>Settings := (Settings doc)[si := ?s\<lparr>Components := (Components ?s)[ci := ?c']\<rparr>]\<rparr>"
    using lens by (simp add: ensureBootstrapCommand_def ensureSetting_def si ensureDeploymentComponent_def ci ra)
  moreover have "component_key ?c' = component_key ?c" using r by (simp add: ensureComponentAttrs_def)
  then have "map component_key ((Components ?s)[ci := ?c']) = map component_key (Components ?s)"
    by (rule map_list_update_same [OF lens(2)])
  then have "map (\<lambda>s. (Pass s, map component_key (Components s))) ((Settings doc)[si := ?s\<lparr>Components := (Components ?s)[ci := ?c']\<rparr>])
      = map (\<lambda>s. (Pass s, map component_key (Components s))) (Settings doc)"
    by (intro map_list_update_same [OF lens(1)]) simp
  ultimately show ?thesis by (simp add: skeleton_def)
qed

text \<open>
  Under the round-trip law of the XML library, merging into a merged answer file
  reports no change: a controller that writes when there is a change writes once.
\<close>
theorem sysprep_Merge_stable:
  assumes law: "xml_law X" and m: "sysprep_Merge X s = Inr (out, ch)"
  shows "\<exists>out'. sysprep_Merge X out = Inr (out', False)"
proof -
  from m obtain doc where p: "parse X s = Inr doc" and r: "render X (fst (ensureBootstrapCommand doc)) = Inr out"
    by (auto simp: sysprep_Merge_def split: sum.splits prod.splits)
  let ?D = "fst (ensureBootstrapCommand doc)"
  from r obtain d where d: "xml_encode X ?D = Inr d" "xml_flush X ?D = Inr ()" and out: "out = xml_Header @ d"
    by (auto simp: render_def split: sum.splits)
  from law d obtain doc' where un: "xml_unmarshal X (TrimSpace (xml_Header @ d)) = Inr doc'"
    and sk: "skeleton doc' = skeleton ?D"
    and wr: "\<And>x. skeleton x = skeleton ?D \<Longrightarrow> \<exists>d'. xml_encode X x = Inr d' \<and> xml_flush X x = Inr ()"
    unfolding xml_law_def by blast
  have "TrimSpace out \<noteq> ''''"
    by (simp add: out TrimSpace_def xml_Header_def is_space_def dropWhile_append)
  with un out obtain doc2 where p2: "parse X out = Inr doc2" and sk2: "skeleton doc2 = skeleton ?D"
    using sk by (auto simp: parse_def Let_def skeleton_def)
  have "list_ex is_bootstrap (specialize_cmds ?D)"
    using ensureBootstrapCommand_cmds [of doc] bc.ensured by simp
  then have "list_ex is_bootstrap (specialize_cmds doc2)"
    using is_bootstrap_cong [OF specialize_cmds_cong [OF sk2]] by simp
  then have nc: "\<not> snd (ensureBootstrapCommand doc2)" and "skeleton (fst (ensureBootstrapCommand doc2)) = skeleton ?D"
    using ensure_no_change ensure_skeleton sk2 by simp_all
  from wr [OF this(2)] obtain d2 where "render X (fst (ensureBootstrapCommand doc2)) = Inr (xml_Header @ d2)"
    by (auto simp: render_def)
  with p2 nc show ?thesis by (cases "ensureBootstrapCommand doc2") (simp add: sysprep_Merge_def)
qed

lemma merge_data_frame:
  assumes "(case find_key ps acc m of None \<Rightarrow> Inl e0
     | Some key \<Rightarrow> (case sysprep_Merge X (mget (Some m) key) of
         Inl e \<Rightarrow> Inl e
       | Inr (merged, changed) \<Rightarrow>
           if \<not> changed then Inr (m, key, False) else Inr (fmupd key merged m, key, True))) = Inr (m', key, ch)"
  shows "find_key ps acc m = Some key \<and> (\<forall>k. k \<noteq> key \<longrightarrow> fmlookup m' k = fmlookup m k) \<and> (\<not> ch \<longrightarrow> m' = m)
    \<and> (ch \<longrightarrow> sysprep_Merge X (mget (Some m) key) = Inr (mget (Some m') key, True))"
  using assms by (auto split: option.splits sum.splits prod.splits if_splits)

text \<open>
  Merging into a sysprep ConfigMap or Secret touches one entry of its data, an existing
  answer file, and only when the merge reports a change; the key is \<open>Autounattend.xml\<close> or
  \<open>Unattend.xml\<close> when there is one, else the least accepted name.
\<close>
theorem MergeMapData_frame:
  assumes "MergeMapData X (Some m) = Inr (m', key, ch)"
  shows "fmlookup m key \<noteq> None \<and> (\<forall>k. k \<noteq> key \<longrightarrow> fmlookup m' k = fmlookup m k) \<and> (\<not> ch \<longrightarrow> m' = m)
    \<and> (ch \<longrightarrow> sysprep_Merge X (mget (Some m) key) = Inr (mget (Some m') key, True))
    \<and> (key \<notin> set preferredKeys \<longrightarrow> (\<forall>k. fmlookup m k \<noteq> None \<longrightarrow> k \<notin> set preferredKeys \<and> (answer_key k \<longrightarrow> key \<le> k)))"
proof -
  from assms have key: "findAnswerFileKeyString m = Some key" and rest: "(\<forall>k. k \<noteq> key \<longrightarrow> fmlookup m' k = fmlookup m k) \<and> (\<not> ch \<longrightarrow> m' = m)
    \<and> (ch \<longrightarrow> sysprep_Merge X (mget (Some m) key) = Inr (mget (Some m') key, True))"
    unfolding MergeMapData_def findAnswerFileKeyString_def option.case by (blast dest: merge_data_frame)+
  with sk.found_in_map [OF key] sk.preferred_first [OF key] sk.least_accepted [OF key] show ?thesis by blast
qed

text \<open>The two searches and the two merges, over text and over bytes, agree.\<close>
theorem MergeByteData_MergeMapData:
  "(case MergeByteData X data of Inr r \<Rightarrow> MergeMapData X data = Inr r
     | Inl e \<Rightarrow> (\<exists>e'. MergeMapData X data = Inl e' \<and> (data \<noteq> None \<longrightarrow> e' = e)))"
  by (auto simp: MergeMapData_def MergeByteData_def findAnswerFileKeyString_def findAnswerFileKeyBytes_def
      split: option.splits sum.splits prod.splits)

text \<open>Witnesses: an XML library that writes one document and reads it back.\<close>

definition sysprep_doc :: Unattend where
  "sysprep_doc = fst (ensureBootstrapCommand empty_unattend)"

definition single_xml :: "Unattend \<Rightarrow> string \<Rightarrow> xml_codec" where
  "single_xml doc t = \<lparr>xml_unmarshal = (\<lambda>s. if s = TrimSpace (xml_Header @ t) then Inr doc else Inl (Errorf ''xml'')),
     xml_encode = (\<lambda>x. if skeleton x = skeleton doc then Inr t else Inl (Errorf ''xml'')),
     xml_flush = (\<lambda>_. Inr ())\<rparr>"

lemma single_xml_law: "xml_law (single_xml doc t)"
  by (simp add: xml_law_def single_xml_def)

lemma no_settings_cmds: "specialize_cmds empty_unattend = []"
  by (simp add: specialize_cmds_def empty_unattend_def)

lemma blank_merge: "sysprep_Merge (single_xml sysprep_doc ''<unattend/>'') '''' = Inr (xml_Header @ ''<unattend/>'', True)"
proof -
  have "snd (ensureBootstrapCommand empty_unattend)"
    using ensureBootstrapCommand_cmds [of empty_unattend] by (simp add: no_settings_cmds add_bootstrap_def)
  then have "ensureBootstrapCommand empty_unattend = (sysprep_doc, True)" by (simp add: sysprep_doc_def prod_eq_iff)
  moreover have "TrimSpace '''' = ''''" by (simp add: TrimSpace_def)
  ultimately show ?thesis by (simp add: sysprep_Merge_def parse_def render_def single_xml_def)
qed

theorem ensureBootstrapCommand_appends_witness:
  "list_ex is_bootstrap (specialize_cmds sysprep_doc)"
  using ensureBootstrapCommand_appends [of empty_unattend "fst (ensureBootstrapCommand empty_unattend)"
      "snd (ensureBootstrapCommand empty_unattend)"]
  by (simp add: no_settings_cmds sysprep_doc_def)

definition oobe_doc :: Unattend where
  "oobe_doc = empty_unattend\<lparr>Settings := [\<lparr>Pass = ''oobeSystem'', Components = []\<rparr>]\<rparr>"

theorem ensureBootstrapCommand_frame_witness:
  "Settings (fst (ensureBootstrapCommand oobe_doc)) ! 0 = \<lparr>Pass = ''oobeSystem'', Components = []\<rparr>"
proof -
  have "index_where (pass_is ''specialize'') (Settings oobe_doc) = None"
    by (simp add: oobe_doc_def pass_is_def EqualFold_def ToLower_def lower_char_def TrimSpace_def is_space_def)
  then show ?thesis
    using ensureBootstrapCommand_frame [of oobe_doc "fst (ensureBootstrapCommand oobe_doc)"
        "snd (ensureBootstrapCommand oobe_doc)" 0]
    by (simp add: oobe_doc_def)
qed

theorem sysprep_Merge_stable_witness:
  "\<exists>out'. sysprep_Merge (single_xml sysprep_doc ''<unattend/>'') (xml_Header @ ''<unattend/>'') = Inr (out', False)"
  by (rule sysprep_Merge_stable [OF single_xml_law blank_merge])

theorem MergeMapData_frame_witness:
  "fmlookup (fmupd ''Unattend.xml'' '''' (fmupd ''notes'' ''x'' fmempty)) ''Unattend.xml'' \<noteq> None"
proof -
  let ?m = "fmupd ''Unattend.xml'' '''' (fmupd ''notes'' ''x'' fmempty) :: smap"
  have "MergeMapData (single_xml sysprep_doc ''<unattend/>'') (Some ?m)
      = Inr (fmupd ''Unattend.xml'' (xml_Header @ ''<unattend/>'') ?m, ''Unattend.xml'', True)"
    by (simp add: MergeMapData_def findAnswerFileKeyString_def find_key_def preferredKeys_def blank_merge)
  from MergeMapData_frame [OF this] show ?thesis by blast
qed

end
