(* ===== verification/AlloyConfig.thy ===== *)
theory AlloyConfig imports Kube begin

text \<open>
  \<open>internal/alloyconfig/alloyconfig.go\<close>: the Grafana Alloy configuration of a guest. Values
  are put into it with \<open>%q\<close>, Go's quoting: on ASCII bytes it is written out here; a maximal
  run of other bytes is quoted by the function \<open>uni\<close>, which stands for the Unicode tables
  of the package strconv.
\<close>

section \<open>Go string literals\<close>

definition is_ascii :: "char \<Rightarrow> bool" where
  "is_ascii c \<longleftrightarrow> (of_char c :: nat) < 128"

definition hex_digit :: "nat \<Rightarrow> char" where
  "hex_digit n = ''0123456789abcdef'' ! n"

definition dquote :: char where
  "dquote = CHR 0x22"

definition backslash :: char where
  "backslash = CHR 0x5C"

definition escapes :: "(char \<times> char) list" where
  "escapes = [(dquote, dquote), (backslash, backslash), (CHR 0x07, CHR ''a''), (CHR 0x08, CHR ''b''),
     (CHR 0x0C, CHR ''f''), (CHR 0x0A, CHR ''n''), (CHR 0x0D, CHR ''r''), (CHR 0x09, CHR ''t''),
     (CHR 0x0B, CHR ''v'')]"

definition quote_char :: "char \<Rightarrow> string" where
  "quote_char c = (case map_of escapes c of
     Some e \<Rightarrow> [backslash, e]
   | None \<Rightarrow>
       if (of_char c :: nat) < 32 \<or> (of_char c :: nat) = 127
       then [backslash, CHR ''x'', hex_digit (of_char c div 16), hex_digit (of_char c mod 16)]
       else [c])"

function quote_body :: "(string \<Rightarrow> string) \<Rightarrow> string \<Rightarrow> string" where
  "quote_body uni [] = []"
| "quote_body uni (c # cs) =
     (if is_ascii c then quote_char c @ quote_body uni cs
      else uni (c # takeWhile (\<lambda>c. \<not> is_ascii c) cs) @ quote_body uni (dropWhile (\<lambda>c. \<not> is_ascii c) cs))"
  by pat_completeness auto
termination
  by (relation "measure (\<lambda>(_, s). length s)") (auto simp: le_imp_less_Suc length_dropWhile_le)

definition Quote :: "(string \<Rightarrow> string) \<Rightarrow> string \<Rightarrow> string" where
  "Quote uni s = dquote # quote_body uni s @ [dquote]"

section \<open>The configurations\<close>

record VMLogConfig =
  lc_Namespace :: string
  VMName :: string
  Token :: string
  LokiURL :: string

definition Validate :: "VMLogConfig \<Rightarrow> unit go" where
  "Validate c =
     (if TrimSpace (lc_Namespace c) = '''' then Inl (Errorf ''namespace is required'')
      else if TrimSpace (VMName c) = '''' then Inl (Errorf ''vm name is required'')
      else if TrimSpace (Token c) = '''' then Inl (Errorf ''loki token is required'')
      else if TrimSpace (LokiURL c) = '''' then Inl (Errorf ''loki url is required'')
      else Inr ())"

definition RenderLinux_lines :: "(string \<Rightarrow> string) \<Rightarrow> VMLogConfig \<Rightarrow> string list" where
  \<open>RenderLinux_lines uni c = [''logging {'',
     ''  level  = "info"'',
     ''  format = "logfmt"'',
     ''}'',
     '''',
     ''local.file "loki_token" {'',
     ''  filename  = "/etc/alloy/secrets/loki.token"'',
     ''  is_secret = true'',
     ''}'',
     '''',
     ''loki.write "ocp_loki" {'',
     ''  endpoint {'',
     ''    url          = '' @ Quote uni (LokiURL c),
     ''    bearer_token = local.file.loki_token.content'',
     '''',
     ''    tls_config {'',
     ''      insecure_skip_verify = true'',
     ''    }'',
     ''  }'',
     ''}'',
     '''',
     ''local.file_match "linux_logs" {'',
     ''  path_targets = ['',
     ''    {'',
     ''      "__path__" = "/var/log/messages",'',
     ''      "filename" = "/var/log/messages",'',
     ''      "log_file" = "messages",'',
     ''    },'',
     ''    {'',
     ''      "__path__" = "/var/log/secure",'',
     ''      "filename" = "/var/log/secure",'',
     ''      "log_file" = "secure",'',
     ''    },'',
     ''    {'',
     ''      "__path__" = "/var/log/syslog",'',
     ''      "filename" = "/var/log/syslog",'',
     ''      "log_file" = "syslog",'',
     ''    },'',
     ''  ]'',
     ''}'',
     '''',
     ''loki.process "linux_syslog" {'',
     ''  forward_to = [loki.write.ocp_loki.receiver]'',
     '''',
     ''  stage.static_labels {'',
     ''    values = {'',
     ''      log_type                  = "application",'',
     ''      openshift_log_type        = "application",'',
     ''      kubernetes_namespace_name = '' @ Quote uni (lc_Namespace c) @ '','',
     ''      namespace                 = '' @ Quote uni (lc_Namespace c) @ '','',
     ''      os                        = "linux",'',
     ''      vm_name                   = '' @ Quote uni (VMName c) @ '','',
     ''      source                    = "linux_syslog",'',
     ''    }'',
     ''  }'',
     ''}'',
     '''',
     ''loki.source.file "linux_files" {'',
     ''  targets    = local.file_match.linux_logs.targets'',
     ''  forward_to = [loki.process.linux_syslog.receiver]'',
     ''}'']\<close>

definition RenderLinux :: "(string \<Rightarrow> string) \<Rightarrow> VMLogConfig \<Rightarrow> string" where
  "RenderLinux uni c = unlines (RenderLinux_lines uni c)"

definition RenderWindows_lines :: "(string \<Rightarrow> string) \<Rightarrow> VMLogConfig \<Rightarrow> string list" where
  \<open>RenderWindows_lines uni c = [''logging {'',
     ''  level  = "info"'',
     ''  format = "logfmt"'',
     ''}'',
     '''',
     ''local.file "loki_token" {'',
     ''  filename  = "C:'' @ bslash @ bslash @ ''ProgramData'' @ bslash @ bslash @ ''GrafanaLabs'' @ bslash @ bslash @ ''Alloy'' @ bslash @ bslash @ ''secrets'' @ bslash @ bslash @ ''loki.token"'',
     ''  is_secret = true'',
     ''}'',
     '''',
     ''loki.write "ocp_loki" {'',
     ''  endpoint {'',
     ''    url          = '' @ Quote uni (LokiURL c),
     ''    bearer_token = local.file.loki_token.content'',
     '''',
     ''    tls_config {'',
     ''      insecure_skip_verify = true'',
     ''    }'',
     ''  }'',
     ''}'',
     '''',
     ''loki.process "windows_eventlog" {'',
     ''  forward_to = [loki.write.ocp_loki.receiver]'',
     '''',
     ''  stage.static_labels {'',
     ''    values = {'',
     ''      log_type                  = "application",'',
     ''      openshift_log_type        = "application",'',
     ''      kubernetes_namespace_name = '' @ Quote uni (lc_Namespace c) @ '','',
     ''      namespace                 = '' @ Quote uni (lc_Namespace c) @ '','',
     ''      os                        = "windows",'',
     ''      vm_name                   = '' @ Quote uni (VMName c) @ '','',
     ''      source                    = "windows_eventlog",'',
     ''    }'',
     ''  }'',
     ''}'',
     '''',
     ''loki.source.windowsevent "application" {'',
     ''  eventlog_name          = "Application"'',
     ''  use_incoming_timestamp = true'',
     ''  forward_to             = [loki.process.windows_eventlog.receiver]'',
     '''',
     ''  labels = {'',
     ''    channel = "Application",'',
     ''  }'',
     ''}'',
     '''',
     ''loki.source.windowsevent "system" {'',
     ''  eventlog_name          = "System"'',
     ''  use_incoming_timestamp = true'',
     ''  forward_to             = [loki.process.windows_eventlog.receiver]'',
     '''',
     ''  labels = {'',
     ''    channel = "System",'',
     ''  }'',
     ''}'']\<close>

definition RenderWindows :: "(string \<Rightarrow> string) \<Rightarrow> VMLogConfig \<Rightarrow> string" where
  "RenderWindows uni c = unlines (RenderWindows_lines uni c)"

section \<open>Reading a literal back\<close>

text \<open>
  The reader of a configuration: after the opening quote, up to the first quote that is not
  escaped, within the line.
\<close>

definition hex_value :: "char \<Rightarrow> nat option" where
  "hex_value c = map_of (zip ''0123456789abcdef'' [0..<16]) c"

fun unquote_body :: "string \<Rightarrow> (string \<times> string) option" where
  "unquote_body [] = None"
| "unquote_body (c # cs) =
     (if c = dquote then Some ([], cs)
      else if c = CHR 0x0A then None
      else if c = backslash then
        (case cs of
           [] \<Rightarrow> None
         | e # ds \<Rightarrow>
             if e = CHR ''x'' then
               (case ds of
                  a # b # es \<Rightarrow>
                    (case (hex_value a, hex_value b) of
                       (Some i, Some j) \<Rightarrow> map_option (\<lambda>(s, r). (char_of (16 * i + j) # s, r)) (unquote_body es)
                     | _ \<Rightarrow> None)
                | _ \<Rightarrow> None)
             else case map_of (map prod.swap escapes) e of
                 None \<Rightarrow> None
               | Some d \<Rightarrow> map_option (\<lambda>(s, r). (d # s, r)) (unquote_body ds))
      else map_option (\<lambda>(s, r). (c # s, r)) (unquote_body cs))"

definition Unquote :: "string \<Rightarrow> (string \<times> string) option" where
  "Unquote s = (case s of c # cs \<Rightarrow> if c = dquote then unquote_body cs else None | [] \<Rightarrow> None)"

definition ascii_chars :: "char list" where
  "ascii_chars = map char_of [0..<128::nat]"

lemma in_ascii_chars: "is_ascii c \<Longrightarrow> c \<in> set ascii_chars"
proof -
  assume "is_ascii c"
  then have "(of_char c :: nat) \<in> set [0..<128]" by (simp add: is_ascii_def)
  then have "char_of (of_char c :: nat) \<in> set ascii_chars" unfolding ascii_chars_def by (metis image_eqI image_set)
  then show ?thesis by simp
qed

text \<open>How the reader steps over each quoted character: by evaluation on the 128 of them.\<close>

definition head_step :: "string \<Rightarrow> char option \<times> nat" where
  "head_step s = (case s of
     [c] \<Rightarrow> if c = dquote \<or> c = CHR 0x0A \<or> c = backslash then (None, 0) else (Some c, 1)
   | [b, e] \<Rightarrow> if b = backslash \<and> e \<noteq> CHR ''x'' then (map_of (map prod.swap escapes) e, 2) else (None, 0)
   | [b, x, i, j] \<Rightarrow> if b = backslash \<and> x = CHR ''x'' then
       (case (hex_value i, hex_value j) of (Some i, Some j) \<Rightarrow> (Some (char_of (16 * i + j)), 4) | _ \<Rightarrow> (None, 0))
       else (None, 0)
   | _ \<Rightarrow> (None, 0))"

lemma head_step_all: "list_all (\<lambda>c. fst (head_step (quote_char c)) = Some c) ascii_chars"
  by code_simp

declare unquote_body.simps [simp del]

lemma backslash_neq [simp]: "backslash \<noteq> dquote" "backslash \<noteq> CHR 0x0A" "dquote \<noteq> backslash"
  by (simp_all add: backslash_def dquote_def)

lemma unquote_step:
  assumes "fst (head_step q) = Some c"
  shows "unquote_body (q @ t) = map_option (\<lambda>(s, r). (c # s, r)) (unquote_body t)"
proof -
  consider (one) "q = [c]" "c \<noteq> dquote" "c \<noteq> CHR 0x0A" "c \<noteq> backslash"
    | (two) e where "q = [backslash, e]" "e \<noteq> CHR ''x''" "map_of (map prod.swap escapes) e = Some c"
    | (hex) i j a b where "q = [backslash, CHR ''x'', i, j]" "hex_value i = Some a" "hex_value j = Some b"
        "c = char_of (16 * a + b)"
    using assms unfolding head_step_def by (auto split: list.split_asm if_split_asm option.split_asm)
  then show ?thesis
  proof cases
    case one
    then show ?thesis by (simp add: unquote_body.simps(2))
  next
    case two
    then show ?thesis by (simp add: unquote_body.simps(2))
  next
    case hex
    then show ?thesis by (simp add: unquote_body.simps(2))
  qed
qed

lemma unquote_quote_body:
  "list_all is_ascii s \<Longrightarrow> unquote_body (quote_body uni s @ dquote # t) = Some (s, t)"
proof (induction s)
  case (Cons c s)
  then have "fst (head_step (quote_char c)) = Some c"
    using head_step_all in_ascii_chars by (auto simp: list_all_iff)
  with Cons show ?case by (simp add: unquote_step)
qed (simp add: unquote_body.simps)

lemma Unquote_Quote: "list_all is_ascii s \<Longrightarrow> Unquote (Quote uni s @ t) = Some (s, t)"
  by (simp add: Unquote_def Quote_def unquote_quote_body)

lemma Quote_inj:
  assumes "list_all is_ascii a" "list_all is_ascii b" "Quote uni a @ s = Quote uni b @ t"
  shows "a = b \<and> s = t"
proof -
  have "Some (a, s) = Some (b, t)"
    using arg_cong [OF assms(3), of Unquote]
    by (simp only: Unquote_Quote [OF assms(1)] Unquote_Quote [OF assms(2)])
  then show ?thesis by simp
qed

text \<open>No quoted value adds a line.\<close>

definition lines_in :: "string \<Rightarrow> nat" where
  "lines_in s = length (filter (\<lambda>c. c = CHR 0x0A) s)"

lemma lines_in_append [simp]: "lines_in (a @ b) = lines_in a + lines_in b"
  by (simp add: lines_in_def)

lemma quote_char_lines: "list_all (\<lambda>c. lines_in (quote_char c) = 0) ascii_chars"
  by code_simp

lemma lines_in_Quote: "list_all is_ascii s \<Longrightarrow> lines_in (Quote uni s) = 0"
proof -
  have "lines_in (quote_body uni s) = 0" if "list_all is_ascii s"
    using that
  proof (induction s)
    case (Cons c s)
    then show ?case using quote_char_lines in_ascii_chars by (auto simp: list_all_iff)
  qed (simp add: lines_in_def)
  moreover assume "list_all is_ascii s"
  ultimately show ?thesis by (simp add: Quote_def lines_in_def dquote_def)
qed

definition ascii_config :: "VMLogConfig \<Rightarrow> bool" where
  "ascii_config c \<longleftrightarrow> list_all is_ascii (LokiURL c) \<and> list_all is_ascii (lc_Namespace c) \<and> list_all is_ascii (VMName c)"

text \<open>Both configurations are four quoted values between fixed texts.\<close>

definition four_slots :: "(string \<Rightarrow> string) \<Rightarrow> string list \<Rightarrow> VMLogConfig \<Rightarrow> string" where
  "four_slots uni ts c = ts ! 0 @ Quote uni (LokiURL c) @ ts ! 1 @ Quote uni (lc_Namespace c) @
     ts ! 2 @ Quote uni (lc_Namespace c) @ ts ! 3 @ Quote uni (VMName c) @ ts ! 4"

lemma four_slots_inj:
  assumes "ascii_config c" "ascii_config c'" "four_slots uni ts c = four_slots uni ts c'"
  shows "c' = c\<lparr>Token := Token c'\<rparr>"
proof -
  let ?u = "Quote uni (LokiURL c)" and ?n = "Quote uni (lc_Namespace c)" and ?v = "Quote uni (VMName c)"
  let ?u' = "Quote uni (LokiURL c')" and ?n' = "Quote uni (lc_Namespace c')" and ?v' = "Quote uni (VMName c')"
  note a = assms(1) [unfolded ascii_config_def] assms(2) [unfolded ascii_config_def]
  from assms(3) have 1: "?u @ ts ! 1 @ ?n @ ts ! 2 @ ?n @ ts ! 3 @ ?v @ ts ! 4
      = ?u' @ ts ! 1 @ ?n' @ ts ! 2 @ ?n' @ ts ! 3 @ ?v' @ ts ! 4"
    unfolding four_slots_def by (simp only: same_append_eq)
  from Quote_inj [OF _ _ 1] a have u: "LokiURL c = LokiURL c'"
    and 2: "?n @ ts ! 2 @ ?n @ ts ! 3 @ ?v @ ts ! 4 = ?n' @ ts ! 2 @ ?n' @ ts ! 3 @ ?v' @ ts ! 4"
    by (simp_all only: same_append_eq)
  from Quote_inj [OF _ _ 2] a have n: "lc_Namespace c = lc_Namespace c'"
    and 3: "ts ! 2 @ ?n @ ts ! 3 @ ?v @ ts ! 4 = ts ! 2 @ ?n' @ ts ! 3 @ ?v' @ ts ! 4"
    by blast+
  from 3 n have "?v @ ts ! 4 = ?v' @ ts ! 4" by (simp only: same_append_eq)
  from Quote_inj [OF _ _ this] a have "VMName c = VMName c'" by blast
  with u n show ?thesis by simp
qed

lemma four_slots_lines:
  "ascii_config c \<Longrightarrow> length ts = 5 \<Longrightarrow> lines_in (four_slots uni ts c) = sum_list (map lines_in ts)"
  by (cases ts; cases "tl ts"; cases "tl (tl ts)"; cases "tl (tl (tl ts))"; cases "tl (tl (tl (tl ts)))")
    (auto simp: four_slots_def ascii_config_def lines_in_Quote)

text \<open>The fixed texts between the four values.\<close>

definition linux_texts :: "string list" where
  \<open>linux_texts = [unlines
    [''logging {'',
     ''  level  = "info"'',
     ''  format = "logfmt"'',
     ''}'',
     '''',
     ''local.file "loki_token" {'',
     ''  filename  = "/etc/alloy/secrets/loki.token"'',
     ''  is_secret = true'',
     ''}'',
     '''',
     ''loki.write "ocp_loki" {'',
     ''  endpoint {''] @
    ''    url          = '',
     unlines
    ['''',
     ''    bearer_token = local.file.loki_token.content'',
     '''',
     ''    tls_config {'',
     ''      insecure_skip_verify = true'',
     ''    }'',
     ''  }'',
     ''}'',
     '''',
     ''local.file_match "linux_logs" {'',
     ''  path_targets = ['',
     ''    {'',
     ''      "__path__" = "/var/log/messages",'',
     ''      "filename" = "/var/log/messages",'',
     ''      "log_file" = "messages",'',
     ''    },'',
     ''    {'',
     ''      "__path__" = "/var/log/secure",'',
     ''      "filename" = "/var/log/secure",'',
     ''      "log_file" = "secure",'',
     ''    },'',
     ''    {'',
     ''      "__path__" = "/var/log/syslog",'',
     ''      "filename" = "/var/log/syslog",'',
     ''      "log_file" = "syslog",'',
     ''    },'',
     ''  ]'',
     ''}'',
     '''',
     ''loki.process "linux_syslog" {'',
     ''  forward_to = [loki.write.ocp_loki.receiver]'',
     '''',
     ''  stage.static_labels {'',
     ''    values = {'',
     ''      log_type                  = "application",'',
     ''      openshift_log_type        = "application",''] @
    ''      kubernetes_namespace_name = '',
     unlines
    ['',''] @
    ''      namespace                 = '',
     unlines
    ['','',
     ''      os                        = "linux",''] @
    ''      vm_name                   = '',
     unlines
    ['','',
     ''      source                    = "linux_syslog",'',
     ''    }'',
     ''  }'',
     ''}'',
     '''',
     ''loki.source.file "linux_files" {'',
     ''  targets    = local.file_match.linux_logs.targets'',
     ''  forward_to = [loki.process.linux_syslog.receiver]'',
     ''}'']]\<close>

definition windows_texts :: "string list" where
  \<open>windows_texts = [unlines
    [''logging {'',
     ''  level  = "info"'',
     ''  format = "logfmt"'',
     ''}'',
     '''',
     ''local.file "loki_token" {'',
     ''  filename  = "C:'' @ bslash @ bslash @ ''ProgramData'' @ bslash @ bslash @ ''GrafanaLabs'' @ bslash @ bslash @ ''Alloy'' @ bslash @ bslash @ ''secrets'' @ bslash @ bslash @ ''loki.token"'',
     ''  is_secret = true'',
     ''}'',
     '''',
     ''loki.write "ocp_loki" {'',
     ''  endpoint {''] @
    ''    url          = '',
     unlines
    ['''',
     ''    bearer_token = local.file.loki_token.content'',
     '''',
     ''    tls_config {'',
     ''      insecure_skip_verify = true'',
     ''    }'',
     ''  }'',
     ''}'',
     '''',
     ''loki.process "windows_eventlog" {'',
     ''  forward_to = [loki.write.ocp_loki.receiver]'',
     '''',
     ''  stage.static_labels {'',
     ''    values = {'',
     ''      log_type                  = "application",'',
     ''      openshift_log_type        = "application",''] @
    ''      kubernetes_namespace_name = '',
     unlines
    ['',''] @
    ''      namespace                 = '',
     unlines
    ['','',
     ''      os                        = "windows",''] @
    ''      vm_name                   = '',
     unlines
    ['','',
     ''      source                    = "windows_eventlog",'',
     ''    }'',
     ''  }'',
     ''}'',
     '''',
     ''loki.source.windowsevent "application" {'',
     ''  eventlog_name          = "Application"'',
     ''  use_incoming_timestamp = true'',
     ''  forward_to             = [loki.process.windows_eventlog.receiver]'',
     '''',
     ''  labels = {'',
     ''    channel = "Application",'',
     ''  }'',
     ''}'',
     '''',
     ''loki.source.windowsevent "system" {'',
     ''  eventlog_name          = "System"'',
     ''  use_incoming_timestamp = true'',
     ''  forward_to             = [loki.process.windows_eventlog.receiver]'',
     '''',
     ''  labels = {'',
     ''    channel = "System",'',
     ''  }'',
     ''}'']]\<close>

lemma Render_slots:
  "RenderLinux uni c = four_slots uni linux_texts c" "RenderWindows uni c = four_slots uni windows_texts c"
  by (simp_all add: RenderLinux_def RenderLinux_lines_def RenderWindows_def RenderWindows_lines_def four_slots_def
      linux_texts_def windows_texts_def unlines_def newline_def)

lemma texts_lines:
  "sum_list (map lines_in linux_texts) = 61" "sum_list (map lines_in windows_texts) = 56"
  by code_simp+

text \<open>
  The Linux configuration says exactly which VM it is of: from the text alone, each
  value can be read back by a reader of string literals, so two configurations with the
  same text have the same URL, namespace and VM name (and the token is not in it); and no
  value, whatever quotes, backslashes or newlines it holds, changes the lines of the text.
\<close>
theorem RenderLinux_sound:
  assumes "ascii_config c"
  shows "lines_in (RenderLinux uni c) = 61
    \<and> (ascii_config c' \<and> RenderLinux uni c = RenderLinux uni c' \<longrightarrow> c' = c\<lparr>Token := Token c'\<rparr>)"
  using assms four_slots_lines [OF assms, of linux_texts uni] four_slots_inj [OF assms, of c' uni linux_texts] texts_lines
  by (simp add: Render_slots) (simp add: linux_texts_def)

text \<open>The same holds of the Windows configuration.\<close>
theorem RenderWindows_sound:
  assumes "ascii_config c"
  shows "lines_in (RenderWindows uni c) = 56
    \<and> (ascii_config c' \<and> RenderWindows uni c = RenderWindows uni c' \<longrightarrow> c' = c\<lparr>Token := Token c'\<rparr>)"
  using assms four_slots_lines [OF assms, of windows_texts uni] four_slots_inj [OF assms, of c' uni windows_texts] texts_lines
  by (simp add: Render_slots) (simp add: windows_texts_def)

text \<open>A VM name that tries to close its literal and to open a block of its own.\<close>

definition hostile_config :: VMLogConfig where
  "hostile_config = \<lparr>lc_Namespace = ''ns'', VMName = [dquote] @ newline @ ''loki.write'' @ [backslash], Token = ''t'',
     LokiURL = ''https://loki''\<rparr>"

lemma hostile_ascii: "ascii_config hostile_config"
  by code_simp

theorem RenderLinux_sound_witness: "lines_in (RenderLinux (\<lambda>s. s) hostile_config) = 61"
  using RenderLinux_sound [OF hostile_ascii] by blast

theorem RenderWindows_sound_witness: "lines_in (RenderWindows (\<lambda>s. s) hostile_config) = 56"
  using RenderWindows_sound [OF hostile_ascii] by blast

end
