(* ===== verification/GuestScripts.thy ===== *)
theory GuestScripts imports Kube GoBase64 AlloyConfig begin

text \<open>
  The scripts of \<open>internal/remediation\<close> that run in the guests: the exporter installers
  (\<open>linux_script.go\<close>, \<open>windows_script.go\<close>) and the Alloy installers and updater
  (\<open>linux_alloy.go\<close>, \<open>windows_alloy.go\<close>), as functions of the configuration and the token;
  and the shell's reading of a here-document, which decides what the guest gets.
\<close>

section \<open>The scripts\<close>

definition LinuxNodeExporterInstallScript_lines :: "string list" where
  \<open>LinuxNodeExporterInstallScript_lines = [''#!/usr/bin/env bash'',
     ''set -euo pipefail'',
     '''',
     ''MARKER="/var/lib/kubevirt-observability-remediation.done"'',
     '''',
     ''SUDO=""'',
     ''if [ "$(id -u)" -ne 0 ]; then'',
     ''  SUDO="sudo"'',
     ''  sudo -n true || {'',
     ''    echo "passwordless sudo required for remediation" >&2'',
     ''    exit 1'',
     ''  }'',
     ''fi'',
     '''',
     ''$SUDO mkdir -p /var/lib'',
     '''',
     ''if [ -f "${MARKER}" ]; then'',
     ''  exit 0'',
     ''fi'',
     '''',
     ''ARCH="$(uname -m)"'',
     ''case "${ARCH}" in'',
     ''  x86_64) NODE_ARCH="amd64" ;;'',
     ''  aarch64|arm64) NODE_ARCH="arm64" ;;'',
     ''  *) NODE_ARCH="amd64" ;;'',
     ''esac'',
     '''',
     ''if ! command -v node_exporter >/dev/null 2>&1; then'',
     ''  TMP_DIR="$(mktemp -d)"'',
     ''  cd "${TMP_DIR}"'',
     '''',
     ''  VERSION="1.10.2"'',
     ''  curl -fL -o node_exporter.tar.gz '' @ bslash,
     ''    "https://github.com/prometheus/node_exporter/releases/download/v${VERSION}/node_exporter-${VERSION}.linux-${NODE_ARCH}.tar.gz"'',
     '''',
     ''  tar -xzf node_exporter.tar.gz'',
     '''',
     ''  $SUDO install -m 0755 "node_exporter-${VERSION}.linux-${NODE_ARCH}/node_exporter" /usr/local/bin/node_exporter'',
     '''',
     ''  id -u node_exporter >/dev/null 2>&1 || $SUDO useradd --system --no-create-home --shell /usr/sbin/nologin node_exporter || true'',
     '''',
     ''  cat <<'SERVICE' | $SUDO tee /etc/systemd/system/node_exporter.service >/dev/null'',
     ''[Unit]'',
     ''Description=Prometheus Node Exporter'',
     ''Wants=network-online.target'',
     ''After=network-online.target'',
     '''',
     ''[Service]'',
     ''User=node_exporter'',
     ''Group=node_exporter'',
     ''Type=simple'',
     ''ExecStart=/usr/local/bin/node_exporter'',
     '''',
     ''[Install]'',
     ''WantedBy=multi-user.target'',
     ''SERVICE'',
     '''',
     ''  $SUDO systemctl daemon-reload'',
     ''  $SUDO systemctl enable --now node_exporter'',
     ''fi'',
     '''',
     ''$SUDO touch "${MARKER}"'']\<close>

definition LinuxNodeExporterInstallScript :: string where
  "LinuxNodeExporterInstallScript = unlines LinuxNodeExporterInstallScript_lines"

definition WindowsExporterInstallScript_lines :: "string list" where
  \<open>WindowsExporterInstallScript_lines = [''$ErrorActionPreference = "Stop"'',
     '''',
     ''[Net.ServicePointManager]::SecurityProtocol = [Net.SecurityProtocolType]::Tls12'',
     '''',
     ''$workDir = "C:'' @ bslash @ ''ProgramData'' @ bslash @ ''KubeVirtObservability"'',
     ''$installDir = "C:'' @ bslash @ ''Program Files'' @ bslash @ ''windows_exporter"'',
     ''$exe = "$installDir'' @ bslash @ ''windows_exporter.exe"'',
     '''',
     ''New-Item -ItemType Directory -Path $workDir -Force | Out-Null'',
     '''',
     ''$version = "0.31.5"'',
     ''$msi = "windows_exporter-$version-amd64.msi"'',
     ''$url = "https://github.com/prometheus-community/windows_exporter/releases/download/v$version/$msi"'',
     ''$out = "$workDir'' @ bslash @ ''$msi"'',
     '''',
     ''$service = Get-Service windows_exporter -ErrorAction SilentlyContinue'',
     '''',
     ''if (-not $service -or -not (Test-Path $exe)) {'',
     ''    curl.exe -L -f -o $out $url'',
     '''',
     ''    Start-Process -FilePath "msiexec.exe" -ArgumentList @('',
     ''        "/i",'',
     ''        $out,'',
     ''        "ENABLED_COLLECTORS=[defaults],mssql,textfile",'',
     ''        "LISTEN_PORT=9182",'',
     ''        "/qn",'',
     ''        "/norestart"'',
     ''    ) -Wait -NoNewWindow'',
     ''}'',
     '''',
     ''if (-not (Test-Path $exe)) {'',
     ''    throw "windows_exporter executable missing: $exe"'',
     ''}'',
     '''',
     ''if (-not (Get-Service windows_exporter -ErrorAction SilentlyContinue)) {'',
     ''    throw "windows_exporter service was not created"'',
     ''}'',
     '''',
     ''Stop-Service windows_exporter -Force -ErrorAction SilentlyContinue'',
     '''',
     ''# Repair stale services created by older KVO versions.'',
     ''# Older installations may contain removed collectors such as cs.'',
     ''$imagePath = '"' + $exe + '" --collectors.enabled="[defaults],mssql,textfile"'' @ squote,
     '''',
     ''Set-ItemProperty -Path "HKLM:'' @ bslash @ ''SYSTEM'' @ bslash @ ''CurrentControlSet'' @ bslash @ ''Services'' @ bslash @ ''windows_exporter" -Name "ImagePath" -Value $imagePath'',
     '''',
     ''Set-Service windows_exporter -StartupType Automatic'',
     '''',
     ''Start-Sleep -Seconds 2'',
     '''',
     ''Start-Service windows_exporter'',
     '''',
     ''$running = $false'',
     '''',
     ''for ($i = 0; $i -lt 10; $i++) {'',
     ''    Start-Sleep -Seconds 2'',
     '''',
     ''    $service = Get-Service windows_exporter -ErrorAction SilentlyContinue'',
     '''',
     ''    if ($service -and $service.Status -eq "Running") {'',
     ''        $running = $true'',
     ''        break'',
     ''    }'',
     ''}'',
     '''',
     ''if (-not $running) {'',
     ''    $imagePathCurrent = (Get-ItemProperty "HKLM:'' @ bslash @ ''SYSTEM'' @ bslash @ ''CurrentControlSet'' @ bslash @ ''Services'' @ bslash @ ''windows_exporter").ImagePath'',
     ''    Write-Output "windows_exporter ImagePath: $imagePathCurrent"'',
     '''',
     ''    Get-WinEvent -FilterHashtable @'' @ ''{LogName="System"; ProviderName="Service Control Manager"; StartTime=(Get-Date).AddMinutes(-5)} -ErrorAction SilentlyContinue | Select-Object -First 10 TimeCreated,Id,Message | Format-List'',
     '''',
     ''    throw "windows_exporter service failed to stay running"'',
     ''}'',
     '''',
     ''$existingRule = Get-NetFirewallRule -DisplayName "Allow windows_exporter 9182" -ErrorAction SilentlyContinue'',
     '''',
     ''if (-not $existingRule) {'',
     ''    New-NetFirewallRule -DisplayName "Allow windows_exporter 9182" -Direction Inbound -Protocol TCP -LocalPort 9182 -Action Allow | Out-Null'',
     ''}'',
     '''',
     ''curl.exe -f http://127.0.0.1:9182/metrics | Out-Null'',
     '''',
     ''Write-Output "WINDOWS_EXPORTER_READY"'']\<close>

definition WindowsExporterInstallScript :: string where
  "WindowsExporterInstallScript = unlines WindowsExporterInstallScript_lines"

definition token_b64 :: "string \<Rightarrow> string" where
  "token_b64 lokiToken = EncodeToString (TrimSpace lokiToken)"

definition LinuxAlloy_before :: "string \<Rightarrow> string list" where
  \<open>LinuxAlloy_before lokiToken = [''#!/usr/bin/env bash'',
     ''set -euo pipefail'',
     '''',
     ''SUDO=""'',
     ''if [ "$(id -u)" -ne 0 ]; then'',
     ''  SUDO="sudo"'',
     ''  sudo -n true || {'',
     ''    echo "passwordless sudo required for Alloy remediation" >&2'',
     ''    exit 1'',
     ''  }'',
     ''fi'',
     '''',
     ''$SUDO mkdir -p /etc/alloy/secrets /var/lib/alloy'',
     '''',
     ''if ! command -v alloy >/dev/null 2>&1; then'',
     ''  if command -v dnf >/dev/null 2>&1; then'',
     ''    $SUDO rpm --import https://rpm.grafana.com/gpg.key'',
     ''    cat <<'REPO' | $SUDO tee /etc/yum.repos.d/grafana.repo >/dev/null'',
     ''[grafana]'',
     ''name=grafana'',
     ''baseurl=https://rpm.grafana.com'',
     ''repo_gpgcheck=1'',
     ''enabled=1'',
     ''gpgcheck=1'',
     ''gpgkey=https://rpm.grafana.com/gpg.key'',
     ''sslverify=1'',
     ''sslcacert=/etc/pki/tls/certs/ca-bundle.crt'',
     ''REPO'',
     ''    $SUDO dnf install -y alloy'',
     ''  elif command -v yum >/dev/null 2>&1; then'',
     ''    $SUDO rpm --import https://rpm.grafana.com/gpg.key'',
     ''    cat <<'REPO' | $SUDO tee /etc/yum.repos.d/grafana.repo >/dev/null'',
     ''[grafana]'',
     ''name=grafana'',
     ''baseurl=https://rpm.grafana.com'',
     ''repo_gpgcheck=1'',
     ''enabled=1'',
     ''gpgcheck=1'',
     ''gpgkey=https://rpm.grafana.com/gpg.key'',
     ''sslverify=1'',
     ''sslcacert=/etc/pki/tls/certs/ca-bundle.crt'',
     ''REPO'',
     ''    $SUDO yum install -y alloy'',
     ''  elif command -v apt-get >/dev/null 2>&1; then'',
     ''    DEBIAN_FRONTEND=noninteractive $SUDO apt-get update'',
     ''    DEBIAN_FRONTEND=noninteractive $SUDO apt-get install -y gpg curl'',
     ''    curl -fsSL https://apt.grafana.com/gpg.key | gpg --dearmor | $SUDO tee /etc/apt/keyrings/grafana.gpg >/dev/null'',
     ''    echo "deb [signed-by=/etc/apt/keyrings/grafana.gpg] https://apt.grafana.com stable main" | $SUDO tee /etc/apt/sources.list.d/grafana.list >/dev/null'',
     ''    DEBIAN_FRONTEND=noninteractive $SUDO apt-get update'',
     ''    DEBIAN_FRONTEND=noninteractive $SUDO apt-get install -y alloy'',
     ''  else'',
     ''    echo "unsupported Linux package manager for Alloy install" >&2'',
     ''    exit 1'',
     ''  fi'',
     ''fi'',
     ''printf '%s' '' @ squote @ token_b64 lokiToken @ squote @ '' | base64 -d | $SUDO tee /etc/alloy/secrets/loki.token >/dev/null'',
     '''',
     ''if id alloy >/dev/null 2>&1; then'',
     ''  $SUDO chown -R alloy:alloy /etc/alloy/secrets'',
     ''  $SUDO chmod 700 /etc/alloy/secrets'',
     ''  $SUDO chmod 600 /etc/alloy/secrets/loki.token'',
     ''else'',
     ''  $SUDO chmod 600 /etc/alloy/secrets/loki.token'',
     ''fi'',
     '''',
     ''cat <<'ALLOYCFG' | $SUDO tee /etc/alloy/config.alloy >/dev/null'']\<close>

definition LinuxAlloy_after :: "string list" where
  \<open>LinuxAlloy_after = ['''',
     ''ALLOYCFG'',
     '''',
     ''if id alloy >/dev/null 2>&1; then'',
     ''  $SUDO chown alloy:alloy /etc/alloy/config.alloy'',
     ''fi'',
     ''$SUDO chmod 644 /etc/alloy/config.alloy'',
     ''$SUDO mkdir -p /etc/systemd/system/alloy.service.d'',
     ''printf '%s'' @ bslash @ ''n' '[Service]' 'User=root' 'Group=root' | $SUDO tee /etc/systemd/system/alloy.service.d/override.conf >/dev/null'',
     '''',
     ''$SUDO systemctl daemon-reload'',
     ''$SUDO systemctl enable alloy'',
     ''$SUDO systemctl restart alloy'',
     '''',
     ''for i in $(seq 1 20); do'',
     ''  if $SUDO systemctl is-active --quiet alloy; then'',
     ''    exit 0'',
     ''  fi'',
     ''  sleep 1'',
     ''done'',
     '''',
     ''$SUDO systemctl status alloy --no-pager || true'',
     ''exit 1'']\<close>

definition LinuxAlloyInstallScript :: "string \<Rightarrow> string \<Rightarrow> string" where
  "LinuxAlloyInstallScript configAlloy lokiToken =
     unlines (LinuxAlloy_before lokiToken) @ configAlloy @ unlines LinuxAlloy_after"

definition WindowsAlloyInstallScript_lines :: "string \<Rightarrow> string \<Rightarrow> string list" where
  \<open>WindowsAlloyInstallScript_lines configAlloy lokiToken = [''$ErrorActionPreference = "Stop"'',
     '''',
     ''$ConfigB64 = "'' @ EncodeToString configAlloy @ ''"'',
     ''$TokenB64  = "'' @ token_b64 lokiToken @ ''"'',
     '''',
     ''$ConfigPath = "C:'' @ bslash @ ''Program Files'' @ bslash @ ''GrafanaLabs'' @ bslash @ ''Alloy'' @ bslash @ ''config.alloy"'',
     '''',
     ''$SecretDir = "C:'' @ bslash @ ''ProgramData'' @ bslash @ ''GrafanaLabs'' @ bslash @ ''Alloy'' @ bslash @ ''secrets"'',
     ''$TokenPath = Join-Path $SecretDir "loki.token"'',
     '''',
     ''$DataDir = "C:'' @ bslash @ ''ProgramData'' @ bslash @ ''GrafanaLabs'' @ bslash @ ''Alloy'' @ bslash @ ''data"'',
     '''',
     ''$Installer = "C:'' @ bslash @ ''alloy-installer.exe"'',
     '''',
     ''Set-TimeZone -Id "UTC"'',
     '''',
     ''Set-Service w32time -StartupType Automatic'',
     '''',
     ''Start-Service w32time'',
     '''',
     ''try {'',
     ''  w32tm /resync'',
     ''} catch {'',
     ''  Write-Output "time sync retry skipped"'',
     ''}'',
     '''',
     ''[Net.ServicePointManager]::SecurityProtocol = [Net.SecurityProtocolType]::Tls12'',
     '''',
     ''New-NetFirewallRule -DisplayName "Allow HTTPS Outbound" -Direction Outbound -Protocol TCP -RemotePort 443 -Action Allow -ErrorAction SilentlyContinue | Out-Null'',
     '''',
     ''New-NetFirewallRule -DisplayName "Allow DNS Outbound" -Direction Outbound -Protocol UDP -RemotePort 53 -Action Allow -ErrorAction SilentlyContinue | Out-Null'',
     '''',
     ''if (-not (Get-Service Alloy -ErrorAction SilentlyContinue)) {'',
     '''',
     ''  curl.exe -L -o $Installer https://github.com/grafana/alloy/releases/latest/download/alloy-installer-windows-amd64.exe'',
     '''',
     ''  Start-Process -FilePath $Installer -ArgumentList "/S" -Wait -NoNewWindow'',
     ''}'',
     '''',
     ''New-Item -ItemType Directory -Force -Path (Split-Path $ConfigPath) | Out-Null'',
     ''New-Item -ItemType Directory -Force -Path $SecretDir | Out-Null'',
     ''New-Item -ItemType Directory -Force -Path $DataDir | Out-Null'',
     '''',
     ''Remove-Item "C:'' @ bslash @ ''ProgramData'' @ bslash @ ''GrafanaLabs'' @ bslash @ ''Alloy'' @ bslash @ ''data'' @ bslash @ ''*" -Recurse -Force -ErrorAction SilentlyContinue | Out-Null'',
     '''',
     ''New-Item -ItemType Directory -Force  -Path "$DataDir'' @ bslash @ ''loki.source.windowsevent.application" | Out-Null'',
     '''',
     ''New-Item -ItemType Directory -Force -Path "$DataDir'' @ bslash @ ''loki.source.windowsevent.system" | Out-Null'',
     '''',
     ''icacls "$DataDir" /grant "SYSTEM:(OI)(CI)F" /T | Out-Null'',
     '''',
     ''$Config = [System.Text.Encoding]::UTF8.GetString('',
     ''  [System.Convert]::FromBase64String($ConfigB64)'',
     '')'',
     '''',
     ''[System.IO.File]::WriteAllText('',
     ''  $ConfigPath,'',
     ''  $Config,'',
     ''  (New-Object System.Text.UTF8Encoding($false))'',
     '')'',
     '''',
     ''$Token = [System.Text.Encoding]::UTF8.GetString('',
     ''  [System.Convert]::FromBase64String($TokenB64)'',
     '')'',
     '''',
     ''[System.IO.File]::WriteAllText('',
     ''  $TokenPath,'',
     ''  $Token,'',
     ''  (New-Object System.Text.UTF8Encoding($false))'',
     '')'',
     '''',
     '''',
     ''$alloyArgs = @('',
     ''  'run'' @ squote,
     ''  'C:'' @ bslash @ ''Program Files'' @ bslash @ ''GrafanaLabs'' @ bslash @ ''Alloy'' @ bslash @ ''config.alloy'' @ squote,
     ''  '--storage.path=C:'' @ bslash @ ''ProgramData'' @ bslash @ ''GrafanaLabs'' @ bslash @ ''Alloy'' @ bslash @ ''data'' @ squote,
     '')'',
     '''',
     ''Set-ItemProperty -Path 'HKLM:'' @ bslash @ ''SOFTWARE'' @ bslash @ ''GrafanaLabs'' @ bslash @ ''Alloy' -Name 'Arguments' -Value $alloyArgs'',
     '''',
     ''sc.exe config Alloy binPath= "'' @ bslash @ ''"C:'' @ bslash @ ''Program Files'' @ bslash @ ''GrafanaLabs'' @ bslash @ ''Alloy'' @ bslash @ ''alloy-service-windows-amd64.exe'' @ bslash @ ''""'',
     '''',
     '''',
     ''Set-Service -Name Alloy -StartupType Automatic'',
     '''',
     ''Stop-Service Alloy -ErrorAction SilentlyContinue'',
     '''',
     ''Get-Process | Where-Object { $_.ProcessName -like "*alloy*" } | Stop-Process -Force -ErrorAction SilentlyContinue'',
     '''',
     ''Start-Service Alloy'',
     '''',
     ''for ($i = 0; $i -lt 20; $i++) {'',
     '''',
     ''  $svc = Get-Service Alloy -ErrorAction SilentlyContinue'',
     '''',
     ''  if ($svc -and $svc.Status -eq "Running") {'',
     '''',
     ''    Write-Output "ALLOY_WINDOWS_CONFIGURED"'',
     '''',
     ''    exit 0'',
     ''  }'',
     '''',
     ''  Start-Sleep -Seconds 1'',
     ''}'',
     '''',
     ''Get-Service Alloy'',
     '''',
     ''exit 1'']\<close>

definition WindowsAlloyInstallScript :: "string \<Rightarrow> string \<Rightarrow> string" where
  "WindowsAlloyInstallScript configAlloy lokiToken = unlines (WindowsAlloyInstallScript_lines configAlloy lokiToken)"

definition WindowsAlloyUpdateScript_lines :: "string \<Rightarrow> string \<Rightarrow> string list" where
  \<open>WindowsAlloyUpdateScript_lines configAlloy lokiToken = [''$ErrorActionPreference = "Stop"'',
     '''',
     ''$ConfigB64 = "'' @ EncodeToString configAlloy @ ''"'',
     ''$TokenB64  = "'' @ token_b64 lokiToken @ ''"'',
     ''$DataDir = "C:'' @ bslash @ ''ProgramData'' @ bslash @ ''GrafanaLabs'' @ bslash @ ''Alloy'' @ bslash @ ''data"'',
     '''',
     ''$ConfigPath = "C:'' @ bslash @ ''Program Files'' @ bslash @ ''GrafanaLabs'' @ bslash @ ''Alloy'' @ bslash @ ''config.alloy"'',
     '''',
     ''$SecretDir = "C:'' @ bslash @ ''ProgramData'' @ bslash @ ''GrafanaLabs'' @ bslash @ ''Alloy'' @ bslash @ ''secrets"'',
     ''$TokenPath = Join-Path $SecretDir "loki.token"'',
     '''',
     ''New-Item -ItemType Directory -Force -Path $SecretDir | Out-Null'',
     ''New-Item -ItemType Directory -Force -Path $DataDir | Out-Null'',
     '''',
     ''Set-TimeZone -Id "UTC"'',
     '''',
     ''Set-Service w32time -StartupType Automatic'',
     '''',
     ''Start-Service w32time'',
     '''',
     ''try {'',
     ''  w32tm /resync'',
     ''} catch {'',
     ''  Write-Output "time sync retry skipped"'',
     ''}'',
     '''',
     ''$Config = [System.Text.Encoding]::UTF8.GetString('',
     ''  [System.Convert]::FromBase64String($ConfigB64)'',
     '')'',
     '''',
     ''[System.IO.File]::WriteAllText('',
     ''  $ConfigPath,'',
     ''  $Config,'',
     ''  (New-Object System.Text.UTF8Encoding($false))'',
     '')'',
     '''',
     ''$Token = [System.Text.Encoding]::UTF8.GetString('',
     ''  [System.Convert]::FromBase64String($TokenB64)'',
     '')'',
     '''',
     ''[System.IO.File]::WriteAllText('',
     ''  $TokenPath,'',
     ''  $Token,'',
     ''  (New-Object System.Text.UTF8Encoding($false))'',
     '')'',
     '''',
     ''$alloyArgs = @('',
     ''  'run'' @ squote,
     ''  'C:'' @ bslash @ ''Program Files'' @ bslash @ ''GrafanaLabs'' @ bslash @ ''Alloy'' @ bslash @ ''config.alloy'' @ squote,
     ''  '--storage.path=C:'' @ bslash @ ''ProgramData'' @ bslash @ ''GrafanaLabs'' @ bslash @ ''Alloy'' @ bslash @ ''data'' @ squote,
     '')'',
     '''',
     ''Set-ItemProperty -Path 'HKLM:'' @ bslash @ ''SOFTWARE'' @ bslash @ ''GrafanaLabs'' @ bslash @ ''Alloy' -Name 'Arguments' -Value $alloyArgs'',
     '''',
     ''sc.exe config Alloy binPath= "'' @ bslash @ ''"C:'' @ bslash @ ''Program Files'' @ bslash @ ''GrafanaLabs'' @ bslash @ ''Alloy'' @ bslash @ ''alloy-service-windows-amd64.exe'' @ bslash @ ''""'',
     '''',
     ''New-Item -ItemType Directory -Force -Path "$DataDir'' @ bslash @ ''loki.source.windowsevent.application" | Out-Null'',
     '''',
     ''New-Item -ItemType Directory -Force -Path "$DataDir'' @ bslash @ ''loki.source.windowsevent.system" | Out-Null'',
     '''',
     ''icacls "$DataDir" /grant "SYSTEM:(OI)(CI)F" /T | Out-Null'',
     '''',
     ''Restart-Service Alloy'',
     '''',
     ''Start-Sleep -Seconds 5'',
     '''',
     ''$svc = Get-Service Alloy -ErrorAction SilentlyContinue'',
     '''',
     ''if (-not $svc) {'',
     ''    throw "Alloy service missing"'',
     ''}'',
     '''',
     ''if ($svc.Status -ne 'Running') {'',
     ''    throw "Alloy service not running"'',
     ''}'',
     '''',
     ''Write-Output "ALLOY_WINDOWS_UPDATED"'',
     '''',
     ''exit 0'']\<close>

definition WindowsAlloyUpdateScript :: "string \<Rightarrow> string \<Rightarrow> string" where
  "WindowsAlloyUpdateScript configAlloy lokiToken = unlines (WindowsAlloyUpdateScript_lines configAlloy lokiToken)"

section \<open>Here-documents\<close>

text \<open>
  The lines of a text, and what a shell reads of a quoted here-document: the lines up to the
  first one that is the delimiter.
\<close>

fun split_nl :: "string \<Rightarrow> string list" where
  "split_nl [] = [[]]"
| "split_nl (c # cs) = (if c = CHR 0x0A then [] # split_nl cs
     else (case split_nl cs of l # ls \<Rightarrow> (c # l) # ls | [] \<Rightarrow> [[c]]))"

definition heredoc :: "string \<Rightarrow> string \<Rightarrow> string list" where
  "heredoc delim text = takeWhile (\<lambda>l. l \<noteq> delim) (split_nl text)"

lemma split_nl_nonempty [simp]: "split_nl s \<noteq> []"
  by (induction s) (auto split: list.splits)

lemma split_nl_append_newline: "split_nl (a @ newline @ b) = split_nl a @ split_nl b"
proof (induction a)
  case (Cons c a)
  then show ?case by (cases "split_nl a") (auto simp: newline_def)
qed (simp add: newline_def)

lemma split_nl_line: "lines_in s = 0 \<Longrightarrow> split_nl s = [s]"
  by (induction s) (auto simp: lines_in_def split: if_splits)

definition one_line :: "string \<Rightarrow> bool" where
  "one_line s \<longleftrightarrow> lines_in s = 0"

lemma one_line_append [simp]: "one_line (a @ b) \<longleftrightarrow> one_line a \<and> one_line b"
  by (simp add: one_line_def)

lemma split_nl_unlines: "list_all one_line ls \<Longrightarrow> split_nl (unlines ls @ t) = ls @ split_nl t"
proof (induction ls)
  case (Cons l ls)
  then have "split_nl (unlines (l # ls) @ t) = split_nl l @ split_nl (unlines ls @ t)"
    using split_nl_append_newline [of l "unlines ls @ t"] by (simp add: unlines_def)
  with Cons show ?case by (simp add: one_line_def split_nl_line)
qed (simp add: unlines_def)

lemma unlines_Cons: "unlines (l # ls) = l @ newline @ unlines ls"
  by (simp add: unlines_def)

lemma heredoc_whole:
  assumes "delim \<notin> set (split_nl text)" "one_line delim"
  shows "heredoc delim (text @ newline @ delim) = split_nl text"
proof -
  have "heredoc delim (text @ newline @ delim) = takeWhile (\<lambda>l. l \<noteq> delim) (split_nl text @ [delim])"
    using assms(2) by (simp only: heredoc_def split_nl_append_newline one_line_def split_nl_line)
  moreover have "\<forall>l\<in>set (split_nl text). l \<noteq> delim" using assms(1) by auto
  ultimately show ?thesis by (simp add: takeWhile_append2)
qed

lemma one_line_b64 [simp]: "one_line (EncodeToString s)" "one_line (token_b64 t)"
proof -
  have "one_line (EncodeToString s)" for s
    using encode_no_breaks [of s] by (auto simp: one_line_def lines_in_def filter_empty_conv filter_id_conv)
  then show "one_line (EncodeToString s)" "one_line (token_b64 t)" by (simp_all add: token_b64_def)
qed

lemma one_line_Quote: "list_all is_ascii s \<Longrightarrow> one_line (Quote uni s)"
  by (simp add: one_line_def lines_in_Quote)

lemma one_line_filter: "one_line s \<Longrightarrow> filter (\<lambda>c. c = CHR 0x0A) s = []"
  by (simp add: one_line_def lines_in_def)

definition EOF_line :: string where "EOF_line = ''EOF''"
definition ALLOYCFG_line :: string where "ALLOYCFG_line = ''ALLOYCFG''"

lemma delims_one_line: "one_line EOF_line" "one_line ALLOYCFG_line"
  by code_simp+

lemma LinuxAlloy_lines:
  "list_all one_line (LinuxAlloy_before t)" "list_all one_line LinuxAlloy_after"
  "EOF_line \<notin> set (LinuxAlloy_before t)" "EOF_line \<notin> set LinuxAlloy_after"
proof -
  show "list_all one_line LinuxAlloy_after" "EOF_line \<notin> set LinuxAlloy_after" by code_simp+
  show "list_all one_line (LinuxAlloy_before t)"
    unfolding LinuxAlloy_before_def
    by (simp add: one_line_def lines_in_def squote_def bslash_def one_line_filter [OF one_line_b64(2)])
  show "EOF_line \<notin> set (LinuxAlloy_before t)"
    unfolding LinuxAlloy_before_def EOF_line_def by simp
qed

lemma RenderLinux_lines_ok:
  assumes "ascii_config c"
  shows "list_all one_line (RenderLinux_lines uni c)" "EOF_line \<notin> set (RenderLinux_lines uni c)"
    "ALLOYCFG_line \<notin> set (RenderLinux_lines uni c)"
  using assms unfolding RenderLinux_lines_def EOF_line_def ALLOYCFG_line_def ascii_config_def
  by (simp_all add: one_line_def lines_in_def one_line_filter [OF one_line_Quote])

lemma LinuxAlloy_script_lines:
  assumes "ascii_config c"
  shows "split_nl (LinuxAlloyInstallScript (RenderLinux uni c) tok)
    = LinuxAlloy_before tok @ RenderLinux_lines uni c @ LinuxAlloy_after @ ['''']"
  using LinuxAlloy_lines(1,3) [of tok] LinuxAlloy_lines(2,4) RenderLinux_lines_ok(1) [OF assms, of uni]
    split_nl_unlines [of LinuxAlloy_after "''''"]
  by (simp add: LinuxAlloyInstallScript_def RenderLinux_def split_nl_unlines)

lemma exporter_lines: "list_all one_line LinuxNodeExporterInstallScript_lines"
  "EOF_line \<notin> set LinuxNodeExporterInstallScript_lines"
  by code_simp+

section \<open>Properties of the scripts\<close>

text \<open>
  C24. What a Linux guest gets of the Alloy installer. The operator sends the script as a
  here-document: no line of it is the delimiter, so the guest's shell reads the whole
  script. Inside it the configuration is a here-document of its own, which the shell reads
  back line for line; and the token in the script decodes to the token of the operator.
\<close>
theorem linux_alloy_script_intact:
  assumes "ascii_config c"
  shows "heredoc EOF_line (LinuxAlloyInstallScript (RenderLinux uni c) tok @ newline @ EOF_line)
      = LinuxAlloy_before tok @ RenderLinux_lines uni c @ LinuxAlloy_after @ ['''']
    \<and> heredoc ALLOYCFG_line (RenderLinux uni c @ unlines LinuxAlloy_after) = RenderLinux_lines uni c @ ['''']
    \<and> DecodeString (token_b64 tok) = Some (TrimSpace tok)"
proof (intro conjI)
  let ?s = "LinuxAlloyInstallScript (RenderLinux uni c) tok"
  have "'''' \<noteq> EOF_line" by (simp add: EOF_line_def)
  then have "EOF_line \<notin> set (split_nl ?s)"
    using LinuxAlloy_lines(1,3) [of tok] LinuxAlloy_lines(2,4) RenderLinux_lines_ok [OF assms, of uni]
    by (auto simp: LinuxAlloy_script_lines [OF assms])
  then show "heredoc EOF_line (?s @ newline @ EOF_line)
      = LinuxAlloy_before tok @ RenderLinux_lines uni c @ LinuxAlloy_after @ ['''']"
    using heredoc_whole delims_one_line by (simp add: LinuxAlloy_script_lines [OF assms])
  have "split_nl (RenderLinux uni c @ unlines LinuxAlloy_after) = RenderLinux_lines uni c @ LinuxAlloy_after @ ['''']"
    using LinuxAlloy_lines RenderLinux_lines_ok(1) [OF assms, of uni] split_nl_unlines [of LinuxAlloy_after "''''"]
    by (simp add: RenderLinux_def split_nl_unlines)
  moreover have "\<forall>l\<in>set (RenderLinux_lines uni c). l \<noteq> ALLOYCFG_line"
    using RenderLinux_lines_ok(3) [OF assms, of uni] by auto
  moreover have "takeWhile (\<lambda>l. l \<noteq> ALLOYCFG_line) (LinuxAlloy_after @ ['''']) = ['''']" by code_simp
  ultimately show "heredoc ALLOYCFG_line (RenderLinux uni c @ unlines LinuxAlloy_after) = RenderLinux_lines uni c @ ['''']"
    by (simp add: heredoc_def takeWhile_append2)
  show "DecodeString (token_b64 tok) = Some (TrimSpace tok)" by (simp add: token_b64_def b64.decode_encode)
qed

text \<open>The exporter installer reaches the guest's shell whole, too.\<close>
theorem exporter_script_intact:
  "heredoc EOF_line (LinuxNodeExporterInstallScript @ newline @ EOF_line) = LinuxNodeExporterInstallScript_lines @ ['''']"
proof -
  have s: "split_nl LinuxNodeExporterInstallScript = LinuxNodeExporterInstallScript_lines @ ['''']"
    using split_nl_unlines [OF exporter_lines(1), of "''''"] by (simp add: LinuxNodeExporterInstallScript_def)
  have "'''' \<noteq> EOF_line" by (simp add: EOF_line_def)
  with exporter_lines(2) have "EOF_line \<notin> set (split_nl LinuxNodeExporterInstallScript)" by (auto simp: s)
  from heredoc_whole [OF this delims_one_line(1)] show ?thesis by (simp add: s)
qed

text \<open>PowerShell takes a line that starts with a pipe for an error.\<close>

definition starts_with_pipe :: "string \<Rightarrow> bool" where
  "starts_with_pipe l \<longleftrightarrow> HasPrefix (TrimSpace l) ''|''"

lemma starts_with_pipe_hd: "starts_with_pipe l \<Longrightarrow> \<exists>r. dropWhile is_space l = CHR ''|'' # r"
proof -
  assume "starts_with_pipe l"
  then obtain t where t: "TrimSpace l = CHR ''|'' # t" by (auto simp: starts_with_pipe_def HasPrefix_iff)
  have "dropWhile is_space l = TrimSpace l @ rev (takeWhile is_space (rev (dropWhile is_space l)))"
    unfolding TrimSpace_def by (metis rev_append rev_rev_ident takeWhile_dropWhile_id)
  with t show ?thesis by (metis append_Cons)
qed

lemma starts_with_pipe_Nil: "\<not> starts_with_pipe ''''"
  by (simp add: starts_with_pipe_def TrimSpace_def)

lemma starts_with_pipe_Cons: "c \<noteq> CHR ''|'' \<Longrightarrow> \<not> is_space c \<Longrightarrow> \<not> starts_with_pipe (c # l)"
  using starts_with_pipe_hd [of "c # l"] by auto

lemma starts_with_pipe_space: "is_space c \<Longrightarrow> starts_with_pipe (c # l) = starts_with_pipe l"
  by (simp add: starts_with_pipe_def TrimSpace_def)

lemma windows_lines_ok:
  "list_all one_line (WindowsAlloyInstallScript_lines cfg tok)" "list_all one_line (WindowsAlloyUpdateScript_lines cfg tok)"
  unfolding WindowsAlloyInstallScript_lines_def WindowsAlloyUpdateScript_lines_def
  by (simp_all add: one_line_def lines_in_def squote_def bslash_def one_line_filter [OF one_line_b64(1)]
      one_line_filter [OF one_line_b64(2)])

lemma windows_no_pipes:
  "list_all (\<lambda>l. \<not> starts_with_pipe l) (WindowsAlloyInstallScript_lines cfg tok)"
  "list_all (\<lambda>l. \<not> starts_with_pipe l) (WindowsAlloyUpdateScript_lines cfg tok)"
proof -
  note pipe = starts_with_pipe_Nil starts_with_pipe_Cons starts_with_pipe_space
  show "list_all (\<lambda>l. \<not> starts_with_pipe l) (WindowsAlloyInstallScript_lines cfg tok)"
    "list_all (\<lambda>l. \<not> starts_with_pipe l) (WindowsAlloyUpdateScript_lines cfg tok)"
    unfolding WindowsAlloyInstallScript_lines_def WindowsAlloyUpdateScript_lines_def
    by (simp_all add: pipe is_space_def squote_def bslash_def)
qed

definition config_line :: "string \<Rightarrow> string" where
  \<open>config_line cfg = ''$ConfigB64 = "'' @ EncodeToString cfg @ ''"''\<close>

definition token_line :: "string \<Rightarrow> string" where
  \<open>token_line tok = ''$TokenB64  = "'' @ token_b64 tok @ ''"''\<close>

lemma b64_no_quote: "dquote \<notin> set (EncodeToString s)"
proof -
  have n: "m < 64 \<Longrightarrow> b64_char m \<noteq> dquote" for m
    by (auto simp: dquote_def dest!: arg_cong [where f = b64_val]) (auto simp: b64_val_def)
  have [simp]: "a < 256 \<Longrightarrow> enc1 a \<noteq> dquote" "b < 256 \<Longrightarrow> enc2 a b \<noteq> dquote" "c < 256 \<Longrightarrow> enc3 b c \<noteq> dquote"
    "enc4 c \<noteq> dquote" "pad \<noteq> dquote" for a b c :: nat
    using sextets n by (simp_all add: enc1_def enc2_def enc3_def enc4_def pad_def dquote_def)
  note neq = this this [symmetric]
  show ?thesis by (induction s rule: EncodeToString.induct) (simp_all add: neq)
qed

text \<open>
  The Windows installer and updater, for every configuration and every token: no line of
  the script starts with a pipe, and the configuration and the token stand in it as string
  literals without a quote or a line break inside, which decode to what the operator put in.
\<close>
theorem windows_alloy_scripts_sound:
  "\<forall>ls \<in> {WindowsAlloyInstallScript_lines cfg tok, WindowsAlloyUpdateScript_lines cfg tok}.
     split_nl (unlines ls) = ls @ [''''] \<and> list_all (\<lambda>l. \<not> starts_with_pipe l) ls
     \<and> config_line cfg \<in> set ls \<and> token_line tok \<in> set ls
     \<and> dquote \<notin> set (EncodeToString cfg) \<and> dquote \<notin> set (token_b64 tok)
     \<and> DecodeString (EncodeToString cfg) = Some cfg \<and> DecodeString (token_b64 tok) = Some (TrimSpace tok)"
proof -
  have "config_line cfg \<in> set (WindowsAlloyInstallScript_lines cfg tok)" "token_line tok \<in> set (WindowsAlloyInstallScript_lines cfg tok)"
    "config_line cfg \<in> set (WindowsAlloyUpdateScript_lines cfg tok)" "token_line tok \<in> set (WindowsAlloyUpdateScript_lines cfg tok)"
    unfolding WindowsAlloyInstallScript_lines_def WindowsAlloyUpdateScript_lines_def config_line_def token_line_def
    by simp_all
  moreover have "split_nl (unlines ls) = ls @ ['''']" if "list_all one_line ls" for ls
    using split_nl_unlines [OF that, of "''''"] by simp
  ultimately show ?thesis
    using windows_lines_ok windows_no_pipes b64_no_quote by (simp add: b64.decode_encode token_b64_def)
qed

theorem linux_alloy_script_intact_witness:
  "DecodeString (token_b64 '' tok '') = Some ''tok''
   \<and> heredoc ALLOYCFG_line (RenderLinux (\<lambda>s. s) hostile_config @ unlines LinuxAlloy_after)
       = RenderLinux_lines (\<lambda>s. s) hostile_config @ ['''']"
proof -
  have "TrimSpace '' tok '' = ''tok''" by (simp add: TrimSpace_def is_space_def)
  with linux_alloy_script_intact [OF hostile_ascii, of "\<lambda>s. s" "'' tok ''"] show ?thesis by simp
qed

theorem windows_alloy_scripts_sound_witness:
  "list_all (\<lambda>l. \<not> starts_with_pipe l) (WindowsAlloyInstallScript_lines ''config'' ''token'')"
  using windows_alloy_scripts_sound [of "''config''" "''token''"] by simp

end
