(* ===== verification/DemoClient.thy ===== *)
theory DemoClient imports Kube begin

text \<open>
  A concrete client to run operations on: nothing exists in the cluster, every write and
  every connection succeeds, commands print nothing, and the clock stands still.
\<close>

definition not_found :: goerr where
  "not_found = GoErr KNotFound ''not found''"

definition idle_client :: "unit client" where
  "idle_client = \<lparr>
     getVM = (\<lambda>_ _ w. (Inl not_found, w)), getVMIObj = (\<lambda>_ _ w. (Inl not_found, w)),
     getSecret = (\<lambda>_ _ w. (Inl not_found, w)), getConfigMap = (\<lambda>_ _ w. (Inl not_found, w)),
     getNamespace = (\<lambda>_ w. (Inl not_found, w)), getService = (\<lambda>_ _ w. (Inl not_found, w)),
     getEndpoints = (\<lambda>_ _ w. (Inl not_found, w)), getServiceMonitor = (\<lambda>_ _ w. (Inl not_found, w)),
     getRoleBinding = (\<lambda>_ _ w. (Inl not_found, w)), getRouteHost = (\<lambda>_ _ w. (Inl not_found, w)),
     getUnstructured = (\<lambda>_ _ _ _ w. (Inl not_found, w)),
     createObj = (\<lambda>_ w. (Inr (), w)), patchObj = (\<lambda>_ _ w. (Inr (), w)), patchVMObj = (\<lambda>_ x w. (Inr x, w)),
     dial_tcp = (\<lambda>_ _ w. (Inr (), w)), ssh_parse_key = (\<lambda>k. Inr k), ssh_dial = (\<lambda>_ _ _ _ w. (Inr 1, w)),
     ssh_session = (\<lambda>_ w. (Inr 2, w)), ssh_exec = (\<lambda>_ _ _ w. ((None, '''', ''''), w)),
     ssh_combined = (\<lambda>_ _ _ w. ((None, ''''), w)), time_now = (\<lambda>w. (0, w))\<rparr>"

definition fresh :: "unit st" where
  "fresh = \<lparr>world = (), acts = []\<rparr>"

lemma run_ret [simp]: "run_state (State_Monad.return x) s = (x, s)"
  by simp

lemmas run_io = result_def trace_def fresh_def idle_client_def bindE_def wrapE_def prim_defs call_def Let_def

end
