(* ===== verification/Remediation.thy ===== *)
theory Remediation imports GuestScripts DemoClient begin

text \<open>
  \<open>internal/remediation\<close> and \<open>internal/verify\<close>: running scripts in the guests over SSH
  (\<open>linux_ssh.go\<close>, \<open>windows_ssh.go\<close>), the TCP probes, and the encodings of the WinRM path
  (\<open>windows_winrm.go\<close>). A deferred call runs after its body, whatever the body returned.
  The WinRM client itself is a third-party library that the operator does not reach.
\<close>

section \<open>Operations\<close>

record LinuxSSHConfig =
  ls_Address :: string
  ls_Username :: string
  ls_PrivateKey :: string
  ls_Timeout :: nat

record WindowsSSHConfig =
  ws_Address :: string
  ws_User :: string
  ws_KeyPEM :: string
  ws_Timeout :: nat

definition deferred :: "('w, unit) io \<Rightarrow> ('w, 'a) io \<Rightarrow> ('w, 'a) io" where
  "deferred close m = do { r \<leftarrow> m; _ \<leftarrow> close; ret r }"

definition suffixed :: "string \<Rightarrow> goerr \<Rightarrow> string \<Rightarrow> goerr" where
  "suffixed pre e post = GoErr (ekind e) (pre @ Error e @ post)"

text \<open>\<open>net.DialTimeout("tcp", ...)\<close> and closing the connection.\<close>

definition ProbeSSH :: "'w client \<Rightarrow> string \<Rightarrow> nat \<Rightarrow> ('w, bool) io" where
  "ProbeSSH C address timeout = do { r \<leftarrow> Dial_TCP C address timeout; ret (\<not> is_Inl r) }"

definition ProbeWinRM :: "'w client \<Rightarrow> string \<Rightarrow> nat \<Rightarrow> ('w, bool) io" where
  "ProbeWinRM C address timeout = do { r \<leftarrow> Dial_TCP C address timeout; ret (\<not> is_Inl r) }"

definition TCP :: "'w client \<Rightarrow> string \<Rightarrow> int \<Rightarrow> nat \<Rightarrow> ('w, bool) io" where
  "TCP C host port timeout =
     do { r \<leftarrow> Dial_TCP C (host @ '':'' @ Itoa port) timeout; ret (\<not> is_Inl r) }"

definition heredoc_command :: "string \<Rightarrow> string" where
  \<open>heredoc_command script = ''bash -s <<'EOF'' @ squote @ newline @ script @ newline @ ''EOF''\<close>

definition RunLinuxBootstrap :: "'w client \<Rightarrow> LinuxSSHConfig \<Rightarrow> string \<Rightarrow> ('w, unit go) io" where
  "RunLinuxBootstrap C cfg script = (case ssh_parse_key C (ls_PrivateKey cfg) of
     Inl e \<Rightarrow> fail (Wrapf ''failed to parse private key: '' e)
   | Inr signer \<Rightarrow>
       bindE (wrapE (''failed to ssh dial '' @ ls_Address cfg @ '': '')
                (Dial_SSH C (ls_Address cfg) (ls_Username cfg) signer (ls_Timeout cfg))) (\<lambda>c.
       deferred (Close_Client c)
         (bindE (wrapE ''failed to create ssh session: '' (New_Session C c)) (\<lambda>s.
          deferred (Close_Session s)
            (do { (err, stdout, stderr) \<leftarrow> Exec C s '''' (heredoc_command script);
                  case err of
                    Some e \<Rightarrow> fail (suffixed ''remote bootstrap failed: '' e ('' stdout='' @ stdout @ '' stderr='' @ stderr))
                  | None \<Rightarrow> ok () })))))"

definition tmpFile :: string where
  \<open>tmpFile = ''C:'' @ bslash @ ''Windows'' @ bslash @ ''Temp'' @ bslash @ ''kubevirt-observability-bootstrap.ps1''\<close>

definition write_command :: string where
  \<open>write_command = ''powershell.exe -NoProfile -NonInteractive -ExecutionPolicy Bypass -Command "'' @
     ''[Console]::In.ReadToEnd() | Set-Content -Path '' @ squote @ tmpFile @ squote @ '' -Encoding UTF8"''\<close>

definition run_command :: string where
  \<open>run_command = ''powershell.exe -NoProfile -NonInteractive -ExecutionPolicy Bypass -File "'' @ tmpFile @ ''"''\<close>

definition RunWindowsSSHBootstrap :: "'w client \<Rightarrow> WindowsSSHConfig \<Rightarrow> string \<Rightarrow> ('w, unit go) io" where
  "RunWindowsSSHBootstrap C cfg script = (case ssh_parse_key C (ws_KeyPEM cfg) of
     Inl e \<Rightarrow> fail (Wrapf ''parse private key: '' e)
   | Inr signer \<Rightarrow>
       bindE (wrapE ''ssh dial: '' (Dial_SSH C (ws_Address cfg) (ws_User cfg) signer (ws_Timeout cfg))) (\<lambda>c.
       deferred (Close_Client c)
         (bindE (wrapE ''new ssh session: '' (New_Session C c)) (\<lambda>s1.
          do { (err, out) \<leftarrow> Combined_Output C s1 script write_command;
               _ \<leftarrow> Close_Session s1;
               case err of
                 Some e \<Rightarrow> fail (suffixed ''write bootstrap script failed: '' e ('' output='' @ out))
               | None \<Rightarrow>
                   bindE (wrapE ''new ssh session: '' (New_Session C c)) (\<lambda>s2.
                   deferred (Close_Session s2)
                     (do { (err, out) \<leftarrow> Combined_Output C s2 '''' run_command;
                           case err of
                             Some e \<Rightarrow> fail (suffixed ''windows ssh remediation failed: '' e ('' output='' @ out))
                           | None \<Rightarrow> ok () })) }))))"

text \<open>The loop over the runes of the script; the written bytes of other runes are their own.\<close>

fun escape_ps :: "string \<Rightarrow> string" where
  "escape_ps [] = []"
| "escape_ps (r # rs) =
     (if r = dquote then CHR 0x60 # dquote # escape_ps rs
      else if r = CHR 0x0A \<or> r = CHR 0x0D then ''; '' @ escape_ps rs
      else r # escape_ps rs)"

definition escapePowerShellForCommand :: "string \<Rightarrow> string" where
  "escapePowerShellForCommand script = TrimSpace (escape_ps script)"

definition RunWindowsSSHCommand :: "'w client \<Rightarrow> WindowsSSHConfig \<Rightarrow> string \<Rightarrow> ('w, string go) io" where
  "RunWindowsSSHCommand C cfg script = (case ssh_parse_key C (ws_KeyPEM cfg) of
     Inl e \<Rightarrow> fail (Wrapf ''parse private key: '' e)
   | Inr signer \<Rightarrow>
       bindE (wrapE ''ssh dial: '' (Dial_SSH C (ws_Address cfg) (ws_User cfg) signer (ws_Timeout cfg))) (\<lambda>c.
       deferred (Close_Client c)
         (bindE (wrapE ''new ssh session: '' (New_Session C c)) (\<lambda>s.
          deferred (Close_Session s)
            (do { (err, out) \<leftarrow> Combined_Output C s ''''
                    (''powershell.exe -NoProfile -NonInteractive -ExecutionPolicy Bypass -Command '' @
                       [dquote] @ escapePowerShellForCommand script @ [dquote]);
                  case err of
                    Some e \<Rightarrow> fail (suffixed ''windows ssh command failed: '' e ('' output='' @ out))
                  | None \<Rightarrow> ok (TrimSpace out) })))))"

definition state_script :: string where
  \<open>state_script = newline @ unlines
    [''if (Test-Path 'C:'' @ bslash @ ''ProgramData'' @ bslash @ ''KubeVirtObservability'' @ bslash @ ''bootstrap.done') {'',
     tab @ ''Write-Output success'',
     ''} elseif (Test-Path 'C:'' @ bslash @ ''ProgramData'' @ bslash @ ''KubeVirtObservability'' @ bslash @ ''bootstrap.failed') {'',
     tab @ ''Write-Output failed'',
     ''} else {'',
     tab @ ''Write-Output unknown'',
     ''}'']\<close>

definition GetWindowsBootstrapState :: "'w client \<Rightarrow> WindowsSSHConfig \<Rightarrow> ('w, string go) io" where
  "GetWindowsBootstrapState C cfg = bindE (RunWindowsSSHCommand C cfg state_script) (\<lambda>out. ok (TrimSpace out))"

section \<open>WinRM encodings\<close>

text \<open>
  \<open>net.SplitHostPort\<close>: the last colon separates the port; a bracketed host may contain
  colons, an unbracketed one may not.
\<close>

definition last_index :: "char \<Rightarrow> string \<Rightarrow> nat option" where
  "last_index c s = (let t = takeWhile (\<lambda>d. d \<noteq> c) (rev s)
     in if length t = length s then None else Some (length s - length t - 1))"

definition first_index :: "char \<Rightarrow> string \<Rightarrow> nat option" where
  "first_index c s = (let t = takeWhile (\<lambda>d. d \<noteq> c) s in if length t = length s then None else Some (length t))"

definition SplitHostPort :: "string \<Rightarrow> (string \<times> string) option" where
  "SplitHostPort hp = (case last_index CHR '':'' hp of
     None \<Rightarrow> None
   | Some i \<Rightarrow>
       (case hp of
          CHR ''['' # _ \<Rightarrow>
            (case first_index CHR '']'' hp of
               None \<Rightarrow> None
             | Some end \<Rightarrow>
                 if end + 1 = i \<and> CHR ''['' \<notin> set (drop 1 hp) \<and> CHR '']'' \<notin> set (drop (end + 1) hp)
                 then Some (take (end - 1) (drop 1 hp), drop (i + 1) hp) else None)
        | _ \<Rightarrow>
            if CHR '':'' \<in> set (take i hp) \<or> CHR ''['' \<in> set hp \<or> CHR '']'' \<in> set hp then None
            else Some (take i hp, drop (i + 1) hp)))"

definition hostFromAddress :: "string \<Rightarrow> string" where
  "hostFromAddress addr = (case SplitHostPort addr of None \<Rightarrow> addr | Some (host, _) \<Rightarrow> host)"

definition portFromAddress :: "string \<Rightarrow> int" where
  "portFromAddress addr = (case SplitHostPort addr of
     None \<Rightarrow> 5985 | Some (_, portStr) \<Rightarrow> if portStr = ''5986'' then 5986 else 5985)"

definition crlf :: string where
  "crlf = [CHR 0x0D, CHR 0x0A]"

text \<open>UTF-16, little endian: an ASCII byte and a zero; a run of other bytes by \<open>u16\<close>.\<close>

function utf16le :: "(string \<Rightarrow> string) \<Rightarrow> string \<Rightarrow> string" where
  "utf16le u16 [] = []"
| "utf16le u16 (c # cs) =
     (if is_ascii c then c # CHR 0x00 # utf16le u16 cs
      else u16 (c # takeWhile (\<lambda>c. \<not> is_ascii c) cs) @ utf16le u16 (dropWhile (\<lambda>c. \<not> is_ascii c) cs))"
  by pat_completeness auto
termination
  by (relation "measure (\<lambda>(_, s). length s)") (auto simp: le_imp_less_Suc length_dropWhile_le)

definition powershellEncodedCommand :: "(string \<Rightarrow> string) \<Rightarrow> string \<Rightarrow> string" where
  "powershellEncodedCommand u16 script =
     (let normalized = ReplaceAll script crlf newline;
          normalized = ReplaceAll normalized newline crlf
      in EncodeToString (utf16le u16 normalized))"

section \<open>The connections are closed\<close>

text \<open>Every connection a session is opened on, and every session a command runs in, is closed later.\<close>

fun closes :: "action list \<Rightarrow> bool" where
  "closes [] = True"
| "closes (SSHSession c # l) = (CloseClient c \<in> set l \<and> closes l)"
| "closes (SSHExec s i cmd # l) = (CloseSession s \<in> set l \<and> closes l)"
| "closes (_ # l) = closes l"

lemma does_deferred [does_intros]:
  assumes "does m (\<lambda>r l1. does close (\<lambda>_ l2. Q r (l1 @ l2)))"
  shows "does (deferred close m) Q"
  unfolding deferred_def
  by (intro does_bind does_mono [OF assms]) (auto elim!: does_mono intro!: does_intros)

lemma does_close [does_intros]:
  "(\<And>r. Q r [CloseClient c]) \<Longrightarrow> does (Close_Client c) Q"
  "(\<And>r. Q r [CloseSession s]) \<Longrightarrow> does (Close_Session s) Q"
  by (simp_all add: Close_Client_def Close_Session_def does_call)

lemma does_dial [does_intros]: "(\<And>r. Q r [SSHDial a u t]) \<Longrightarrow> does (Dial_SSH C a u k t) Q"
  by (simp add: Dial_SSH_def does_call)

lemma does_session [does_intros]: "(\<And>r. Q r [SSHSession c]) \<Longrightarrow> does (New_Session C c) Q"
  by (simp add: New_Session_def does_call)

lemma does_exec [does_intros]: "(\<And>r. Q r [SSHExec s i cmd]) \<Longrightarrow> does (Exec C s i cmd) Q"
  by (simp add: Exec_def does_call)

lemma does_combined [does_intros]: "(\<And>r. Q r [SSHExec s i cmd]) \<Longrightarrow> does (Combined_Output C s i cmd) Q"
  by (simp add: Combined_Output_def does_call)


text \<open>
  Running a script on a Windows guest: the connections and sessions are closed on every
  path, and the script file is run only in a second session after the upload of exactly this
  script succeeded in the first.
\<close>
theorem RunWindowsSSHBootstrap_trace:
  "does (RunWindowsSSHBootstrap C cfg script) (\<lambda>r l. closes l
     \<and> (\<forall>s i. SSHExec s i run_command \<in> set l \<longrightarrow> (\<exists>s1. SSHExec s1 script write_command \<in> set l))
     \<and> (r = Inr () \<longrightarrow> (\<exists>c s1 s2. l = [SSHDial (ws_Address cfg) (ws_User cfg) (ws_Timeout cfg), SSHSession c,
        SSHExec s1 script write_command, CloseSession s1, SSHSession c, SSHExec s2 '''' run_command,
        CloseSession s2, CloseClient c])))"
proof -
  have [simp]: "write_command \<noteq> run_command" "run_command \<noteq> write_command"
    by (simp_all add: write_command_def run_command_def)
  show ?thesis
    unfolding RunWindowsSSHBootstrap_def by (auto intro!: does_intros split: sum.splits)
qed

lemma RunWindowsSSHCommand_closes: "does (RunWindowsSSHCommand C cfg script) (\<lambda>r l. closes l)"
  unfolding RunWindowsSSHCommand_def by (auto intro!: does_intros split: sum.splits)

text \<open>What is between the quotes of a PowerShell command: one line, every quote escaped.\<close>

fun quotes_escaped :: "string \<Rightarrow> bool" where
  "quotes_escaped [] = True"
| "quotes_escaped (c # cs) =
     (if c = CHR 0x60 then (case cs of [] \<Rightarrow> True | _ # ds \<Rightarrow> quotes_escaped ds)
      else c \<noteq> dquote \<and> quotes_escaped cs)"

lemma quotes_escaped_append: "quotes_escaped (xs @ ys) \<Longrightarrow> quotes_escaped xs"
  by (induction xs rule: quotes_escaped.induct) (auto split: list.splits if_splits)

lemma quotes_escaped_dropWhile: "quotes_escaped s \<Longrightarrow> quotes_escaped (dropWhile is_space s)"
  by (induction s) (auto simp: is_space_def split: if_splits)

lemma TrimSpace_prefix: "\<exists>w. dropWhile is_space s = TrimSpace s @ w"
  unfolding TrimSpace_def by (metis rev_append rev_rev_ident takeWhile_dropWhile_id)

lemma escape_ps_quotes: "CHR 0x60 \<notin> set s \<Longrightarrow> quotes_escaped (escape_ps s)"
  by (induction s) (auto simp: dquote_def)

lemma escape_ps_line: "CHR 0x0A \<notin> set (escape_ps s) \<and> CHR 0x0D \<notin> set (escape_ps s)"
  by (induction s) (auto simp: dquote_def)

lemma set_TrimSpace: "set (TrimSpace s) \<subseteq> set s"
  unfolding TrimSpace_def by (auto dest!: set_dropWhileD)

text \<open>
  A script put on a PowerShell command line is one line, and no quote of it ends the
  argument, as long as the script has no backtick of its own.
\<close>
theorem escapePowerShell_sound:
  assumes "CHR 0x60 \<notin> set script"
  shows "quotes_escaped (escapePowerShellForCommand script) \<and> CHR 0x0A \<notin> set (escapePowerShellForCommand script)
    \<and> CHR 0x0D \<notin> set (escapePowerShellForCommand script)"
proof -
  obtain w where "dropWhile is_space (escape_ps script) = escapePowerShellForCommand script @ w"
    using TrimSpace_prefix unfolding escapePowerShellForCommand_def by blast
  then have "quotes_escaped (escapePowerShellForCommand script)"
    using quotes_escaped_dropWhile [OF escape_ps_quotes [OF assms]] quotes_escaped_append by simp
  moreover have "set (escapePowerShellForCommand script) \<subseteq> set (escape_ps script)"
    unfolding escapePowerShellForCommand_def by (rule set_TrimSpace)
  ultimately show ?thesis using escape_ps_line [of script] by blast
qed

theorem escapePowerShell_sound_witness:
  "CHR 0x0A \<notin> set (escapePowerShellForCommand state_script)"
proof -
  have "list_all (\<lambda>c. c \<noteq> CHR 0x60) state_script" by code_simp
  then have "CHR 0x60 \<notin> set state_script" by (auto simp: list_all_iff)
  from escapePowerShell_sound [OF this] show ?thesis by blast
qed

text \<open>The state query is a command in a guest whose connections are closed.\<close>

lemma GetWindowsBootstrapState_closes: "does (GetWindowsBootstrapState C cfg) (\<lambda>r l. closes l)"
  unfolding GetWindowsBootstrapState_def
  by (rule does_bindE, rule does_mono [OF RunWindowsSSHCommand_closes]) (auto split: sum.splits intro!: does_intros)

text \<open>A WinRM address gives its host and one of the two WinRM ports, bracketed or not.\<close>

lemma winrm_addresses:
  "hostFromAddress ''10.0.0.5:5986'' = ''10.0.0.5''" "portFromAddress ''10.0.0.5:5986'' = 5986"
  "hostFromAddress ''[fd00::5]:22'' = ''fd00::5''" "portFromAddress ''[fd00::5]:22'' = 5985"
  "hostFromAddress ''fd00::5'' = ''fd00::5''"
  by code_simp+

section \<open>Witnesses\<close>

definition demo_linux_ssh :: LinuxSSHConfig where
  "demo_linux_ssh = \<lparr>ls_Address = ''10.0.0.5:22'', ls_Username = ''ubuntu'', ls_PrivateKey = ''key'', ls_Timeout = 10\<rparr>"

definition demo_windows_ssh :: WindowsSSHConfig where
  "demo_windows_ssh = \<lparr>ws_Address = ''10.0.0.5:22'', ws_User = ''Administrator'', ws_KeyPEM = ''key'', ws_Timeout = 30\<rparr>"


theorem RunWindowsSSHBootstrap_trace_witness:
  "result (RunWindowsSSHBootstrap idle_client demo_windows_ssh ''true'') fresh = Inr ()
   \<and> closes (trace (RunWindowsSSHBootstrap idle_client demo_windows_ssh ''true'') fresh)"
  using does_trace [OF RunWindowsSSHBootstrap_trace [of idle_client demo_windows_ssh "''true''"], of fresh]
  by (simp add: RunWindowsSSHBootstrap_def demo_windows_ssh_def deferred_def run_io)

end
