(* ===== verification/Cluster.thy ===== *)
theory Cluster imports DemoClient begin

text \<open>
  What the controllers rely on in the Kubernetes client, and the calculus their properties
  are proved in. \<open>honest\<close> states the contract of the API server that the code uses: a read
  answers with the object of the name and namespace it asks for, and a patched VM keeps its
  identity. \<open>calls P m Q\<close> says that every call of \<open>m\<close> satisfies \<open>P\<close> and its result \<open>Q\<close>;
  its rules compute backwards through an operation, one rule per primitive.
\<close>

section \<open>The contract of the API server\<close>

definition named :: "string \<Rightarrow> string \<Rightarrow> ObjectMeta \<Rightarrow> bool" where
  "named ns n m \<longleftrightarrow> o_Namespace m = ns \<and> o_Name m = n"

definition answers :: "('a \<Rightarrow> bool) \<Rightarrow> ('w \<Rightarrow> 'a go \<times> 'w) \<Rightarrow> bool" where
  "answers Q f \<longleftrightarrow> (\<forall>w x. fst (f w) = Inr x \<longrightarrow> Q x)"

definition honest :: "'w client \<Rightarrow> bool" where
  "honest C \<longleftrightarrow>
     (\<forall>ns n. answers (\<lambda>x. vm_Namespace x = ns \<and> vm_Name x = n) (getVM C ns n)
       \<and> answers (\<lambda>x. named ns n (sec_Meta x)) (getSecret C ns n)
       \<and> answers (\<lambda>x. named ns n (cm_Meta x)) (getConfigMap C ns n)
       \<and> answers (\<lambda>x. ns_Name x = n) (getNamespace C n)
       \<and> answers (\<lambda>x. named ns n (svc_Meta x)) (getService C ns n)
       \<and> answers (\<lambda>x. named ns n (eps_Meta x)) (getEndpoints C ns n)
       \<and> answers (\<lambda>x. named ns n (sm_Meta x)) (getServiceMonitor C ns n)
       \<and> answers (\<lambda>x. named ns n (rb_Meta x)) (getRoleBinding C ns n)
       \<and> (\<forall>v k. answers (\<lambda>x. named ns n (u_Meta x)) (getUnstructured C v k ns n)))
     \<and> (\<forall>b x. answers (\<lambda>y. vm_Namespace y = vm_Namespace x \<and> vm_Name y = vm_Name x) (patchVMObj C b x))"

lemma honest_idle: "honest idle_client"
  by (simp add: honest_def answers_def idle_client_def)

section \<open>Calls and results\<close>

definition calls :: "(action \<Rightarrow> bool) \<Rightarrow> ('w, 'a) io \<Rightarrow> ('a \<Rightarrow> bool) \<Rightarrow> bool" where
  "calls P m Q \<longleftrightarrow> does m (\<lambda>r l. list_all P l \<and> Q r)"

named_theorems calls_rules "rules of calls"

lemma calls_mono: "calls P m Q \<Longrightarrow> (\<And>a. P a \<Longrightarrow> P' a) \<Longrightarrow> (\<And>r. Q r \<Longrightarrow> Q' r) \<Longrightarrow> calls P' m Q'"
  unfolding calls_def by (erule does_mono) (auto simp: list_all_iff)

lemma calls_post: "calls P m (\<lambda>_. True) \<Longrightarrow> (\<And>r. Q r) \<Longrightarrow> calls P m Q"
  by (erule calls_mono) auto

lemma calls_ret [calls_rules]: "Q x \<Longrightarrow> calls P (ret x) Q"
  by (simp add: calls_def does_return)

lemma calls_call: "P a \<Longrightarrow> (\<And>w. Q (fst (f w))) \<Longrightarrow> calls P (call a f) Q"
  by (auto simp: calls_def does_def call_def split: prod.splits) (metis fst_conv)

lemma calls_bind [calls_rules]: "calls P m (\<lambda>x. calls P (f x) Q) \<Longrightarrow> calls P (m \<bind> f) Q"
  unfolding calls_def by (rule does_bind, erule does_mono) (auto elim!: does_mono)

lemma calls_bindE [calls_rules]:
  "calls P m (\<lambda>x. (\<forall>e. x = Inl e \<longrightarrow> Q (Inl e)) \<and> (\<forall>y. x = Inr y \<longrightarrow> calls P (f y) Q)) \<Longrightarrow> calls P (bindE m f) Q"
  unfolding bindE_def
  by (rule calls_bind, erule calls_mono) (auto split: sum.splits intro: calls_ret)

lemma calls_wrapE [calls_rules]:
  "calls P m (\<lambda>x. (\<forall>e. x = Inl e \<longrightarrow> Q (Inl (Wrapf p e))) \<and> (\<forall>y. x = Inr y \<longrightarrow> Q (Inr y))) \<Longrightarrow> calls P (wrapE p m) Q"
  unfolding wrapE_def by (rule calls_bind, erule calls_mono) (auto split: sum.splits intro: calls_ret)

lemma calls_case_sum [calls_rules]:
  "(\<And>e. r = Inl e \<Longrightarrow> calls P (f e) Q) \<Longrightarrow> (\<And>x. r = Inr x \<Longrightarrow> calls P (g x) Q) \<Longrightarrow>
    calls P (case r of Inl e \<Rightarrow> f e | Inr x \<Rightarrow> g x) Q"
  by (cases r) auto

lemma calls_case_option [calls_rules]:
  "(r = None \<Longrightarrow> calls P f Q) \<Longrightarrow> (\<And>x. r = Some x \<Longrightarrow> calls P (g x) Q) \<Longrightarrow>
    calls P (case r of None \<Rightarrow> f | Some x \<Rightarrow> g x) Q"
  by (cases r) auto

lemma calls_case_prod [calls_rules]:
  "(\<And>a b. r = (a, b) \<Longrightarrow> calls P (f a b) Q) \<Longrightarrow> calls P (case r of (a, b) \<Rightarrow> f a b) Q"
  by (cases r) auto

lemma calls_if [calls_rules]:
  "(b \<Longrightarrow> calls P m Q) \<Longrightarrow> (\<not> b \<Longrightarrow> calls P n Q) \<Longrightarrow> calls P (if b then m else n) Q"
  by simp

lemma calls_let [calls_rules]: "(\<And>x. x = t \<Longrightarrow> calls P (f x) Q) \<Longrightarrow> calls P (let x = t in f x) Q"
  by simp


lemma calls_trace: "calls P m Q \<Longrightarrow> list_all P (trace m s) \<and> Q (result m s)"
  unfolding calls_def by (drule does_trace [of _ _ s]) auto

lemma calls_emits: "calls P m Q \<Longrightarrow> emits P m"
  unfolding calls_def emits_def by (erule does_mono) simp

section \<open>The primitives of an honest client\<close>

lemma answersD: "answers R f \<Longrightarrow> fst (f w) = Inr x \<Longrightarrow> R x"
  by (auto simp: answers_def)

text \<open>A result that is an error, or an object with the property \<open>R\<close>.\<close>

definition fetched :: "('a \<Rightarrow> bool) \<Rightarrow> 'a go \<Rightarrow> bool" where
  "fetched R r \<longleftrightarrow> (\<forall>x. r = Inr x \<longrightarrow> R x)"

lemma fetched_simps [simp]: "fetched R (Inl e)" "fetched R (Inr x) = R x"
  by (simp_all add: fetched_def)

lemma answers_fetched: "answers R f \<Longrightarrow> fetched R (fst (f w))"
  by (auto simp: answers_def fetched_def)

lemma calls_Get [calls_rules]:
  "honest C \<Longrightarrow> P (Get KVM ns n) \<Longrightarrow> (\<And>r. fetched (\<lambda>x. vm_Namespace x = ns \<and> vm_Name x = n) r \<Longrightarrow> Q1 r) \<Longrightarrow>
     calls P (Get_VM C ns n) Q1"
  "P (Get KVMI ns n) \<Longrightarrow> (\<And>r. Q2 r) \<Longrightarrow> calls P (Get_VMI C ns n) Q2"
  "honest C \<Longrightarrow> P (Get KSecret ns n) \<Longrightarrow> (\<And>r. fetched (\<lambda>x. named ns n (sec_Meta x)) r \<Longrightarrow> Q3 r) \<Longrightarrow>
     calls P (Get_Secret C ns n) Q3"
  "honest C \<Longrightarrow> P (Get KConfigMap ns n) \<Longrightarrow> (\<And>r. fetched (\<lambda>x. named ns n (cm_Meta x)) r \<Longrightarrow> Q4 r) \<Longrightarrow>
     calls P (Get_ConfigMap C ns n) Q4"
  "honest C \<Longrightarrow> P (Get KNamespace '''' n) \<Longrightarrow> (\<And>r. fetched (\<lambda>x. ns_Name x = n) r \<Longrightarrow> Q5 r) \<Longrightarrow>
     calls P (Get_Namespace C n) Q5"
  "honest C \<Longrightarrow> P (Get KService ns n) \<Longrightarrow> (\<And>r. fetched (\<lambda>x. named ns n (svc_Meta x)) r \<Longrightarrow> Q6 r) \<Longrightarrow>
     calls P (Get_Service C ns n) Q6"
  "honest C \<Longrightarrow> P (Get KEndpoints ns n) \<Longrightarrow> (\<And>r. fetched (\<lambda>x. named ns n (eps_Meta x)) r \<Longrightarrow> Q7 r) \<Longrightarrow>
     calls P (Get_Endpoints C ns n) Q7"
  "honest C \<Longrightarrow> P (Get KServiceMonitor ns n) \<Longrightarrow> (\<And>r. fetched (\<lambda>x. named ns n (sm_Meta x)) r \<Longrightarrow> Q8 r) \<Longrightarrow>
     calls P (Get_ServiceMonitor C ns n) Q8"
  "honest C \<Longrightarrow> P (Get KRoleBinding ns n) \<Longrightarrow> (\<And>r. fetched (\<lambda>x. named ns n (rb_Meta x)) r \<Longrightarrow> Q9 r) \<Longrightarrow>
     calls P (Get_RoleBinding C ns n) Q9"
  "P (Get KRoute ns n) \<Longrightarrow> (\<And>r. Q10 r) \<Longrightarrow> calls P (Get_RouteHost C ns n) Q10"
  "honest C \<Longrightarrow> P (Get (KUnstructured v k) ns n) \<Longrightarrow>
     (\<And>r. fetched (\<lambda>x. named ns n (u_Meta x)) r \<Longrightarrow> Q11 r) \<Longrightarrow> calls P (Get_Unstructured C v k ns n) Q11"
  unfolding prim_defs
  by (rule calls_call; simp add: honest_def answers_fetched)+

lemma calls_Patch_VM [calls_rules]:
  "honest C \<Longrightarrow> P (Patch (OVM b) (OVM x)) \<Longrightarrow>
     (\<And>r. fetched (\<lambda>y. vm_Namespace y = vm_Namespace x \<and> vm_Name y = vm_Name x) r \<Longrightarrow> Q r) \<Longrightarrow>
     calls P (Patch_VM C b x) Q"
  unfolding prim_defs by (rule calls_call; simp add: honest_def answers_fetched)

lemma calls_prims [calls_rules]:
  "P (Create x) \<Longrightarrow> (\<And>r. Q1 r) \<Longrightarrow> calls P (Create_Obj C x) Q1"
  "P (Patch b x) \<Longrightarrow> (\<And>r. Q1 r) \<Longrightarrow> calls P (Patch_Obj C b x) Q1"
  "P (DialTCP addr t) \<Longrightarrow> (\<And>r. Q1 r) \<Longrightarrow> calls P (Dial_TCP C addr t) Q1"
  "P (SSHDial addr u t) \<Longrightarrow> (\<And>r. Q2 r) \<Longrightarrow> calls P (Dial_SSH C addr u k t) Q2"
  "P (SSHSession c) \<Longrightarrow> (\<And>r. Q2 r) \<Longrightarrow> calls P (New_Session C c) Q2"
  "P (SSHExec c i cmd) \<Longrightarrow> (\<And>r. Q3 r) \<Longrightarrow> calls P (Exec C c i cmd) Q3"
  "P (SSHExec c i cmd) \<Longrightarrow> (\<And>r. Q4 r) \<Longrightarrow> calls P (Combined_Output C c i cmd) Q4"
  "P (CloseSession c) \<Longrightarrow> (\<And>r. Q5 r) \<Longrightarrow> calls P (Close_Session c) Q5"
  "P (CloseClient c) \<Longrightarrow> (\<And>r. Q5 r) \<Longrightarrow> calls P (Close_Client c) Q5"
  "P Now \<Longrightarrow> (\<And>r. Q6 r) \<Longrightarrow> calls P (Time_Now C) Q6"
  "P (Event (vm_Namespace vm) (vm_Name vm) typ reason msg) \<Longrightarrow> (\<And>r. Q5 r) \<Longrightarrow> calls P (eventf vm typ reason msg) Q5"
  unfolding prim_defs by (rule calls_call; simp)+

section \<open>What the controller may write\<close>

text \<open>The annotations the controller sets and deletes.\<close>

definition controller_keys :: "string list" where
  "controller_keys = [AnnBootstrapOS, AnnExporter, AnnReason, AnnStatus, AnnBootstrapStartedAt,
     AnnRemediationRequired, AnnRemediationCompleted, AnnRemediationError, AnnAlloyError, AnnAlloyInstalled,
     AnnAlloyConfigHash, AnnSysprepMerged, AnnSysprepMergeError, AnnCloudInitSecretMerged,
     AnnCloudInitSecretMergeError, AnnBootstrapReady]"

text \<open>Those that record something done: the controller leaves them or sets them to \<open>true\<close>.\<close>

definition milestones :: "string list" where
  "milestones = [AnnRemediationCompleted, AnnSysprepMerged, AnnCloudInitSecretMerged, AnnAlloyInstalled, AnnBootstrapReady]"

definition owned :: "(smap \<Rightarrow> smap) \<Rightarrow> bool" where
  "owned f \<longleftrightarrow> (\<forall>m k. (k \<notin> set controller_keys \<longrightarrow> fmlookup (f m) k = fmlookup m k)
     \<and> (k \<in> set milestones \<longrightarrow> fmlookup (f m) k \<in> {fmlookup m k, Some ''true''}))"

text \<open>A patch of a VM that changes nothing but those annotations, and reaches milestones only.\<close>

definition annotation_patch :: "VirtualMachine \<Rightarrow> VirtualMachine \<Rightarrow> bool" where
  "annotation_patch v w \<longleftrightarrow> w = v\<lparr>Annotations := Annotations w\<rparr> \<and> Annotations w \<noteq> None
     \<and> (\<forall>k. k \<notin> set controller_keys \<longrightarrow> fmlookup (non_nil (Annotations w)) k = fmlookup (non_nil (Annotations v)) k)
     \<and> (\<forall>k. k \<in> set milestones \<longrightarrow>
          fmlookup (non_nil (Annotations w)) k \<in> {fmlookup (non_nil (Annotations v)) k, Some ''true''})"

definition is_vm :: "kobj \<Rightarrow> bool" where
  "is_vm x \<longleftrightarrow> (case x of OVM v \<Rightarrow> True | _ \<Rightarrow> False)"

definition patch_allowed :: "kobj \<Rightarrow> kobj \<Rightarrow> bool" where
  "patch_allowed b x \<longleftrightarrow> (case b of
     OVM v \<Rightarrow> (case x of OVM w \<Rightarrow> annotation_patch v w | _ \<Rightarrow> False)
   | _ \<Rightarrow> \<not> is_vm x)"

lemma is_vm_simps [simp]:
  "is_vm (OVM v)" "\<not> is_vm (OSecret s)" "\<not> is_vm (OConfigMap c)" "\<not> is_vm (ONamespace n)"
  "\<not> is_vm (OService svc)" "\<not> is_vm (OEndpoints e)" "\<not> is_vm (OServiceMonitor sm)"
  "\<not> is_vm (ORoleBinding rb)" "\<not> is_vm (OUnstructured u)"
  by (simp_all add: is_vm_def)

lemma patch_allowed_simps [simp]:
  "patch_allowed (OVM v) (OVM w) = annotation_patch v w"
  "\<not> is_vm b \<Longrightarrow> patch_allowed b x = (\<not> is_vm x)"
  by (auto simp: patch_allowed_def is_vm_def split: kobj.splits)

definition confined :: "string \<Rightarrow> action \<Rightarrow> bool" where
  "confined ns a \<longleftrightarrow> (case a of
     Create x \<Rightarrow> namespace_of x = ns \<and> \<not> is_vm x
   | Patch b x \<Rightarrow> namespace_of b = ns \<and> namespace_of x = ns \<and> patch_allowed b x
   | Req r \<Rightarrow> False
   | _ \<Rightarrow> True)"

lemma confined_simps [simp]:
  "confined ns (Create x) \<longleftrightarrow> namespace_of x = ns \<and> \<not> is_vm x"
  "confined ns (Patch b x) \<longleftrightarrow> namespace_of b = ns \<and> namespace_of x = ns \<and> patch_allowed b x"
  "\<not> confined ns (Req r)"
  "confined ns (Get k m n)" "confined ns (Event m n typ reason msg)"
  "confined ns (DialTCP addr t)" "confined ns (SSHDial addr u t)" "confined ns (SSHSession c)"
  "confined ns (SSHExec c i cmd)" "confined ns (CloseSession c)" "confined ns (CloseClient c)"
  "confined ns Now"
  by (simp_all add: confined_def)

section \<open>Stored Secrets\<close>

lemma meta_simps [simp]:
  "o_Name (meta ns n ls an) = n" "o_Namespace (meta ns n ls an) = ns"
  "o_Labels (meta ns n ls an) = ls" "o_Annotations (meta ns n ls an) = an"
  by (simp_all add: meta_def)

text \<open>
  Secrets as a sequential API server keeps them: reads see what is stored, and a successful
  write stores its object.
\<close>

definition secret_key :: "Secret \<Rightarrow> string \<times> string" where
  "secret_key x = (o_Namespace (sec_Meta x), o_Name (sec_Meta x))"

definition secret_store :: "'w client \<Rightarrow> ('w \<Rightarrow> string \<times> string \<Rightarrow> Secret option) \<Rightarrow> bool" where
  "secret_store C \<sigma> \<longleftrightarrow>
     (\<forall>ns n w. case getSecret C ns n w of (r, w') \<Rightarrow> \<sigma> w' = \<sigma> w \<and> (case r of
        Inl e \<Rightarrow> IsNotFound e \<longrightarrow> \<sigma> w (ns, n) = None
      | Inr x \<Rightarrow> \<sigma> w (ns, n) = Some x \<and> secret_key x = (ns, n)))
     \<and> (\<forall>x w. case createObj C (OSecret x) w of (r, w') \<Rightarrow> (case r of
        Inl e \<Rightarrow> IsAlreadyExists e \<longrightarrow> \<sigma> w (secret_key x) \<noteq> None
      | Inr _ \<Rightarrow> \<sigma> w' = (\<sigma> w)(secret_key x \<mapsto> x)))
     \<and> (\<forall>b x w. case patchObj C (OSecret b) (OSecret x) w of (r, w') \<Rightarrow> (case r of
        Inl e \<Rightarrow> True | Inr _ \<Rightarrow> \<sigma> w' = (\<sigma> w)(secret_key x \<mapsto> x)))"

lemma secret_storeD:
  assumes "secret_store C \<sigma>"
  shows "getSecret C ns n w = (r, w') \<Longrightarrow> \<sigma> w' = \<sigma> w \<and> (case r of
        Inl e \<Rightarrow> IsNotFound e \<longrightarrow> \<sigma> w (ns, n) = None | Inr x \<Rightarrow> \<sigma> w (ns, n) = Some x \<and> secret_key x = (ns, n))"
    and "createObj C (OSecret x) w = (q, w') \<Longrightarrow> (case q of
        Inl e \<Rightarrow> IsAlreadyExists e \<longrightarrow> \<sigma> w (secret_key x) \<noteq> None | Inr _ \<Rightarrow> \<sigma> w' = (\<sigma> w)(secret_key x \<mapsto> x))"
    and "patchObj C (OSecret b) (OSecret x) w = (Inr (), w') \<Longrightarrow> \<sigma> w' = (\<sigma> w)(secret_key x \<mapsto> x)"
  using assms unfolding secret_store_def by (fastforce split: prod.splits)+

text \<open>A server that keeps the Secrets in a map is one.\<close>

definition map_client :: "(string \<times> string \<Rightarrow> Secret option) client" where
  "map_client = \<lparr>
     getVM = (\<lambda>_ _ w. (Inl not_found, w)), getVMIObj = (\<lambda>_ _ w. (Inl not_found, w)),
     getSecret = (\<lambda>ns n w. (case w (ns, n) of None \<Rightarrow> Inl not_found
        | Some x \<Rightarrow> if secret_key x = (ns, n) then Inr x else Inl (Errorf ''corrupt''), w)),
     getConfigMap = (\<lambda>_ _ w. (Inl not_found, w)),
     getNamespace = (\<lambda>n w. (Inr \<lparr>ns_Name = n, ns_Labels = None\<rparr>, w)), getService = (\<lambda>_ _ w. (Inl not_found, w)),
     getEndpoints = (\<lambda>_ _ w. (Inl not_found, w)), getServiceMonitor = (\<lambda>_ _ w. (Inl not_found, w)),
     getRoleBinding = (\<lambda>_ _ w. (Inl not_found, w)), getRouteHost = (\<lambda>_ _ w. (Inl not_found, w)),
     getUnstructured = (\<lambda>_ _ _ _ w. (Inl not_found, w)),
     createObj = (\<lambda>x w. case x of OSecret y \<Rightarrow> (case w (secret_key y) of
          None \<Rightarrow> (Inr (), w(secret_key y \<mapsto> y)) | Some _ \<Rightarrow> (Inl (GoErr KAlreadyExists ''exists''), w))
        | _ \<Rightarrow> (Inr (), w)),
     patchObj = (\<lambda>_ x w. case x of OSecret y \<Rightarrow> (Inr (), w(secret_key y \<mapsto> y)) | _ \<Rightarrow> (Inr (), w)),
     patchVMObj = (\<lambda>_ x w. (Inr x, w)),
     dial_tcp = (\<lambda>_ _ w. (Inr (), w)), ssh_parse_key = (\<lambda>k. Inr k), ssh_dial = (\<lambda>_ _ _ _ w. (Inr 1, w)),
     ssh_session = (\<lambda>_ w. (Inr 2, w)), ssh_exec = (\<lambda>_ _ _ w. ((None, '''', ''''), w)),
     ssh_combined = (\<lambda>_ _ _ w. ((None, ''''), w)), time_now = (\<lambda>w. (0, w))\<rparr>"

lemma map_client_simps [simp]:
  "getSecret map_client ns n w = (case w (ns, n) of None \<Rightarrow> Inl not_found
     | Some x \<Rightarrow> if secret_key x = (ns, n) then Inr x else Inl (Errorf ''corrupt''), w)"
  "createObj map_client (OSecret y) w = (case w (secret_key y) of None \<Rightarrow> (Inr (), w(secret_key y \<mapsto> y))
     | Some _ \<Rightarrow> (Inl (GoErr KAlreadyExists ''exists''), w))"
  "patchObj map_client b (OSecret y) w = (Inr (), w(secret_key y \<mapsto> y))"
  "IsNotFound not_found"
  by (simp_all add: map_client_def not_found_def IsNotFound_def)

lemma map_client_store: "secret_store map_client (\<lambda>w. w)"
  by (auto simp: secret_store_def map_client_def IsNotFound_def IsAlreadyExists_def not_found_def split: option.splits)

lemma map_client_honest: "honest map_client"
  by (auto simp: honest_def answers_def map_client_def named_def secret_key_def split: option.splits if_splits)

end
