(* ===== verification/AlertTemplates.thy ===== *)
theory AlertTemplates imports Prelude begin

text \<open>
  \<open>alerts/templates.go\<close>: the embedded alert rules of \<open>alerts/*-template.yaml\<close> as lists of
  lines, and their rendering for a namespace.
\<close>

section \<open>The embedded templates\<close>

definition vmMetricsTemplate_lines :: "string list" where
  \<open>vmMetricsTemplate_lines =
    [''apiVersion: monitoring.coreos.com/v1'',
     ''kind: PrometheusRule'',
     ''metadata:'',
     ''  name: vm-metrics-alerts'',
     ''  namespace: __NAMESPACE__'',
     ''  labels:'',
     ''    app: kubevirt-observability'',
     ''    openshift.io/prometheus-rule-evaluation-scope: leaf-prometheus'',
     ''spec:'',
     ''  groups:'',
     ''    - name: vm.metrics.alerts'',
     ''      rules:'',
     ''        - alert: VMExporterDown'',
     ''          expr: up{exporter=~"windows_exporter|node_exporter"} == 0'',
     ''          for: 5m'',
     ''          labels:'',
     ''            kvo_notification: normal'',
     ''            severity: critical'',
     ''          annotations:'',
     ''            summary: "VM exporter down"'',
     ''            description: "Exporter is down for VM {{ $labels.vm_name }} in namespace {{ $labels.namespace }}."'',
     '''',
     ''        - alert: WindowsVMHighCPU'',
     ''          expr: 100 - (avg by (namespace, vm_name) (rate(windows_cpu_time_total{mode="idle"}[5m])) * 100) > 85'',
     ''          for: 10m'',
     ''          labels:'',
     ''            kvo_notification: none'',
     ''            severity: warning'',
     ''          annotations:'',
     ''            summary: "Windows VM high CPU"'',
     ''            description: "Windows VM {{ $labels.vm_name }} CPU usage is above 85%."'',
     '''',
     ''        - alert: LinuxVMHighCPU'',
     ''          expr: 100 - (avg by (namespace, vm_name) (rate(node_cpu_seconds_total{mode="idle"}[5m])) * 100) > 85'',
     ''          for: 10m'',
     ''          labels:'',
     ''            kvo_notification: none'',
     ''            severity: warning'',
     ''          annotations:'',
     ''            summary: "Linux VM high CPU"'',
     ''            description: "Linux VM {{ $labels.vm_name }} CPU usage is above 85%."'',
     '''',
     ''        - alert: WindowsVMHighMemory'',
     ''          expr: 100 * (1 - (windows_os_physical_memory_free_bytes / windows_cs_physical_memory_bytes)) > 85'',
     ''          for: 10m'',
     ''          labels:'',
     ''            kvo_notification: none'',
     ''            severity: warning'',
     ''          annotations:'',
     ''            summary: "Windows VM high memory"'',
     ''            description: "Windows VM {{ $labels.vm_name }} memory usage is above 85%."'',
     '''',
     ''        - alert: LinuxVMHighMemory'',
     ''          expr: 100 * (1 - (node_memory_MemAvailable_bytes / node_memory_MemTotal_bytes)) > 85'',
     ''          for: 10m'',
     ''          labels:'',
     ''            kvo_notification: none'',
     ''            severity: warning'',
     ''          annotations:'',
     ''            summary: "Linux VM high memory"'',
     ''            description: "Linux VM {{ $labels.vm_name }} memory usage is above 85%."'',
     '''',
     ''        - alert: WindowsVMDiskSpaceLow'',
     ''          expr: 100 * (windows_logical_disk_free_bytes{volume!~"_Total"} / windows_logical_disk_size_bytes{volume!~"_Total"}) < 15'',
     ''          for: 10m'',
     ''          labels:'',
     ''            kvo_notification: normal'',
     ''            severity: warning'',
     ''          annotations:'',
     ''            summary: "Windows VM disk space low"'',
     ''            description: "Windows VM {{ $labels.vm_name }} volume {{ $labels.volume }} has less than 15% free space."'',
     '''',
     ''        - alert: LinuxVMDiskSpaceLow'',
     ''          expr: |'',
     ''            100 * ('',
     ''              node_filesystem_avail_bytes{'',
     ''                exporter="node_exporter",'',
     ''                service=~".*-metrics",'',
     ''                fstype!~"tmpfs|devtmpfs|overlay|squashfs|autofs|proc|sysfs|cgroup.*",'',
     ''                mountpoint!~"/run.*|/dev.*|/proc.*|/sys.*"'',
     ''              }'',
     ''              /'',
     ''              node_filesystem_size_bytes{'',
     ''                exporter="node_exporter",'',
     ''                service=~".*-metrics",'',
     ''                fstype!~"tmpfs|devtmpfs|overlay|squashfs|autofs|proc|sysfs|cgroup.*",'',
     ''                mountpoint!~"/run.*|/dev.*|/proc.*|/sys.*"'',
     ''              }'',
     ''            ) < 15'',
     ''          for: 10m'',
     ''          labels:'',
     ''            kvo_notification: normal'',
     ''            severity: warning'',
     ''            source: kubevirt-observability'',
     ''          annotations:'',
     ''            summary: "Linux VM disk space low"'',
     ''            description: "Linux VM {{ $labels.vm_name }} in namespace {{ $labels.namespace }} mount {{ $labels.mountpoint }} on {{ $labels.device }} has less than 15% free space."'',
     '''',
     ''        - alert: LinuxVMDiskSpaceCritical'',
     ''          expr: |'',
     ''            100 * ('',
     ''              node_filesystem_avail_bytes{'',
     ''              exporter="node_exporter",'',
     ''              service=~".*-metrics",'',
     ''              fstype!~"tmpfs|devtmpfs|overlay|squashfs|autofs|proc|sysfs|cgroup.*",'',
     ''              mountpoint!~"/run.*|/dev.*|/proc.*|/sys.*"'',
     ''            }'',
     ''            /'',
     ''              node_filesystem_size_bytes{'',
     ''              exporter="node_exporter",'',
     ''              service=~".*-metrics",'',
     ''              fstype!~"tmpfs|devtmpfs|overlay|squashfs|autofs|proc|sysfs|cgroup.*",'',
     ''              mountpoint!~"/run.*|/dev.*|/proc.*|/sys.*"'',
     ''            }'',
     ''            ) < 5'',
     ''          for: 2m'',
     ''          labels:'',
     ''            kvo_notification: normal'',
     ''            severity: critical'',
     ''            source: kubevirt-observability'',
     ''          annotations:'',
     ''            summary: "Linux VM disk space critical"'',
     ''            description: "Linux VM {{ $labels.vm_name }} in namespace {{ $labels.namespace }} mount {{ $labels.mountpoint }} on {{ $labels.device }} has less than 5% free space."'',
     '''',
     ''        - alert: WindowsVMDiskLatencyHigh'',
     ''          expr: |'',
     ''            ('',
     ''              rate(windows_logical_disk_read_seconds_total{volume!~"_Total"}[5m])'',
     ''              /'',
     ''              clamp_min(rate(windows_logical_disk_reads_total{volume!~"_Total"}[5m]), 1)'',
     ''            ) > 0.05'',
     ''            or'',
     ''            ('',
     ''              rate(windows_logical_disk_write_seconds_total{volume!~"_Total"}[5m])'',
     ''              /'',
     ''              clamp_min(rate(windows_logical_disk_writes_total{volume!~"_Total"}[5m]), 1)'',
     ''            ) > 0.05'',
     ''          for: 10m'',
     ''          labels:'',
     ''            kvo_notification: none'',
     ''            severity: warning'',
     ''          annotations:'',
     ''            summary: "Windows VM disk latency high"'',
     ''            description: "Windows VM {{ $labels.vm_name }} volume {{ $labels.volume }} has disk latency above 50ms."'',
     '''',
     ''        - alert: LinuxVMDiskLatencyHigh'',
     ''          expr: |'',
     ''            ('',
     ''              rate(node_disk_read_time_seconds_total{device!~"loop.*|ram.*"}[5m])'',
     ''              /'',
     ''              clamp_min(rate(node_disk_reads_completed_total{device!~"loop.*|ram.*"}[5m]), 1)'',
     ''            ) > 0.05'',
     ''            or'',
     ''            ('',
     ''              rate(node_disk_write_time_seconds_total{device!~"loop.*|ram.*"}[5m])'',
     ''              /'',
     ''              clamp_min(rate(node_disk_writes_completed_total{device!~"loop.*|ram.*"}[5m]), 1)'',
     ''            ) > 0.05'',
     ''          for: 10m'',
     ''          labels:'',
     ''            kvo_notification: none'',
     ''            severity: warning'',
     ''          annotations:'',
     ''            summary: "Linux VM disk latency high"'',
     ''            description: "Linux VM {{ $labels.vm_name }} disk {{ $labels.device }} has disk latency above 50ms."'',
     '''',
     ''        - alert: WindowsVMHighIOPS'',
     ''          expr: rate(windows_logical_disk_reads_total{volume!~"_Total"}[5m]) + rate(windows_logical_disk_writes_total{volume!~"_Total"}[5m]) > 5000'',
     ''          for: 10m'',
     ''          labels:'',
     ''            kvo_notification: none'',
     ''            severity: warning'',
     ''          annotations:'',
     ''            summary: "Windows VM high IOPS"'',
     ''            description: "Windows VM {{ $labels.vm_name }} volume {{ $labels.volume }} is above 5000 IOPS."'',
     '''',
     ''        - alert: LinuxVMHighIOPS'',
     ''          expr: rate(node_disk_reads_completed_total{device!~"loop.*|ram.*"}[5m]) + rate(node_disk_writes_completed_total{device!~"loop.*|ram.*"}[5m]) > 5000'',
     ''          for: 10m'',
     ''          labels:'',
     ''            kvo_notification: none'',
     ''            severity: warning'',
     ''          annotations:'',
     ''            summary: "Linux VM high IOPS"'',
     ''            description: "Linux VM {{ $labels.vm_name }} disk {{ $labels.device }} is above 5000 IOPS."'',
     '''',
     ''        - alert: WindowsVMHighDiskThroughput'',
     ''          expr: rate(windows_logical_disk_read_bytes_total{volume!~"_Total"}[5m]) + rate(windows_logical_disk_write_bytes_total{volume!~"_Total"}[5m]) > 104857600'',
     ''          for: 10m'',
     ''          labels:'',
     ''            kvo_notification: none'',
     ''            severity: warning'',
     ''          annotations:'',
     ''            summary: "Windows VM high disk throughput"'',
     ''            description: "Windows VM {{ $labels.vm_name }} volume {{ $labels.volume }} is above 100 MiB/s."'',
     '''',
     ''        - alert: LinuxVMHighDiskThroughput'',
     ''          expr: rate(node_disk_read_bytes_total{device!~"loop.*|ram.*"}[5m]) + rate(node_disk_written_bytes_total{device!~"loop.*|ram.*"}[5m]) > 104857600'',
     ''          for: 10m'',
     ''          labels:'',
     ''            kvo_notification: none'',
     ''            severity: warning'',
     ''          annotations:'',
     ''            summary: "Linux VM high disk throughput"'',
     ''            description: "Linux VM {{ $labels.vm_name }} disk {{ $labels.device }} is above 100 MiB/s."'',
     '''',
     ''        - alert: LinuxVMDiskIOStuck'',
     ''          expr: rate(node_disk_io_time_seconds_total{device!~"loop.*|ram.*"}[5m]) > 0.9'',
     ''          for: 15m'',
     ''          labels:'',
     ''            kvo_notification: normal'',
     ''            severity: critical'',
     ''          annotations:'',
     ''            summary: "Linux VM disk IO stuck/saturated"'',
     ''            description: "Linux VM {{ $labels.vm_name }} disk {{ $labels.device }} is busy more than 90% for 15m."'',
     '''',
     ''        - alert: LinuxVMHighDiscardRate'',
     ''          expr: rate(node_disk_discards_completed_total{device!~"loop.*|ram.*"}[5m]) > 1000'',
     ''          for: 10m'',
     ''          labels:'',
     ''            kvo_notification: none'',
     ''            severity: warning'',
     ''          annotations:'',
     ''            summary: "Linux VM high discard rate"'',
     ''            description: "Linux VM {{ $labels.vm_name }} disk {{ $labels.device }} has high discard rate."'',
     ''        - alert: WindowsVMNoDiskIO'',
     ''          expr: |'',
     ''            ('',
     ''              rate(windows_logical_disk_reads_total{volume!~"_Total"}[15m])'',
     ''              +'',
     ''              rate(windows_logical_disk_writes_total{volume!~"_Total"}[15m])'',
     ''            ) == 0'',
     ''          for: 30m'',
     ''          labels:'',
     ''            kvo_notification: none'',
     ''            severity: warning'',
     ''          annotations:'',
     ''            summary: "Windows VM has no disk I/O"'',
     ''            description: "Windows VM {{ $labels.vm_name }} volume {{ $labels.volume }} has had no read/write I/O for 30 minutes."'',
     ''        - alert: LinuxVMNoDiskIO'',
     ''          expr: |'',
     ''            ('',
     ''              rate(node_disk_reads_completed_total{device!~"loop.*|ram.*"}[15m])'',
     ''              +'',
     ''              rate(node_disk_writes_completed_total{device!~"loop.*|ram.*"}[15m])'',
     ''            ) == 0'',
     ''          for: 30m'',
     ''          labels:'',
     ''            kvo_notification: none'',
     ''            severity: warning'',
     ''          annotations:'',
     ''            summary: "Linux VM has no disk I/O"'',
     ''            description: "Linux VM {{ $labels.vm_name }} disk {{ $labels.device }} has had no read/write I/O for 30 minutes."'',
     ''        - alert: WindowsVMIdle'',
     ''          expr: |'',
     ''            ('',
     ''              100 - (avg by (namespace, vm_name) (rate(windows_cpu_time_total{mode="idle"}[15m])) * 100)'',
     ''            ) < 2'',
     ''            and'',
     ''            ('',
     ''              sum by (namespace, vm_name) ('',
     ''                rate(windows_logical_disk_reads_total{volume!~"_Total"}[15m])'',
     ''                +'',
     ''                rate(windows_logical_disk_writes_total{volume!~"_Total"}[15m])'',
     ''              )'',
     ''            ) < 1'',
     ''            and'',
     ''            ('',
     ''              sum by (namespace, vm_name) ('',
     ''                rate(windows_net_bytes_total[15m])'',
     ''              )'',
     ''            ) < 10240'',
     ''          for: 1h'',
     ''          labels:'',
     ''            kvo_notification: none'',
     ''            severity: info'',
     ''          annotations:'',
     ''            summary: "Windows VM appears idle"'',
     ''            description: "Windows VM {{ $labels.vm_name }} in namespace {{ $labels.namespace }} has very low CPU, disk I/O, and network activity for 1 hour."'',
     ''        - alert: LinuxVMIdle'',
     ''          expr: |'',
     ''            ('',
     ''              100 - (avg by (namespace, vm_name) (rate(node_cpu_seconds_total{mode="idle"}[15m])) * 100)'',
     ''            ) < 2'',
     ''            and'',
     ''            ('',
     ''              sum by (namespace, vm_name) ('',
     ''                rate(node_disk_reads_completed_total{device!~"loop.*|ram.*"}[15m])'',
     ''                +'',
     ''                rate(node_disk_writes_completed_total{device!~"loop.*|ram.*"}[15m])'',
     ''              )'',
     ''            ) < 1'',
     ''            and'',
     ''            ('',
     ''              sum by (namespace, vm_name) ('',
     ''                rate(node_network_receive_bytes_total{device!~"lo"}[15m])'',
     ''                +'',
     ''                rate(node_network_transmit_bytes_total{device!~"lo"}[15m])'',
     ''              )'',
     ''            ) < 10240'',
     ''          for: 1h'',
     ''          labels:'',
     ''            kvo_notification: none'',
     ''            severity: info'',
     ''          annotations:'',
     ''            summary: "Linux VM appears idle"'',
     ''            description: "Linux VM {{ $labels.vm_name }} in namespace {{ $labels.namespace }} has very low CPU, disk I/O, and network activity for 1 hour."'',
     '''']\<close>

definition vmMetricsTemplate :: string where
  "vmMetricsTemplate = unlines vmMetricsTemplate_lines"

definition vmLokiTemplate_lines :: "string list" where
  \<open>vmLokiTemplate_lines =
    [''apiVersion: loki.grafana.com/v1'',
     ''kind: AlertingRule'',
     ''metadata:'',
     ''  name: vm-loki-failure-alerts'',
     ''  namespace: __NAMESPACE__'',
     ''  labels:'',
     ''    app: vm-monitoring'',
     ''    app.kubernetes.io/managed-by: kubevirt-observability'',
     ''spec:'',
     ''  tenantID: application'',
     ''  groups:'',
     ''    - name: vm.loki.failure.alerts'',
     ''      interval: 1m'',
     ''      rules:'',
     ''        - alert: WindowsVMEvent129Detected'',
     ''          expr: |'',
     ''            sum by (kubernetes_namespace_name, vm_name) ('',
     ''              count_over_time({kubernetes_namespace_name="__NAMESPACE__", source="windows_eventlog", os="windows"} | json event_id="event_id", event_source="source", event_channel="channel" | event_id=129 | event_channel="System" | event_source=~"(?i)(viostor|storahci|iastor.*|storport|disk)" [5m])'',
     ''            ) > 0'',
     ''          for: 1m'',
     ''          labels:'',
     ''            kvo_notification: immediate'',
     ''            severity: critical'',
     ''            os: windows'',
     ''          annotations:'',
     ''            summary: "Windows VM Event 129 / storage reset detected"'',
     ''            description: "Windows VM {{ $labels.vm_name }} in namespace {{ $labels.kubernetes_namespace_name }} reported Event 129 or storage reset symptoms."'',
     '''',
     ''        - alert: WindowsVMBSODDetected'',
     ''          expr: |'',
     ''            sum by (kubernetes_namespace_name, vm_name) ('',
     ''              count_over_time({kubernetes_namespace_name="__NAMESPACE__", source="windows_eventlog", os="windows"} | json event_message="message" | event_message=~"(?i)(rebooted from a bugcheck|bugcheck was|event name: bluescreen|blue screen|bsod|memory[.]dmp)" [5m])'',
     ''            ) > 0'',
     ''          for: 1m'',
     ''          labels:'',
     ''            kvo_notification: immediate'',
     ''            severity: critical'',
     ''            os: windows'',
     ''          annotations:'',
     ''            summary: "Windows VM BSOD detected"'',
     ''            description: "Windows VM {{ $labels.vm_name }} in namespace {{ $labels.kubernetes_namespace_name }} reported a BSOD, bugcheck, stop error, or crash dump event."'',
     '''',
     ''        - alert: LinuxVMKernelPanicDetected'',
     ''          expr: |'',
     ''            sum by (kubernetes_namespace_name, vm_name) ('',
     ''              count_over_time({kubernetes_namespace_name="__NAMESPACE__", source="linux_syslog", os="linux"} |~ "(?i)(kernel panic|panic:|oops:|BUG:|soft lockup|hard lockup|hung task)" [5m])'',
     ''            ) > 0'',
     ''          for: 1m'',
     ''          labels:'',
     ''            kvo_notification: immediate'',
     ''            severity: critical'',
     ''            os: linux'',
     ''          annotations:'',
     ''            summary: "Linux VM kernel crash/panic detected"'',
     ''            description: "Linux VM {{ $labels.vm_name }} in namespace {{ $labels.kubernetes_namespace_name }} reported kernel panic, oops, lockup, or hung task."'',
     '''',
     ''        - alert: VMIOErrorDetected'',
     ''          expr: |'',
     ''            sum by (kubernetes_namespace_name, vm_name, os) ('',
     ''              count_over_time({kubernetes_namespace_name="__NAMESPACE__", source="windows_eventlog", os="windows"} | json event_message="message" | event_message=~"(?i)(i/o error|io error|medium error|device error|disk error|bad sector)" [5m])'',
     ''              +'',
     ''              count_over_time({kubernetes_namespace_name="__NAMESPACE__", source="linux_syslog", os="linux"} |~ "(?i)(i/o error|io error|blk_update_request|buffer i/o error|end_request: I/O error|medium error|device error|disk error|bad sector)" [5m])'',
     ''            ) > 0'',
     ''          for: 1m'',
     ''          labels:'',
     ''            kvo_notification: immediate'',
     ''            severity: critical'',
     ''          annotations:'',
     ''            summary: "VM disk I/O error detected"'',
     ''            description: "VM {{ $labels.vm_name }} in namespace {{ $labels.kubernetes_namespace_name }} reported disk I/O errors."'',
     '''',
     ''        - alert: VMFilesystemErrorDetected'',
     ''          expr: |'',
     ''            sum by (kubernetes_namespace_name, vm_name, os) ('',
     ''              count_over_time({kubernetes_namespace_name="__NAMESPACE__", source="windows_eventlog", os="windows"} | json event_message="message" | event_message=~"(?i)(file system corruption|filesystem corruption|volume.*corrupt|filesystem error|file system error|ntfs.*error)" [5m])'',
     ''              +'',
     ''              count_over_time({kubernetes_namespace_name="__NAMESPACE__", source="linux_syslog", os="linux"} |~ "(?i)(xfs.*error|ext4.*error|filesystem error|file system corruption|remounting filesystem read-only|journal has aborted)" [5m])'',
     ''            ) > 0'',
     ''          for: 1m'',
     ''          labels:'',
     ''            kvo_notification: immediate'',
     ''            severity: critical'',
     ''          annotations:'',
     ''            summary: "VM filesystem error detected"'',
     ''            description: "VM {{ $labels.vm_name }} in namespace {{ $labels.kubernetes_namespace_name }} reported filesystem corruption or filesystem errors."'',
     '''',
     ''        - alert: VMNetworkErrorDetected'',
     ''          expr: |'',
     ''            sum by (kubernetes_namespace_name, vm_name, os) ('',
     ''              count_over_time({kubernetes_namespace_name="__NAMESPACE__", source=~"linux_syslog|windows_eventlog"} |~ "(?i)(network unreachable|connection reset|link is down|link down|nic.*error|tcp.*retransmit|packet loss|dns.*fail|dhcp.*fail|adapter.*disconnected)" [10m])'',
     ''            ) > 5'',
     ''          for: 5m'',
     ''          labels:'',
     ''            kvo_notification: normal'',
     ''            severity: warning'',
     ''          annotations:'',
     ''            summary: "VM network errors detected"'',
     ''            description: "VM {{ $labels.vm_name }} in namespace {{ $labels.kubernetes_namespace_name }} reported repeated network errors."'',
     '''',
     ''        - alert: VMHighLogVolume'',
     ''          expr: |'',
     ''            sum by (kubernetes_namespace_name, vm_name, os) ('',
     ''              count_over_time({kubernetes_namespace_name="__NAMESPACE__", source=~"linux_syslog|windows_eventlog"}[5m])'',
     ''            ) > 5000'',
     ''          for: 10m'',
     ''          labels:'',
     ''            kvo_notification: none'',
     ''            severity: warning'',
     ''          annotations:'',
     ''            summary: "VM pushing high log volume"'',
     ''            description: "VM {{ $labels.vm_name }} in namespace {{ $labels.kubernetes_namespace_name }} is pushing more than 5000 log lines per 5 minutes."'']\<close>

definition vmLokiTemplate :: string where
  "vmLokiTemplate = unlines vmLokiTemplate_lines"

section \<open>Rendering\<close>

definition placeholder :: string where
  "placeholder = ''__NAMESPACE__''"

definition RenderVMMetrics :: "string \<Rightarrow> goerr + string" where
  "RenderVMMetrics namespace =
     (if TrimSpace namespace = '''' then Inl (Errorf ''namespace is required'')
      else Inr (ReplaceAll vmMetricsTemplate placeholder namespace))"

definition RenderVMLoki :: "string \<Rightarrow> goerr + string" where
  "RenderVMLoki namespace =
     (if TrimSpace namespace = '''' then Inl (Errorf ''namespace is required'')
      else (let rendered = ReplaceAll vmLokiTemplate placeholder namespace in Inr rendered))"

section \<open>Nothing is left to replace\<close>

text \<open>
  A pattern is gone after \<open>ReplaceAll\<close> when the replacement has none of its characters: an
  occurrence in the result cannot touch a replacement, so it would be one of the text.
\<close>

lemma ReplaceAll_hit: "HasPrefix s p \<Longrightarrow> p \<noteq> [] \<Longrightarrow> ReplaceAll s p r = r @ ReplaceAll (drop (length p) s) p r"
  by (cases "s = []") (auto simp: ReplaceAll.simps [of s] HasPrefix_iff)

lemma ReplaceAll_miss: "\<not> HasPrefix (x # xs) p \<Longrightarrow> ReplaceAll (x # xs) p r = x # ReplaceAll xs p r"
  by (cases "p = []") (simp_all add: ReplaceAll.simps [of "x # xs"])

lemma ReplaceAll_Nil: "ReplaceAll [] p r = []"
  by (simp add: ReplaceAll.simps)

lemma replaced_prefix:
  assumes "HasPrefix (ReplaceAll s p r) q" and "set q \<inter> set r = {}" and "r \<noteq> []" and "p \<noteq> []"
  shows "HasPrefix s q"
  using assms(1,2)
proof (induction s arbitrary: q)
  case Nil
  then show ?case by (simp add: ReplaceAll_Nil)
next
  case (Cons x xs)
  from assms(3) obtain c r' where r: "r = c # r'" by (cases r) auto
  show ?case
  proof (cases q)
    case q: (Cons d ds)
    show ?thesis
    proof (cases "HasPrefix (x # xs) p")
      case True
      have "ReplaceAll (x # xs) p r = c # r' @ ReplaceAll (drop (length p) (x # xs)) p r"
        using ReplaceAll_hit [OF True assms(4), of r] r by simp
      with Cons.prems q r show ?thesis by simp
    next
      case False
      with Cons.prems q have "x = d" "HasPrefix (ReplaceAll xs p r) ds" "set ds \<inter> set r = {}"
        by (simp_all add: ReplaceAll_miss)
      with Cons.IH q show ?thesis by simp
    qed
  qed simp
qed

lemma disjoint_append_contains:
  assumes "Contains (r @ t) p" and "set p \<inter> set r = {}" and "p \<noteq> []"
  shows "Contains t p"
  using assms(1,2)
proof (induction r)
  case (Cons c r)
  obtain d ds where "p = d # ds" using assms(3) by (cases p) auto
  with Cons show ?case by auto
qed simp

lemma ReplaceAll_complete:
  assumes "set p \<inter> set r = {}" and "p \<noteq> []" and "r \<noteq> []"
  shows "\<not> Contains (ReplaceAll s p r) p"
proof (induction s rule: length_induct)
  case (1 s)
  show ?case
  proof (cases s)
    case Nil
    with assms(2) show ?thesis by (simp add: ReplaceAll_Nil)
  next
    case (Cons x xs)
    show ?thesis
    proof (cases "HasPrefix s p")
      case True
      have "length (drop (length p) s) < length s" using assms(2) Cons by simp
      with 1 have "\<not> Contains (ReplaceAll (drop (length p) s) p r) p" by blast
      then show ?thesis
        unfolding ReplaceAll_hit [OF True assms(2)] using disjoint_append_contains assms(1,2) by blast
    next
      case False
      have "length xs < length s" by (simp add: Cons)
      with 1 have rest: "\<not> Contains (ReplaceAll xs p r) p" by blast
      have "\<not> HasPrefix (ReplaceAll s p r) p"
        using False replaced_prefix [of s p r p] assms by blast
      with rest False show ?thesis by (simp add: Cons ReplaceAll_miss)
    qed
  qed
qed

definition label_char :: "char \<Rightarrow> bool" where
  "label_char c \<longleftrightarrow> c \<notin> set placeholder \<and> \<not> is_space c"

lemma label_disjoint: "list_all label_char ns \<Longrightarrow> set placeholder \<inter> set ns = {}"
  by (auto simp: list_all_iff label_char_def)

lemma label_trim: "list_all label_char ns \<Longrightarrow> TrimSpace ns = ns"
proof -
  assume "list_all label_char ns"
  then have "\<forall>c\<in>set ns. \<not> is_space c" by (simp add: list_all_iff label_char_def)
  then have "\<forall>c\<in>set (rev ns). \<not> is_space c" "\<forall>c\<in>set ns. \<not> is_space c" by simp_all
  then have "dropWhile is_space ns = ns" "dropWhile is_space (rev ns) = rev ns"
    unfolding dropWhile_eq_self_iff using hd_in_set by blast+
  then show ?thesis by (simp add: TrimSpace_def)
qed

text \<open>
  Both alert templates can be rendered for every namespace whose name has none of the
  placeholder's characters (an underscore or one of its capitals) and no blank, as the names of Kubernetes namespaces have none, and no
  placeholder is left in either rendering. The empty name is refused.
\<close>
theorem alerts_rendered_for_namespace:
  assumes "namespace \<noteq> ''''" and "list_all label_char namespace"
  shows "(\<exists>d. RenderVMMetrics namespace = Inr d \<and> \<not> Contains d placeholder)
    \<and> (\<exists>d. RenderVMLoki namespace = Inr d \<and> \<not> Contains d placeholder)
    \<and> is_Inl (RenderVMMetrics '''') \<and> is_Inl (RenderVMLoki '''')"
proof -
  have "placeholder \<noteq> []" by (simp add: placeholder_def)
  with ReplaceAll_complete [OF label_disjoint [OF assms(2)]] assms(1) label_trim [OF assms(2)]
  show ?thesis by (simp add: RenderVMMetrics_def RenderVMLoki_def TrimSpace_def [of "''''"])
qed

theorem alerts_rendered_for_namespace_witness:
  "\<exists>d. RenderVMMetrics ''team-a1'' = Inr d \<and> \<not> Contains d placeholder"
proof -
  have "list_all label_char ''team-a1''" by code_simp
  then show ?thesis using alerts_rendered_for_namespace [of "''team-a1''"] by simp
qed

end
