(* ===== verification/Alerting.thy ===== *)
theory Alerting imports Cluster AlertTemplates begin

text \<open>
  \<open>internal/alerting\<close>: what the operator keeps in a monitored namespace for alerting, that
  is the namespace label, the two alert rules, the copy of the Slack webhook and the
  Alertmanager configuration. \<open>D\<close> stands for the YAML library that reads a manifest.
\<close>

section \<open>reconciler.go\<close>

definition MetricsRuleName :: string where "MetricsRuleName = ''vm-metrics-alerts''"
definition LokiNamespaceLabel :: string where "LokiNamespaceLabel = ''vm-monitoring-alerts''"
definition LokiNamespaceValue :: string where "LokiNamespaceValue = ''enabled''"
definition ManagedByLabel :: string where "ManagedByLabel = ''app.kubernetes.io/managed-by''"
definition ManagedByValue :: string where "ManagedByValue = ''kubevirt-observability''"

definition ensureNamespaceLabels :: "'w client \<Rightarrow> string \<Rightarrow> ('w, unit go) io" where
  "ensureNamespaceLabels C namespace = bindE (Get_Namespace C namespace) (\<lambda>ns.
     if ns_Labels ns \<noteq> None \<and> mget (ns_Labels ns) LokiNamespaceLabel = LokiNamespaceValue then ok ()
     else Patch_Obj C (ONamespace ns) (ONamespace (ns\<lparr>ns_Labels :=
            Some (fmupd LokiNamespaceLabel LokiNamespaceValue (non_nil (ns_Labels ns)))\<rparr>)))"

definition applyUnstructured :: "'w client \<Rightarrow> Unstructured \<Rightarrow> ('w, unit go) io" where
  "applyUnstructured C desired = do {
     r \<leftarrow> Get_Unstructured C (u_APIVersion desired) (u_Kind desired)
            (o_Namespace (u_Meta desired)) (o_Name (u_Meta desired));
     case r of
       Inl err \<Rightarrow>
         if IsNoMatchError err then ok ()
         else if IsNotFound err then do {
           c \<leftarrow> Create_Obj C (OUnstructured desired);
           case c of
             Inl e \<Rightarrow> if IsAlreadyExists e then ok () else if IsNoMatchError e then ok () else fail e
           | Inr _ \<Rightarrow> ok () }
         else fail err
     | Inr current \<Rightarrow>
         Patch_Obj C (OUnstructured current) (OUnstructured (desired\<lparr>
           u_ResourceVersion := u_ResourceVersion current,
           u_UID := u_UID current,
           u_CreationTimestamp := u_CreationTimestamp current,
           u_Generation := u_Generation current\<rparr>)) }"

definition decodeUnstructured :: "(string \<Rightarrow> Unstructured go) \<Rightarrow> string \<Rightarrow> Unstructured go" where
  "decodeUnstructured D data = goE (D data) (\<lambda>obj.
     if o_Name (u_Meta obj) = '''' \<or> o_Namespace (u_Meta obj) = '''' \<or> u_Kind obj = ''''
     then Inl (Errorf ''rendered alert resource is missing name, namespace, or kind'')
     else Inr obj)"

definition setManagedByLabel :: "Unstructured \<Rightarrow> Unstructured" where
  "setManagedByLabel obj = obj\<lparr>u_Meta := (u_Meta obj)\<lparr>o_Labels :=
     Some (fmupd ManagedByLabel ManagedByValue (non_nil (o_Labels (u_Meta obj))))\<rparr>\<rparr>"

definition ensurePrometheusRule :: "(string \<Rightarrow> Unstructured go) \<Rightarrow> 'w client \<Rightarrow> string \<Rightarrow> ('w, unit go) io" where
  "ensurePrometheusRule D C namespace = (case RenderVMMetrics namespace of
     Inl err \<Rightarrow> fail err
   | Inr rendered \<Rightarrow>
       (case decodeUnstructured D rendered of
          Inl err \<Rightarrow> fail (Wrapf ''decode PrometheusRule template: '' err)
        | Inr obj \<Rightarrow> applyUnstructured C (setManagedByLabel obj)))"

definition ensureLokiAlertingRule :: "(string \<Rightarrow> Unstructured go) \<Rightarrow> 'w client \<Rightarrow> string \<Rightarrow> ('w, unit go) io" where
  "ensureLokiAlertingRule D C namespace = (case RenderVMLoki namespace of
     Inl err \<Rightarrow> fail err
   | Inr rendered \<Rightarrow>
       (case decodeUnstructured D rendered of
          Inl err \<Rightarrow> fail (Wrapf ''decode Loki AlertingRule template: '' err)
        | Inr obj \<Rightarrow> applyUnstructured C (setManagedByLabel obj)))"

section \<open>notifications.go\<close>

definition CentralNamespace :: string where "CentralNamespace = ''kubevirt-observability-system''"
definition SlackSecretName :: string where "SlackSecretName = ''kvo-slack-webhook''"
definition SlackSecretKey :: string where "SlackSecretKey = ''url''"
definition AlertmanagerConfigName :: string where "AlertmanagerConfigName = ''kvo-slack-alerts''"

text \<open>The target exists: refresh its webhook and its label, when one of them differs.\<close>

definition updateSlackSecret :: "'w client \<Rightarrow> string \<Rightarrow> Secret \<Rightarrow> ('w, bool go) io" where
  "updateSlackSecret C webhook target =
     (if mget (sec_Data target) SlackSecretKey = webhook
         \<and> mget (o_Labels (sec_Meta target)) ManagedByLabel = ManagedByValue
      then ok True
      else bindE (wrapE ''update namespace Slack webhook secret: ''
             (Patch_Obj C (OSecret target) (OSecret (target\<lparr>
                sec_Data := Some (fmupd SlackSecretKey webhook (non_nil (sec_Data target))),
                sec_Meta := (sec_Meta target)\<lparr>o_Labels :=
                  Some (fmupd ManagedByLabel ManagedByValue (non_nil (o_Labels (sec_Meta target))))\<rparr>\<rparr>))))
             (\<lambda>_. ok True))"

definition slack_secret :: "string \<Rightarrow> string \<Rightarrow> Secret" where
  "slack_secret namespace webhook = \<lparr>
     sec_Meta = meta namespace SlackSecretName (Some (fmupd ManagedByLabel ManagedByValue fmempty)) None,
     sec_Type = ''Opaque'', sec_Data = Some (fmupd SlackSecretKey webhook fmempty)\<rparr>"

definition ensureSlackSecret :: "'w client \<Rightarrow> string \<Rightarrow> ('w, bool go) io" where
  "ensureSlackSecret C namespace = do {
     r \<leftarrow> Get_Secret C CentralNamespace SlackSecretName;
     case r of
       Inl err \<Rightarrow> if IsNotFound err then ok False else fail (Wrapf ''get central Slack webhook secret: '' err)
     | Inr source \<Rightarrow>
         let webhook = mget (sec_Data source) SlackSecretKey in
         if \<not> mhas (sec_Data source) SlackSecretKey \<or> length webhook = 0 then ok False
         else do {
           r \<leftarrow> Get_Secret C namespace SlackSecretName;
           case r of
             Inl err \<Rightarrow>
               if IsNotFound err then do {
                 c \<leftarrow> Create_Obj C (OSecret (slack_secret namespace webhook));
                 case c of
                   Inl e \<Rightarrow> if IsAlreadyExists e then ok True
                           else fail (Wrapf ''create namespace Slack webhook secret: '' e)
                 | Inr _ \<Rightarrow> ok True }
               else fail (Wrapf ''get namespace Slack webhook secret: '' err)
           | Inr target \<Rightarrow> updateSlackSecret C webhook target } }"

definition slack_groupBy :: "string \<times> gval" where
  "slack_groupBy = (''groupBy'', GSlice [GString ''alertname'', GString ''namespace'', GString ''vm_name''])"

definition slack_route :: "string \<Rightarrow> string \<Rightarrow> string \<Rightarrow> string \<Rightarrow> gval" where
  "slack_route receiver policy wait interval = GMap [
     (''receiver'', GString receiver),
     (''matchers'', GSlice [GMap [(''name'', GString ''kvo_notification''), (''value'', GString policy),
        (''matchType'', GString ''='')]]),
     slack_groupBy,
     (''groupWait'', GString wait), (''groupInterval'', GString interval),
     (''repeatInterval'', GString ''24h''), (''continue'', GBool False)]"

definition slack_receiver :: "string \<Rightarrow> string \<Rightarrow> string \<Rightarrow> gval" where
  "slack_receiver name title body = GMap [
     (''name'', GString name),
     (''slackConfigs'', GSlice [GMap [
        (''apiURL'', GMap [(''name'', GString SlackSecretName), (''key'', GString SlackSecretKey)]),
        (''sendResolved'', GBool True), (''title'', GString title), (''text'', GString body)]])]"

definition alertmanager_config :: "string \<Rightarrow> Unstructured" where
  "alertmanager_config namespace = \<lparr>
     u_APIVersion = ''monitoring.coreos.com/v1alpha1'', u_Kind = ''AlertmanagerConfig'',
     u_Meta = meta namespace AlertmanagerConfigName (Some (fmupd ManagedByLabel ManagedByValue fmempty)) None,
     u_ResourceVersion = '''', u_UID = '''', u_CreationTimestamp = '''', u_Generation = 0,
     u_Body = GMap [(''spec'', GMap [
       (''route'', GMap [
          (''receiver'', GString ''kvo-null''),
          slack_groupBy,
          (''routes'', GSlice [
             slack_route ''kvo-slack-immediate'' ''immediate'' ''0s'' ''5m'',
             slack_route ''kvo-slack-normal'' ''normal'' ''1m'' ''15m''])]),
       (''receivers'', GSlice [
          GMap [(''name'', GString ''kvo-null'')],
          slack_receiver ''kvo-slack-normal'' ''KubeVirt Observability: {{ .CommonLabels.alertname }}''
            (unlines [''{{ range .Alerts }}'', ''Namespace: {{ .Labels.namespace }}'', ''VM: {{ .Labels.vm_name }}'',
              ''Severity: {{ .Labels.severity }}'', ''Device: {{ .Labels.device }}'',
              ''Summary: {{ .Annotations.summary }}'', ''Description: {{ .Annotations.description }}'', '''']
              @ ''{{ end }}''),
          slack_receiver ''kvo-slack-immediate'' ''URGENT - KubeVirt VM: {{ .CommonLabels.alertname }}''
            (unlines [''{{ range .Alerts }}'', ''Namespace: {{ .Labels.namespace }}'', ''VM: {{ .Labels.vm_name }}'',
              ''Severity: {{ .Labels.severity }}'',
              ''Summary: {{ .Annotations.summary }}'', ''Description: {{ .Annotations.description }}'', '''',
              ''Immediate investigation recommended.'', '''']
              @ ''{{ end }}'')])])]\<rparr>"

definition ensureAlertmanagerConfig :: "'w client \<Rightarrow> string \<Rightarrow> ('w, unit go) io" where
  "ensureAlertmanagerConfig C namespace = applyUnstructured C (alertmanager_config namespace)"

definition ReconcileNamespace :: "(string \<Rightarrow> Unstructured go) \<Rightarrow> 'w client \<Rightarrow> string \<Rightarrow> ('w, unit go) io" where
  "ReconcileNamespace D C namespace =
     (if namespace = '''' then fail (Errorf ''namespace is required'')
      else
        bindE (wrapE ''ensure namespace alerting labels: '' (ensureNamespaceLabels C namespace)) (\<lambda>_.
        bindE (wrapE ''ensure PrometheusRule: '' (ensurePrometheusRule D C namespace)) (\<lambda>_.
        bindE (wrapE ''ensure Loki AlertingRule: '' (ensureLokiAlertingRule D C namespace)) (\<lambda>_.
        bindE (wrapE ''ensure Slack webhook secret: '' (ensureSlackSecret C namespace)) (\<lambda>slackConfigured.
        if \<not> slackConfigured then ok ()
        else wrapE ''ensure AlertmanagerConfig: '' (ensureAlertmanagerConfig C namespace))))))"

section \<open>Facts\<close>

text \<open>
  The manifests name the namespace they are rendered for, when its name is one Kubernetes
  allows. The templates do not quote it: a name that YAML reads as a number or a truth
  value, such as \<open>123\<close>, is no string there, and the accessor of the namespace gives the
  empty string.
\<close>

definition label_chars :: string where
  "label_chars = ''abcdefghijklmnopqrstuvwxyz0123456789-''"

definition dns_label :: "string \<Rightarrow> bool" where
  "dns_label ns \<longleftrightarrow> ns \<noteq> '''' \<and> set ns \<subseteq> set label_chars"

definition manifest_law :: "(string \<Rightarrow> Unstructured go) \<Rightarrow> bool" where
  "manifest_law D \<longleftrightarrow> (\<forall>ns d u. dns_label ns \<longrightarrow> RenderVMMetrics ns = Inr d \<or> RenderVMLoki ns = Inr d \<longrightarrow>
     D d = Inr u \<longrightarrow> o_Namespace (u_Meta u) \<in> {ns, ''''})"

lemma calls_applyUnstructured:
  assumes "honest C" and "o_Namespace (u_Meta u) = ns" and "\<And>r. Q r"
  shows "calls (confined ns) (applyUnstructured C u) Q"
  unfolding applyUnstructured_def using assms
  by (auto intro!: calls_rules simp: named_def)

lemma calls_rules_D:
  assumes "honest C" and "manifest_law D" and "dns_label ns"
  shows "calls (confined ns) (ensurePrometheusRule D C ns) (\<lambda>_. True)"
    and "calls (confined ns) (ensureLokiAlertingRule D C ns) (\<lambda>_. True)"
  unfolding ensurePrometheusRule_def ensureLokiAlertingRule_def decodeUnstructured_def setManagedByLabel_def
  using assms
  by (auto intro!: calls_rules calls_applyUnstructured simp: manifest_law_def elim!: goE_InrE split: if_split_asm)
    blast+

lemma calls_ensureNamespaceLabels:
  "honest C \<Longrightarrow> calls (confined ns) (ensureNamespaceLabels C ns) (\<lambda>_. True)"
  unfolding ensureNamespaceLabels_def by (auto intro!: calls_rules)

lemma calls_ensureSlackSecret:
  "honest C \<Longrightarrow> calls (confined ns) (ensureSlackSecret C ns) (\<lambda>_. True)"
  unfolding ensureSlackSecret_def updateSlackSecret_def slack_secret_def
  by (auto intro!: calls_rules simp: named_def)

lemma calls_ReconcileNamespace:
  assumes "honest C" and "manifest_law D" and "dns_label ns" and "\<And>r. Q r"
  shows "calls (confined ns) (ReconcileNamespace D C ns) Q"
proof -
  have "calls (confined ns) (ensureAlertmanagerConfig C ns) (\<lambda>_. True)"
    unfolding ensureAlertmanagerConfig_def
    by (rule calls_applyUnstructured) (simp_all add: assms alertmanager_config_def)
  note parts = this calls_rules_D [OF assms(1-3)] calls_ensureNamespaceLabels [OF assms(1)] calls_ensureSlackSecret [OF assms(1)]
  show ?thesis
    unfolding ReconcileNamespace_def
    by (auto intro!: calls_rules parts [THEN calls_post] assms(4))
qed

section \<open>The copy of the webhook settles\<close>

definition slack_settled :: "(string \<times> string \<Rightarrow> Secret option) \<Rightarrow> string \<Rightarrow> bool" where
  "slack_settled \<sigma> namespace \<longleftrightarrow> (case \<sigma> (CentralNamespace, SlackSecretName) of None \<Rightarrow> False
     | Some source \<Rightarrow> (case \<sigma> (namespace, SlackSecretName) of None \<Rightarrow> False
        | Some target \<Rightarrow> mget (sec_Data source) SlackSecretKey \<noteq> ''''
            \<and> mget (sec_Data target) SlackSecretKey = mget (sec_Data source) SlackSecretKey
            \<and> mget (o_Labels (sec_Meta target)) ManagedByLabel = ManagedByValue))"

lemma ensureSlackSecret_settles:
  assumes store: "secret_store C \<sigma>" and ns: "namespace \<noteq> CentralNamespace"
    and run: "run_state (ensureSlackSecret C namespace) s = (Inr True, s')"
  shows "slack_settled (\<sigma> (world s')) namespace"
proof -
  note get = secret_storeD(1) [OF store] and create = secret_storeD(2) [OF store] and patch = secret_storeD(3) [OF store]
  show ?thesis using run ns
    unfolding ensureSlackSecret_def updateSlackSecret_def prim_defs bindE_def wrapE_def Let_def
    by (auto simp: slack_settled_def slack_secret_def secret_key_def mhas_def split: prod.splits sum.splits if_splits
       dest!: get create patch)
qed

lemma settled_no_write:
  assumes store: "secret_store C \<sigma>" and settled: "slack_settled (\<sigma> (world s)) namespace"
  shows "list_all (\<lambda>a. \<not> is_write a) (trace (ensureSlackSecret C namespace) s)"
    and "result (ensureSlackSecret C namespace) s \<noteq> Inr False"
proof -
  note get = secret_storeD(1) [OF store]
  have not_write: "\<not> is_write (Get k ns n)" for k ns n by (simp add: is_write_def)
  have has: "mget m k \<noteq> '''' \<Longrightarrow> mhas m k" for m k using mget_not_mhas by blast
  have "list_all (\<lambda>a. \<not> is_write a) (trace (ensureSlackSecret C namespace) s)
      \<and> result (ensureSlackSecret C namespace) s \<noteq> Inr False"
    using settled
    unfolding ensureSlackSecret_def updateSlackSecret_def prim_defs bindE_def wrapE_def Let_def trace_def result_def
    by (auto simp: slack_settled_def not_write has split: prod.splits sum.splits if_splits option.splits dest!: get)
  then show "list_all (\<lambda>a. \<not> is_write a) (trace (ensureSlackSecret C namespace) s)"
    and "result (ensureSlackSecret C namespace) s \<noteq> Inr False" by simp_all
qed

text \<open>
  C25. Mirroring the Slack webhook settles. Once a run reported that Slack is configured, the
  namespace holds the central webhook under the operator's label, and the next run writes
  nothing and does not report that Slack is unconfigured, as long as nobody else changes the
  two Secrets in between.
\<close>
theorem ensureSlackSecret_converges:
  assumes "secret_store C \<sigma>" and "namespace \<noteq> CentralNamespace"
    and "run_state (ensureSlackSecret C namespace) s = (Inr True, s')"
  shows "slack_settled (\<sigma> (world s')) namespace
    \<and> list_all (\<lambda>a. \<not> is_write a) (trace (ensureSlackSecret C namespace) s')
    \<and> result (ensureSlackSecret C namespace) s' \<noteq> Inr False"
  using ensureSlackSecret_settles [OF assms] settled_no_write [OF assms(1)] by blast

definition slack_world :: "(string \<times> string \<Rightarrow> Secret option) st" where
  "slack_world = \<lparr>world = Map.empty((CentralNamespace, SlackSecretName) \<mapsto> slack_secret CentralNamespace ''https://hooks''), acts = []\<rparr>"

theorem ensureSlackSecret_converges_witness:
  "\<exists>s'. run_state (ensureSlackSecret map_client ''team-a'') slack_world = (Inr True, s')
    \<and> slack_settled (world s') ''team-a''
    \<and> list_all (\<lambda>a. \<not> is_write a) (trace (ensureSlackSecret map_client ''team-a'') s')"
proof -
  have "fst (run_state (ensureSlackSecret map_client ''team-a'') slack_world) = Inr True"
    by (simp add: ensureSlackSecret_def slack_world_def map_client_def prim_defs Let_def slack_secret_def
        secret_key_def CentralNamespace_def SlackSecretName_def SlackSecretKey_def mhas_def not_found_def IsNotFound_def)
  then obtain s' where run: "run_state (ensureSlackSecret map_client ''team-a'') slack_world = (Inr True, s')"
    by (metis prod.collapse)
  have "''team-a'' \<noteq> CentralNamespace" by (simp add: CentralNamespace_def)
  from ensureSlackSecret_converges [OF map_client_store this run] run show ?thesis by blast
qed

end
