(* ===== verification/VMScrape.thy ===== *)
theory VMScrape imports Cluster OsDetect begin

text \<open>
  \<open>controllers/vm_controller.go\<close>, what makes Prometheus scrape a VM and Grafana read its logs:
  the Service and Endpoints of the VM, the ServiceMonitor and the label of its namespace,
  and the two role bindings for Grafana's service accounts.
\<close>

section \<open>The exporter of an OS\<close>

definition exporterPortForOS :: "Family \<Rightarrow> int \<times> bool" where
  "exporterPortForOS os = (case os of Linux \<Rightarrow> (9100, True) | Windows \<Rightarrow> (9182, True) | Unknown \<Rightarrow> (0, False))"

definition exporterNameForOS :: "Family \<Rightarrow> string" where
  "exporterNameForOS os = (case os of Windows \<Rightarrow> ''windows_exporter'' | Linux \<Rightarrow> ''node_exporter'' | Unknown \<Rightarrow> ''unknown'')"

section \<open>Comparing\<close>

definition mapsEqual :: "smap option \<Rightarrow> smap option \<Rightarrow> bool" where
  "mapsEqual a b \<longleftrightarrow>
     (if length (sorted_keys (non_nil a)) \<noteq> length (sorted_keys (non_nil b)) then False
      else list_all (\<lambda>k. mget b k = mget a k) (sorted_keys (non_nil a)))"

definition endpointSubsetsEqual :: "EndpointSubset list \<Rightarrow> EndpointSubset list \<Rightarrow> bool" where
  "endpointSubsetsEqual a b \<longleftrightarrow>
     (if length a \<noteq> length b then False
      else list_all (\<lambda>i.
         if length (es_Addresses (a ! i)) \<noteq> length (es_Addresses (b ! i)) \<or> length (es_Ports (a ! i)) \<noteq> length (es_Ports (b ! i))
         then False
         else list_all (\<lambda>j. es_Addresses (a ! i) ! j = es_Addresses (b ! i) ! j) [0..<length (es_Addresses (a ! i))]
           \<and> list_all (\<lambda>j. ep_PortName (es_Ports (a ! i) ! j) = ep_PortName (es_Ports (b ! i) ! j)
                \<and> ep_Port (es_Ports (a ! i) ! j) = ep_Port (es_Ports (b ! i) ! j)
                \<and> ep_Protocol (es_Ports (a ! i) ! j) = ep_Protocol (es_Ports (b ! i) ! j)) [0..<length (es_Ports (a ! i))])
         [0..<length a])"

section \<open>Service and Endpoints of a VM\<close>

definition metrics_labels :: "VirtualMachine \<Rightarrow> smap" where
  "metrics_labels vm = (let os = Detect vm in fmap_of_list
     [(''app'', ''vm-metrics''), (''vm_name'', vm_Name vm), (''os'', family_string os),
      (''exporter'', exporterNameForOS os),
      (''kubevirt-observability.io/vm-name'', vm_Name vm),
      (''kubevirt-observability.io/vm-os'', family_string os),
      (''kubevirt-observability.io/exporter'', exporterNameForOS os)])"

definition metrics_ports :: "int \<Rightarrow> ServicePort list" where
  "metrics_ports port = [\<lparr>sp_Name = ''metrics'', sp_Port = port, sp_Protocol = ''TCP'', sp_TargetPort = port\<rparr>]"

definition metrics_subsets :: "string \<Rightarrow> int \<Rightarrow> EndpointSubset list" where
  "metrics_subsets ip port = [\<lparr>es_Addresses = [ip],
     es_Ports = [\<lparr>ep_PortName = ''metrics'', ep_Port = port, ep_Protocol = ''TCP''\<rparr>]\<rparr>]"

definition with_labels :: "smap option \<Rightarrow> smap \<Rightarrow> smap option" where
  "with_labels m labels = Some (non_nil m ++\<^sub>f labels)"

definition ensureVMEndpoints :: "'w client \<Rightarrow> VirtualMachine \<Rightarrow> string \<Rightarrow> int \<Rightarrow> ('w, unit go) io" where
  "ensureVMEndpoints C vm ip port = (let name = vm_Name vm @ ''-metrics''; labels = metrics_labels vm in do {
     r \<leftarrow> Get_Endpoints C (vm_Namespace vm) name;
     case r of
       Inl err \<Rightarrow>
         if \<not> IsNotFound err then fail (Wrapf (''get endpoints '' @ name @ '': '') err)
         else do {
           c \<leftarrow> Create_Obj C (OEndpoints \<lparr>eps_Meta = meta (vm_Namespace vm) name (Some labels) None,
                  eps_Subsets = metrics_subsets ip port\<rparr>);
           case c of
             Inl e \<Rightarrow> if IsAlreadyExists e then ok () else fail (Wrapf (''create endpoints '' @ name @ '': '') e)
           | Inr _ \<Rightarrow> ok () }
     | Inr base \<Rightarrow>
         let eps = base\<lparr>eps_Meta := (eps_Meta base)\<lparr>o_Labels := with_labels (o_Labels (eps_Meta base)) labels\<rparr>\<rparr>;
             expected = metrics_subsets ip port in
         if \<not> endpointSubsetsEqual (eps_Subsets eps) expected
            \<or> \<not> mapsEqual (o_Labels (eps_Meta base)) (o_Labels (eps_Meta eps))
         then wrapE (''patch endpoints '' @ name @ '': '')
                (Patch_Obj C (OEndpoints base) (OEndpoints (eps\<lparr>eps_Subsets := expected\<rparr>)))
         else ok () })"

definition ensureVMServiceAndEndpoints :: "'w client \<Rightarrow> VirtualMachine \<Rightarrow> string \<Rightarrow> int \<Rightarrow> ('w, unit go) io" where
  "ensureVMServiceAndEndpoints C vm ip port = (let name = vm_Name vm @ ''-metrics''; labels = metrics_labels vm in do {
     r \<leftarrow> Get_Service C (vm_Namespace vm) name;
     case r of
       Inl err \<Rightarrow>
         if \<not> IsNotFound err then fail (Wrapf (''get service '' @ name @ '': '') err)
         else do {
           c \<leftarrow> Create_Obj C (OService \<lparr>svc_Meta = meta (vm_Namespace vm) name (Some labels) None,
                  svc_Ports = metrics_ports port\<rparr>);
           case c of
             Inl e \<Rightarrow> if IsAlreadyExists e then ok () else fail (Wrapf (''create service '' @ name @ '': '') e)
           | Inr _ \<Rightarrow> ensureVMEndpoints C vm ip port }
     | Inr svc \<Rightarrow>
         bindE (wrapE (''patch service '' @ name @ '': '')
                  (Patch_Obj C (OService svc) (OService (svc\<lparr>
                     svc_Meta := (svc_Meta svc)\<lparr>o_Labels := with_labels (o_Labels (svc_Meta svc)) labels\<rparr>,
                     svc_Ports := metrics_ports port\<rparr>))))
           (\<lambda>_. ensureVMEndpoints C vm ip port) })"

section \<open>The namespace\<close>

definition app_labels :: smap where
  "app_labels = fmupd ''app'' ''vm-metrics'' fmempty"

definition scrape_spec :: "ServiceMonitor \<Rightarrow> ServiceMonitor" where
  "scrape_spec sm = sm\<lparr>sm_MatchLabels := app_labels, sm_TargetLabels := [''vm_name'', ''os'', ''exporter''],
     sm_Endpoints := [\<lparr>me_Port = ''metrics'', me_Path = ''/metrics'', me_Interval = ''30s''\<rparr>]\<rparr>"

definition ensureNamespaceServiceMonitor :: "'w client \<Rightarrow> string \<Rightarrow> ('w, unit go) io" where
  "ensureNamespaceServiceMonitor C namespace = do {
     r \<leftarrow> Get_ServiceMonitor C namespace ''vm-metrics'';
     case r of
       Inl err \<Rightarrow>
         if \<not> IsNotFound err then fail (Wrapf ''get servicemonitor vm-metrics: '' err)
         else do {
           c \<leftarrow> Create_Obj C (OServiceMonitor (scrape_spec
                  \<lparr>sm_Meta = meta namespace ''vm-metrics'' (Some app_labels) None,
                   sm_MatchLabels = fmempty, sm_TargetLabels = [], sm_Endpoints = []\<rparr>));
           case c of
             Inl e \<Rightarrow> if IsAlreadyExists e then ok () else fail (Wrapf ''create servicemonitor vm-metrics: '' e)
           | Inr _ \<Rightarrow> ok () }
     | Inr base \<Rightarrow>
         wrapE ''patch servicemonitor vm-metrics: ''
           (Patch_Obj C (OServiceMonitor base) (OServiceMonitor (scrape_spec (base\<lparr>sm_Meta :=
              (sm_Meta base)\<lparr>o_Labels := Some (fmupd ''app'' ''vm-metrics'' (non_nil (o_Labels (sm_Meta base))))\<rparr>\<rparr>)))) }"

definition ensureNamespaceMonitoringLabel :: "'w client \<Rightarrow> string \<Rightarrow> ('w, unit go) io" where
  "ensureNamespaceMonitoringLabel C namespace =
     bindE (wrapE (''get namespace '' @ namespace @ '': '') (Get_Namespace C namespace)) (\<lambda>ns.
     if mget (ns_Labels ns) ''openshift.io/user-monitoring'' = ''true'' then ok ()
     else wrapE (''patch namespace '' @ namespace @ '': '')
       (Patch_Obj C (ONamespace ns) (ONamespace (ns\<lparr>ns_Labels :=
          Some (fmupd ''openshift.io/user-monitoring'' ''true'' (non_nil (ns_Labels ns)))\<rparr>))))"

section \<open>Grafana's access to the logs of a namespace\<close>

record binding =
  b_name :: string
  b_saNS :: string
  b_saName :: string

definition reader_role :: RoleRef where
  "reader_role = \<lparr>rr_APIGroup = ''rbac.authorization.k8s.io'', rr_Kind = ''ClusterRole'',
     rr_Name = ''kubevirt-observability-loki-reader''\<rparr>"

definition grafana_bindings :: "binding list" where
  "grafana_bindings =
     [\<lparr>b_name = ''kubevirt-observability-grafana-loki-reader'', b_saNS = ''grafana'', b_saName = ''grafana''\<rparr>,
      \<lparr>b_name = ''kubevirt-observability-openshift-logging-grafana-loki-reader'', b_saNS = ''openshift-logging'',
       b_saName = ''grafana''\<rparr>]"

definition bind_reader :: "binding \<Rightarrow> RoleBinding \<Rightarrow> RoleBinding" where
  "bind_reader b rb = rb\<lparr>
     rb_Subjects := [\<lparr>sub_Kind = ''ServiceAccount'', sub_Name = b_saName b, sub_Namespace = b_saNS b\<rparr>],
     rb_RoleRef := reader_role,
     rb_Meta := (rb_Meta rb)\<lparr>o_Labels := Some (fmupd ''app'' ''kubevirt-observability'' (non_nil (o_Labels (rb_Meta rb))))\<rparr>\<rparr>"

definition ensureBinding :: "'w client \<Rightarrow> string \<Rightarrow> binding \<Rightarrow> ('w, unit go) io" where
  "ensureBinding C namespace b = do {
     r \<leftarrow> Get_RoleBinding C namespace (b_name b);
     case r of
       Inl err \<Rightarrow>
         if \<not> IsNotFound err then fail (Wrapf (''get rolebinding '' @ namespace @ ''/'' @ b_name b @ '': '') err)
         else do {
           c \<leftarrow> Create_Obj C (ORoleBinding (bind_reader b
                  \<lparr>rb_Meta = meta namespace (b_name b) None None, rb_Subjects = [], rb_RoleRef = reader_role\<rparr>));
           case c of
             Inl e \<Rightarrow> if IsAlreadyExists e then ok ()
                     else fail (Wrapf (''create rolebinding '' @ namespace @ ''/'' @ b_name b @ '': '') e)
           | Inr _ \<Rightarrow> ok () }
     | Inr rb \<Rightarrow>
         wrapE (''patch rolebinding '' @ namespace @ ''/'' @ b_name b @ '': '')
           (Patch_Obj C (ORoleBinding rb) (ORoleBinding (bind_reader b rb))) }"

fun ensureBindings :: "'w client \<Rightarrow> string \<Rightarrow> binding list \<Rightarrow> ('w, unit go) io" where
  "ensureBindings C namespace [] = ok ()"
| "ensureBindings C namespace (b # bs) = bindE (ensureBinding C namespace b) (\<lambda>_. ensureBindings C namespace bs)"

definition ensureGrafanaLokiReadRBAC :: "'w client \<Rightarrow> string \<Rightarrow> ('w, unit go) io" where
  "ensureGrafanaLokiReadRBAC C namespace = ensureBindings C namespace grafana_bindings"

section \<open>Facts\<close>

lemma calls_ensureVMEndpoints [calls_rules]:
  assumes "honest C" and "vm_Namespace vm = ns" and "\<And>r. Q r"
  shows "calls (confined ns) (ensureVMEndpoints C vm ip port) Q"
  unfolding ensureVMEndpoints_def Let_def using assms by (auto intro!: calls_rules simp: named_def)

lemma calls_ensureBindings [calls_rules]:
  assumes "honest C" and "\<And>r. Q r"
  shows "calls (confined ns) (ensureBindings C ns bs) Q"
proof (rule calls_post [OF _ assms(2)], induction bs)
  case (Cons b bs)
  then show ?case
    using assms(1) by (auto intro!: calls_rules simp: ensureBinding_def bind_reader_def named_def)
qed (simp add: calls_ret)

lemma calls_scrape [calls_rules]:
  assumes "honest C"
  shows "vm_Namespace vm = ns \<Longrightarrow> (\<And>r. Q1 r) \<Longrightarrow> calls (confined ns) (ensureVMServiceAndEndpoints C vm ip port) Q1"
    and "(\<And>r. Q2 r) \<Longrightarrow> calls (confined ns) (ensureNamespaceServiceMonitor C ns) Q2"
    and "(\<And>r. Q3 r) \<Longrightarrow> calls (confined ns) (ensureNamespaceMonitoringLabel C ns) Q3"
    and "(\<And>r. Q4 r) \<Longrightarrow> calls (confined ns) (ensureGrafanaLokiReadRBAC C ns) Q4"
  unfolding ensureVMServiceAndEndpoints_def ensureNamespaceServiceMonitor_def ensureNamespaceMonitoringLabel_def
    ensureGrafanaLokiReadRBAC_def Let_def scrape_spec_def
  using assms by (auto intro!: calls_rules simp: named_def)

section \<open>The comparisons are equality where they are used\<close>

lemma all_upt_nth_eq:
  "length xs = length ys \<Longrightarrow> list_all (\<lambda>i. xs ! i = ys ! i) [0..<length xs] \<longleftrightarrow> xs = ys"
  by (auto simp: list_all_iff intro: nth_equalityI)

lemma endpoint_port_eq:
  "ep_PortName p = ep_PortName q \<and> ep_Port p = ep_Port q \<and> ep_Protocol p = ep_Protocol q \<longleftrightarrow> p = (q :: EndpointPort)"
  by (cases p; cases q) auto

lemma endpointSubsetsEqual_iff: "endpointSubsetsEqual a b \<longleftrightarrow> a = b"
proof -
  have ports: "list_all (\<lambda>j. ep_PortName (xs ! j) = ep_PortName (ys ! j) \<and> ep_Port (xs ! j) = ep_Port (ys ! j)
      \<and> ep_Protocol (xs ! j) = ep_Protocol (ys ! j)) [0..<length xs] \<longleftrightarrow> xs = ys"
    if "length xs = length ys" for xs ys :: "EndpointPort list"
    unfolding endpoint_port_eq using all_upt_nth_eq [OF that] .
  have subset: "(if length (es_Addresses x) \<noteq> length (es_Addresses y) \<or> length (es_Ports x) \<noteq> length (es_Ports y) then False
      else list_all (\<lambda>j. es_Addresses x ! j = es_Addresses y ! j) [0..<length (es_Addresses x)]
        \<and> list_all (\<lambda>j. ep_PortName (es_Ports x ! j) = ep_PortName (es_Ports y ! j)
           \<and> ep_Port (es_Ports x ! j) = ep_Port (es_Ports y ! j)
           \<and> ep_Protocol (es_Ports x ! j) = ep_Protocol (es_Ports y ! j)) [0..<length (es_Ports x)])
      \<longleftrightarrow> x = y" for x y :: EndpointSubset
  proof (cases "length (es_Addresses x) = length (es_Addresses y) \<and> length (es_Ports x) = length (es_Ports y)")
    case True
    then have len: "length (es_Addresses x) = length (es_Addresses y)" "length (es_Ports x) = length (es_Ports y)"
      by simp_all
    have "x = y \<longleftrightarrow> es_Addresses x = es_Addresses y \<and> es_Ports x = es_Ports y" by (cases x; cases y) auto
    then show ?thesis unfolding all_upt_nth_eq [OF len(1)] ports [OF len(2)] using True by simp
  qed auto
  show ?thesis
    unfolding endpointSubsetsEqual_def subset using all_upt_nth_eq [of a b] by auto
qed

lemma length_sorted_keys: "length (sorted_keys m) = fcard (fmdom m)"
  unfolding sorted_keys_def by (metis distinct_card distinct_sorted_list_of_set fcard.rep_eq
      finite_fset set_sorted_list_of_set sorted_list_of_fset.rep_eq)

lemma mapsEqual_iff:
  assumes "fmdom (non_nil a) |\<subseteq>| fmdom (non_nil b)"
  shows "mapsEqual a b \<longleftrightarrow> non_nil a = non_nil b"
proof
  assume eq: "mapsEqual a b"
  then have "fcard (fmdom (non_nil a)) = fcard (fmdom (non_nil b))"
    by (simp add: mapsEqual_def length_sorted_keys split: if_splits)
  with assms have dom: "fmdom (non_nil a) = fmdom (non_nil b)"
    by (metis fcard_seteq le_refl)
  have vals: "mget b k = mget a k" if "fmlookup (non_nil a) k \<noteq> None" for k
  proof -
    from that have "k \<in> set (sorted_keys (non_nil a))" by (simp only: in_sorted_keys) simp
    with eq show ?thesis by (simp add: mapsEqual_def list_all_iff split: if_splits)
  qed
  show "non_nil a = non_nil b"
  proof (rule fmap_ext)
    fix k
    show "fmlookup (non_nil a) k = fmlookup (non_nil b) k"
    proof (cases "fmlookup (non_nil a) k")
      case None
      then have "k |\<notin>| fmdom (non_nil a)" by (simp add: fmdom_notI)
      with dom have "k |\<notin>| fmdom (non_nil b)" by simp
      with None show ?thesis by (metis fmdom_notD)
    next
      case (Some v)
      then have "k |\<in>| fmdom (non_nil b)" using dom by (metis fmdomI)
      then obtain v' where "fmlookup (non_nil b) k = Some v'" by (meson fmdomE)
      with Some vals [of k] show ?thesis
        by (cases a; cases b) (simp_all add: mget_def)
    qed
  qed
next
  assume eq: "non_nil a = non_nil b"
  have "mget b k = mget a k" for k using eq by (metis mget_non_nil)
  with eq show "mapsEqual a b" by (simp add: mapsEqual_def list_all_iff)
qed

text \<open>The Endpoints object a VM should have, given the one it has.\<close>

definition desired_endpoints :: "VirtualMachine \<Rightarrow> string \<Rightarrow> int \<Rightarrow> Endpoints \<Rightarrow> Endpoints" where
  "desired_endpoints vm ip port base = base\<lparr>
     eps_Meta := (eps_Meta base)\<lparr>o_Labels := with_labels (o_Labels (eps_Meta base)) (metrics_labels vm)\<rparr>,
     eps_Subsets := metrics_subsets ip port\<rparr>"

lemma metrics_labels_nonempty: "metrics_labels vm \<noteq> fmempty"
proof
  assume "metrics_labels vm = fmempty"
  then have "fmlookup (metrics_labels vm) ''app'' = None" by simp
  then show False by (simp add: metrics_labels_def Let_def fmlookup_of_list)
qed

lemma labels_settled:
  "mapsEqual m (with_labels m (metrics_labels vm)) \<longleftrightarrow> with_labels m (metrics_labels vm) = m"
proof -
  have "fmdom (non_nil m) |\<subseteq>| fmdom (non_nil (with_labels m (metrics_labels vm)))"
    by (simp add: with_labels_def)
  then show ?thesis
    using metrics_labels_nonempty [of vm] by (cases m) (auto simp: mapsEqual_iff with_labels_def)
qed


text \<open>Another writer created the Service first: the Endpoints are left for a later run.\<close>

lemma service_conflict_skips_endpoints:
  assumes "fst (getService C (vm_Namespace vm) (vm_Name vm @ ''-metrics'') w) = Inl e" and "IsNotFound e"
    and "\<And>x w. \<exists>e'. fst (createObj C x w) = Inl e' \<and> IsAlreadyExists e'"
  shows "result (ensureVMServiceAndEndpoints C vm ip port) \<lparr>world = w, acts = l\<rparr> = Inr ()
    \<and> (\<forall>a\<in>set (trace (ensureVMServiceAndEndpoints C vm ip port) \<lparr>world = w, acts = l\<rparr>). \<forall>ns n. a \<noteq> Get KEndpoints ns n)"
proof -
  obtain w1 where "getService C (vm_Namespace vm) (vm_Name vm @ ''-metrics'') w = (Inl e, w1)"
    using assms(1) by (metis prod.collapse)
  moreover obtain e' w2 where "createObj C (OService \<lparr>svc_Meta = meta (vm_Namespace vm) (vm_Name vm @ ''-metrics'') (Some (metrics_labels vm)) None,
      svc_Ports = metrics_ports port\<rparr>) w1 = (Inl e', w2)" "IsAlreadyExists e'"
    using assms(3) by (metis prod.collapse)
  ultimately show ?thesis
    using assms(2) by (simp add: ensureVMServiceAndEndpoints_def Let_def result_def trace_def prim_defs)
qed

section \<open>Witnesses\<close>

definition scraped_vm :: VirtualMachine where
  "scraped_vm = \<lparr>vm_Name = ''db'', vm_Namespace = ''team-a'', vm_Labels = Some (fmupd ''kubevirt.io/os'' ''linux'' fmempty),
     Annotations = None, Template = None\<rparr>"

definition bare_endpoints :: Endpoints where
  "bare_endpoints = \<lparr>eps_Meta = meta ''team-a'' ''db-metrics'' None None, eps_Subsets = metrics_subsets ''10.0.0.5'' 9100\<rparr>"


end
