(* ===== verification/VMSecrets.thy ===== *)
theory VMSecrets imports Cluster Api begin

text \<open>
  \<open>controllers/vm_controller.go\<close>, the Secrets the operator reads and mirrors: the monitoring
  SSH keys, the Loki writer token and the route of the Loki gateway.
\<close>

section \<open>Reading keys\<close>

definition SystemNamespace :: string where "SystemNamespace = ''kubevirt-observability-system''"
definition PrivateKeySecret :: string where "PrivateKeySecret = ''lin-vm-mon-private''"

text \<open>The loop over candidate data keys: the first present and nonempty one.\<close>

definition first_data :: "string list \<Rightarrow> Secret \<Rightarrow> string option" where
  "first_data ks s = map_option (mget (sec_Data s))
     (List.find (\<lambda>k. mhas (sec_Data s) k \<and> length (mget (sec_Data s) k) > 0) ks)"

definition getLinuxPublicKeyFromSecret :: "Secret \<Rightarrow> string go" where
  "getLinuxPublicKeyFromSecret src = (case first_data [''key'', ''id_rsa.pub''] src of
     Some v \<Rightarrow> Inr v
   | None \<Rightarrow> Inl (Errorf ''source linux monitoring secret missing required public key (tried: key, id_rsa.pub)''))"

definition getLinuxPublicKey :: "'w client \<Rightarrow> string \<Rightarrow> ('w, string go) io" where
  "getLinuxPublicKey C namespace =
     bindE (wrapE (''failed to get linux public key secret '' @ namespace @ ''/'' @ LinuxSSHSecretName @ '': '')
              (Get_Secret C namespace LinuxSSHSecretName)) (\<lambda>secret.
     ret (getLinuxPublicKeyFromSecret secret))"

definition getWindowsPublicKey :: "'w client \<Rightarrow> string \<Rightarrow> ('w, string go) io" where
  "getWindowsPublicKey C namespace =
     bindE (wrapE (''failed to get windows public key secret '' @ namespace @ ''/'' @ LinuxSSHSecretName @ '': '')
              (Get_Secret C namespace LinuxSSHSecretName)) (\<lambda>secret.
     case first_data [''id_rsa.pub'', ''ssh-publickey'', ''id_ed25519.pub'', ''authorized_keys''] secret of
       Some v \<Rightarrow> ok v
     | None \<Rightarrow> fail (Errorf ''windows ssh secret missing public key data''))"

definition getLinuxPrivateKeyAndUser :: "'w client \<Rightarrow> ('w, (string \<times> string) go) io" where
  "getLinuxPrivateKeyAndUser C =
     bindE (wrapE ''failed to get linux private key secret: '' (Get_Secret C SystemNamespace PrivateKeySecret))
     (\<lambda>secret. let priv = mget (sec_Data secret) ''id_rsa'' in
        if \<not> mhas (sec_Data secret) ''id_rsa'' \<or> length priv = 0
        then fail (Errorf ''linux private key secret missing id_rsa'')
        else let username = (if mhas (sec_Data secret) ''username'' \<and> length (mget (sec_Data secret) ''username'') > 0
                             then mget (sec_Data secret) ''username'' else '''')
             in ok (priv, username))"

definition detectSSHUser :: "VirtualMachine \<Rightarrow> string \<Rightarrow> string go" where
  "detectSSHUser vm defaultUser =
     (if Annotations vm \<noteq> None \<and> mget (Annotations vm) AnnLinuxSSHUser \<noteq> ''''
      then Inr (mget (Annotations vm) AnnLinuxSSHUser)
      else if defaultUser \<noteq> '''' then Inr defaultUser
      else Inl (Errorf (''linux ssh user is required; set '' @ AnnLinuxSSHUser @
             '' annotation or username key in lin-vm-mon-private secret'')))"

definition getLokiWriterToken :: "'w client \<Rightarrow> ('w, string go) io" where
  "getLokiWriterToken C =
     bindE (wrapE (''get loki writer token secret '' @ SystemNamespace @ ''/vm-loki-writer-token: '')
              (Get_Secret C SystemNamespace ''vm-loki-writer-token'')) (\<lambda>secret.
     let token = mget (sec_Data secret) ''token'' in
     if \<not> mhas (sec_Data secret) ''token'' \<or> length token = 0
     then fail (Errorf (''secret '' @ SystemNamespace @ ''/vm-loki-writer-token missing token key''))
     else ok (TrimSpace token))"

definition getLokiPushURL :: "'w client \<Rightarrow> ('w, string go) io" where
  "getLokiPushURL C =
     bindE (wrapE ''get Loki route openshift-logging/logging-loki: '' (Get_RouteHost C ''openshift-logging'' ''logging-loki''))
     (\<lambda>host. if TrimSpace host = ''''
        then fail (Errorf ''Loki route openshift-logging/logging-loki has empty host'')
        else ok (''https://'' @ host @ ''/api/logs/v1/application/loki/api/v1/push''))"

section \<open>Mirroring the monitoring keys\<close>

definition mirror_annotations :: "smap \<Rightarrow> smap" where
  "mirror_annotations an = fmupd ''kubevirt-observability.io/source'' (SystemNamespace @ ''/'' @ LinuxSSHSecretName)
     (fmupd ''kubevirt-observability.io/managed'' ''true'' an)"

definition ensureMonitoringSSHSecretInNamespace :: "'w client \<Rightarrow> string \<Rightarrow> ('w, unit go) io" where
  "ensureMonitoringSSHSecretInNamespace C namespace =
     bindE (wrapE ''failed to get source linux monitoring secret: '' (Get_Secret C SystemNamespace LinuxSSHSecretName))
     (\<lambda>src. case getLinuxPublicKeyFromSecret src of
        Inl err \<Rightarrow> fail err
      | Inr pubKey \<Rightarrow> do {
          r \<leftarrow> Get_Secret C namespace LinuxSSHSecretName;
          let dataCopy = fmupd ''id_rsa.pub'' pubKey fmempty in
          case r of
            Inl err \<Rightarrow>
              if \<not> IsNotFound err then fail (Wrapf ''failed to get destination linux monitoring secret: '' err)
              else do {
                c \<leftarrow> Create_Obj C (OSecret \<lparr>
                   sec_Meta = meta namespace LinuxSSHSecretName None (Some (mirror_annotations fmempty)),
                   sec_Type = ''Opaque'', sec_Data = Some dataCopy\<rparr>);
                case c of
                  Inl e \<Rightarrow> if IsAlreadyExists e then ok ()
                    else fail (Wrapf (''create destination linux monitoring secret '' @ namespace @ ''/'' @ LinuxSSHSecretName @ '': '') e)
                | Inr _ \<Rightarrow> ok () }
          | Inr dst \<Rightarrow>
              Patch_Obj C (OSecret dst) (OSecret (dst\<lparr>
                sec_Meta := (sec_Meta dst)\<lparr>o_Annotations :=
                   Some (mirror_annotations (non_nil (o_Annotations (sec_Meta dst))))\<rparr>,
                sec_Type := ''Opaque'', sec_Data := Some dataCopy\<rparr>)) })"

definition ensureWindowsSSHSecret :: "'w client \<Rightarrow> string \<Rightarrow> ('w, unit go) io" where
  "ensureWindowsSSHSecret C namespace =
     bindE (wrapE ''get source windows ssh secret: '' (Get_Secret C SystemNamespace LinuxSSHSecretName))
     (\<lambda>source. do {
        r \<leftarrow> Get_Secret C namespace LinuxSSHSecretName;
        case r of
          Inl err \<Rightarrow>
            if \<not> IsNotFound err then fail err
            else Create_Obj C (OSecret \<lparr>
               sec_Meta = meta namespace LinuxSSHSecretName (Some (fmupd ''app'' ''kubevirt-observability'' fmempty)) None,
               sec_Type = sec_Type source, sec_Data = sec_Data source\<rparr>)
        | Inr target \<Rightarrow>
            Patch_Obj C (OSecret target) (OSecret (target\<lparr>
              sec_Type := sec_Type source, sec_Data := sec_Data source\<rparr>)) })"

section \<open>Facts\<close>

lemma calls_secrets [calls_rules]:
  assumes "honest C"
  shows "(\<And>r. Q1 r) \<Longrightarrow> calls (confined ns) (getLinuxPublicKey C m) Q1"
    and "(\<And>r. Q2 r) \<Longrightarrow> calls (confined ns) (getWindowsPublicKey C m) Q2"
    and "(\<And>r. Q3 r) \<Longrightarrow> calls (confined ns) (getLinuxPrivateKeyAndUser C) Q3"
    and "(\<And>r. Q4 r) \<Longrightarrow> calls (confined ns) (getLokiWriterToken C) Q4"
    and "(\<And>r. Q5 r) \<Longrightarrow> calls (confined ns) (getLokiPushURL C) Q5"
    and "(\<And>r. Q6 r) \<Longrightarrow> calls (confined ns) (ensureMonitoringSSHSecretInNamespace C ns) Q6"
    and "(\<And>r. Q7 r) \<Longrightarrow> calls (confined ns) (ensureWindowsSSHSecret C ns) Q7"
  unfolding getLinuxPublicKey_def getWindowsPublicKey_def getLinuxPrivateKeyAndUser_def getLokiWriterToken_def
    getLokiPushURL_def ensureMonitoringSSHSecretInNamespace_def ensureWindowsSSHSecret_def Let_def
  using assms by (auto intro!: calls_rules simp: named_def)

text \<open>
  The two mirrors disagree. On a Windows VM a reconciliation mirrors the monitoring
  Secret twice into the namespace: \<open>ensureWindowsSSHSecret\<close> copies type and data whole, and
  \<open>ensureMonitoringSSHSecretInNamespace\<close> then leaves only the public key, under
  \<open>id_rsa.pub\<close>. Unless the source is exactly that, the copy changes twice in each
  reconciliation, for ever.
\<close>
theorem windows_mirrors_disagree:
  assumes "secret_store C \<sigma>" and "namespace \<noteq> SystemNamespace"
    and "run_state (ensureWindowsSSHSecret C namespace) s = (Inr (), s1)"
    and "run_state (ensureMonitoringSSHSecretInNamespace C namespace) s1 = (Inr (), s2)"
  shows "\<exists>src pubKey a b. \<sigma> (world s) (SystemNamespace, LinuxSSHSecretName) = Some src
    \<and> \<sigma> (world s2) (SystemNamespace, LinuxSSHSecretName) = Some src
    \<and> getLinuxPublicKeyFromSecret src = Inr pubKey
    \<and> \<sigma> (world s1) (namespace, LinuxSSHSecretName) = Some a \<and> sec_Type a = sec_Type src \<and> sec_Data a = sec_Data src
    \<and> \<sigma> (world s2) (namespace, LinuxSSHSecretName) = Some b
    \<and> sec_Type b = ''Opaque'' \<and> sec_Data b = Some (fmupd ''id_rsa.pub'' pubKey fmempty)"
proof -
  note store = secret_storeD [OF assms(1)]
  from assms(2,3) obtain src a where w: "\<sigma> (world s) (SystemNamespace, LinuxSSHSecretName) = Some src"
    "\<sigma> (world s1) (SystemNamespace, LinuxSSHSecretName) = Some src"
    "\<sigma> (world s1) (namespace, LinuxSSHSecretName) = Some a" "sec_Type a = sec_Type src" "sec_Data a = sec_Data src"
    unfolding ensureWindowsSSHSecret_def prim_defs bindE_def wrapE_def
    by (auto simp: secret_key_def split: prod.splits sum.splits if_splits dest!: store)
  moreover from assms(2,4) w(2,3) obtain pubKey b where "\<sigma> (world s2) (SystemNamespace, LinuxSSHSecretName) = Some src"
    "getLinuxPublicKeyFromSecret src = Inr pubKey" "\<sigma> (world s2) (namespace, LinuxSSHSecretName) = Some b"
    "sec_Type b = ''Opaque''" "sec_Data b = Some (fmupd ''id_rsa.pub'' pubKey fmempty)"
    unfolding ensureMonitoringSSHSecretInNamespace_def prim_defs bindE_def wrapE_def Let_def
    by (auto simp: secret_key_def split: prod.splits sum.splits if_splits dest!: store)
  ultimately show ?thesis by blast
qed

definition key_secret :: Secret where
  "key_secret = \<lparr>sec_Meta = meta SystemNamespace LinuxSSHSecretName None None, sec_Type = ''Opaque'',
     sec_Data = Some (fmupd ''key'' ''ssh-rsa AAAA'' fmempty)\<rparr>"

definition key_world :: "(string \<times> string \<Rightarrow> Secret option) st" where
  "key_world = \<lparr>world = Map.empty((SystemNamespace, LinuxSSHSecretName) \<mapsto> key_secret), acts = []\<rparr>"

lemma first_data_key: "getLinuxPublicKeyFromSecret key_secret = Inr ''ssh-rsa AAAA''"
  by (simp add: getLinuxPublicKeyFromSecret_def first_data_def key_secret_def)

theorem windows_mirrors_disagree_witness:
  "\<exists>s1 a b. run_state (ensureWindowsSSHSecret map_client ''team-a'') key_world = (Inr (), s1)
    \<and> world s1 (''team-a'', LinuxSSHSecretName) = Some a
    \<and> world (snd (run_state (ensureMonitoringSSHSecretInNamespace map_client ''team-a'') s1)) (''team-a'', LinuxSSHSecretName) = Some b
    \<and> sec_Data a = Some (fmupd ''key'' ''ssh-rsa AAAA'' fmempty)
    \<and> sec_Data b = Some (fmupd ''id_rsa.pub'' ''ssh-rsa AAAA'' fmempty)"
proof -
  have ns: "''team-a'' \<noteq> SystemNamespace" "SystemNamespace \<noteq> ''team-a''" by (simp_all add: SystemNamespace_def)
  have keys: "o_Namespace (sec_Meta key_secret) = SystemNamespace" "o_Name (sec_Meta key_secret) = LinuxSSHSecretName"
    by (simp_all add: key_secret_def)
  have "fst (run_state (ensureWindowsSSHSecret map_client ''team-a'') key_world) = Inr ()"
    by (simp add: ensureWindowsSSHSecret_def key_world_def prim_defs bindE_def wrapE_def secret_key_def keys ns)
  then obtain s1 where r1: "run_state (ensureWindowsSSHSecret map_client ''team-a'') key_world = (Inr (), s1)"
    by (metis prod.collapse)
  have w1: "world s1 (SystemNamespace, LinuxSSHSecretName) = Some key_secret"
    "\<exists>a. world s1 (''team-a'', LinuxSSHSecretName) = Some a \<and> secret_key a = (''team-a'', LinuxSSHSecretName)"
    using r1 by (auto simp: ensureWindowsSSHSecret_def key_world_def prim_defs bindE_def wrapE_def
        secret_key_def keys ns)
  then have "fst (run_state (ensureMonitoringSSHSecretInNamespace map_client ''team-a'') s1) = Inr ()"
    by (auto simp: ensureMonitoringSSHSecretInNamespace_def prim_defs bindE_def wrapE_def Let_def keys first_data_key
        secret_key_def)
  then obtain s2 where r2: "run_state (ensureMonitoringSSHSecretInNamespace map_client ''team-a'') s1 = (Inr (), s2)"
    by (metis prod.collapse)
  have "world key_world (SystemNamespace, LinuxSSHSecretName) = Some key_secret" by (simp add: key_world_def)
  with windows_mirrors_disagree [OF map_client_store ns(1) r1 r2] r1 r2 first_data_key show ?thesis
    by (auto simp: key_secret_def)
qed

end
