(* ===== verification/VMMerge.thy ===== *)
theory VMMerge imports VMSecrets CloudInit Sysprep Patch begin

text \<open>
  \<open>controllers/vm_controller.go\<close>, the merge of the bootstrap into the user's own sources: the
  sysprep ConfigMap or Secret and the cloud-init Secret of a VM, with the hints for the
  guest's SSH access that are injected first. The libraries that read and write YAML and
  XML are the functions of \<open>libs\<close>.
\<close>

section \<open>Libraries\<close>

text \<open>
  \<open>go.yaml.in/yaml/v2\<close> on a generic map: unmarshalling a document that is \<open>null\<close> leaves the
  map nil.
\<close>

record libs =
  lib_cc :: cc_yaml
  lib_unmarshal :: "string \<Rightarrow> gobj option go"
  lib_marshal :: "gobj \<Rightarrow> string go"
  lib_xml :: xml_codec
  lib_quote :: "string \<Rightarrow> string"
  lib_manifest :: "string \<Rightarrow> Unstructured go"

section \<open>Sysprep\<close>

definition findSysprepVolume :: "VirtualMachine \<Rightarrow> Volume go" where
  "findSysprepVolume vm = goE (template vm) (\<lambda>t.
     case List.find (\<lambda>v. v_Sysprep v \<noteq> None) (Volumes t) of
       Some v \<Rightarrow> Inr v
     | None \<Rightarrow> Inl (Errorf ''no sysprep volume found on VM''))"

definition mergeSysprepConfigMap :: "libs \<Rightarrow> 'w client \<Rightarrow> VirtualMachine \<Rightarrow> string \<Rightarrow> ('w, bool go) io" where
  "mergeSysprepConfigMap L C vm name =
     bindE (Get_ConfigMap C (vm_Namespace vm) name) (\<lambda>cm.
     case MergeMapData (lib_xml L) (cm_Data cm) of
       Inl err \<Rightarrow> fail (Wrapf (''configmap '' @ name @ '': '') err)
     | Inr (mergedData, key, changed) \<Rightarrow>
         if \<not> changed then ok True
         else bindE (Patch_Obj C (OConfigMap cm) (OConfigMap (cm\<lparr>cm_Data := Some mergedData\<rparr>))) (\<lambda>_. do {
           _ \<leftarrow> eventf vm ''Normal'' ''SysprepConfigMapPatched'' (''Patched ConfigMap '' @ name @ '' key '' @ key);
           ok True }))"

definition mergeSysprepSecret :: "libs \<Rightarrow> 'w client \<Rightarrow> VirtualMachine \<Rightarrow> string \<Rightarrow> ('w, bool go) io" where
  "mergeSysprepSecret L C vm name =
     bindE (Get_Secret C (vm_Namespace vm) name) (\<lambda>secret.
     case MergeByteData (lib_xml L) (sec_Data secret) of
       Inl err \<Rightarrow> fail (Wrapf (''secret '' @ name @ '': '') err)
     | Inr (mergedData, key, changed) \<Rightarrow>
         if \<not> changed then ok True
         else bindE (Patch_Obj C (OSecret secret) (OSecret (secret\<lparr>sec_Data := Some mergedData\<rparr>))) (\<lambda>_. do {
           _ \<leftarrow> eventf vm ''Normal'' ''SysprepSecretPatched'' (''Patched Secret '' @ name @ '' key '' @ key);
           ok True }))"

definition reconcileSysprepSource :: "libs \<Rightarrow> 'w client \<Rightarrow> VirtualMachine \<Rightarrow> ('w, bool go) io" where
  "reconcileSysprepSource L C vm = (case findSysprepVolume vm of
     Inl err \<Rightarrow> fail err
   | Inr vol \<Rightarrow> (case v_Sysprep vol of
       None \<Rightarrow> fail nil_deref
     | Some sp \<Rightarrow> (case (sp_ConfigMap sp, sp_Secret sp) of
         (Some name, _) \<Rightarrow> mergeSysprepConfigMap L C vm name
       | (None, Some name) \<Rightarrow> mergeSysprepSecret L C vm name
       | (None, None) \<Rightarrow> fail (Errorf ''sysprep volume found but no ConfigMap or Secret source is set''))))"

section \<open>Cloud-init\<close>

definition findCloudInitNoCloudSecretVolume :: "VirtualMachine \<Rightarrow> string go" where
  "findCloudInitNoCloudSecretVolume vm = goE (template vm) (\<lambda>t.
     case List.find (\<lambda>v. case CloudInitNoCloud v of None \<Rightarrow> False | Some s \<Rightarrow> UserDataSecretRef s \<noteq> None) (Volumes t) of
       Some v \<Rightarrow> Inr (the (UserDataSecretRef (the (CloudInitNoCloud v))))
     | None \<Rightarrow> Inl (Errorf ''no cloudInitNoCloud secretRef volume found on VM''))"

definition hint_key :: "smap option \<Rightarrow> string" where
  "hint_key data = (if mhas data ''userData'' then ''userData'' else ''userdata'')"

text \<open>The data map is changed in place; a write into a nil map panics.\<close>

definition injectSSHMergeHints :: "libs \<Rightarrow> smap option \<Rightarrow> string \<Rightarrow> string \<Rightarrow> smap option go" where
  "injectSSHMergeHints L data user pubKey =
     (if TrimSpace user = '''' then Inl (Errorf ''linux ssh user is required'')
      else if TrimSpace pubKey = '''' then Inl (Errorf ''linux ssh public key is required'')
      else let key = hint_key data in
        if \<not> mhas data key then Inl (Errorf ''cloud-init secret missing userData/userdata'')
        else let raw = TrimSpace (TrimPrefix (TrimSpace (mget data key)) CloudHeader) in
          (case (if raw \<noteq> '''' then lib_unmarshal L raw else Inr (Some fmempty)) of
             Inl err \<Rightarrow> Inl (Wrapf ''parse cloud-init userdata for ssh injection: '' err)
           | Inr None \<Rightarrow> Inl (GoErr KPanic ''assignment to entry in nil map'')
           | Inr (Some cfgMap) \<Rightarrow>
               (case lib_marshal L (fmupd HintKey (GString pubKey) (fmupd HintUser (GString user) cfgMap)) of
                  Inl err \<Rightarrow> Inl (Wrapf ''marshal cloud-init userdata for ssh injection: '' err)
                | Inr newData \<Rightarrow> Inr (Some (fmupd key (CloudHeader @ newline @ newData) (non_nil data))))))"

definition new_cloudinit_secret :: "string \<Rightarrow> string \<Rightarrow> Secret" where
  "new_cloudinit_secret ns name = \<lparr>
     sec_Meta = meta ns name (Some (fmupd ''app'' ''kubevirt-observability'' fmempty)) None,
     sec_Type = '''', sec_Data = Some (fmupd ''userdata'' (CloudHeader @ newline) fmempty)\<rparr>"

text \<open>The Secret of the volume, created when it does not exist.\<close>

definition cloudinit_secret :: "'w client \<Rightarrow> VirtualMachine \<Rightarrow> string \<Rightarrow> ('w, Secret go) io" where
  "cloudinit_secret C vm secretName = do {
     r \<leftarrow> Get_Secret C (vm_Namespace vm) secretName;
     case r of
       Inr secret \<Rightarrow> ok secret
     | Inl err \<Rightarrow>
         if \<not> IsNotFound err then fail err
         else bindE (Create_Obj C (OSecret (new_cloudinit_secret (vm_Namespace vm) secretName)))
           (\<lambda>_. ok (new_cloudinit_secret (vm_Namespace vm) secretName)) }"

text \<open>The \<open>switch osdetect.Detect(vm)\<close>: the OS to merge for, and the data with the hints.\<close>

definition prepare_merge :: "libs \<Rightarrow> 'w client \<Rightarrow> VirtualMachine \<Rightarrow> smap option \<Rightarrow> ('w, (OSType \<times> smap option) go) io" where
  "prepare_merge L C vm data = (case Detect vm of
     Linux \<Rightarrow>
       bindE (getLinuxPrivateKeyAndUser C) (\<lambda>(_, defaultUser).
       bindE (ret (detectSSHUser vm defaultUser)) (\<lambda>user.
       bindE (getLinuxPublicKey C (vm_Namespace vm)) (\<lambda>pubKey.
       bindE (ret (injectSSHMergeHints L data user pubKey)) (\<lambda>data. ok (OSLinux, data)))))
   | Windows \<Rightarrow>
       bindE (getWindowsPublicKey C (vm_Namespace vm)) (\<lambda>pubKey.
       bindE (ret (injectSSHMergeHints L data ''Administrator'' pubKey)) (\<lambda>data. ok (OSWindows, data)))
   | Unknown \<Rightarrow> fail (Errorf ''unknown OS for cloud-init secret merge''))"

definition reconcileCloudInitSecret :: "libs \<Rightarrow> 'w client \<Rightarrow> VirtualMachine \<Rightarrow> ('w, bool go) io" where
  "reconcileCloudInitSecret L C vm = (case findCloudInitNoCloudSecretVolume vm of
     Inl err \<Rightarrow> fail err
   | Inr secretName \<Rightarrow>
       bindE (cloudinit_secret C vm secretName) (\<lambda>secret.
       bindE (prepare_merge L C vm (sec_Data secret)) (\<lambda>(mergeOS, data).
       case MergeSecretData (lib_cc L) data mergeOS of
         Inl err \<Rightarrow> fail (Wrapf (''secret '' @ secretName @ '': '') err)
       | Inr (mergedData, key, changed) \<Rightarrow>
           if \<not> changed then ok True
           else bindE (Patch_Obj C (OSecret (secret\<lparr>sec_Data := data\<rparr>)) (OSecret (secret\<lparr>sec_Data := Some mergedData\<rparr>)))
             (\<lambda>_. do {
               _ \<leftarrow> eventf vm ''Normal'' ''CloudInitSecretPatched'' (''Patched Secret '' @ secretName @ '' key '' @ key);
               ok True }))))"

section \<open>Facts\<close>

lemma calls_prepare_merge [calls_rules]:
  assumes "honest C" and "\<And>r. Q r"
  shows "calls (confined ns) (prepare_merge L C vm data) Q"
  unfolding prepare_merge_def using assms by (auto intro!: calls_rules split: Family.split)

lemma calls_merge [calls_rules]:
  assumes "honest C" and "vm_Namespace vm = ns"
  shows "(\<And>r. Q1 r) \<Longrightarrow> calls (confined ns) (reconcileSysprepSource L C vm) Q1"
    and "(\<And>r. Q2 r) \<Longrightarrow> calls (confined ns) (reconcileCloudInitSecret L C vm) Q2"
  unfolding reconcileSysprepSource_def mergeSysprepConfigMap_def mergeSysprepSecret_def
    reconcileCloudInitSecret_def cloudinit_secret_def new_cloudinit_secret_def
  using assms by (auto intro!: calls_rules simp: named_def)

end
