(* ===== verification/Sha256.thy ===== *)
theory Sha256 imports Prelude "HOL-Library.Word" begin

text \<open>
  \<open>crypto/sha256\<close> and \<open>encoding/hex\<close> of the Go standard library, which the controller uses to
  name an Alloy configuration (\<open>hashStrings\<close>): FIPS 180-4 on 32-bit words.
\<close>

unbundle bit_operations_syntax

section \<open>The hash\<close>

text \<open>
  The constants are the first 32 bits of the fractional parts of the cube roots of the first
  64 primes, and of the square roots of the first eight. \<open>root_bits\<close> computes a root bit by
  bit, from the highest.
\<close>

fun root_bits :: "nat \<Rightarrow> nat \<Rightarrow> nat \<Rightarrow> nat \<Rightarrow> nat" where
  "root_bits k 0 n r = r"
| "root_bits k (Suc b) n r = root_bits k b n (if (r + 2 ^ b) ^ k \<le> n then r + 2 ^ b else r)"

definition root_fraction :: "nat \<Rightarrow> nat \<Rightarrow> 32 word" where
  "root_fraction k p = word_of_nat (root_bits k 36 (p * 2 ^ (32 * k)) 0)"

definition small_primes :: "nat list" where
  "small_primes = filter (\<lambda>p. list_all (\<lambda>d. p mod d \<noteq> 0) [2..<p]) [2..<312]"

definition sha_k :: "32 word list" where
  "sha_k = map (root_fraction 3) small_primes"

definition sha_init :: "32 word list" where
  "sha_init = map (root_fraction 2) (take 8 small_primes)"

definition rotr :: "nat \<Rightarrow> 32 word \<Rightarrow> 32 word" where
  "rotr n x = drop_bit n x OR push_bit (32 - n) x"

definition sha_schedule_word :: "32 word list \<Rightarrow> 32 word" where
  "sha_schedule_word w = (let n = length w; x = w ! (n - 15); y = w ! (n - 2) in
     w ! (n - 16) + (rotr 7 x XOR rotr 18 x XOR drop_bit 3 x)
     + w ! (n - 7) + (rotr 17 y XOR rotr 19 y XOR drop_bit 10 y))"

fun sha_schedule :: "nat \<Rightarrow> 32 word list \<Rightarrow> 32 word list" where
  "sha_schedule 0 w = w"
| "sha_schedule (Suc n) w = sha_schedule n (w @ [sha_schedule_word w])"

definition sha_round :: "32 word \<times> 32 word \<Rightarrow> 32 word list \<Rightarrow> 32 word list" where
  "sha_round kw s = (case s of
     [a, b, c, d, e, f, g, h] \<Rightarrow>
       let t1 = h + (rotr 6 e XOR rotr 11 e XOR rotr 25 e) + ((e AND f) XOR (NOT e AND g)) + fst kw + snd kw;
           t2 = (rotr 2 a XOR rotr 13 a XOR rotr 22 a) + ((a AND b) XOR (a AND c) XOR (b AND c))
       in [t1 + t2, a, b, c, d + t1, e, f, g]
   | _ \<Rightarrow> s)"

definition sha_compress :: "32 word list \<Rightarrow> 32 word list \<Rightarrow> 32 word list" where
  "sha_compress s block = map2 (+) s (fold sha_round (zip sha_k (sha_schedule 48 block)) s)"

fun sha_words :: "nat list \<Rightarrow> 32 word list" where
  "sha_words (a # b # c # d # r) = word_of_nat (((a * 256 + b) * 256 + c) * 256 + d) # sha_words r"
| "sha_words _ = []"

fun be_bytes :: "nat \<Rightarrow> nat \<Rightarrow> nat list" where
  "be_bytes 0 n = []"
| "be_bytes (Suc k) n = be_bytes k (n div 256) @ [n mod 256]"

definition sha_pad :: "nat list \<Rightarrow> nat list" where
  "sha_pad m = m @ [128] @ replicate ((119 - length m mod 64) mod 64) 0 @ be_bytes 8 (8 * length m)"

function sha_blocks :: "32 word list \<Rightarrow> 32 word list \<Rightarrow> 32 word list" where
  "sha_blocks s w = (if length w < 16 then s else sha_blocks (sha_compress s (take 16 w)) (drop 16 w))"
  by pat_completeness auto
termination by (relation "measure (\<lambda>(s, w). length w)") auto

declare sha_blocks.simps [simp del]

definition Sum256 :: "string \<Rightarrow> nat list" where
  "Sum256 m = concat (map (\<lambda>w. be_bytes 4 (unat w))
     (sha_blocks sha_init (sha_words (sha_pad (map of_char m)))))"

section \<open>Hexadecimal digits and the key of a configuration\<close>

definition hexdigit :: "nat \<Rightarrow> char" where
  "hexdigit n = char_of (if n < 10 then 48 + n else 87 + n)"

definition hex_EncodeToString :: "nat list \<Rightarrow> string" where
  "hex_EncodeToString bs = concat (map (\<lambda>b. [hexdigit (b div 16), hexdigit (b mod 16)]) bs)"

text \<open>\<open>hashStrings\<close> of the controller: each value and a zero byte.\<close>

definition hash_input :: "string list \<Rightarrow> string" where
  "hash_input values = concat (map (\<lambda>v. v @ [CHR 0x00]) values)"

definition hashStrings :: "string list \<Rightarrow> string" where
  "hashStrings values = hex_EncodeToString (Sum256 (hash_input values))"

section \<open>Facts\<close>

lemma length_be_bytes [simp]: "length (be_bytes k n) = k"
  by (induction k arbitrary: n) auto

lemma length_sha_round [simp]: "length (sha_round kw s) = length s"
  by (auto simp: sha_round_def Let_def split: list.splits)

lemma length_fold_round [simp]: "length (fold sha_round ks s) = length s"
  by (induction ks arbitrary: s) auto

lemma length_sha_compress [simp]: "length (sha_compress s b) = length s"
  by (simp add: sha_compress_def)

lemma length_sha_blocks [simp]: "length (sha_blocks s w) = length s"
  by (induction s w rule: sha_blocks.induct) (simp add: sha_blocks.simps)

lemma sum_list_const: "(\<And>x. x \<in> set xs \<Longrightarrow> f x = c) \<Longrightarrow> sum_list (map f xs) = c * length xs"
  by (induction xs) auto

lemma in_small_primes: "p \<in> set small_primes \<longleftrightarrow> 2 \<le> p \<and> p < 312 \<and> list_all (\<lambda>d. p mod d \<noteq> 0) [2..<p]"
  unfolding small_primes_def set_filter set_upt by auto

lemma length_sha_init [simp]: "length sha_init = 8"
proof -
  have "list_all (\<lambda>p. p \<in> set small_primes) [2, 3, 5, 7, 11, 13, 17, 19]"
    by (simp add: in_small_primes upt_rec_numeral)
  then have "card (set [2, 3, 5, 7, 11, 13, 17, 19 :: nat]) \<le> card (set small_primes)"
    by (intro card_mono) (auto simp: list_all_iff)
  also have "\<dots> \<le> length small_primes" by (rule card_length)
  finally have "8 \<le> length small_primes" by simp
  then show ?thesis by (simp add: sha_init_def)
qed

lemma length_Sum256: "length (Sum256 m) = 32"
  by (simp add: Sum256_def length_concat comp_def sum_list_const [of _ _ 4] length_sha_init)

lemma length_hashStrings: "length (hashStrings values) = 64"
  by (simp add: hashStrings_def hex_EncodeToString_def length_concat comp_def sum_list_const [of _ _ 2] length_Sum256)

text \<open>
  The zero bytes separate the values: lists of texts without zero bytes that hash the same
  bytes are the same. So two configurations have one hash only if SHA-256 collides.
\<close>

lemma hash_input_Cons: "hash_input (v # vs) = v @ CHR 0x00 # hash_input vs"
  by (simp add: hash_input_def)

lemma no_zero_split:
  "CHR 0x00 \<notin> set v \<Longrightarrow> CHR 0x00 \<notin> set v' \<Longrightarrow> v @ CHR 0x00 # r = v' @ CHR 0x00 # r' \<Longrightarrow> v = v' \<and> r = r'"
proof (induction v arbitrary: v')
  case Nil
  then show ?case by (cases v') auto
next
  case (Cons c v)
  then show ?case by (cases v') auto
qed

lemma hash_input_inj:
  assumes "hash_input vs = hash_input vs'"
    and "\<forall>v\<in>set vs. CHR 0x00 \<notin> set v" and "\<forall>v\<in>set vs'. CHR 0x00 \<notin> set v"
  shows "vs = vs'"
  using assms
proof (induction vs arbitrary: vs')
  case Nil
  then show ?case by (cases vs') (simp_all add: hash_input_Cons, simp add: hash_input_def)
next
  case (Cons v vs)
  show ?case
  proof (cases vs')
    case Nil
    with Cons.prems(1) show ?thesis by (simp add: hash_input_Cons, simp add: hash_input_def)
  next
    case (Cons v' ws)
    with Cons.prems have "v = v' \<and> hash_input vs = hash_input ws"
      by (intro no_zero_split) (simp_all add: hash_input_Cons)
    with Cons.IH [of ws] Cons.prems \<open>vs' = v' # ws\<close> show ?thesis by simp
  qed
qed

end
