(* ===== verification/VMAlloy.thy ===== *)
theory VMAlloy imports VMMerge Remediation Sha256 begin

text \<open>
  \<open>controllers/vm_controller.go\<close>, the log collector in the guest: Alloy is installed or
  reconfigured over SSH when the hash of its configuration and token is not the one
  recorded on the VM, and the new hash is recorded. An operation that fails after it
  changed the VM in memory returns the changed VM with the error.
\<close>

section \<open>Annotation patches\<close>

text \<open>
  \<open>base := vm.DeepCopy()\<close>, a change of the annotations (created when nil), and
  \<open>r.Patch(ctx, vm, client.MergeFrom(base))\<close>: the VM becomes the one the server answers.
\<close>

definition with_annotations :: "(smap \<Rightarrow> smap) \<Rightarrow> VirtualMachine \<Rightarrow> VirtualMachine" where
  "with_annotations f vm = vm\<lparr>Annotations := Some (f (non_nil (Annotations vm)))\<rparr>"

definition patch_annotations :: "'w client \<Rightarrow> (smap \<Rightarrow> smap) \<Rightarrow> VirtualMachine \<Rightarrow> ('w, VirtualMachine go) io" where
  "patch_annotations C f vm = Patch_VM C vm (with_annotations f vm)"

section \<open>Installing\<close>

definition alloy_current :: "VirtualMachine \<Rightarrow> string \<Rightarrow> bool" where
  "alloy_current vm desiredHash \<longleftrightarrow> Annotations vm \<noteq> None
     \<and> mget (Annotations vm) AnnAlloyConfigHash = desiredHash \<and> mget (Annotations vm) AnnAlloyInstalled = ''true''"

definition alloy_annotations :: "string \<Rightarrow> smap \<Rightarrow> smap" where
  "alloy_annotations desiredHash m =
     fmdrop AnnAlloyError (fmupd AnnAlloyConfigHash desiredHash (fmupd AnnAlloyInstalled ''true'' m))"

definition record_alloy :: "'w client \<Rightarrow> VirtualMachine \<Rightarrow> string \<Rightarrow> ('w, bool go \<times> VirtualMachine) io" where
  "record_alloy C vm desiredHash = do {
     r \<leftarrow> patch_annotations C (alloy_annotations desiredHash) vm;
     case r of
       Inl err \<Rightarrow> ret (Inl err, with_annotations (alloy_annotations desiredHash) vm)
     | Inr vm \<Rightarrow> ret (Inr True, vm) }"

definition log_config :: "VirtualMachine \<Rightarrow> string \<Rightarrow> VMLogConfig" where
  "log_config vm lokiURL = \<lparr>lc_Namespace = vm_Namespace vm, VMName = vm_Name vm, Token = '''', LokiURL = lokiURL\<rparr>"

text \<open>
  What happens before the VM is touched: \<open>None\<close> when the guest is up to date, else the hash
  that the guest now has.
\<close>

definition install_linux_alloy ::
  "libs \<Rightarrow> 'w client \<Rightarrow> VirtualMachine \<Rightarrow> string \<Rightarrow> string \<Rightarrow> string \<Rightarrow> ('w, string option go) io" where
  "install_linux_alloy L C vm ip username privateKey =
     bindE (getLokiWriterToken C) (\<lambda>token. let token = TrimSpace token in
     bindE (getLokiPushURL C) (\<lambda>lokiURL.
     let cfg = RenderLinux (lib_quote L) (log_config vm lokiURL); desiredHash = hashStrings [cfg, token] in
     if alloy_current vm desiredHash then ok None
     else let addr = ip @ '':22'' in do {
       up \<leftarrow> ProbeSSH C addr 3;
       if \<not> up then fail (Errorf (''ssh not reachable at '' @ addr))
       else bindE (RunLinuxBootstrap C
              \<lparr>ls_Address = addr, ls_Username = username, ls_PrivateKey = privateKey, ls_Timeout = 300\<rparr>
              (LinuxAlloyInstallScript cfg token))
            (\<lambda>_. ok (Some desiredHash)) }))"

definition reconcileLinuxAlloy ::
  "libs \<Rightarrow> 'w client \<Rightarrow> VirtualMachine \<Rightarrow> string \<Rightarrow> string \<Rightarrow> string \<Rightarrow> ('w, bool go \<times> VirtualMachine) io" where
  "reconcileLinuxAlloy L C vm ip username privateKey = do {
     r \<leftarrow> install_linux_alloy L C vm ip username privateKey;
     case r of
       Inl err \<Rightarrow> ret (Inl err, vm)
     | Inr None \<Rightarrow> ret (Inr False, vm)
     | Inr (Some desiredHash) \<Rightarrow> record_alloy C vm desiredHash }"

definition windows_ssh :: "string \<Rightarrow> string \<Rightarrow> nat \<Rightarrow> WindowsSSHConfig" where
  "windows_ssh ip priv timeout =
     \<lparr>ws_Address = ip @ '':22'', ws_User = ''Administrator'', ws_KeyPEM = priv, ws_Timeout = timeout\<rparr>"

definition windows_alloy_script :: "VirtualMachine \<Rightarrow> string \<Rightarrow> string \<Rightarrow> string \<Rightarrow> string go" where
  "windows_alloy_script vm state cfg token =
     (if state = ''success'' then Inr (WindowsAlloyUpdateScript cfg token)
      else if Annotations vm \<noteq> None \<and> mget (Annotations vm) AnnRemediationCompleted = ''true''
      then Inr (WindowsAlloyInstallScript cfg token)
      else Inl (Errorf ''windows bootstrap not completed yet''))"

definition install_windows_alloy ::
  "libs \<Rightarrow> 'w client \<Rightarrow> VirtualMachine \<Rightarrow> string \<Rightarrow> ('w, string option go) io" where
  "install_windows_alloy L C vm ip =
     bindE (getLokiWriterToken C) (\<lambda>token.
     bindE (getLokiPushURL C) (\<lambda>lokiURL.
     let cfg = RenderWindows (lib_quote L) (log_config vm lokiURL); desiredHash = hashStrings [cfg, token] in
     if alloy_current vm desiredHash then ok None
     else
       bindE (getLinuxPrivateKeyAndUser C) (\<lambda>(priv, _).
       bindE (GetWindowsBootstrapState C (windows_ssh ip priv 60)) (\<lambda>state.
       bindE (ret (windows_alloy_script vm state cfg token)) (\<lambda>script.
       bindE (RunWindowsSSHBootstrap C (windows_ssh ip priv 60) script) (\<lambda>_. ok (Some desiredHash)))))))"

definition reconcileWindowsAlloy ::
  "libs \<Rightarrow> 'w client \<Rightarrow> VirtualMachine \<Rightarrow> string \<Rightarrow> ('w, bool go \<times> VirtualMachine) io" where
  "reconcileWindowsAlloy L C vm ip = do {
     r \<leftarrow> install_windows_alloy L C vm ip;
     case r of
       Inl err \<Rightarrow> ret (Inl err, vm)
     | Inr None \<Rightarrow> ret (Inr False, vm)
     | Inr (Some desiredHash) \<Rightarrow> record_alloy C vm desiredHash }"

definition reconcileAlloyIfEnabled ::
  "libs \<Rightarrow> 'w client \<Rightarrow> VirtualMachine \<Rightarrow> string \<Rightarrow> Family \<Rightarrow> ('w, bool go \<times> VirtualMachine) io" where
  "reconcileAlloyIfEnabled L C vm ip osFamily =
     (if mget (Annotations vm) AnnLoggingEnabled \<noteq> ''true'' then ret (Inr False, vm)
      else case osFamily of
        Linux \<Rightarrow> do {
          r \<leftarrow> getLinuxPrivateKeyAndUser C;
          case r of
            Inl err \<Rightarrow> ret (Inl (Wrapf ''get linux key for Alloy install: '' err), vm)
          | Inr (priv, defaultUser) \<Rightarrow>
              (case detectSSHUser vm defaultUser of
                 Inl err \<Rightarrow> ret (Inl err, vm)
               | Inr user \<Rightarrow> reconcileLinuxAlloy L C vm ip user priv) }
      | Windows \<Rightarrow> reconcileWindowsAlloy L C vm ip
      | Unknown \<Rightarrow> ret (Inl (Errorf (''unsupported OS for Alloy reconciliation: '' @ family_string osFamily)), vm))"

section \<open>Facts\<close>

lemma calls_deferred [calls_rules]:
  "calls P m (\<lambda>r. calls P close (\<lambda>_. Q r)) \<Longrightarrow> calls P (deferred close m) Q"
  unfolding deferred_def by (rule calls_bind, erule calls_mono) (auto intro!: calls_rules elim: calls_mono)

lemma calls_guest [calls_rules]:
  "(\<And>r. Q1 r) \<Longrightarrow> calls (confined ns) (ProbeSSH C addr t) Q1"
  "(\<And>r. Q1 r) \<Longrightarrow> calls (confined ns) (TCP C host port t) Q1"
  "(\<And>r. Q2 r) \<Longrightarrow> calls (confined ns) (RunLinuxBootstrap C lcfg script) Q2"
  "(\<And>r. Q3 r) \<Longrightarrow> calls (confined ns) (RunWindowsSSHBootstrap C wcfg script) Q3"
  "(\<And>r. Q4 r) \<Longrightarrow> calls (confined ns) (GetWindowsBootstrapState C wcfg) Q4"
  unfolding ProbeSSH_def TCP_def RunLinuxBootstrap_def RunWindowsSSHBootstrap_def
    GetWindowsBootstrapState_def RunWindowsSSHCommand_def
  by (auto intro!: calls_rules)

lemma with_annotations_simps [simp]:
  "vm_Name (with_annotations f vm) = vm_Name vm" "vm_Namespace (with_annotations f vm) = vm_Namespace vm"
  "vm_Labels (with_annotations f vm) = vm_Labels vm" "Template (with_annotations f vm) = Template vm"
  "Annotations (with_annotations f vm) = Some (f (non_nil (Annotations vm)))"
  by (simp_all add: with_annotations_def)

lemma ownedI: "(\<And>m k. k \<notin> set controller_keys \<Longrightarrow> fmlookup (f m) k = fmlookup m k) \<Longrightarrow>
    (\<And>m k. k \<in> set milestones \<Longrightarrow> fmlookup (f m) k \<in> {fmlookup m k, Some ''true''}) \<Longrightarrow> owned f"
  by (simp add: owned_def)

lemma owned_alloy [simp]: "owned (alloy_annotations h)"
  by (rule ownedI) (auto simp: alloy_annotations_def controller_keys_def milestones_def)

text \<open>The VM that comes back is the one that went in, as far as its identity goes.\<close>

definition same_vm :: "string \<Rightarrow> string \<Rightarrow> VirtualMachine \<Rightarrow> bool" where
  "same_vm ns n vm \<longleftrightarrow> vm_Namespace vm = ns \<and> vm_Name vm = n"

lemma calls_patch_annotations [calls_rules]:
  assumes "honest C" and "same_vm ns n vm" and "owned f" and "\<And>r. fetched (same_vm ns n) r \<Longrightarrow> Q r"
  shows "calls (confined ns) (patch_annotations C f vm) Q"
  unfolding patch_annotations_def
proof (rule calls_Patch_VM [OF assms(1)])
  show "confined ns (Patch (OVM vm) (OVM (with_annotations f vm)))"
    using assms(2,3) by (simp add: same_vm_def annotation_patch_def owned_def)
  fix r :: "VirtualMachine go"
  assume "fetched (\<lambda>y. vm_Namespace y = vm_Namespace (with_annotations f vm) \<and> vm_Name y = vm_Name (with_annotations f vm)) r"
  with assms(2) have "fetched (same_vm ns n) r" by (simp add: same_vm_def fetched_def)
  then show "Q r" by (rule assms(4))
qed

lemma calls_install:
  assumes "honest C"
  shows "calls (confined ns) (install_linux_alloy L C vm ip user key) (\<lambda>_. True)"
    and "calls (confined ns) (install_windows_alloy L C vm ip) (\<lambda>_. True)"
  unfolding install_linux_alloy_def install_windows_alloy_def Let_def
  using assms by (auto intro!: calls_rules)

lemma calls_reconcileAlloy [calls_rules]:
  assumes "honest C" and "same_vm ns n vm" and "\<And>r vm'. same_vm ns n vm' \<Longrightarrow> Q (r, vm')"
  shows "calls (confined ns) (reconcileAlloyIfEnabled L C vm ip os) Q"
proof -
  have rec: "calls (confined ns) (record_alloy C vm h) Q" for h
    unfolding record_alloy_def using assms by (auto intro!: calls_rules simp: same_vm_def)
  show ?thesis
    unfolding reconcileAlloyIfEnabled_def reconcileLinuxAlloy_def reconcileWindowsAlloy_def
    using assms by (auto intro!: calls_rules rec calls_install [THEN calls_post] split: Family.split)
qed

end
