(* ===== verification/GoTime.thy ===== *)
theory GoTime imports Prelude begin

text \<open>
  The part of the Go package time that the controllers use: instants as nanoseconds since
  the Unix epoch, \<open>Format\<close> and \<open>Parse\<close> with the layout \<open>time.RFC3339\<close>, in the proleptic
  Gregorian calendar.
\<close>

section \<open>The calendar\<close>

definition second :: int where "second = 1000000000"
definition minute :: int where "minute = 60 * second"

definition leap_year :: "int \<Rightarrow> bool" where
  "leap_year y \<longleftrightarrow> y mod 4 = 0 \<and> (y mod 100 \<noteq> 0 \<or> y mod 400 = 0)"

definition days_in :: "int \<Rightarrow> int \<Rightarrow> int" where
  "days_in y m = (if m = 2 then (if leap_year y then 29 else 28)
     else if m \<in> {4, 6, 9, 11} then 30 else 31)"

text \<open>Days from 1970-01-01, counting years from March, and back.\<close>

definition days_of_civil :: "int \<Rightarrow> int \<Rightarrow> int \<Rightarrow> int" where
  "days_of_civil y m d = (let y' = (if m \<le> 2 then y - 1 else y); era = y' div 400; yoe = y' - era * 400;
     mp = (if m > 2 then m - 3 else m + 9); doy = (153 * mp + 2) div 5 + d - 1;
     doe = yoe * 365 + yoe div 4 - yoe div 100 + doy in era * 146097 + doe - 719468)"

definition civil_of_days :: "int \<Rightarrow> int \<times> int \<times> int" where
  "civil_of_days z = (let z' = z + 719468; era = z' div 146097; doe = z' - era * 146097;
     yoe = (doe - doe div 1460 + doe div 36524 - doe div 146096) div 365;
     doy = doe - (365 * yoe + yoe div 4 - yoe div 100); mp = (5 * doy + 2) div 153;
     d = doy - (153 * mp + 2) div 5 + 1; m = (if mp < 10 then mp + 3 else mp - 9);
     y = yoe + era * 400 in (if m \<le> 2 then y + 1 else y, m, d))"

section \<open>Format(time.RFC3339) of a time in UTC\<close>

fun pad_digits :: "nat \<Rightarrow> nat \<Rightarrow> string" where
  "pad_digits 0 n = []"
| "pad_digits (Suc k) n = pad_digits k (n div 10) @ [char_of (48 + n mod 10)]"

definition appendInt :: "int \<Rightarrow> nat \<Rightarrow> string" where
  "appendInt x width = (let n = nat (abs x) in
     (if x < 0 then ''-'' else '''') @ (if n < 10 ^ width then pad_digits width n else nat_digits n))"

definition format_rfc3339 :: "int \<Rightarrow> string" where
  "format_rfc3339 t = (let s = t div second; sod = s mod 86400 in
     case civil_of_days (s div 86400) of (y, m, d) \<Rightarrow>
       appendInt y 4 @ ''-'' @ appendInt m 2 @ ''-'' @ appendInt d 2 @ ''T'' @ appendInt (sod div 3600) 2 @ '':''
       @ appendInt (sod div 60 mod 60) 2 @ '':'' @ appendInt (sod mod 60) 2 @ ''Z'')"

section \<open>Parse with the layout time.RFC3339\<close>

definition digit_value :: "char \<Rightarrow> nat option" where
  "digit_value c = (let n = of_char c :: nat in if 48 \<le> n \<and> n \<le> 57 then Some (n - 48) else None)"

fun take_digits :: "nat \<Rightarrow> string \<Rightarrow> (int \<times> string) option" where
  "take_digits 0 s = Some (0, s)"
| "take_digits (Suc k) s = (case take_digits k s of None \<Rightarrow> None
     | Some (n, []) \<Rightarrow> None
     | Some (n, c # r) \<Rightarrow> map_option (\<lambda>v. (10 * n + int v, r)) (digit_value c))"

text \<open>The hour may have one digit.\<close>

definition take_hour :: "string \<Rightarrow> (int \<times> string) option" where
  "take_hour s = (case take_digits 2 s of Some r \<Rightarrow> Some r | None \<Rightarrow> take_digits 1 s)"

definition expect :: "char \<Rightarrow> string \<Rightarrow> string option" where
  "expect c s = (case s of [] \<Rightarrow> None | d # r \<Rightarrow> if d = c then Some r else None)"

fun digits_prefix :: "string \<Rightarrow> nat list" where
  "digits_prefix [] = []"
| "digits_prefix (c # r) = (case digit_value c of None \<Rightarrow> [] | Some v \<Rightarrow> v # digits_prefix r)"

definition nanos :: "nat list \<Rightarrow> int" where
  "nanos ds = foldl (\<lambda>n d. 10 * n + int d) 0 (take 9 (ds @ replicate 9 0))"

text \<open>A fraction of the second is accepted although the layout has none.\<close>

definition take_fraction :: "string \<Rightarrow> int \<times> string" where
  "take_fraction s = (case s of c # r \<Rightarrow>
       if (c = CHR ''.'' \<or> c = CHR '','') \<and> digits_prefix r \<noteq> []
       then (nanos (digits_prefix r), drop (length (digits_prefix r)) r) else (0, s)
     | [] \<Rightarrow> (0, s))"

text \<open>The zone: its offset in seconds.\<close>

definition take_zone :: "string \<Rightarrow> (int \<times> string) option" where
  "take_zone s = (case s of [] \<Rightarrow> None | c # r \<Rightarrow>
     if c = CHR ''Z'' then Some (0, r)
     else if c = CHR ''+'' \<or> c = CHR ''-'' then
       (case take_digits 2 r of None \<Rightarrow> None | Some (h, r) \<Rightarrow>
       (case expect CHR '':'' r of None \<Rightarrow> None | Some r \<Rightarrow>
       (case take_digits 2 r of None \<Rightarrow> None | Some (m, r) \<Rightarrow>
         if h > 24 \<or> m > 60 then None
         else Some ((if c = CHR ''-'' then - 1 else 1) * (h * 3600 + m * 60), r))))
     else None)"

definition parse_rfc3339 :: "string \<Rightarrow> int option" where
  "parse_rfc3339 s =
     (case take_digits 4 s of None \<Rightarrow> None | Some (y, s) \<Rightarrow>
     (case expect CHR ''-'' s of None \<Rightarrow> None | Some s \<Rightarrow>
     (case take_digits 2 s of None \<Rightarrow> None | Some (mo, s) \<Rightarrow>
     (case expect CHR ''-'' s of None \<Rightarrow> None | Some s \<Rightarrow>
     (case take_digits 2 s of None \<Rightarrow> None | Some (d, s) \<Rightarrow>
     (case expect CHR ''T'' s of None \<Rightarrow> None | Some s \<Rightarrow>
     (case take_hour s of None \<Rightarrow> None | Some (h, s) \<Rightarrow>
     (case expect CHR '':'' s of None \<Rightarrow> None | Some s \<Rightarrow>
     (case take_digits 2 s of None \<Rightarrow> None | Some (mi, s) \<Rightarrow>
     (case expect CHR '':'' s of None \<Rightarrow> None | Some s \<Rightarrow>
     (case take_digits 2 s of None \<Rightarrow> None | Some (sec, s) \<Rightarrow>
     (case take_fraction s of (nsec, s) \<Rightarrow>
     (case take_zone s of None \<Rightarrow> None | Some (off, s) \<Rightarrow>
       if s \<noteq> [] \<or> mo < 1 \<or> 12 < mo \<or> d < 1 \<or> days_in y mo < d \<or> 24 \<le> h \<or> 60 \<le> mi \<or> 60 \<le> sec then None
       else Some ((days_of_civil y mo d * 86400 + h * 3600 + mi * 60 + sec - off) * second + nsec))))))))))))))"

section \<open>Examples\<close>

lemma format_examples:
  "format_rfc3339 0 = ''1970-01-01T00:00:00Z''"
  "format_rfc3339 1709210096999999999 = ''2024-02-29T12:34:56Z''"
  by code_simp+

lemma parse_examples:
  "parse_rfc3339 ''1970-01-01T00:00:00Z'' = Some 0"
  "parse_rfc3339 ''2024-02-29T12:34:56Z'' = Some 1709210096000000000"
  "parse_rfc3339 ''2024-02-29T14:34:56.5+02:00'' = Some 1709210096500000000"
  "parse_rfc3339 ''2023-02-29T12:34:56Z'' = None"
  "parse_rfc3339 ''soon'' = None"
  by code_simp+

end
