(* ===== verification/VMController.thy ===== *)
theory VMController imports VMScrape VMAlloy Alerting GoTime begin

text \<open>
  \<open>controllers/vm_controller.go\<close>: the reconciliation of a VM. \<open>Reconcile\<close> is composed of its
  stages in the order of the source: the guards, the namespace, the remediation of the
  guest, the merge of the bootstrap sources, and the scrape resources with the final
  verification. The VM a stage works on is the one the last patch answered, as the typed
  client stores it; the local \<open>ann\<close> of the source is the annotation map of that VM.
  Durations are whole seconds in \<open>Result\<close> and in the timeouts.
\<close>

section \<open>Marking the VM\<close>

definition mark_result :: "string \<Rightarrow> Result" where
  "mark_result status = (if status = StatusReady \<or> status = StatusSkipped then Result 0 else Result 30)"

definition mark :: "'w client \<Rightarrow> VirtualMachine \<Rightarrow> string \<Rightarrow> string \<Rightarrow> ('w, Result go) io" where
  "mark C vm status reason =
     (if mget (Annotations vm) AnnStatus = status \<and> mget (Annotations vm) AnnReason = reason
      then ok (mark_result status)
      else bindE (patch_annotations C (\<lambda>m. fmupd AnnReason reason (fmupd AnnStatus status m)) vm)
             (\<lambda>_. ok (mark_result status)))"

definition sysprep_marks :: "bool \<Rightarrow> string \<Rightarrow> smap \<Rightarrow> smap" where
  "sysprep_marks merged errMsg m =
     (if merged then fmdrop AnnSysprepMergeError (fmupd AnnSysprepMerged ''true'' m)
      else fmupd AnnSysprepMergeError errMsg m)"

definition markSysprep :: "'w client \<Rightarrow> VirtualMachine \<Rightarrow> bool \<Rightarrow> string \<Rightarrow> ('w, Result go) io" where
  "markSysprep C vm merged errMsg =
     bindE (patch_annotations C (sysprep_marks merged errMsg) vm) (\<lambda>_. ok (Result 0))"

definition cloudinit_marks :: "bool \<Rightarrow> string \<Rightarrow> smap \<Rightarrow> smap" where
  "cloudinit_marks merged errMsg m =
     (if merged then fmdrop AnnCloudInitSecretMergeError (fmupd AnnCloudInitSecretMerged ''true'' m)
      else fmupd AnnCloudInitSecretMergeError errMsg m)"

definition markCloudInitSecret :: "'w client \<Rightarrow> VirtualMachine \<Rightarrow> bool \<Rightarrow> string \<Rightarrow> ('w, Result go) io" where
  "markCloudInitSecret C vm merged errMsg =
     bindE (patch_annotations C (cloudinit_marks merged errMsg) vm) (\<lambda>_. ok (Result 0))"

definition remediation_marks :: "bool \<Rightarrow> string \<Rightarrow> smap \<Rightarrow> smap" where
  "remediation_marks completed errMsg m =
     (if completed then fmdrop AnnRemediationRequired (fmdrop AnnRemediationError (fmupd AnnRemediationCompleted ''true'' m))
      else fmupd AnnRemediationError errMsg m)"

definition markRemediation :: "'w client \<Rightarrow> VirtualMachine \<Rightarrow> bool \<Rightarrow> string \<Rightarrow> ('w, Result go) io" where
  "markRemediation C vm completed errMsg =
     bindE (patch_annotations C (remediation_marks completed errMsg) vm) (\<lambda>_. ok (Result 0))"

text \<open>An error that the caller handles; a panic is handled by nobody.\<close>

definition catching :: "('w, 'a go) io \<Rightarrow> (goerr \<Rightarrow> ('w, 'b go) io) \<Rightarrow> ('a \<Rightarrow> ('w, 'b go) io) \<Rightarrow> ('w, 'b go) io" where
  "catching m handle f = do {
     r \<leftarrow> m;
     case r of
       Inl err \<Rightarrow> if is_panic err then fail err else handle err
     | Inr x \<Rightarrow> f x }"

section \<open>Reading\<close>

definition firstIP :: "VirtualMachineInstance \<Rightarrow> string" where
  "firstIP vmi = (case List.find (\<lambda>ip. ip \<noteq> '''') (vmi_IPs vmi) of Some ip \<Rightarrow> ip | None \<Rightarrow> '''')"

definition getVMI :: "'w client \<Rightarrow> VirtualMachine \<Rightarrow> ('w, VirtualMachineInstance option go) io" where
  "getVMI C vm = do {
     r \<leftarrow> Get_VMI C (vm_Namespace vm) (vm_Name vm);
     case r of
       Inl err \<Rightarrow> if IsNotFound err then ok None else fail err
     | Inr vmi \<Rightarrow> ok (Some vmi) }"

definition bootstrapTimedOut :: "'w client \<Rightarrow> VirtualMachine \<Rightarrow> int \<Rightarrow> ('w, bool) io" where
  "bootstrapTimedOut C vm timeout =
     (let started = mget (Annotations vm) AnnBootstrapStartedAt in
      if Annotations vm = None \<or> started = '''' then ret False
      else case parse_rfc3339 started of
        None \<Rightarrow> ret False
      | Some t \<Rightarrow> do { now \<leftarrow> Time_Now C; ret (now - t > timeout) })"

section \<open>Remediation of the guest\<close>

definition remediation_failed :: "'w client \<Rightarrow> VirtualMachine \<Rightarrow> string \<Rightarrow> string \<Rightarrow> goerr \<Rightarrow> ('w, Result go) io" where
  "remediation_failed C vm reason msg err = do {
     _ \<leftarrow> eventf vm ''Warning'' reason (msg @ Error err);
     bindE (markRemediation C vm False (Error err)) (\<lambda>_. ok (Result 30)) }"

definition remediation_done :: "'w client \<Rightarrow> VirtualMachine \<Rightarrow> string \<Rightarrow> string \<Rightarrow> ('w, Result go) io" where
  "remediation_done C vm reason msg = do {
     _ \<leftarrow> eventf vm ''Normal'' reason msg;
     bindE (markRemediation C vm True '''') (\<lambda>_. ok (Result 5)) }"

definition remediate_linux :: "'w client \<Rightarrow> VirtualMachine \<Rightarrow> string \<Rightarrow> ('w, Result go) io" where
  "remediate_linux C vm ip = (let addr = ip @ '':22'' in do {
     up \<leftarrow> ProbeSSH C addr 3;
     if \<not> up then mark C vm StatusPending ''waiting-for-ssh-for-linux-remediation''
     else catching (getLinuxPrivateKeyAndUser C)
       (remediation_failed C vm ''LinuxRemediationSecretError'' ''Failed to get linux remediation private key: '')
       (\<lambda>(priv, defaultUser). case detectSSHUser vm defaultUser of
          Inl err \<Rightarrow> do {
            _ \<leftarrow> eventf vm ''Warning'' ''LinuxSSHUserMissing'' (Error err);
            mark C vm StatusPending ''linux-ssh-user-missing'' }
        | Inr user \<Rightarrow>
            catching (RunLinuxBootstrap C
                \<lparr>ls_Address = addr, ls_Username = user, ls_PrivateKey = priv, ls_Timeout = 10\<rparr>
                LinuxNodeExporterInstallScript)
              (remediation_failed C vm ''LinuxRemediationFailed'' ''Linux remediation failed over SSH: '')
              (\<lambda>_. remediation_done C vm ''LinuxRemediationCompleted'' ''Linux remediation completed over SSH'')) })"

definition install_windows_exporter :: "'w client \<Rightarrow> VirtualMachine \<Rightarrow> string \<Rightarrow> string \<Rightarrow> ('w, Result go) io" where
  "install_windows_exporter C vm ip priv =
     catching (RunWindowsSSHBootstrap C (windows_ssh ip priv 20) WindowsExporterInstallScript)
       (remediation_failed C vm ''WindowsRemediationFailed'' ''Windows remediation failed over SSH: '')
       (\<lambda>_. remediation_done C vm ''WindowsRemediationCompleted'' ''Windows remediation completed over SSH'')"

text \<open>The \<open>switch state\<close>: whether the exporter is installed, or the result without.\<close>

definition ten_minutes :: int where "ten_minutes = 10 * minute"

definition windows_state_step :: "'w client \<Rightarrow> VirtualMachine \<Rightarrow> string \<Rightarrow> string \<Rightarrow> string \<Rightarrow> ('w, Result go) io" where
  "windows_state_step C vm ip priv state =
     (if state = ''success'' then
        bindE (patch_annotations C (\<lambda>m. fmdrop AnnAlloyError (fmupd AnnRemediationRequired ''false'' m)) vm)
          (\<lambda>_. ok (Result 5))
      else if state = ''unknown'' then
        (if mget (Annotations vm) AnnSSHBootstrapComplete = ''true'' then install_windows_exporter C vm ip priv
         else do {
           timedOut \<leftarrow> bootstrapTimedOut C vm ten_minutes;
           if \<not> timedOut then mark C vm StatusPending ''bootstrap-in-progress''
           else install_windows_exporter C vm ip priv })
      else install_windows_exporter C vm ip priv)"

definition remediate_windows :: "'w client \<Rightarrow> VirtualMachine \<Rightarrow> string \<Rightarrow> ('w, Result go) io" where
  "remediate_windows C vm ip =
     catching (getLinuxPrivateKeyAndUser C)
       (remediation_failed C vm ''WindowsRemediationSecretError'' ''Failed to get windows remediation SSH key: '')
       (\<lambda>(priv, _). do {
          r \<leftarrow> GetWindowsBootstrapState C (windows_ssh ip priv 20);
          case r of
            Inl stateErr \<Rightarrow> mark C vm StatusPending ''waiting-for-bootstrap-state''
          | Inr state \<Rightarrow> windows_state_step C vm ip priv state })"

definition waiting :: "'w client \<Rightarrow> VirtualMachine \<Rightarrow> Family \<Rightarrow> string \<Rightarrow> ('w, Result go) io" where
  "waiting C vm osFamily what = (case osFamily of
     Linux \<Rightarrow> mark C vm StatusPending (''waiting-for-'' @ what @ ''-for-linux-remediation'')
   | Windows \<Rightarrow> mark C vm StatusPending (''waiting-for-'' @ what @ ''-for-windows-remediation'')
   | Unknown \<Rightarrow> mark C vm StatusSkipped ''unknown-os'')"

definition stamp_started :: "'w client \<Rightarrow> VirtualMachine \<Rightarrow> ('w, VirtualMachine go) io" where
  "stamp_started C vm =
     (if mget (Annotations vm) AnnBootstrapStartedAt \<noteq> '''' then ok vm
      else do {
        now \<leftarrow> Time_Now C;
        patch_annotations C (fmupd AnnBootstrapStartedAt (format_rfc3339 now)) vm })"

definition remediate :: "'w client \<Rightarrow> VirtualMachine \<Rightarrow> Family \<Rightarrow> ('w, Result go) io" where
  "remediate C vm osFamily = bindE (getVMI C vm) (\<lambda>found. case found of
     None \<Rightarrow> waiting C vm osFamily ''vmi''
   | Some vmi \<Rightarrow>
       let ip = firstIP vmi in
       if ip = '''' then waiting C vm osFamily ''ip''
       else bindE (stamp_started C vm) (\<lambda>vm. case osFamily of
           Linux \<Rightarrow> remediate_linux C vm ip
         | Windows \<Rightarrow> remediate_windows C vm ip
         | Unknown \<Rightarrow> mark C vm StatusSkipped ''unknown-os''))"

section \<open>Scrape resources and verification\<close>

definition windows_bootstrap_state :: "'w client \<Rightarrow> Family \<Rightarrow> string \<Rightarrow> ('w, string) io" where
  "windows_bootstrap_state C osFamily ip =
     (if osFamily \<noteq> Windows then ret ''unknown''
      else do {
        r \<leftarrow> getLinuxPrivateKeyAndUser C;
        case r of
          Inl err \<Rightarrow> ret ''unknown''
        | Inr (priv, _) \<Rightarrow> do {
            s \<leftarrow> GetWindowsBootstrapState C (windows_ssh ip priv 10);
            ret (case s of Inl _ \<Rightarrow> ''unknown'' | Inr state \<Rightarrow> state) } })"

text \<open>The exporter does not answer: why the VM stays pending, if it does.\<close>

definition not_answering :: "'w client \<Rightarrow> VirtualMachine \<Rightarrow> string \<Rightarrow> ('w, string option) io" where
  "not_answering C vm bootstrapState =
     (if bootstrapState = ''success'' then do {
        _ \<leftarrow> eventf vm ''Normal'' ''BootstrapCompleted'' ''Cloud-init bootstrap completed successfully'';
        ret None }
      else if bootstrapState = ''failed'' then ret None
      else if bootstrapState = ''unknown'' then do {
        timedOut \<leftarrow> bootstrapTimedOut C vm ten_minutes;
        ret (if timedOut then None else Some ''bootstrap-in-progress'') }
      else ret (Some ''exporter-not-ready''))"

definition bootstrap_ready :: "smap \<Rightarrow> smap" where
  "bootstrap_ready m = fmupd AnnBootstrapReady ''true'' (fmupd AnnRemediationRequired ''false''
     (fmdrop AnnReason (fmdrop AnnAlloyError m)))"

definition clear_stale :: "'w client \<Rightarrow> VirtualMachine \<Rightarrow> Family \<Rightarrow> string \<Rightarrow> ('w, VirtualMachine go) io" where
  "clear_stale C vm osFamily bootstrapState =
     (if osFamily = Windows \<and> bootstrapState = ''success'' then
        let firstReady = (mget (Annotations vm) AnnBootstrapReady \<noteq> ''true'') in
        bindE (patch_annotations C bootstrap_ready vm) (\<lambda>vm. do {
          _ \<leftarrow> (if firstReady
                then eventf vm ''Normal'' ''AlloyBootstrapReady'' ''Alloy already configured by cloud-init bootstrap''
                else ret ());
          ok vm })
      else ok vm)"

definition verified :: "smap \<Rightarrow> smap" where
  "verified m = fmupd AnnRemediationRequired ''false'' (fmdrop AnnReason (fmdrop AnnAlloyError m))"

text \<open>From the Alloy reconciliation to the end of \<open>syncMetricsScrapeResources\<close>.\<close>

definition finish :: "libs \<Rightarrow> 'w client \<Rightarrow> VirtualMachine \<Rightarrow> string \<Rightarrow> Family \<Rightarrow> ('w, Result go) io" where
  "finish L C vm ip osFamily = do {
     (r, vm) \<leftarrow> reconcileAlloyIfEnabled L C vm ip osFamily;
     case r of
       Inl err \<Rightarrow> do {
         _ \<leftarrow> eventf vm ''Warning'' ''AlloyInstallFailed'' (''Alloy install/config failed: '' @ Error err);
         bindE (patch_annotations C (fmupd AnnAlloyError (Error err)) vm)
           (\<lambda>vm. mark C vm StatusPending ''alloy-install-failed'') }
     | Inr updated \<Rightarrow> do {
         _ \<leftarrow> (if updated then eventf vm ''Normal'' ''AlloyConfigured'' ''Alloy installed/configured'' else ret ());
         _ \<leftarrow> eventf vm ''Normal'' ''MonitoringReady'' ''Monitoring verified'';
         bindE (patch_annotations C verified vm) (\<lambda>vm. mark C vm StatusReady ''verified'') } }"

definition failed_event :: "VirtualMachine \<Rightarrow> string \<Rightarrow> string \<Rightarrow> ('w, 'a go) io \<Rightarrow> ('a \<Rightarrow> ('w, 'b go) io) \<Rightarrow> ('w, 'b go) io" where
  "failed_event vm reason msg m f = catching m
     (\<lambda>err. do { _ \<leftarrow> eventf vm ''Warning'' reason (msg @ Error err); fail err }) f"

definition syncMetricsScrapeResources ::
  "libs \<Rightarrow> 'w client \<Rightarrow> VirtualMachine \<Rightarrow> VirtualMachineInstance \<Rightarrow> Family \<Rightarrow> ('w, Result go) io" where
  "syncMetricsScrapeResources L C vm vmi osFamily = (let ip = firstIP vmi in
     if ip = '''' then mark C vm StatusPending ''waiting-for-ip''
     else let (port, known) = exporterPortForOS osFamily in
     if \<not> known then mark C vm StatusSkipped ''unknown-os''
     else
       failed_event vm ''MetricsEndpointSyncFailed'' ''Failed to ensure metrics Service/Endpoints: ''
         (ensureVMServiceAndEndpoints C vm ip port) (\<lambda>_.
       failed_event vm ''ServiceMonitorSyncFailed'' ''Failed to ensure namespace ServiceMonitor: ''
         (ensureNamespaceServiceMonitor C (vm_Namespace vm)) (\<lambda>_. do {
         bootstrapState \<leftarrow> windows_bootstrap_state C osFamily ip;
         up \<leftarrow> TCP C ip port 2;
         stuck \<leftarrow> (if up then ret None else not_answering C vm bootstrapState);
         case stuck of
           Some reason \<Rightarrow> mark C vm StatusPending reason
         | None \<Rightarrow> bindE (clear_stale C vm osFamily bootstrapState) (\<lambda>vm. finish L C vm ip osFamily) })))"

section \<open>Reconcile\<close>

definition drop_unknown :: "smap \<Rightarrow> smap" where
  "drop_unknown m = fmdrop AnnStatus (fmdrop AnnReason (fmdrop AnnExporter (fmdrop AnnBootstrapOS m)))"

text \<open>
  The two merge stages have one shape: their annotations, the two events, the mark of the
  outcome, the merge itself, and what follows when there is nothing to merge.
\<close>

definition merge_stage ::
  "'w client \<Rightarrow> string \<Rightarrow> string \<Rightarrow> string \<times> string \<Rightarrow> string \<times> string \<Rightarrow>
   ('w client \<Rightarrow> VirtualMachine \<Rightarrow> bool \<Rightarrow> string \<Rightarrow> ('w, Result go) io) \<Rightarrow>
   (VirtualMachine \<Rightarrow> ('w, bool go) io) \<Rightarrow> VirtualMachine \<Rightarrow> ('w, Result go) io \<Rightarrow> ('w, Result go) io" where
  "merge_stage C required merged failed_ev done_ev marker run vm rest =
     (if mget (Annotations vm) required = ''true'' \<and> mget (Annotations vm) merged \<noteq> ''true''
      then catching (run vm)
        (\<lambda>err. do {
           _ \<leftarrow> eventf vm ''Warning'' (fst failed_ev) (snd failed_ev @ Error err);
           bindE (marker C vm False (Error err)) (\<lambda>_. ok (Result 30)) })
        (\<lambda>isDone. if isDone then do {
             _ \<leftarrow> eventf vm ''Normal'' (fst done_ev) (snd done_ev);
             bindE (marker C vm True '''') (\<lambda>_. ok (Result 5)) }
           else rest)
      else rest)"

definition merge_sources :: "libs \<Rightarrow> 'w client \<Rightarrow> VirtualMachine \<Rightarrow> ('w, Result go) io" where
  "merge_sources L C vm =
     merge_stage C AnnSysprepMergeRequired AnnSysprepMerged
       (''SysprepMergeFailed'', ''Sysprep merge failed: '') (''SysprepMerged'', ''Sysprep source merged successfully'')
       markSysprep (reconcileSysprepSource L C) vm
     (merge_stage C AnnCloudInitSecretMergeRequired AnnCloudInitSecretMerged
       (''CloudInitSecretMergeFailed'', ''Cloud-init Secret merge failed: '')
       (''CloudInitSecretMerged'', ''Cloud-init Secret merged successfully'')
       markCloudInitSecret (reconcileCloudInitSecret L C) vm
     (bindE (getVMI C vm) (\<lambda>found. case found of
        None \<Rightarrow> mark C vm StatusPending ''waiting-for-vmi''
      | Some vmi \<Rightarrow> syncMetricsScrapeResources L C vm vmi (Detect vm))))"

text \<open>From the namespace's resources on, for a VM of a known OS.\<close>

definition reconcile_known :: "libs \<Rightarrow> 'w client \<Rightarrow> VirtualMachine \<Rightarrow> Family \<Rightarrow> ('w, Result go) io" where
  "reconcile_known L C vm osFamily =
     bindE (if osFamily = Windows then ensureWindowsSSHSecret C (vm_Namespace vm) else ok ()) (\<lambda>_.
     failed_event vm ''NamespaceLabelFailed'' ''Failed to label namespace for monitoring: ''
       (ensureNamespaceMonitoringLabel C (vm_Namespace vm)) (\<lambda>_.
     failed_event vm ''AlertingReconcileFailed'' ''Failed to reconcile namespace alerting: ''
       (ReconcileNamespace (lib_manifest L) C (vm_Namespace vm)) (\<lambda>_.
     catching (ensureMonitoringSSHSecretInNamespace C (vm_Namespace vm))
       (\<lambda>err. do {
          _ \<leftarrow> eventf vm ''Warning'' ''MonitoringSecretError'' (''Failed to ensure monitoring secret: '' @ Error err);
          mark C vm StatusPending ''monitoring-secret-error'' }) (\<lambda>_.
     failed_event vm ''GrafanaLokiRBACFailed'' ''Failed to ensure Grafana Loki RBAC: ''
       (ensureGrafanaLokiReadRBAC C (vm_Namespace vm)) (\<lambda>_.
     if mget (Annotations vm) AnnRemediationRequired = ''true'' then remediate C vm osFamily
     else merge_sources L C vm)))))"

definition os_label_message :: string where
  "os_label_message = ''missing or unsupported VM OS label; set kubevirt-observability.io/os=linux or kubevirt-observability.io/os=windows''"

definition Reconcile :: "libs \<Rightarrow> 'w client \<Rightarrow> string \<Rightarrow> string \<Rightarrow> ('w, Result go) io" where
  "Reconcile L C ns name = do {
     r \<leftarrow> Get_VM C ns name;
     case r of
       Inl err \<Rightarrow> if IsNotFound err then ok (Result 0) else fail err
     | Inr vm \<Rightarrow>
         if mget (Annotations vm) AnnBootstrapManaged \<noteq> ''true'' then ok (Result 0)
         else let osFamily = Detect vm in
         if Annotations vm \<noteq> None \<and> osFamily \<noteq> Unknown
            \<and> (mget (Annotations vm) AnnBootstrapOS = ''unknown'' \<or> mget (Annotations vm) AnnExporter = ''unknown'')
         then bindE (patch_annotations C drop_unknown vm) (\<lambda>_. ok (Result 1))
         else if osFamily = Unknown then do {
           _ \<leftarrow> eventf vm ''Warning'' ''OSDetectionSkipped'' os_label_message;
           mark C vm StatusSkipped ''missing-os-label'' }
         else reconcile_known L C vm osFamily }"

end
