(* ===== verification/VMControllerProps.thy ===== *)
theory VMControllerProps imports VMController begin

text \<open>
  Properties of the reconciliation of a VM: where it writes, which annotations of the VM it
  changes, that it never stops looking at a VM it has not finished with, and what the
  marks it leaves say about the guest.
\<close>

section \<open>The marks\<close>

lemma owned_marks [simp]:
  "owned (\<lambda>m. fmupd AnnReason reason (fmupd AnnStatus status m))"
  "owned (sysprep_marks merged msg)" "owned (cloudinit_marks merged msg)" "owned (remediation_marks completed msg)"
  "owned (\<lambda>m. fmdrop AnnAlloyError (fmupd AnnRemediationRequired ''false'' m))"
  "owned (fmupd AnnBootstrapStartedAt t)" "owned bootstrap_ready" "owned (fmupd AnnAlloyError e)"
  "owned verified" "owned drop_unknown"
  by (rule ownedI; auto simp: sysprep_marks_def cloudinit_marks_def remediation_marks_def bootstrap_ready_def
      verified_def drop_unknown_def controller_keys_def milestones_def)+

text \<open>
  The contract of the three markers of an outcome: one patch of the VM's own annotations by
  a function of the outcome, and an empty result.
\<close>

locale outcome_marker =
  fixes marks :: "bool \<Rightarrow> string \<Rightarrow> smap \<Rightarrow> smap"
    and marker :: "'w client \<Rightarrow> VirtualMachine \<Rightarrow> bool \<Rightarrow> string \<Rightarrow> ('w, Result go) io"
  assumes marker_eq: "marker C vm b msg = bindE (patch_annotations C (marks b msg) vm) (\<lambda>_. ok (Result 0))"
    and marks_owned: "owned (marks b msg)"
begin

lemma marker_calls:
  assumes "honest C" and "same_vm ns n vm" and "\<And>r. Q r"
  shows "calls (confined ns) (marker C vm b msg) Q"
  unfolding marker_eq using assms by (auto intro!: calls_rules calls_patch_annotations marks_owned)

lemma marker_once: "does (marker C vm b msg) (\<lambda>r l. l = [Patch (OVM vm) (OVM (with_annotations (marks b msg) vm))]
    \<and> (\<forall>x. r = Inr x \<longrightarrow> x = Result 0))"
  unfolding marker_eq patch_annotations_def Patch_VM_def by (auto intro!: does_intros split: sum.splits)

end

interpretation sysprep: outcome_marker sysprep_marks markSysprep
  by unfold_locales (simp_all add: markSysprep_def)

interpretation cloudinit: outcome_marker cloudinit_marks markCloudInitSecret
  by unfold_locales (simp_all add: markCloudInitSecret_def)

interpretation remediation: outcome_marker remediation_marks markRemediation
  by unfold_locales (simp_all add: markRemediation_def)

section \<open>Writes stay in the namespace\<close>

lemma calls_catching [calls_rules]:
  "calls P m (\<lambda>r. (\<forall>err. r = Inl err \<longrightarrow> (if is_panic err then Q (Inl err) else calls P (h err) Q))
     \<and> (\<forall>x. r = Inr x \<longrightarrow> calls P (f x) Q)) \<Longrightarrow> calls P (catching m h f) Q"
  unfolding catching_def
  by (rule calls_bind, erule calls_mono) (auto split: sum.splits if_splits intro: calls_ret)

lemma calls_mark [calls_rules]:
  assumes "honest C" and "same_vm ns n vm" and "\<And>r. Q r"
  shows "calls (confined ns) (mark C vm status reason) Q"
  unfolding mark_def using assms by (auto intro!: calls_rules)

lemma same_vm_ns: "same_vm ns n vm \<Longrightarrow> vm_Namespace vm = ns"
  by (simp add: same_vm_def)

lemma calls_timed_out [calls_rules]: "(\<And>r. Q r) \<Longrightarrow> calls (confined ns) (bootstrapTimedOut C vm t) Q"
  unfolding bootstrapTimedOut_def Let_def by (auto intro!: calls_rules)

lemma calls_getVMI [calls_rules]: "(\<And>r. Q r) \<Longrightarrow> calls (confined ns) (getVMI C vm) Q"
  unfolding getVMI_def by (auto intro!: calls_rules)

lemma calls_mark_pending:
  assumes "honest C" and "same_vm ns n vm"
  shows "calls (confined ns) (mark C vm StatusPending reason) (\<lambda>r. r \<noteq> Inr (Result 0))"
  unfolding mark_def mark_result_def using assms by (auto intro!: calls_rules)

text \<open>The remediation of a VM of a known OS always comes back: it asks to be run again, or fails.\<close>

lemma calls_remediate:
  assumes C: "honest C" and vm: "same_vm ns n vm" and os: "os \<noteq> Unknown"
  shows "calls (confined ns) (remediate C vm os) (\<lambda>r. r \<noteq> Inr (Result 0))"
proof -
  let ?Q = "\<lambda>r :: Result go. r \<noteq> Inr (Result 0)"
  note rules = calls_mark_pending calls_rules remediation.marker_calls
  have parts: "calls (confined ns) (remediation_failed C vm reason msg err) ?Q"
    "calls (confined ns) (remediation_done C vm reason msg) ?Q"
    if "same_vm ns n vm" for vm reason msg err
    unfolding remediation_failed_def remediation_done_def using C that by (auto intro!: rules)
  have linux: "calls (confined ns) (remediate_linux C vm ip) ?Q" if "same_vm ns n vm" for vm ip
    unfolding remediate_linux_def Let_def using C that by (auto intro!: rules parts)
  have exporter: "calls (confined ns) (install_windows_exporter C vm ip priv) ?Q"
    if "same_vm ns n vm" for vm ip priv
    unfolding install_windows_exporter_def using C that by (auto intro!: rules parts)
  have state_step: "calls (confined ns) (windows_state_step C vm ip priv state) ?Q"
    if "same_vm ns n vm" for vm ip priv state
    unfolding windows_state_step_def using C that by (auto intro!: rules exporter)
  have windows: "calls (confined ns) (remediate_windows C vm ip) ?Q" if "same_vm ns n vm" for vm ip
    unfolding remediate_windows_def using C that by (auto intro!: rules parts state_step)
  have stamp: "calls (confined ns) (stamp_started C vm) (fetched (same_vm ns n))"
    unfolding stamp_started_def using C vm by (auto intro!: rules)
  have wait: "calls (confined ns) (waiting C vm os what) ?Q" for what
    unfolding waiting_def using C vm os by (auto intro!: rules split: Family.split)
  show ?thesis
    unfolding remediate_def Let_def using os
    by (auto intro!: rules wait calls_mono [OF stamp] linux windows C split: Family.split)
qed

lemma calls_failed_event [calls_rules]:
  "calls P m (\<lambda>r. (\<forall>err. r = Inl err \<longrightarrow> Q (Inl err)) \<and> (\<forall>x. r = Inr x \<longrightarrow> calls P (f x) Q)) \<Longrightarrow>
    (\<And>m n typ rs ms. P (Event m n typ rs ms)) \<Longrightarrow> calls P (failed_event vm reason msg m f) Q"
  unfolding failed_event_def
  by (rule calls_catching, erule calls_mono) (auto intro!: calls_rules)

lemma calls_sync_parts:
  assumes C: "honest C" and vm: "same_vm ns n vm"
  shows "calls (confined ns) (windows_bootstrap_state C os ip) (\<lambda>_. True)"
    and "calls (confined ns) (not_answering C vm st) (\<lambda>_. True)"
    and "calls (confined ns) (clear_stale C vm os st) (fetched (same_vm ns n))"
    and "calls (confined ns) (finish L C vm ip os) (\<lambda>_. True)"
  unfolding windows_bootstrap_state_def not_answering_def clear_stale_def finish_def Let_def
  using C vm by (auto intro!: calls_rules)

lemma calls_sync:
  assumes C: "honest C" and vm: "same_vm ns n vm"
  shows "calls (confined ns) (syncMetricsScrapeResources L C vm vmi os) (\<lambda>_. True)"
proof -
  note parts = calls_sync_parts [OF C vm]
  have ns: "vm_Namespace vm = ns" using vm by (simp add: same_vm_def)
  show ?thesis
    unfolding syncMetricsScrapeResources_def Let_def ns
    by (auto intro!: calls_rules parts(1,2) [THEN calls_post] calls_mono [OF parts(3)] calls_sync_parts(4) C vm ns
        split: prod.split)
qed

lemma calls_merge_sources:
  fixes C :: "'w client"
  assumes C: "honest C" and vm: "same_vm ns n vm"
  shows "calls (confined ns) (merge_sources L C vm) (\<lambda>_. True)"
proof -
  have ns: "vm_Namespace vm = ns" using vm by (simp add: same_vm_def)
  have stage: "calls (confined ns) (merge_stage C req don fe de marker run vm rest) (\<lambda>_. True)"
    if "\<And>b msg. calls (confined ns) (marker C vm b msg) (\<lambda>_. True)" "calls (confined ns) (run vm) (\<lambda>_. True)"
      "calls (confined ns) rest (\<lambda>_. True)" for req don fe de run rest
    and marker :: "'w client \<Rightarrow> VirtualMachine \<Rightarrow> bool \<Rightarrow> string \<Rightarrow> ('w, Result go) io"
    unfolding merge_stage_def by (auto intro!: calls_rules that(1) [THEN calls_post] that(2) [THEN calls_post] that(3) [THEN calls_post])
  show ?thesis
    unfolding merge_sources_def
    by (intro stage) (auto intro!: calls_rules sysprep.marker_calls cloudinit.marker_calls
        calls_sync [OF C vm, THEN calls_post] C vm ns)
qed

lemma calls_Reconcile:
  assumes C: "honest C" and D: "manifest_law (lib_manifest L)" and ns: "dns_label ns"
  shows "calls (confined ns) (Reconcile L C ns name) (\<lambda>_. True)"
proof -
  have known: "calls (confined ns) (reconcile_known L C vm os) (\<lambda>_. True)"
    if vm: "same_vm ns name vm" and os: "os \<noteq> Unknown" for vm os
  proof -
    have eq: "vm_Namespace vm = ns" using vm by (simp add: same_vm_def)
    show ?thesis
      unfolding reconcile_known_def eq using os
      by (auto intro!: calls_rules calls_ReconcileNamespace calls_merge_sources [OF C vm, THEN calls_post]
          calls_mono [OF calls_remediate [OF C vm]] C D ns vm)
  qed
  show ?thesis
    unfolding Reconcile_def Let_def
    by (auto intro!: calls_rules known [THEN calls_post] C simp: same_vm_def)
qed

section \<open>A VM is looked at again until it is ready\<close>

text \<open>An empty result, which ends the work on the VM, comes only after an event of kind \<open>E\<close>.\<close>

definition ends :: "(action \<Rightarrow> bool) \<Rightarrow> ('w, Result go) io \<Rightarrow> bool" where
  "ends E m \<longleftrightarrow> does m (\<lambda>r l. r = Inr (Result 0) \<longrightarrow> list_ex E l)"

lemma ends_calls: "calls P m (\<lambda>r. r \<noteq> Inr (Result 0)) \<Longrightarrow> ends E m"
  unfolding ends_def calls_def by (erule does_mono) simp

lemma ends_bind: "calls P m R \<Longrightarrow> (\<And>x. R x \<Longrightarrow> ends E (f x)) \<Longrightarrow> ends E (m \<bind> f)"
proof -
  assume m: "calls P m R" and f: "\<And>x. R x \<Longrightarrow> ends E (f x)"
  have "does (f r) (\<lambda>r' l2. r' = Inr (Result 0) \<longrightarrow> list_ex E (l @ l2))" if "R r" for r l
    using f [OF that] unfolding ends_def by (rule does_mono) simp
  then show ?thesis
    using m unfolding ends_def calls_def by (intro does_bind) (auto elim!: does_mono)
qed

lemma ends_bindE:
  "calls P m R \<Longrightarrow> (\<And>x. R (Inr x) \<Longrightarrow> ends E (f x)) \<Longrightarrow> ends E (bindE m f)"
  unfolding bindE_def
  by (erule ends_bind) (auto split: sum.splits simp: ends_def does_return)

lemma ends_catching:
  "calls P m (\<lambda>_. True) \<Longrightarrow> (\<And>e. ends E (h e)) \<Longrightarrow> (\<And>x. ends E (f x)) \<Longrightarrow> ends E (catching m h f)"
  unfolding catching_def
  by (erule ends_bind) (auto split: sum.splits simp: ends_def does_return)

lemma ends_failed_event:
  "calls P m (\<lambda>_. True) \<Longrightarrow> (\<And>x. ends E (f x)) \<Longrightarrow> ends E (failed_event vm reason msg m f)"
  unfolding failed_event_def
  by (erule ends_catching) (auto intro!: ends_calls [where P = "\<lambda>_. True"] calls_rules)

lemma ends_event:
  "E (Event (vm_Namespace vm) (vm_Name vm) typ reason msg) \<Longrightarrow> calls P m (\<lambda>_. True) \<Longrightarrow>
    ends E (eventf vm typ reason msg \<bind> (\<lambda>_. m))"
  unfolding ends_def calls_def eventf_def
  by (rule does_bind, rule does_call) (auto elim!: does_mono)

definition ready_event :: "action \<Rightarrow> bool" where
  "ready_event a \<longleftrightarrow> (case a of Event _ _ _ reason _ \<Rightarrow> reason = ''MonitoringReady'' | _ \<Rightarrow> False)"

definition skipped_event :: "action \<Rightarrow> bool" where
  "skipped_event a \<longleftrightarrow> (case a of Event _ _ _ reason _ \<Rightarrow> reason = ''OSDetectionSkipped'' | _ \<Rightarrow> False)"

lemma ends_finish:
  assumes C: "honest C" and vm: "same_vm ns n vm"
  shows "ends ready_event (finish L C vm ip os)"
proof -
  have alloy: "calls (confined ns) (reconcileAlloyIfEnabled L C vm ip os) (\<lambda>(r, vm'). same_vm ns n vm')"
    by (rule calls_reconcileAlloy [OF C vm]) simp
  show ?thesis
    unfolding finish_def
  proof (rule ends_bind [OF alloy], clarify)
    fix r vm'
    assume vm': "same_vm ns n vm'"
    show "ends ready_event (case r of
         Inl err \<Rightarrow> do {
           _ \<leftarrow> eventf vm' ''Warning'' ''AlloyInstallFailed'' (''Alloy install/config failed: '' @ Error err);
           bindE (patch_annotations C (fmupd AnnAlloyError (Error err)) vm')
             (\<lambda>vm. mark C vm StatusPending ''alloy-install-failed'') }
       | Inr updated \<Rightarrow> do {
           _ \<leftarrow> (if updated then eventf vm' ''Normal'' ''AlloyConfigured'' ''Alloy installed/configured'' else ret ());
           _ \<leftarrow> eventf vm' ''Normal'' ''MonitoringReady'' ''Monitoring verified'';
           bindE (patch_annotations C verified vm') (\<lambda>vm. mark C vm StatusReady ''verified'') })"
    proof (cases r)
      case (Inl err)
      have "calls (confined ns) (do {
           _ \<leftarrow> eventf vm' ''Warning'' ''AlloyInstallFailed'' (''Alloy install/config failed: '' @ Error err);
           bindE (patch_annotations C (fmupd AnnAlloyError (Error err)) vm')
             (\<lambda>vm. mark C vm StatusPending ''alloy-install-failed'') }) (\<lambda>r. r \<noteq> Inr (Result 0))"
        using C vm' by (auto intro!: calls_mark_pending calls_rules)
      then show ?thesis unfolding Inl sum.case by (rule ends_calls)
    next
      case (Inr updated)
      have first: "calls (confined ns) (if updated then eventf vm' ''Normal'' ''AlloyConfigured'' ''Alloy installed/configured'' else ret ()) (\<lambda>_. True)"
        by (auto intro!: calls_rules)
      have last: "calls (confined ns) (bindE (patch_annotations C verified vm') (\<lambda>vm. mark C vm StatusReady ''verified'')) (\<lambda>_. True)"
        using C vm' by (auto intro!: calls_rules)
      show ?thesis unfolding Inr sum.case
        by (rule ends_bind [OF first], rule ends_event [OF _ last]) (simp add: ready_event_def)
    qed
  qed
qed

lemma ends_sync:
  assumes C: "honest C" and vm: "same_vm ns n vm" and os: "os \<noteq> Unknown"
  shows "ends ready_event (syncMetricsScrapeResources L C vm vmi os)"
proof (cases "firstIP vmi = ''''")
  case True
  then show ?thesis
    unfolding syncMetricsScrapeResources_def Let_def
    using calls_mark_pending [OF C vm] by (auto intro: ends_calls)
next
  case False
  note parts = calls_sync_parts [OF C vm]
  have ns: "vm_Namespace vm = ns" using vm by (simp add: same_vm_def)
  obtain port where port: "exporterPortForOS os = (port, True)"
    using os by (cases os) (auto simp: exporterPortForOS_def)
  have stuck: "calls (confined ns) (if up then ret None else not_answering C vm st) (\<lambda>_. True)" for up st
    using parts(2) by (auto intro!: calls_rules)
  have last: "ends ready_event (case stuck of
       Some reason \<Rightarrow> mark C vm StatusPending reason
     | None \<Rightarrow> bindE (clear_stale C vm os st) (\<lambda>vm. finish L C vm (firstIP vmi) os))" for stuck st
    using ends_calls [OF calls_mark_pending [OF C vm]] ends_bindE [OF parts(3) ends_finish [OF C]]
    by (auto split: option.split)
  have service: "calls (confined ns) (ensureVMServiceAndEndpoints C vm (firstIP vmi) port) (\<lambda>_. True)"
    and monitor: "calls (confined ns) (ensureNamespaceServiceMonitor C ns) (\<lambda>_. True)"
    and tcp: "calls (confined ns) (TCP C (firstIP vmi) port 2) (\<lambda>_. True)"
    using C ns by (auto intro!: calls_rules)
  show ?thesis
    unfolding syncMetricsScrapeResources_def Let_def port ns using False
    by simp (intro ends_failed_event [OF service] ends_failed_event [OF monitor] ends_bind [OF parts(1)] ends_bind [OF tcp]
        ends_bind [OF stuck] last)
qed

lemma ends_merge_stage:
  assumes "\<And>b msg. calls (confined ns) (marker C vm b msg) (\<lambda>_. True)" and "calls (confined ns) (run vm) (\<lambda>_. True)"
    and "ends E rest"
  shows "ends E (merge_stage C req don fe de marker run vm rest)"
proof -
  have out: "calls (confined ns) (do { _ \<leftarrow> eventf vm tp reason msg;
      bindE (marker C vm b e) (\<lambda>_. ok (Result k)) }) (\<lambda>r. r \<noteq> Inr (Result 0))" if "k \<noteq> 0" for tp reason msg b e k
    using that by (auto intro!: calls_rules assms(1) [THEN calls_post])
  show ?thesis
    unfolding merge_stage_def
    using ends_calls [OF out] assms(3) by (auto intro!: ends_catching [OF assms(2)])
qed

lemma ends_merge_sources:
  assumes C: "honest C" and vm: "same_vm ns n vm" and os: "Detect vm \<noteq> Unknown"
  shows "ends ready_event (merge_sources L C vm)"
proof -
  have ns: "vm_Namespace vm = ns" using vm by (simp add: same_vm_def)
  have vmi: "calls (confined ns) (getVMI C vm) (\<lambda>_. True)" by (auto intro!: calls_rules)
  have last: "ends ready_event (case found of
      None \<Rightarrow> mark C vm StatusPending ''waiting-for-vmi''
    | Some vmi \<Rightarrow> syncMetricsScrapeResources L C vm vmi (Detect vm))" for found
    using ends_calls [OF calls_mark_pending [OF C vm]] ends_sync [OF C vm os] by (auto split: option.split)
  show ?thesis
    unfolding merge_sources_def
  proof (intro ends_merge_stage)
    show "ends ready_event (bindE (getVMI C vm) (\<lambda>found. case found of
        None \<Rightarrow> mark C vm StatusPending ''waiting-for-vmi''
      | Some vmi \<Rightarrow> syncMetricsScrapeResources L C vm vmi (Detect vm)))"
      by (rule ends_bindE [OF vmi last])
  qed (auto intro!: calls_rules sysprep.marker_calls cloudinit.marker_calls C vm ns)
qed

lemma ends_reconcile_known:
  assumes C: "honest C" and D: "manifest_law (lib_manifest L)" and ns: "dns_label ns"
    and vm: "same_vm ns n vm" and os: "Detect vm \<noteq> Unknown"
  shows "ends ready_event (reconcile_known L C vm (Detect vm))"
proof -
  have eq: "vm_Namespace vm = ns" using vm by (simp add: same_vm_def)
  have parts: "calls (confined ns) (if b then ensureWindowsSSHSecret C ns else ok ()) (\<lambda>_. True)"
    "calls (confined ns) (ensureNamespaceMonitoringLabel C ns) (\<lambda>_. True)"
    "calls (confined ns) (ReconcileNamespace (lib_manifest L) C ns) (\<lambda>_. True)"
    "calls (confined ns) (ensureMonitoringSSHSecretInNamespace C ns) (\<lambda>_. True)"
    "calls (confined ns) (ensureGrafanaLokiReadRBAC C ns) (\<lambda>_. True)" for b
    using calls_ReconcileNamespace [OF C D ns, of "\<lambda>_. True"] C by (auto intro!: calls_rules)
  have secret: "calls (confined ns) (do {
      _ \<leftarrow> eventf vm ''Warning'' ''MonitoringSecretError'' (''Failed to ensure monitoring secret: '' @ Error err);
      mark C vm StatusPending ''monitoring-secret-error'' }) (\<lambda>r. r \<noteq> Inr (Result 0))" for err
    by (auto intro!: calls_mark_pending calls_rules C vm)
  have last: "ends ready_event (if mget (Annotations vm) AnnRemediationRequired = ''true'' then remediate C vm (Detect vm)
      else merge_sources L C vm)"
    using ends_calls [OF calls_remediate [OF C vm os]] ends_merge_sources [OF C vm os] by simp
  show ?thesis
    unfolding reconcile_known_def eq
    by (intro ends_bindE [OF parts(1)] ends_failed_event [OF parts(2)] ends_failed_event [OF parts(3)]
        ends_failed_event [OF parts(5)] ends_catching [OF parts(4)] ends_calls [OF secret] last)
qed

text \<open>What follows once the VM is read.\<close>

lemma vm_never_stalls:
  assumes "honest C" and "manifest_law (lib_manifest L)" and "dns_label ns" and vm: "same_vm ns name vm"
  shows "does (if mget (Annotations vm) AnnBootstrapManaged \<noteq> ''true'' then ok (Result 0)
         else let osFamily = Detect vm in
         if Annotations vm \<noteq> None \<and> osFamily \<noteq> Unknown
            \<and> (mget (Annotations vm) AnnBootstrapOS = ''unknown'' \<or> mget (Annotations vm) AnnExporter = ''unknown'')
         then bindE (patch_annotations C drop_unknown vm) (\<lambda>_. ok (Result 1))
         else if osFamily = Unknown then do {
           _ \<leftarrow> eventf vm ''Warning'' ''OSDetectionSkipped'' os_label_message;
           mark C vm StatusSkipped ''missing-os-label'' }
         else reconcile_known L C vm osFamily)
    (\<lambda>r l. r = Inr (Result 0) \<longrightarrow> l = [] \<or> list_ex (\<lambda>a. skipped_event a \<or> ready_event a) l)"
    (is "does _ ?Q")
proof -
  have ready: "ends ready_event m \<Longrightarrow> does m ?Q" for m :: "('a, Result go) io"
    unfolding ends_def by (erule does_mono) (auto simp: list_ex_iff)
  have "calls (confined ns) (mark C vm StatusSkipped ''missing-os-label'') (\<lambda>_. True)"
    using assms(1) vm by (auto intro!: calls_rules)
  then have skip: "does (do { _ \<leftarrow> eventf vm ''Warning'' ''OSDetectionSkipped'' os_label_message;
      mark C vm StatusSkipped ''missing-os-label'' }) ?Q"
    unfolding calls_def eventf_def
    by (intro does_bind does_call) (auto elim!: does_mono simp: skipped_event_def)
  show ?thesis
    unfolding Let_def
    using skip ready [OF ends_reconcile_known [OF assms(1-3) vm]]
    by (auto intro!: does_intros simp: patch_annotations_def Patch_VM_def split: sum.splits)
qed


end
