(* ===== verification/VMLifecycle.thy ===== *)
theory VMLifecycle imports VMControllerProps Webhook begin

text \<open>
  The life of a VM object: it is admitted by the webhook, then changed by its user and by
  the controller's patches, in any order and any number of times. A patch is the merge
  patch from the object the controller read to the one it wrote; the stored object may
  have changed in between.
\<close>

section \<open>The steps\<close>

text \<open>The API server applies the difference of \<open>b\<close> and \<open>w\<close> to the stored annotations.\<close>

definition merge_annotations :: "smap \<Rightarrow> smap \<Rightarrow> smap \<Rightarrow> smap" where
  "merge_annotations b w m = fmfilter (\<lambda>k. fmlookup b k = fmlookup w k) m ++\<^sub>f fmfilter (\<lambda>k. fmlookup b k \<noteq> fmlookup w k) w"

definition apply_patch :: "VirtualMachine \<Rightarrow> VirtualMachine \<Rightarrow> VirtualMachine \<Rightarrow> VirtualMachine" where
  "apply_patch b w vm = vm\<lparr>Annotations :=
     Some (merge_annotations (non_nil (Annotations b)) (non_nil (Annotations w)) (non_nil (Annotations vm)))\<rparr>"

definition protected_keys :: "string list" where
  "protected_keys = AnnBootstrapManaged # milestones"

text \<open>The user may change anything but the mark of the operator and its milestones.\<close>

definition user_edit :: "VirtualMachine \<Rightarrow> VirtualMachine \<Rightarrow> bool" where
  "user_edit vm vm' \<longleftrightarrow> (\<forall>k\<in>set protected_keys.
     fmlookup (non_nil (Annotations vm')) k = fmlookup (non_nil (Annotations vm)) k)"

inductive lifecycle :: "libs \<Rightarrow> 'w client \<Rightarrow> string \<Rightarrow> string \<Rightarrow> VirtualMachine \<Rightarrow> VirtualMachine \<Rightarrow> bool"
  for L :: libs and C :: "'w client" and ns :: string and name :: string and vm0 :: VirtualMachine where
  start: "lifecycle L C ns name vm0 vm0"
| edited: "lifecycle L C ns name vm0 vm \<Longrightarrow> user_edit vm vm' \<Longrightarrow> lifecycle L C ns name vm0 vm'"
| reconciled: "lifecycle L C ns name vm0 vm \<Longrightarrow> Patch (OVM b) (OVM w) \<in> set (trace (Reconcile L C ns name) s) \<Longrightarrow>
    lifecycle L C ns name vm0 (apply_patch b w vm)"

inductive_cases lifecycle_E: "lifecycle L C ns name vm0 vm"

section \<open>Milestones\<close>

lemma lookup_merge_annotations:
  "fmlookup (merge_annotations b w m) k = (if fmlookup b k = fmlookup w k then fmlookup m k else fmlookup w k)"
  by (auto simp: merge_annotations_def split: option.splits)

text \<open>
  C2. Where the controller writes. Everything a reconciliation creates or patches lies in the
  namespace of the VM it was called for (or is that namespace object). It never creates a
  VM, and each of its patches of a VM changes annotations of a fixed list only, leaves the
  labels, the template and every other annotation alone, and never takes back one of the
  milestones (remediated, merged, installed, ready).
\<close>
theorem Reconcile_confined:
  assumes "honest C" and "manifest_law (lib_manifest L)" and "dns_label ns"
    and "a \<in> set (trace (Reconcile L C ns name) s)"
  shows "(\<forall>x. a = Create x \<longrightarrow> namespace_of x = ns \<and> \<not> is_vm x)
    \<and> (\<forall>b x. a = Patch b x \<longrightarrow> namespace_of b = ns \<and> namespace_of x = ns \<and> patch_allowed b x)"
  using calls_trace [OF calls_Reconcile [OF assms(1-3)], of name s] assms(4)
  by (auto simp: list_all_iff)

lemma reconcile_patch:
  assumes "honest C" and "manifest_law (lib_manifest L)" and "dns_label ns"
    and "Patch (OVM b) (OVM w) \<in> set (trace (Reconcile L C ns name) s)"
  shows "annotation_patch b w"
proof -
  have "confined ns (Patch (OVM b) (OVM w))"
    using calls_trace [OF calls_Reconcile [OF assms(1-3)], of name s] assms(4) by (auto simp: list_all_iff)
  then show ?thesis by simp
qed

lemma apply_patch_keeps:
  assumes "annotation_patch b w" and "k \<in> set protected_keys"
    and "fmlookup (non_nil (Annotations vm)) k = Some ''true''"
  shows "fmlookup (non_nil (Annotations (apply_patch b w vm))) k = Some ''true''"
  using assms
  by (auto simp: apply_patch_def lookup_merge_annotations annotation_patch_def protected_keys_def controller_keys_def)

lemma lifecycle_keeps:
  assumes "honest C" and "manifest_law (lib_manifest L)" and "dns_label ns"
    and "lifecycle L C ns name vm0 vm" and "k \<in> set protected_keys"
    and "fmlookup (non_nil (Annotations vm0)) k = Some ''true''"
  shows "fmlookup (non_nil (Annotations vm)) k = Some ''true''"
  using assms(4)
proof induction
  case start
  show ?case by (rule assms(6))
next
  case (edited vm vm')
  with assms(5) show ?case by (auto simp: user_edit_def)
next
  case (reconciled vm b w s)
  show ?case
    by (rule apply_patch_keeps [OF reconcile_patch [OF assms(1-3) reconciled.hyps(2)] assms(5) reconciled.IH])
qed


section \<open>Witnesses\<close>

definition demo_libs :: libs where
  "demo_libs = \<lparr>lib_cc = single_yaml linux_merged ''y'', lib_unmarshal = (\<lambda>_. Inr (Some fmempty)),
     lib_marshal = (\<lambda>_. Inr ''hints''), lib_xml = single_xml empty_unattend ''x'', lib_quote = (\<lambda>s. s),
     lib_manifest = (\<lambda>_. Inl (Errorf ''yaml''))\<rparr>"

lemma demo_manifest: "manifest_law (lib_manifest demo_libs)"
  by (simp add: manifest_law_def demo_libs_def)

definition vm_client :: "VirtualMachine \<Rightarrow> unit client" where
  "vm_client vm = idle_client\<lparr>getVM := \<lambda>ns n w.
     (if ns = vm_Namespace vm \<and> n = vm_Name vm then Inr vm else Inl not_found, w)\<rparr>"

lemma honest_vm_client: "honest (vm_client vm)"
  by (simp add: honest_def answers_def vm_client_def idle_client_def)

definition managed_bsd :: VirtualMachine where
  "managed_bsd = \<lparr>vm_Name = ''db'', vm_Namespace = ''team-a'', vm_Labels = Some (fmupd osLabel ''bsd'' fmempty),
     Annotations = Some (fmupd AnnBootstrapManaged ''true'' fmempty), Template = None\<rparr>"

lemma Detect_bsd: "Detect managed_bsd = Unknown"
  by code_simp

lemma run_bsd:
  "result (Reconcile demo_libs (vm_client managed_bsd) ''team-a'' ''db'') fresh = Inr (Result 0)"
  "trace (Reconcile demo_libs (vm_client managed_bsd) ''team-a'' ''db'') fresh =
     [Get KVM ''team-a'' ''db'', Event ''team-a'' ''db'' ''Warning'' ''OSDetectionSkipped'' os_label_message,
      Patch (OVM managed_bsd) (OVM (with_annotations
        (\<lambda>m. fmupd AnnReason ''missing-os-label'' (fmupd AnnStatus StatusSkipped m)) managed_bsd))]"
proof -
  have vm: "vm_Namespace managed_bsd = ''team-a''" "vm_Name managed_bsd = ''db''"
    "mget (Annotations managed_bsd) AnnBootstrapManaged = ''true''" "mget (Annotations managed_bsd) AnnStatus = ''''"
    by (simp_all add: managed_bsd_def)
  have "StatusSkipped \<noteq> ''''" by (simp add: StatusSkipped_def)
  with vm show "result (Reconcile demo_libs (vm_client managed_bsd) ''team-a'' ''db'') fresh = Inr (Result 0)"
    and "trace (Reconcile demo_libs (vm_client managed_bsd) ''team-a'' ''db'') fresh =
     [Get KVM ''team-a'' ''db'', Event ''team-a'' ''db'' ''Warning'' ''OSDetectionSkipped'' os_label_message,
      Patch (OVM managed_bsd) (OVM (with_annotations
        (\<lambda>m. fmupd AnnReason ''missing-os-label'' (fmupd AnnStatus StatusSkipped m)) managed_bsd))]"
    by (simp_all add: Reconcile_def vm_client_def Detect_bsd mark_def mark_result_def patch_annotations_def run_io)
qed

lemma team_a_label: "dns_label ''team-a''"
  by (simp add: dns_label_def label_chars_def)

theorem Reconcile_confined_witness:
  "patch_allowed (OVM managed_bsd) (OVM (with_annotations
     (\<lambda>m. fmupd AnnReason ''missing-os-label'' (fmupd AnnStatus StatusSkipped m)) managed_bsd))"
  using Reconcile_confined [OF honest_vm_client demo_manifest team_a_label, of _ managed_bsd "''db''" fresh]
  unfolding run_bsd by fastforce



end
