(* ===== verification/VMGuest.thy ===== *)
theory VMGuest imports VMControllerProps begin

text \<open>
  What the marks on a VM say about its guest: a milestone is recorded only for a guest that
  ran the script, the recorded hash names the configuration that was installed, a guest
  that is up to date is left alone, and "ready" does not mean that the exporter answers.
\<close>

section \<open>No mark without a success\<close>

definition guest_marks :: "string list" where
  "guest_marks = [AnnRemediationCompleted, AnnAlloyInstalled, AnnAlloyConfigHash]"

text \<open>A patch of a VM that leaves the marks about the guest as they are.\<close>

definition keeps_guest_marks :: "action \<Rightarrow> bool" where
  "keeps_guest_marks a \<longleftrightarrow> (case a of
     Patch (OVM b) (OVM w) \<Rightarrow>
       (\<forall>k\<in>set guest_marks. fmlookup (non_nil (Annotations w)) k = fmlookup (non_nil (Annotations b)) k)
   | _ \<Rightarrow> True)"

lemma keeps_guest_marks_simps [simp]:
  "keeps_guest_marks (Get k m n)" "keeps_guest_marks (Event m n typ reason msg)"
  "keeps_guest_marks (DialTCP addr t)" "keeps_guest_marks (SSHDial addr u t)" "keeps_guest_marks (SSHSession c)"
  "keeps_guest_marks (SSHExec c i cmd)" "keeps_guest_marks (CloseSession c)" "keeps_guest_marks (CloseClient c)"
  "keeps_guest_marks Now"
  "keeps_guest_marks (Patch (OVM b) (OVM w)) \<longleftrightarrow>
     (\<forall>k\<in>set guest_marks. fmlookup (non_nil (Annotations w)) k = fmlookup (non_nil (Annotations b)) k)"
  by (simp_all add: keeps_guest_marks_def)

definition guest_neutral :: "(smap \<Rightarrow> smap) \<Rightarrow> bool" where
  "guest_neutral f \<longleftrightarrow> (\<forall>m. \<forall>k\<in>set guest_marks. fmlookup (f m) k = fmlookup m k)"

lemma guest_neutral_marks [simp]:
  "guest_neutral (\<lambda>m. fmupd AnnReason reason (fmupd AnnStatus status m))"
  "guest_neutral (remediation_marks False msg)"
  "guest_neutral (\<lambda>m. fmdrop AnnAlloyError (fmupd AnnRemediationRequired ''false'' m))"
  "guest_neutral (fmupd AnnBootstrapStartedAt t)"
  by (auto simp: guest_neutral_def guest_marks_def remediation_marks_def)

lemma emits_patch_neutral [wp]: "guest_neutral f \<Longrightarrow> emits keeps_guest_marks (patch_annotations C f vm)"
  unfolding patch_annotations_def Patch_VM_def by (rule emits_call) (simp add: guest_neutral_def)

lemma emits_calls_bind:
  "calls P m R \<Longrightarrow> (\<And>x. R x \<Longrightarrow> emits P (f x)) \<Longrightarrow> emits P (m \<bind> f)"
  unfolding emits_def calls_def by (rule does_bind, erule does_mono) (auto elim!: does_mono)

lemma emits_catching [wp]:
  "emits P m \<Longrightarrow> (\<And>e. emits P (h e)) \<Longrightarrow> (\<And>x. emits P (f x)) \<Longrightarrow> emits P (catching m h f)"
  unfolding catching_def by (auto intro!: wp)

text \<open>A guest in which every command fails.\<close>

definition guest_broken :: "'w client \<Rightarrow> bool" where
  "guest_broken C \<longleftrightarrow> (\<forall>s i cmd w. fst (fst (ssh_exec C s i cmd w)) \<noteq> None \<and> fst (fst (ssh_combined C s i cmd w)) \<noteq> None)"

lemma calls_broken:
  assumes "guest_broken C"
  shows "(\<And>e out err. Q1 (Some e, out, err)) \<Longrightarrow> calls keeps_guest_marks (Exec C s i cmd) Q1"
    and "(\<And>e out. Q2 (Some e, out)) \<Longrightarrow> calls keeps_guest_marks (Combined_Output C s i cmd) Q2"
  using assms unfolding guest_broken_def prim_defs
  by (auto intro!: calls_call) (metis prod.collapse not_None_eq)+

lemma run_broken:
  assumes "guest_broken C"
  shows "calls keeps_guest_marks (RunLinuxBootstrap C lcfg script) is_Inl"
    and "calls keeps_guest_marks (RunWindowsSSHBootstrap C wcfg script) is_Inl"
    and "calls keeps_guest_marks (GetWindowsBootstrapState C wcfg) is_Inl"
  unfolding RunLinuxBootstrap_def RunWindowsSSHBootstrap_def GetWindowsBootstrapState_def RunWindowsSSHCommand_def
  by (auto intro!: calls_broken [OF assms] calls_rules)

lemma emits_catching_Inl:
  assumes "calls P m is_Inl" and "\<And>e. emits P (h e)"
  shows "emits P (catching m h f)"
  unfolding catching_def
  by (rule emits_calls_bind [OF assms(1)]) (auto simp: is_Inl_def intro!: wp assms(2) split: sum.splits)

lemma emits_bindE_Inl: "calls P m is_Inl \<Longrightarrow> emits P (bindE m f)"
  unfolding bindE_def
  by (erule emits_calls_bind) (auto simp: is_Inl_def intro!: wp split: sum.splits)

lemma emits_reads [wp]:
  "emits keeps_guest_marks (getLinuxPrivateKeyAndUser C)" "emits keeps_guest_marks (getLokiWriterToken C)"
  "emits keeps_guest_marks (getLokiPushURL C)" "emits keeps_guest_marks (getVMI C vm)"
  "emits keeps_guest_marks (ProbeSSH C addr t)" "emits keeps_guest_marks (bootstrapTimedOut C vm timeout)"
  unfolding getLinuxPrivateKeyAndUser_def getLokiWriterToken_def getLokiPushURL_def getVMI_def ProbeSSH_def
    bootstrapTimedOut_def prim_defs Let_def
  by (auto intro!: wp)

lemma emits_mark [wp]: "emits keeps_guest_marks (mark C vm status reason)"
  unfolding mark_def by (auto intro!: wp)

lemma emits_event [wp]: "emits keeps_guest_marks (eventf vm typ reason msg)"
  unfolding eventf_def by (auto intro!: wp)

lemma emits_remediation_failed [wp]: "emits keeps_guest_marks (remediation_failed C vm reason msg err)"
  unfolding remediation_failed_def markRemediation_def by (auto intro!: wp)

text \<open>
  C4. No success, no mark. As long as every command in the guest fails, neither the
  remediation nor the Alloy reconciliation of a VM touches the annotations that say the guest
  was remediated, has Alloy, or has a certain configuration.
\<close>
theorem broken_guest_is_not_marked:
  assumes "guest_broken C"
  shows "emits keeps_guest_marks (remediate C vm os) \<and> emits keeps_guest_marks (reconcileAlloyIfEnabled L C vm ip os)"
proof
  note broken = run_broken [OF assms]
  have linux: "emits keeps_guest_marks (remediate_linux C vm ip)" for vm ip
    unfolding remediate_linux_def Let_def
    by (auto intro!: emits_catching_Inl [OF broken(1)] wp)
  have exporter: "emits keeps_guest_marks (install_windows_exporter C vm ip priv)" for vm ip priv
    unfolding install_windows_exporter_def by (auto intro!: emits_catching_Inl [OF broken(2)] wp)
  have windows: "emits keeps_guest_marks (remediate_windows C vm ip)" for vm ip
    unfolding remediate_windows_def
    by (auto intro!: emits_calls_bind [OF broken(3)] wp simp: is_Inl_def split: sum.splits)
  have others: "emits keeps_guest_marks (waiting C vm os what)" "emits keeps_guest_marks (stamp_started C vm)" for what
    unfolding waiting_def stamp_started_def prim_defs by (auto intro!: wp split: Family.split)
  show "emits keeps_guest_marks (remediate C vm os)"
    unfolding remediate_def Let_def by (auto intro!: linux windows others wp split: Family.split)
  have install: "calls keeps_guest_marks (install_linux_alloy L C vm ip user key) (\<lambda>r. \<forall>h. r \<noteq> Inr (Some h))"
    "calls keeps_guest_marks (install_windows_alloy L C vm ip) (\<lambda>r. \<forall>h. r \<noteq> Inr (Some h))" for user key
  proof -
    have reads: "calls keeps_guest_marks m (\<lambda>_. True)" if "emits keeps_guest_marks m" for m :: "('w, 'x) io"
      using that unfolding emits_def calls_def by simp
    show "calls keeps_guest_marks (install_linux_alloy L C vm ip user key) (\<lambda>r. \<forall>h. r \<noteq> Inr (Some h))"
      unfolding install_linux_alloy_def Let_def
      by (auto intro!: calls_bindE calls_bind calls_if calls_ret emits_reads [THEN reads, THEN calls_post]
          calls_mono [OF broken(1)] simp: is_Inl_def)
    show "calls keeps_guest_marks (install_windows_alloy L C vm ip) (\<lambda>r. \<forall>h. r \<noteq> Inr (Some h))"
      unfolding install_windows_alloy_def Let_def
      by (auto intro!: calls_bindE calls_bind calls_if calls_ret calls_case_prod emits_reads [THEN reads, THEN calls_post]
          calls_mono [OF broken(3)] simp: is_Inl_def)
  qed
  show "emits keeps_guest_marks (reconcileAlloyIfEnabled L C vm ip os)"
    unfolding reconcileAlloyIfEnabled_def reconcileLinuxAlloy_def reconcileWindowsAlloy_def
    by (auto intro!: emits_calls_bind [OF install(1)] emits_calls_bind [OF install(2)] wp
        split: Family.split sum.split option.split)
qed

section \<open>The recorded hash\<close>

definition vm_patches :: "action list \<Rightarrow> (VirtualMachine \<times> VirtualMachine) list" where
  "vm_patches l = concat (map (\<lambda>a. case a of Patch (OVM b) (OVM w) \<Rightarrow> [(b, w)] | _ \<Rightarrow> []) l)"

lemma vm_patches_simps [simp]:
  "vm_patches [] = []" "vm_patches (l @ l') = vm_patches l @ vm_patches l'"
  "vm_patches (Patch (OVM b) (OVM w) # l) = (b, w) # vm_patches l"
  "vm_patches (Get k m n # l) = vm_patches l" "vm_patches (Event m n typ reason msg # l) = vm_patches l"
  "vm_patches (DialTCP addr t # l) = vm_patches l" "vm_patches (SSHDial addr u t # l) = vm_patches l"
  "vm_patches (SSHSession c # l) = vm_patches l" "vm_patches (SSHExec c i cmd # l) = vm_patches l"
  "vm_patches (CloseSession c # l) = vm_patches l" "vm_patches (CloseClient c # l) = vm_patches l"
  "vm_patches (Now # l) = vm_patches l"
  by (simp_all add: vm_patches_def)

text \<open>The guest at \<open>ip\<close> was given the script: whole on the command line, or uploaded and run.\<close>

definition ran_linux :: "string \<Rightarrow> string \<Rightarrow> action list \<Rightarrow> bool" where
  "ran_linux ip script l \<longleftrightarrow> (\<exists>u s. SSHDial (ip @ '':22'') u 300 \<in> set l \<and> SSHExec s '''' (heredoc_command script) \<in> set l)"

definition ran_windows :: "string \<Rightarrow> string \<Rightarrow> action list \<Rightarrow> bool" where
  "ran_windows ip script l \<longleftrightarrow> (\<exists>s s'. SSHDial (ip @ '':22'') ''Administrator'' 60 \<in> set l
     \<and> SSHExec s script write_command \<in> set l \<and> SSHExec s' '''' run_command \<in> set l)"

lemma run_steps:
  "does (RunLinuxBootstrap C lcfg script) (\<lambda>r l. vm_patches l = [] \<and> (r = Inr () \<longrightarrow>
     SSHDial (ls_Address lcfg) (ls_Username lcfg) (ls_Timeout lcfg) \<in> set l
     \<and> (\<exists>s. SSHExec s '''' (heredoc_command script) \<in> set l)))"
  "does (RunWindowsSSHBootstrap C wcfg script) (\<lambda>r l. vm_patches l = [] \<and> (r = Inr () \<longrightarrow>
     SSHDial (ws_Address wcfg) (ws_User wcfg) (ws_Timeout wcfg) \<in> set l
     \<and> (\<exists>s s'. SSHExec s script write_command \<in> set l \<and> SSHExec s' '''' run_command \<in> set l)))"
  "does (GetWindowsBootstrapState C wcfg) (\<lambda>r l. vm_patches l = [])"
  unfolding RunLinuxBootstrap_def RunWindowsSSHBootstrap_def GetWindowsBootstrapState_def RunWindowsSSHCommand_def
  by (auto intro!: does_intros split: sum.splits) blast+

lemma read_steps:
  "does (getLinuxPrivateKeyAndUser C) (\<lambda>r l. vm_patches l = [])" "does (getLokiWriterToken C) (\<lambda>r l. vm_patches l = [])"
  "does (getLokiPushURL C) (\<lambda>r l. vm_patches l = [])" "does (ProbeSSH C addr t) (\<lambda>r l. vm_patches l = [])"
  unfolding getLinuxPrivateKeyAndUser_def getLokiWriterToken_def getLokiPushURL_def ProbeSSH_def prim_defs Let_def
  by (auto intro!: does_intros split: sum.splits)

lemma does_then:
  assumes "does m (\<lambda>r l. vm_patches l = [])"
    and "\<And>e l. vm_patches l = [] \<Longrightarrow> Q (Inl e) l"
    and "\<And>x l1. vm_patches l1 = [] \<Longrightarrow> does (f x) (\<lambda>r l. Q r (l1 @ l))"
  shows "does (bindE m f) Q"
  by (rule does_bindE, rule does_mono [OF assms(1)]) (auto split: sum.splits intro: assms(2,3))

definition linux_installed :: "libs \<Rightarrow> VirtualMachine \<Rightarrow> string \<Rightarrow> string \<Rightarrow> action list \<Rightarrow> bool" where
  "linux_installed L vm ip h l \<longleftrightarrow> (\<exists>token lokiURL. let cfg = RenderLinux (lib_quote L) (log_config vm lokiURL) in
     h = hashStrings [cfg, token] \<and> ran_linux ip (LinuxAlloyInstallScript cfg token) l)"

definition windows_installed :: "libs \<Rightarrow> VirtualMachine \<Rightarrow> string \<Rightarrow> string \<Rightarrow> action list \<Rightarrow> bool" where
  "windows_installed L vm ip h l \<longleftrightarrow> (\<exists>token lokiURL script. let cfg = RenderWindows (lib_quote L) (log_config vm lokiURL) in
     h = hashStrings [cfg, token] \<and> script \<in> {WindowsAlloyInstallScript cfg token, WindowsAlloyUpdateScript cfg token}
     \<and> ran_windows ip script l)"

lemma linux_installedI:
  "SSHDial (ip @ '':22'') u 300 \<in> set l \<Longrightarrow>
    SSHExec s '''' (heredoc_command (LinuxAlloyInstallScript (RenderLinux (lib_quote L) (log_config vm url)) token)) \<in> set l \<Longrightarrow>
    linux_installed L vm ip (hashStrings [RenderLinux (lib_quote L) (log_config vm url), token]) l"
  unfolding linux_installed_def ran_linux_def Let_def by blast

lemma windows_installedI:
  "SSHDial (ip @ '':22'') ''Administrator'' 60 \<in> set l \<Longrightarrow> SSHExec s script write_command \<in> set l \<Longrightarrow>
    SSHExec s' '''' run_command \<in> set l \<Longrightarrow>
    windows_alloy_script vm state (RenderWindows (lib_quote L) (log_config vm url)) token = Inr script \<Longrightarrow>
    windows_installed L vm ip (hashStrings [RenderWindows (lib_quote L) (log_config vm url), token]) l"
  unfolding windows_installed_def ran_windows_def Let_def
  by (auto simp: windows_alloy_script_def split: if_splits)

lemma installed_mono:
  "linux_installed L vm ip h l2 \<Longrightarrow> linux_installed L vm ip h (l1 @ l2)"
  "linux_installed L vm ip h l1 \<Longrightarrow> linux_installed L vm ip h (l1 @ l2)"
  "windows_installed L vm ip h l2 \<Longrightarrow> windows_installed L vm ip h (l1 @ l2)"
  "windows_installed L vm ip h l1 \<Longrightarrow> windows_installed L vm ip h (l1 @ l2)"
  unfolding linux_installed_def windows_installed_def ran_linux_def ran_windows_def Let_def set_append
  by blast+

definition installs :: "(string \<Rightarrow> action list \<Rightarrow> bool) \<Rightarrow> string option go \<Rightarrow> action list \<Rightarrow> bool" where
  "installs I r l \<longleftrightarrow> vm_patches l = [] \<and> (\<forall>h. r = Inr (Some h) \<longrightarrow> I h l)"

lemma installs_simps [simp]:
  "installs I (Inl e) l \<longleftrightarrow> vm_patches l = []" "installs I (Inr None) l \<longleftrightarrow> vm_patches l = []"
  "installs I (Inr (Some h)) l \<longleftrightarrow> vm_patches l = [] \<and> I h l"
  by (auto simp: installs_def)

lemma install_linux_steps: "does (install_linux_alloy L C vm ip user key) (installs (linux_installed L vm ip))"
proof -
  have run: "does (bindE (RunLinuxBootstrap C \<lparr>ls_Address = ip @ '':22'', ls_Username = user, ls_PrivateKey = key, ls_Timeout = 300\<rparr>
        (LinuxAlloyInstallScript (RenderLinux (lib_quote L) (log_config vm url)) token))
      (\<lambda>_. ok (Some (hashStrings [RenderLinux (lib_quote L) (log_config vm url), token]))))
    (\<lambda>r l2. installs (linux_installed L vm ip) r (l1 @ l2))"
    if "vm_patches l1 = []" for l1 url token
    by (rule does_bindE, rule does_mono [OF run_steps(1)])
      (auto split: sum.splits intro!: does_return simp: that,
        rule installed_mono(1), erule (1) linux_installedI)
  show ?thesis
    unfolding install_linux_alloy_def Let_def
    apply (rule does_then [OF read_steps(2)], simp)
    apply (rule does_then [OF read_steps(3)], simp)
    apply (rule does_if, simp add: does_return)
    apply (rule does_bind, rule does_mono [OF read_steps(4)])
    apply (rule does_if, simp add: does_return)
    subgoal for token l1 url l2 up l3
      using run [of "l1 @ l2 @ l3" url "TrimSpace token"] by simp
    done
qed

lemma install_windows_steps: "does (install_windows_alloy L C vm ip) (installs (windows_installed L vm ip))"
proof -
  have run: "does (bindE (RunWindowsSSHBootstrap C (windows_ssh ip priv 60) script)
      (\<lambda>_. ok (Some (hashStrings [RenderWindows (lib_quote L) (log_config vm url), token]))))
    (\<lambda>r l2. installs (windows_installed L vm ip) r (l1 @ l2))"
    if "vm_patches l1 = []" "windows_alloy_script vm state (RenderWindows (lib_quote L) (log_config vm url)) token = Inr script"
    for l1 url token priv script state
    by (rule does_bindE, rule does_mono [OF run_steps(2)])
      (auto split: sum.splits intro!: does_return simp: that(1) windows_ssh_def,
        rule installed_mono(3), erule (2) windows_installedI [OF _ _ _ that(2)])
  show ?thesis
    unfolding install_windows_alloy_def Let_def
    apply (rule does_then [OF read_steps(2)], simp)
    apply (rule does_then [OF read_steps(3)], simp)
    apply (rule does_if, simp add: does_return)
    apply (rule does_then [OF read_steps(1)], simp)
    apply (rule does_case_prod)
    apply (rule does_then [OF run_steps(3)], simp)
    apply (rule does_bindE, rule does_return)
    subgoal for token l1 url l2 _ l3 priv _ state l4
      using run [of "l1 @ l2 @ l3 @ l4"] by (auto split: sum.split)
    done
qed

text \<open>
  C5. The recorded hash. Whenever an Alloy reconciliation patches the VM, in this run the
  guest at the VM's address was given the installation (or, on Windows, the update) of one
  configuration and token, and the hash it records is the hash of exactly this
  configuration and this token.
\<close>
theorem recorded_hash_is_installed:
  "does (reconcileAlloyIfEnabled L C vm ip os) (\<lambda>r l. \<forall>(b, w)\<in>set (vm_patches l).
     b = vm \<and> (os = Linux \<and> linux_installed L vm ip (mget (Annotations w) AnnAlloyConfigHash) l
       \<or> os = Windows \<and> windows_installed L vm ip (mget (Annotations w) AnnAlloyConfigHash) l))"
proof -
  have rec: "does (record_alloy C vm h) (\<lambda>r l. \<exists>w. vm_patches l = [(vm, w)] \<and> mget (Annotations w) AnnAlloyConfigHash = h)" for h
    unfolding record_alloy_def patch_annotations_def Patch_VM_def
    by (auto intro!: does_intros split: sum.splits simp: alloy_annotations_def)
  have step: "does (do { r \<leftarrow> m; case r of
         Inl err \<Rightarrow> ret (Inl err, vm) | Inr None \<Rightarrow> ret (Inr False, vm) | Inr (Some h) \<Rightarrow> record_alloy C vm h })
       (\<lambda>r l. \<forall>(b, w)\<in>set (vm_patches l). b = vm \<and> I (mget (Annotations w) AnnAlloyConfigHash) l)"
    if m: "does m (installs I)" and mono: "\<And>h l1 l2. I h l1 \<Longrightarrow> I h (l1 @ l2)" for m I
    by (rule does_bind, rule does_mono [OF m])
      (auto split: sum.split option.split intro!: does_return does_mono [OF rec] simp: mono)
  have none: "does (ret x) (\<lambda>r l. \<forall>(b, w)\<in>set (vm_patches l). P b w l)" for x :: "bool go \<times> VirtualMachine" and P
    by (simp add: does_return)
  have linux: "does (reconcileLinuxAlloy L C vm ip user key) (\<lambda>r l. \<forall>(b, w)\<in>set (vm_patches l).
      b = vm \<and> linux_installed L vm ip (mget (Annotations w) AnnAlloyConfigHash) l)" for user key
    unfolding reconcileLinuxAlloy_def by (rule step [OF install_linux_steps installed_mono(2)])
  have windows: "does (reconcileWindowsAlloy L C vm ip) (\<lambda>r l. \<forall>(b, w)\<in>set (vm_patches l).
      b = vm \<and> windows_installed L vm ip (mget (Annotations w) AnnAlloyConfigHash) l)"
    unfolding reconcileWindowsAlloy_def by (rule step [OF install_windows_steps installed_mono(4)])
  show ?thesis
  proof (cases os)
    case Linux
    show ?thesis
      unfolding reconcileAlloyIfEnabled_def Linux Family.case
      apply (rule does_if, simp add: none)
      apply (rule does_bind, rule does_mono [OF read_steps(1)])
      apply (auto split: sum.split intro!: does_return does_mono [OF linux])
      apply (auto intro: installed_mono(1))
      done
  next
    case Windows
    show ?thesis
      unfolding reconcileAlloyIfEnabled_def Windows Family.case
      by (rule does_if, simp add: none, rule does_mono [OF windows]) auto
  next
    case Unknown
    show ?thesis
      unfolding reconcileAlloyIfEnabled_def Unknown Family.case by (simp add: does_return)
  qed
qed

text \<open>
  A guest that is up to date is left alone: when the hash of the configuration and
  token that were just read is the recorded one, the reconciliation reads these two things,
  reports no change, and neither contacts the guest nor writes anything.
\<close>
theorem alloy_up_to_date:
  assumes "run_state (getLokiWriterToken C) s = (Inr token, s1)"
    and "run_state (getLokiPushURL C) s1 = (Inr lokiURL, s2)"
  shows "(alloy_current vm (hashStrings [RenderLinux (lib_quote L) (log_config vm lokiURL), token]) \<longrightarrow>
      run_state (reconcileLinuxAlloy L C vm ip user key) s = ((Inr False, vm), s2))
    \<and> (alloy_current vm (hashStrings [RenderWindows (lib_quote L) (log_config vm lokiURL), token]) \<longrightarrow>
      run_state (reconcileWindowsAlloy L C vm ip) s = ((Inr False, vm), s2))
    \<and> acts s2 = acts s @ [Get KSecret SystemNamespace ''vm-loki-writer-token'', Get KRoute ''openshift-logging'' ''logging-loki'']"
proof -
  have trimmed: "TrimSpace token = token"
    using assms(1) unfolding getLokiWriterToken_def prim_defs bindE_def wrapE_def Let_def
    by (auto split: prod.splits sum.splits if_splits)
  have "acts s2 = acts s @ [Get KSecret SystemNamespace ''vm-loki-writer-token'', Get KRoute ''openshift-logging'' ''logging-loki'']"
    using assms unfolding getLokiWriterToken_def getLokiPushURL_def prim_defs bindE_def wrapE_def Let_def
    by (auto split: prod.splits sum.splits if_splits)
  then show ?thesis
    using assms trimmed
    by (simp add: reconcileLinuxAlloy_def install_linux_alloy_def reconcileWindowsAlloy_def install_windows_alloy_def
        bindE_def Let_def)
qed

section \<open>Ready without an exporter\<close>

text \<open>A cluster in which nothing listens on any port, eleven minutes after the epoch.\<close>

definition dead_exporter :: "unit client" where
  "dead_exporter = idle_client\<lparr>dial_tcp := \<lambda>_ _ w. (Inl (Errorf ''connection refused''), w),
     time_now := \<lambda>w. (660 * second, w)\<rparr>"

definition waiting_vm :: VirtualMachine where
  "waiting_vm = \<lparr>vm_Name = ''db'', vm_Namespace = ''team-a'', vm_Labels = Some (fmupd osLabel ''linux'' fmempty),
     Annotations = Some (fmupd AnnBootstrapStartedAt ''1970-01-01T00:00:00Z'' fmempty), Template = None\<rparr>"

lemma epoch_timed_out: "run_state (bootstrapTimedOut dead_exporter waiting_vm ten_minutes) s =
    (True, \<lparr>world = world s, acts = acts s @ [Now]\<rparr>)"
  using parse_examples(1)
  by (simp add: bootstrapTimedOut_def waiting_vm_def dead_exporter_def prim_defs Let_def ten_minutes_def minute_def second_def)

definition ready_patch :: "action \<Rightarrow> bool" where
  "ready_patch a \<longleftrightarrow> (case a of Patch (OVM b) (OVM w) \<Rightarrow> mget (Annotations w) AnnStatus = StatusReady | _ \<Rightarrow> False)"

lemma dead_exporter_run:
  "result (syncMetricsScrapeResources L dead_exporter waiting_vm \<lparr>vmi_IPs = [''10.0.0.5'']\<rparr> Linux) fresh = Inr (Result 0)
   \<and> list_ex ready_patch (trace (syncMetricsScrapeResources L dead_exporter waiting_vm \<lparr>vmi_IPs = [''10.0.0.5'']\<rparr> Linux) fresh)"
proof -
  have Detect: "Detect waiting_vm = Linux" by code_simp
  have nf: "IsNotFound not_found" by (simp add: not_found_def IsNotFound_def)
  have timed: "run_state (bootstrapTimedOut dead_exporter waiting_vm ten_minutes) s =
    (True, \<lparr>world = world s, acts = acts s @ [Now]\<rparr>)" for s :: "unit st" by (rule epoch_timed_out)
  have dead: "getService dead_exporter = (\<lambda>_ _ w. (Inl not_found, w))" "getEndpoints dead_exporter = (\<lambda>_ _ w. (Inl not_found, w))"
    "getServiceMonitor dead_exporter = (\<lambda>_ _ w. (Inl not_found, w))" "createObj dead_exporter = (\<lambda>_ w. (Inr (), w))"
    "patchVMObj dead_exporter = (\<lambda>_ x w. (Inr x, w))" "dial_tcp dead_exporter = (\<lambda>_ _ w. (Inl (Errorf ''connection refused''), w))"
    by (simp_all add: dead_exporter_def idle_client_def)
  have alloy: "run_state (reconcileAlloyIfEnabled L dead_exporter waiting_vm ''10.0.0.5'' Linux) s = ((Inr False, waiting_vm), s)" for s
    by (simp add: reconcileAlloyIfEnabled_def waiting_vm_def)
  show ?thesis
    by (simp add: syncMetricsScrapeResources_def Let_def firstIP_def exporterPortForOS_def failed_event_def catching_def
        ensureVMServiceAndEndpoints_def ensureVMEndpoints_def ensureNamespaceServiceMonitor_def windows_bootstrap_state_def
        TCP_def not_answering_def clear_stale_def finish_def alloy timed dead nf patch_annotations_def mark_def mark_result_def
        bindE_def wrapE_def prim_defs result_def trace_def fresh_def ready_patch_def)
qed


section \<open>Witnesses\<close>

definition broken_client :: "unit client" where
  "broken_client = idle_client\<lparr>ssh_exec := \<lambda>_ _ _ w. ((Some (Errorf ''exit 1''), '''', ''''), w),
     ssh_combined := \<lambda>_ _ _ w. ((Some (Errorf ''exit 1''), ''''), w)\<rparr>"

theorem broken_guest_is_not_marked_witness:
  "emits keeps_guest_marks (remediate broken_client waiting_vm Linux)"
proof -
  have "guest_broken broken_client" by (simp add: guest_broken_def broken_client_def)
  from broken_guest_is_not_marked [OF this] show ?thesis by blast
qed

definition plain_libs :: libs where
  "plain_libs = \<lparr>lib_cc = single_yaml linux_merged ''y'', lib_unmarshal = (\<lambda>_. Inr (Some fmempty)),
     lib_marshal = (\<lambda>_. Inr ''hints''), lib_xml = single_xml empty_unattend ''x'', lib_quote = (\<lambda>s. s),
     lib_manifest = (\<lambda>_. Inl (Errorf ''yaml''))\<rparr>"

definition logging_client :: "unit client" where
  "logging_client = idle_client\<lparr>
     getSecret := \<lambda>ns n w. (Inr \<lparr>sec_Meta = meta ns n None None, sec_Type = ''Opaque'',
        sec_Data = Some (fmupd ''id_rsa''''key'' (fmupd ''username''''ubuntu'' (fmupd ''token''''secret'' fmempty)))\<rparr>, w),
     getRouteHost := \<lambda>_ _ w. (Inr ''loki.example'', w)\<rparr>"

definition logging_vm :: VirtualMachine where
  "logging_vm = waiting_vm\<lparr>Annotations := Some (fmupd AnnLoggingEnabled ''true'' fmempty)\<rparr>"

lemma logging_reads:
  "run_state (getLokiWriterToken logging_client) s =
     (Inr ''secret'', \<lparr>world = world s, acts = acts s @ [Get KSecret SystemNamespace ''vm-loki-writer-token'']\<rparr>)"
  "run_state (getLokiPushURL logging_client) s =
     (Inr ''https://loki.example/api/logs/v1/application/loki/api/v1/push'',
      \<lparr>world = world s, acts = acts s @ [Get KRoute ''openshift-logging''''logging-loki'']\<rparr>)"
  "run_state (getLinuxPrivateKeyAndUser logging_client) s =
     (Inr (''key'', ''ubuntu''), \<lparr>world = world s, acts = acts s @ [Get KSecret SystemNamespace PrivateKeySecret]\<rparr>)"
  by (simp_all add: getLokiWriterToken_def getLokiPushURL_def getLinuxPrivateKeyAndUser_def logging_client_def
      prim_defs bindE_def wrapE_def Let_def mhas_def TrimSpace_def is_space_def)

theorem recorded_hash_is_installed_witness:
  "\<exists>w. vm_patches (trace (reconcileAlloyIfEnabled plain_libs logging_client logging_vm ''10.0.0.5'' Linux) fresh) = [(logging_vm, w)]
    \<and> linux_installed plain_libs logging_vm ''10.0.0.5'' (mget (Annotations w) AnnAlloyConfigHash)
        (trace (reconcileAlloyIfEnabled plain_libs logging_client logging_vm ''10.0.0.5'' Linux) fresh)"
proof -
  let ?l = "trace (reconcileAlloyIfEnabled plain_libs logging_client logging_vm ''10.0.0.5'' Linux) fresh"
  have "alloy_current logging_vm h = False" for h by (simp add: alloy_current_def logging_vm_def)
  moreover have "mget (Annotations logging_vm) AnnLoggingEnabled = ''true''" "detectSSHUser logging_vm ''ubuntu'' = Inr ''ubuntu''"
    by (simp_all add: logging_vm_def detectSSHUser_def)
  moreover have "ssh_parse_key logging_client = Inr" "dial_tcp logging_client = (\<lambda>_ _ w. (Inr (), w))"
    "ssh_dial logging_client = (\<lambda>_ _ _ _ w. (Inr 1, w))" "ssh_session logging_client = (\<lambda>_ w. (Inr 2, w))"
    "ssh_exec logging_client = (\<lambda>_ _ _ w. ((None, '''', ''''), w))" "patchVMObj logging_client = (\<lambda>_ x w. (Inr x, w))"
    by (simp_all add: logging_client_def idle_client_def fun_eq_iff)
  ultimately have "\<exists>w. vm_patches ?l = [(logging_vm, w)]"
    by (simp add: reconcileAlloyIfEnabled_def reconcileLinuxAlloy_def install_linux_alloy_def Let_def logging_reads
        ProbeSSH_def RunLinuxBootstrap_def deferred_def record_alloy_def patch_annotations_def bindE_def wrapE_def
        prim_defs trace_def fresh_def)
  then obtain w where w: "vm_patches ?l = [(logging_vm, w)]" by blast
  with does_trace [OF recorded_hash_is_installed [of plain_libs logging_client logging_vm "''10.0.0.5''" Linux], of fresh]
  show ?thesis by auto
qed

theorem alloy_up_to_date_witness:
  "run_state (reconcileLinuxAlloy plain_libs logging_client (logging_vm\<lparr>Annotations :=
       Some (alloy_annotations (hashStrings [RenderLinux (\<lambda>s. s)
         (log_config logging_vm ''https://loki.example/api/logs/v1/application/loki/api/v1/push''), ''secret'']) fmempty)\<rparr>)
     ''10.0.0.5''''ubuntu''''key'') fresh
   = ((Inr False, logging_vm\<lparr>Annotations :=
       Some (alloy_annotations (hashStrings [RenderLinux (\<lambda>s. s)
         (log_config logging_vm ''https://loki.example/api/logs/v1/application/loki/api/v1/push''), ''secret'']) fmempty)\<rparr>),
      \<lparr>world = (), acts = [Get KSecret SystemNamespace ''vm-loki-writer-token'', Get KRoute ''openshift-logging''''logging-loki'']\<rparr>)"
proof -
  let ?h = "hashStrings [RenderLinux (\<lambda>s. s)
         (log_config logging_vm ''https://loki.example/api/logs/v1/application/loki/api/v1/push''), ''secret'']"
  let ?vm = "logging_vm\<lparr>Annotations := Some (alloy_annotations ?h fmempty)\<rparr>"
  have "log_config ?vm u = log_config logging_vm u" for u by (simp add: log_config_def)
  then have "alloy_current ?vm (hashStrings [RenderLinux (lib_quote plain_libs)
      (log_config ?vm ''https://loki.example/api/logs/v1/application/loki/api/v1/push''), ''secret''])"
    by (simp add: alloy_current_def alloy_annotations_def plain_libs_def)
  with alloy_up_to_date [OF logging_reads(1) [of fresh] logging_reads(2), of ?vm plain_libs] show ?thesis
    by (simp add: fresh_def)
qed

end
