(* ===== verification/Unstruct.thy ===== *)
theory Unstruct imports Kube "HOL-Library.AList" begin

text \<open>
  Objects of the dynamic client: a JSON object as nested maps, the accessors of
  \<open>unstructured\<close> the code calls on it, and JSON merge patches (RFC 7386) as the API server
  applies them. A map is a list of its entries, whose keys are different.
\<close>

section \<open>Accessors\<close>

fun nested :: "string list \<Rightarrow> gval \<Rightarrow> gval option" where
  "nested [] v = Some v"
| "nested (k # ks) v = (case v of
     GMap m \<Rightarrow> (case map_of m k of None \<Rightarrow> None | Some x \<Rightarrow> nested ks x)
   | _ \<Rightarrow> None)"

definition NestedString :: "string list \<Rightarrow> gval \<Rightarrow> string" where
  "NestedString ks v = (case nested ks v of Some (GString s) \<Rightarrow> s | _ \<Rightarrow> '''')"

text \<open>The slice and whether it was found.\<close>

definition NestedSlice :: "string list \<Rightarrow> gval \<Rightarrow> gval list \<times> bool" where
  "NestedSlice ks v = (case nested ks v of Some (GSlice xs) \<Rightarrow> (xs, True) | _ \<Rightarrow> ([], False))"

fun as_string :: "gval \<Rightarrow> string option" where
  "as_string (GString s) = Some s"
| "as_string _ = None"

fun as_strings :: "(string \<times> gval) list \<Rightarrow> (string \<times> string) list option" where
  "as_strings [] = Some []"
| "as_strings ((k, v) # m) = (case as_string v of None \<Rightarrow> None
     | Some s \<Rightarrow> map_option (\<lambda>r. (k, s) # r) (as_strings m))"

text \<open>A map of strings, nil when it is absent, not a map, or has a value that is no string.\<close>

definition NestedStringMap :: "string list \<Rightarrow> gval \<Rightarrow> smap option" where
  "NestedStringMap ks v = (case nested ks v of
     Some (GMap m) \<Rightarrow> map_option fmap_of_list (as_strings m)
   | _ \<Rightarrow> None)"

definition GetName :: "gval \<Rightarrow> string" where
  "GetName v = NestedString [''metadata'', ''name''] v"

definition GetNamespace :: "gval \<Rightarrow> string" where
  "GetNamespace v = NestedString [''metadata'', ''namespace''] v"

definition GetLabels :: "gval \<Rightarrow> smap option" where
  "GetLabels v = NestedStringMap [''metadata'', ''labels''] v"

definition GetAnnotations :: "gval \<Rightarrow> smap option" where
  "GetAnnotations v = NestedStringMap [''metadata'', ''annotations''] v"

definition GetResourceVersion :: "gval \<Rightarrow> string" where
  "GetResourceVersion v = NestedString [''metadata'', ''resourceVersion''] v"

text \<open>\<open>SetNestedField\<close>: missing maps on the way are made, anything else there is an error.\<close>

definition set_error :: goerr where
  "set_error = Errorf ''value cannot be set because a parent is not a map[string]interface{}''"

fun SetNestedField :: "gval \<Rightarrow> string list \<Rightarrow> gval \<Rightarrow> gval go" where
  "SetNestedField x [] v = Inl set_error"
| "SetNestedField x (k # ks) (GMap m) =
     (if ks = [] then Inr (GMap (AList.update k x m))
      else goE (SetNestedField x ks (case map_of m k of None \<Rightarrow> GMap [] | Some y \<Rightarrow> y))
        (\<lambda>y. Inr (GMap (AList.update k y m))))"
| "SetNestedField x ks v = Inl set_error"

text \<open>\<open>RemoveNestedField\<close>, and \<open>SetResourceVersion\<close>, which ignores the error of the accessor.\<close>

fun RemoveNestedField :: "string list \<Rightarrow> gval \<Rightarrow> gval" where
  "RemoveNestedField [] x = x"
| "RemoveNestedField (k # ks) x = (case x of
     GMap m \<Rightarrow>
       if ks = [] then GMap (AList.delete k m)
       else (case map_of m k of None \<Rightarrow> x | Some y \<Rightarrow> GMap (AList.update k (RemoveNestedField ks y) m))
   | _ \<Rightarrow> x)"

definition SetResourceVersion :: "string \<Rightarrow> gval \<Rightarrow> gval" where
  "SetResourceVersion version x =
     (if version = '''' then RemoveNestedField [''metadata'', ''resourceVersion''] x
      else case SetNestedField (GString version) [''metadata'', ''resourceVersion''] x of Inl _ \<Rightarrow> x | Inr y \<Rightarrow> y)"

text \<open>\<open>json.Marshal\<close> writes the entries of a map in the order of their keys.\<close>

definition of_smap :: "smap \<Rightarrow> gval" where
  "of_smap m = GMap (map (\<lambda>k. (k, GString (mget (Some m) k))) (sorted_keys m))"

section \<open>Merge patches\<close>

fun merge_patch :: "gval \<Rightarrow> gval \<Rightarrow> gval"
  and merge_entries :: "(string \<times> gval) list \<Rightarrow> (string \<times> gval) list \<Rightarrow> (string \<times> gval) list" where
  "merge_patch (GMap p) t = GMap (merge_entries p (case t of GMap m \<Rightarrow> m | _ \<Rightarrow> []))"
| "merge_patch v t = v"
| "merge_entries [] m = m"
| "merge_entries ((k, v) # p) m = merge_entries p
     (if v = GNil then AList.delete k m
      else AList.update k (merge_patch v (case map_of m k of None \<Rightarrow> GNil | Some x \<Rightarrow> x)) m)"

lemma map_of_merge_entries:
  "distinct (map fst p) \<Longrightarrow> map_of (merge_entries p m) k = (case map_of p k of
     None \<Rightarrow> map_of m k
   | Some v \<Rightarrow> if v = GNil then None
       else Some (merge_patch v (case map_of m k of None \<Rightarrow> GNil | Some x \<Rightarrow> x)))"
proof (induction p arbitrary: m)
  case (Cons e p)
  obtain j v where e: "e = (j, v)" by (cases e)
  let ?m = "if v = GNil then AList.delete j m
      else AList.update j (merge_patch v (case map_of m j of None \<Rightarrow> GNil | Some x \<Rightarrow> x)) m"
  from Cons.prems e have "distinct (map fst p)" and fresh: "j \<notin> fst ` set p" by simp_all
  from Cons.IH [OF this(1), of ?m] have step: "map_of (merge_entries (e # p) m) k = (case map_of p k of
       None \<Rightarrow> map_of ?m k
     | Some v \<Rightarrow> if v = GNil then None
         else Some (merge_patch v (case map_of ?m k of None \<Rightarrow> GNil | Some x \<Rightarrow> x)))"
    by (simp only: e merge_entries.simps)
  show ?case
  proof (cases "k = j")
    case True
    moreover from fresh have "map_of p j = None" by (simp only: map_of_eq_None_iff) simp
    ultimately show ?thesis unfolding step by (simp add: e update_conv' delete_conv')
  next
    case False
    then have "map_of ?m k = map_of m k" by (simp add: update_conv' delete_conv')
    moreover from False have "map_of (e # p) k = map_of p k" by (simp add: e)
    ultimately show ?thesis by (simp only: step)
  qed
qed simp

section \<open>Maps of strings\<close>

lemma map_of_of_smap:
  "map_of (map (\<lambda>k. (k, GString (mget (Some m) k))) (sorted_keys m)) k = map_option GString (fmlookup m k)"
proof (cases "fmlookup m k")
  case None
  then have "k \<notin> set (sorted_keys m)" by (simp add: in_sorted_keys del: set_sorted_keys)
  with None show ?thesis by (auto simp: map_of_eq_None_iff simp del: set_sorted_keys)
next
  case (Some v)
  then have "k \<in> set (sorted_keys m)" by (simp add: in_sorted_keys del: set_sorted_keys)
  with Some show ?thesis by (subst map_of_map_restrict) (simp add: mget_def o_def)
qed

lemma distinct_of_smap: "distinct (map fst (map (\<lambda>k. (k, GString (mget (Some m) k))) (sorted_keys m)))"
  by (simp add: o_def sorted_keys_def sorted_list_of_fset.rep_eq)

lemma as_strings_map_of: "as_strings m = Some l \<Longrightarrow> map_of m k = map_option GString (map_of l k)"
proof (induction m arbitrary: l rule: as_strings.induct)
  case (2 j v m)
  then show ?case by (cases v) (auto split: option.splits)
qed simp

lemma as_strings_iff: "as_strings m \<noteq> None \<longleftrightarrow> (\<forall>e\<in>set m. \<exists>s. snd e = GString s)"
proof (induction m rule: as_strings.induct)
  case (2 j v m)
  then show ?case by (cases v) auto
qed simp

end
