(* ===== verification/KvoApi.thy ===== *)
theory KvoApi imports Unstruct AlloyConfig Remediation Cluster begin

text \<open>
  What the command line tool \<open>kvoctl\<close> uses: the clients it connects to the cluster with, the
  discovery API, its environment and the machine it runs on. They are a record \<open>'w kvo\<close> of
  functions over the world; the typed client \<open>kube\<close> in it is the one of the operator. Calls
  are recorded as those of the operator are, in the same log.
\<close>

section \<open>The interface\<close>

record StorageClass =
  sc_Name :: string
  sc_Annotations :: "smap option"

record ReviewStatus =
  rs_Allowed :: bool
  rs_Denied :: bool
  rs_Reason :: string

record TokenStatus =
  tok_Token :: string
  tok_Expiration :: "int option"

text \<open>A container's state: the reason it waits for or terminated with, if it does.\<close>

record ContainerStatus =
  cst_Name :: string
  cst_Ready :: bool
  Waiting :: "string option"
  Terminated :: "string option"
  Running :: bool

record Pod =
  pod_Name :: string
  pod_Labels :: "smap option"
  pod_Phase :: string
  InitContainerStatuses :: "ContainerStatus list"
  ContainerStatuses :: "ContainerStatus list"

record PersistentVolumeClaim =
  pvc_Name :: string
  pvc_Labels :: "smap option"
  pvc_Phase :: string
  pvc_StorageClassName :: "string option"

text \<open>The part of an OpenShift Route the code fills in.\<close>

record Route =
  rt_Meta :: ObjectMeta
  rt_To :: "string \<times> string"
  rt_TargetPort :: string
  rt_Termination :: string

text \<open>
  \<open>clientConfig\<close> gives the address of the API server, \<open>rawConfig\<close> the current context, both
  from the kubeconfig at an explicit path or, when it is empty, at the default ones.
  \<open>serverResources\<close> gives the names of the resources of a group version, \<open>None\<close> for a nil
  list. \<open>run_cmd\<close> runs a program to its end and gives its error, if any, and its combined
  output. \<open>uni_quote\<close> quotes bytes that are not ASCII,
  \<open>labels_Parse\<close> parses a label selector into the label sets it matches,
  \<open>is_terminal\<close> says whether the standard input is a terminal, from which \<open>read_password\<close>
  reads a line without showing it. \<open>rsa_generate\<close> makes an RSA key of some bits, which
  \<open>private_pem\<close> and \<open>authorized_key\<close> write as the private and the public key; a token that
  is created has an expiration, in nanoseconds since the epoch, or none. \<open>read_dir\<close> gives the
  names of a directory and whether they are directories. \<open>yaml_docs\<close> decodes the documents of
  a file up to one that is not well formed, \<open>decode_Namespace\<close> and so on read a JSON object as
  the typed one; \<open>yaml_map\<close> reads one YAML object into an empty map, which
  a null document leaves as it is, \<open>map_yaml\<close> writes one, \<open>valid_json\<close> checks
  that a text is JSON, and \<open>route_unstructured\<close> converts a Route for the dynamic client.
\<close>

record 'w kvo =
  kube :: "'w client"
  env :: "string \<Rightarrow> string"
  uni_quote :: "string \<Rightarrow> string"
  labels_Parse :: "string \<Rightarrow> (smap \<Rightarrow> bool) go"
  is_terminal :: bool
  read_password :: "'w \<Rightarrow> string go \<times> 'w"
  clientConfig :: "string \<Rightarrow> 'w \<Rightarrow> string go \<times> 'w"
  rawConfig :: "string \<Rightarrow> 'w \<Rightarrow> string go \<times> 'w"
  newForConfig :: "string \<Rightarrow> 'w \<Rightarrow> unit go \<times> 'w"
  d_get :: "gvr \<Rightarrow> string \<Rightarrow> string \<Rightarrow> 'w \<Rightarrow> gval go \<times> 'w"
  d_list :: "gvr \<Rightarrow> string \<Rightarrow> 'w \<Rightarrow> gval list go \<times> 'w"
  d_create :: "gvr \<Rightarrow> string \<Rightarrow> gval \<Rightarrow> 'w \<Rightarrow> unit go \<times> 'w"
  d_update :: "gvr \<Rightarrow> string \<Rightarrow> gval \<Rightarrow> 'w \<Rightarrow> unit go \<times> 'w"
  d_merge_patch :: "gvr \<Rightarrow> string \<Rightarrow> string \<Rightarrow> gval \<Rightarrow> 'w \<Rightarrow> unit go \<times> 'w"
  t_update :: "kobj \<Rightarrow> 'w \<Rightarrow> unit go \<times> 'w"
  serverGroups :: "'w \<Rightarrow> string list go \<times> 'w"
  serverResources :: "string \<Rightarrow> 'w \<Rightarrow> string list option go \<times> 'w"
  storageClasses :: "'w \<Rightarrow> StorageClass list go \<times> 'w"
  deployments :: "string \<Rightarrow> 'w \<Rightarrow> ObjectMeta list go \<times> 'w"
  access_review :: "string \<Rightarrow> string \<Rightarrow> string \<Rightarrow> string \<Rightarrow> 'w \<Rightarrow> ReviewStatus go \<times> 'w"
  look_path :: "string \<Rightarrow> 'w \<Rightarrow> unit go \<times> 'w"
  stat_file :: "string \<Rightarrow> 'w \<Rightarrow> unit go \<times> 'w"
  t_serviceaccount :: "string \<Rightarrow> string \<Rightarrow> 'w \<Rightarrow> ServiceAccount go \<times> 'w"
  t_clusterrole :: "string \<Rightarrow> 'w \<Rightarrow> ClusterRole go \<times> 'w"
  t_clusterrolebinding :: "string \<Rightarrow> 'w \<Rightarrow> ClusterRoleBinding go \<times> 'w"
  t_deployment :: "string \<Rightarrow> string \<Rightarrow> 'w \<Rightarrow> Deployment go \<times> 'w"
  t_service :: "string \<Rightarrow> string \<Rightarrow> 'w \<Rightarrow> ClusterService go \<times> 'w"
  t_webhook :: "string \<Rightarrow> 'w \<Rightarrow> WebhookConfiguration go \<times> 'w"
  t_storageclass :: "string \<Rightarrow> 'w \<Rightarrow> StorageClass go \<times> 'w"
  t_pods :: "string \<Rightarrow> 'w \<Rightarrow> Pod list go \<times> 'w"
  t_pvcs :: "string \<Rightarrow> 'w \<Rightarrow> PersistentVolumeClaim list go \<times> 'w"
  create_token :: "string \<Rightarrow> string \<Rightarrow> int \<Rightarrow> 'w \<Rightarrow> TokenStatus go \<times> 'w"
  rsa_generate :: "nat \<Rightarrow> 'w \<Rightarrow> string go \<times> 'w"
  private_pem :: "string \<Rightarrow> string"
  authorized_key :: "string \<Rightarrow> string go"
  read_file :: "string \<Rightarrow> 'w \<Rightarrow> string go \<times> 'w"
  read_dir :: "string \<Rightarrow> 'w \<Rightarrow> (string \<times> bool) list go \<times> 'w"
  yaml_docs :: "string \<Rightarrow> (string \<times> gval) list list \<times> goerr option"
  decode_Namespace :: "gval \<Rightarrow> Namespace go"
  decode_ServiceAccount :: "gval \<Rightarrow> ServiceAccount go"
  decode_ClusterRole :: "gval \<Rightarrow> ClusterRole go"
  decode_ClusterRoleBinding :: "gval \<Rightarrow> ClusterRoleBinding go"
  decode_Service :: "gval \<Rightarrow> ClusterService go"
  decode_Deployment :: "gval \<Rightarrow> Deployment go"
  decode_Webhook :: "gval \<Rightarrow> WebhookConfiguration go"
  yaml_map :: "string \<Rightarrow> (string \<times> gval) list go"
  map_yaml :: "(string \<times> gval) list \<Rightarrow> string go"
  valid_json :: "string \<Rightarrow> unit go"
  route_unstructured :: "Route \<Rightarrow> gval go"
  run_cmd :: "string \<Rightarrow> string list \<Rightarrow> 'w \<Rightarrow> (goerr option \<times> string) \<times> 'w"

definition Client_Config where
  "Client_Config K path = call (Req (NewClient ''config'')) (clientConfig K path)"
definition Raw_Config where
  "Raw_Config K path = call (Req (NewClient ''rawconfig'')) (rawConfig K path)"
definition New_For_Config where
  "New_For_Config K what = call (Req (NewClient what)) (newForConfig K what)"
definition D_Get where "D_Get K r ns n = call (Req (DGet r ns n)) (d_get K r ns n)"
definition D_List where "D_List K r ns = call (Req (DList r ns)) (d_list K r ns)"
definition D_Create where "D_Create K r ns x = call (Req (DCreate r ns x)) (d_create K r ns x)"
definition D_Update where "D_Update K r ns x = call (Req (DUpdate r ns x)) (d_update K r ns x)"
definition D_Merge_Patch where
  "D_Merge_Patch K r ns n p = call (Req (DMergePatch r ns n p)) (d_merge_patch K r ns n p)"
definition T_Update where "T_Update K x = call (Req (TUpdate x)) (t_update K x)"
definition Server_Groups where
  "Server_Groups K = call (Req (GroupVersion '''')) (serverGroups K)"
definition Server_Resources where
  "Server_Resources K gv = call (Req (GroupVersion gv)) (serverResources K gv)"
definition Storage_Classes where
  "Storage_Classes K = call (Req (TList ''storageclasses'' '''')) (storageClasses K)"
definition Deployments where
  "Deployments K ns = call (Req (TList ''deployments'' ns)) (deployments K ns)"
definition Access_Review where
  "Access_Review K ns verb grp resource =
     call (Req (AccessReview ns verb grp resource)) (access_review K ns verb grp resource)"
definition Look_Path where "Look_Path K p = call (Req (LookPath p)) (look_path K p)"
definition Stat_File where "Stat_File K p = call (Req (Stat p)) (stat_file K p)"
definition Run_Command where "Run_Command K p args = call (Req (RunCommand p args)) (run_cmd K p args)"
definition Read_Password where "Read_Password K = call (Req ReadPassword) (read_password K)"
definition Get_ServiceAccount where
  "Get_ServiceAccount K ns n = call (Get KServiceAccount ns n) (t_serviceaccount K ns n)"
definition Get_ClusterRole where "Get_ClusterRole K n = call (Get KClusterRole '''' n) (t_clusterrole K n)"
definition Get_ClusterRoleBinding where
  "Get_ClusterRoleBinding K n = call (Get KClusterRoleBinding '''' n) (t_clusterrolebinding K n)"
definition Get_Deployment where "Get_Deployment K ns n = call (Get KDeployment ns n) (t_deployment K ns n)"
definition Get_ClusterService where "Get_ClusterService K ns n = call (Get KService ns n) (t_service K ns n)"
definition Get_Webhook where "Get_Webhook K n = call (Get KWebhook '''' n) (t_webhook K n)"
definition Get_StorageClass where "Get_StorageClass K n = call (Get KStorageClass '''' n) (t_storageclass K n)"
definition List_Pods where "List_Pods K ns = call (Req (TList ''pods'' ns)) (t_pods K ns)"
definition List_PVCs where "List_PVCs K ns = call (Req (TList ''persistentvolumeclaims'' ns)) (t_pvcs K ns)"
definition Create_Token where
  "Create_Token K ns n seconds = call (Req (CreateToken ns n seconds)) (create_token K ns n seconds)"
definition Generate_Key where "Generate_Key K bits = call (Req (GenerateKey bits)) (rsa_generate K bits)"
definition Read_File where "Read_File K p = call (Req (ReadFile p)) (read_file K p)"
definition Read_Dir where "Read_Dir K p = call (Req (ReadDir p)) (read_dir K p)"
definition tick :: "('w, unit) io" where "tick = call (Req Tick) (\<lambda>w. ((), w))"

text \<open>\<open>fmt.Fprint\<close> to the writer \<open>out\<close>, whose errors the code ignores.\<close>

definition fprint :: "string \<Rightarrow> ('w, unit) io" where
  "fprint s = call (Req (Print s)) (\<lambda>w. ((), w))"

definition fprintln :: "string \<Rightarrow> ('w, unit) io" where
  "fprintln s = fprint (s @ newline)"

lemmas kvo_prims = Client_Config_def Raw_Config_def New_For_Config_def D_Get_def D_List_def D_Create_def
  D_Update_def D_Merge_Patch_def T_Update_def Server_Groups_def Server_Resources_def Storage_Classes_def
  Deployments_def Access_Review_def Look_Path_def Stat_File_def Run_Command_def Read_Password_def tick_def fprint_def fprintln_def
  Get_ServiceAccount_def Get_ClusterRole_def Get_ClusterRoleBinding_def Get_Deployment_def Get_ClusterService_def
  Get_Webhook_def Get_StorageClass_def List_Pods_def List_PVCs_def Create_Token_def Generate_Key_def Read_File_def Read_Dir_def

text \<open>\<open>%q\<close>, and \<open>%-*s\<close> on ASCII.\<close>

definition quoted :: "'w kvo \<Rightarrow> string \<Rightarrow> string" where
  "quoted K s = Quote (uni_quote K) s"

definition pad_right :: "nat \<Rightarrow> string \<Rightarrow> string" where
  "pad_right n s = s @ replicate (n - length s) CHR '' ''"

text \<open>\<open>if s == "" { s = d }\<close>\<close>

definition or_default :: "string \<Rightarrow> string \<Rightarrow> string" where
  "or_default s d = (if s = '''' then d else s)"

text \<open>The contract of the API server towards the dynamic client.\<close>

definition d_named :: "string \<Rightarrow> string \<Rightarrow> gval \<Rightarrow> bool" where
  "d_named ns n x \<longleftrightarrow> GetNamespace x = ns \<and> GetName x = n"

definition d_honest :: "'w kvo \<Rightarrow> bool" where
  "d_honest K \<longleftrightarrow> (\<forall>r ns n. answers (d_named ns n) (d_get K r ns n))"

section \<open>Rules\<close>

lemma calls_kvo [calls_rules]:
  "P (Req (NewClient ''config'')) \<Longrightarrow> (\<And>r. Q1 r) \<Longrightarrow> calls P (Client_Config K p) Q1"
  "P (Req (NewClient ''rawconfig'')) \<Longrightarrow> (\<And>r. Q1 r) \<Longrightarrow> calls P (Raw_Config K p) Q1"
  "P (Req (NewClient what)) \<Longrightarrow> (\<And>r. Q2 r) \<Longrightarrow> calls P (New_For_Config K what) Q2"
  "P (Req (DList g ns)) \<Longrightarrow> (\<And>r. Q3 r) \<Longrightarrow> calls P (D_List K g ns) Q3"
  "P (Req (DCreate g ns x)) \<Longrightarrow> (\<And>r. Q2 r) \<Longrightarrow> calls P (D_Create K g ns x) Q2"
  "P (Req (DUpdate g ns x)) \<Longrightarrow> (\<And>r. Q2 r) \<Longrightarrow> calls P (D_Update K g ns x) Q2"
  "P (Req (DMergePatch g ns n x)) \<Longrightarrow> (\<And>r. Q2 r) \<Longrightarrow> calls P (D_Merge_Patch K g ns n x) Q2"
  "P (Req (TUpdate o')) \<Longrightarrow> (\<And>r. Q2 r) \<Longrightarrow> calls P (T_Update K o') Q2"
  "P (Req (GroupVersion '''')) \<Longrightarrow> (\<And>r. Q4 r) \<Longrightarrow> calls P (Server_Groups K) Q4"
  "P (Req (GroupVersion gv)) \<Longrightarrow> (\<And>r. Q5 r) \<Longrightarrow> calls P (Server_Resources K gv) Q5"
  "P (Req (TList ''storageclasses'' '''')) \<Longrightarrow> (\<And>r. Q6 r) \<Longrightarrow> calls P (Storage_Classes K) Q6"
  "P (Req (TList ''deployments'' ns)) \<Longrightarrow> (\<And>r. Q10 r) \<Longrightarrow> calls P (Deployments K ns) Q10"
  "P (Req (AccessReview ns verb grp resource)) \<Longrightarrow> (\<And>r. Q7 r) \<Longrightarrow> calls P (Access_Review K ns verb grp resource) Q7"
  "P (Req (LookPath p)) \<Longrightarrow> (\<And>r. Q2 r) \<Longrightarrow> calls P (Look_Path K p) Q2"
  "P (Req (Stat p)) \<Longrightarrow> (\<And>r. Q2 r) \<Longrightarrow> calls P (Stat_File K p) Q2"
  "P (Req (RunCommand p args)) \<Longrightarrow> (\<And>r. (\<exists>w. r = fst (run_cmd K p args w)) \<Longrightarrow> Q8 r) \<Longrightarrow> calls P (Run_Command K p args) Q8"
  "P (Req (Print s)) \<Longrightarrow> (\<And>r. Q9 r) \<Longrightarrow> calls P (fprint s) Q9"
  "P (Req (Print (s @ newline))) \<Longrightarrow> (\<And>r. Q9 r) \<Longrightarrow> calls P (fprintln s) Q9"
  "P (Req ReadPassword) \<Longrightarrow> (\<And>r. Q11 r) \<Longrightarrow> calls P (Read_Password K) Q11"
  "P (Req Tick) \<Longrightarrow> (\<And>r. Q9 r) \<Longrightarrow> calls P tick Q9"
  unfolding kvo_prims by (rule calls_call; blast)+

lemma calls_typed [calls_rules]:
  "P (Get KServiceAccount ns n) \<Longrightarrow> (\<And>r. Q1 r) \<Longrightarrow> calls P (Get_ServiceAccount K ns n) Q1"
  "P (Get KClusterRole '''' n) \<Longrightarrow> (\<And>r. Q2 r) \<Longrightarrow> calls P (Get_ClusterRole K n) Q2"
  "P (Get KClusterRoleBinding '''' n) \<Longrightarrow> (\<And>r. Q3 r) \<Longrightarrow> calls P (Get_ClusterRoleBinding K n) Q3"
  "P (Get KDeployment ns n) \<Longrightarrow> (\<And>r. Q4 r) \<Longrightarrow> calls P (Get_Deployment K ns n) Q4"
  "P (Get KService ns n) \<Longrightarrow> (\<And>r. Q5 r) \<Longrightarrow> calls P (Get_ClusterService K ns n) Q5"
  "P (Get KWebhook '''' n) \<Longrightarrow> (\<And>r. Q6 r) \<Longrightarrow> calls P (Get_Webhook K n) Q6"
  "P (Get KStorageClass '''' n) \<Longrightarrow> (\<And>r. Q7 r) \<Longrightarrow> calls P (Get_StorageClass K n) Q7"
  "P (Req (TList ''pods'' ns)) \<Longrightarrow> (\<And>r. Q8 r) \<Longrightarrow> calls P (List_Pods K ns) Q8"
  "P (Req (TList ''persistentvolumeclaims'' ns)) \<Longrightarrow> (\<And>r. Q9 r) \<Longrightarrow> calls P (List_PVCs K ns) Q9"
  "P (Req (CreateToken ns n t)) \<Longrightarrow> (\<And>r. Q10 r) \<Longrightarrow> calls P (Create_Token K ns n t) Q10"
  "P (Req (GenerateKey b)) \<Longrightarrow> (\<And>r. Q11 r) \<Longrightarrow> calls P (Generate_Key K b) Q11"
  "P (Req (ReadFile p)) \<Longrightarrow> (\<And>r. Q11 r) \<Longrightarrow> calls P (Read_File K p) Q11"
  "P (Req (ReadDir p)) \<Longrightarrow> (\<And>r. Q12 r) \<Longrightarrow> calls P (Read_Dir K p) Q12"
  unfolding kvo_prims by (rule calls_call; blast)+

lemma calls_D_Get [calls_rules]:
  "P (Req (DGet g ns n)) \<Longrightarrow> (\<And>r. (\<exists>w. r = fst (d_get K g ns n w)) \<Longrightarrow> Q r) \<Longrightarrow> calls P (D_Get K g ns n) Q"
  unfolding kvo_prims by (rule calls_call) blast+

section \<open>A concrete instance\<close>

text \<open>Beside the operator's client, an empty cluster in which every call succeeds that can, and every program fails.\<close>

definition offline_kvo :: "'w client \<Rightarrow> 'w kvo" where
  "offline_kvo C = \<lparr>kube = C, env = (\<lambda>_. ''''), uni_quote = (\<lambda>s. s), labels_Parse = (\<lambda>_. Inr (\<lambda>_. True)),
     is_terminal = False, read_password = (\<lambda>w. (Inl (Errorf ''no terminal''), w)),
     clientConfig = (\<lambda>_ w. (Inr ''https://api'', w)), rawConfig = (\<lambda>_ w. (Inr ''admin'', w)),
     newForConfig = (\<lambda>_ w. (Inr (), w)), d_get = (\<lambda>_ _ _ w. (Inl not_found, w)), d_list = (\<lambda>_ _ w. (Inr [], w)),
     d_create = (\<lambda>_ _ _ w. (Inr (), w)), d_update = (\<lambda>_ _ _ w. (Inr (), w)), d_merge_patch = (\<lambda>_ _ _ _ w. (Inr (), w)),
     t_update = (\<lambda>_ w. (Inr (), w)), serverGroups = (\<lambda>w. (Inr [], w)), serverResources = (\<lambda>_ w. (Inr None, w)),
     storageClasses = (\<lambda>w. (Inr [], w)), deployments = (\<lambda>_ w. (Inr [], w)),
     access_review = (\<lambda>_ _ _ _ w. (Inr \<lparr>rs_Allowed = True, rs_Denied = False, rs_Reason = ''''\<rparr>, w)),
     look_path = (\<lambda>_ w. (Inr (), w)), stat_file = (\<lambda>_ w. (Inr (), w)),
     t_serviceaccount = (\<lambda>_ _ w. (Inl not_found, w)), t_clusterrole = (\<lambda>_ w. (Inl not_found, w)),
     t_clusterrolebinding = (\<lambda>_ w. (Inl not_found, w)), t_deployment = (\<lambda>_ _ w. (Inl not_found, w)),
     t_service = (\<lambda>_ _ w. (Inl not_found, w)), t_webhook = (\<lambda>_ w. (Inl not_found, w)),
     t_storageclass = (\<lambda>_ w. (Inl not_found, w)), t_pods = (\<lambda>_ w. (Inr [], w)), t_pvcs = (\<lambda>_ w. (Inr [], w)),
     create_token = (\<lambda>_ _ _ w. (Inr \<lparr>tok_Token = ''token'', tok_Expiration = Some 0\<rparr>, w)),
     rsa_generate = (\<lambda>_ w. (Inr ''key'', w)), private_pem = (\<lambda>k. ''private '' @ k),
     authorized_key = (\<lambda>k. Inr (''public '' @ k)), read_file = (\<lambda>_ w. (Inl not_found, w)),
     read_dir = (\<lambda>_ w. (Inr [], w)), yaml_docs = (\<lambda>_. ([], None)),
     decode_Namespace = (\<lambda>_. Inl (Errorf ''json'')), decode_ServiceAccount = (\<lambda>_. Inl (Errorf ''json'')),
     decode_ClusterRole = (\<lambda>_. Inl (Errorf ''json'')), decode_ClusterRoleBinding = (\<lambda>_. Inl (Errorf ''json'')),
     decode_Service = (\<lambda>_. Inl (Errorf ''json'')), decode_Deployment = (\<lambda>_. Inl (Errorf ''json'')),
     decode_Webhook = (\<lambda>_. Inl (Errorf ''json'')), yaml_map = (\<lambda>_. Inr []), map_yaml = (\<lambda>_. Inr ''''),
     valid_json = (\<lambda>_. Inr ()), route_unstructured = (\<lambda>_. Inl (Errorf ''convert'')),

     run_cmd = (\<lambda>_ _ w. ((Some (Errorf ''exit status 5''), ''''), w))\<rparr>"

definition demo_kvo :: "unit kvo" where
  "demo_kvo = offline_kvo idle_client"

end
