(* ===== verification/Platform.thy ===== *)
theory Platform imports KvoApi begin

text \<open>
  \<open>pkg/platform\<close>: connecting to the cluster, what is discovered about it (OpenShift, KubeVirt,
  the storage class to use) and the permissions a deployment needs.
\<close>

section \<open>Clients\<close>

record Clients =
  Host :: string
  c_CurrentContext :: string

definition NewClients :: "'w kvo \<Rightarrow> ('w, Clients go) io" where
  "NewClients K = (let kubeconfig = env K ''KUBECONFIG'' in
     bindE (wrapE ''load Kubernetes client configuration: '' (Client_Config K kubeconfig)) (\<lambda>host.
     bindE (wrapE ''read kubeconfig: '' (Raw_Config K kubeconfig)) (\<lambda>currentContext.
     bindE (wrapE ''create Kubernetes client: '' (New_For_Config K ''kubernetes'')) (\<lambda>_.
     bindE (wrapE ''create dynamic Kubernetes client: '' (New_For_Config K ''dynamic'')) (\<lambda>_.
     bindE (wrapE ''create discovery client: '' (New_For_Config K ''discovery'')) (\<lambda>_.
       ok \<lparr>Host = host, c_CurrentContext = currentContext\<rparr>))))))"

section \<open>Discovery\<close>

record ClusterInfo =
  CurrentContext :: string
  APIServer :: string
  OpenShift :: bool
  OpenShiftVersion :: string
  KubeVirt :: bool
  OpenShiftVirtualization :: bool
  DefaultStorageClass :: string
  RecommendedStorageClass :: string
  StorageClassReason :: string
  AllStorageClasses :: "string list"

definition clusterversions :: gvr where
  "clusterversions = GVR ''config.openshift.io'' ''v1'' ''clusterversions''"

text \<open>The type assertions on the way to \<open>status.desired.version\<close> are those of \<open>NestedString\<close>.\<close>

definition discoverOpenShift :: "'w kvo \<Rightarrow> ClusterInfo \<Rightarrow> ('w, ClusterInfo go) io" where
  "discoverOpenShift K info = do {
     resourceList \<leftarrow> Server_Resources K ''config.openshift.io/v1'';
     case resourceList of
       Inl err \<Rightarrow> ok (info\<lparr>OpenShift := False\<rparr>)
     | Inr None \<Rightarrow> ok (info\<lparr>OpenShift := False\<rparr>)
     | Inr (Some _) \<Rightarrow> do {
         clusterVersion \<leftarrow> D_Get K clusterversions '''' ''version'';
         ok (info\<lparr>OpenShift := True, OpenShiftVersion := (case clusterVersion of
             Inl err \<Rightarrow> ''unknown''
           | Inr cv \<Rightarrow> let version = NestedString [''status'', ''desired'', ''version''] cv in
               if version = '''' then ''unknown'' else version)\<rparr>) } }"

definition group_seen :: "string \<Rightarrow> ClusterInfo \<Rightarrow> ClusterInfo" where
  "group_seen g info =
     (if g = ''kubevirt.io'' then info\<lparr>KubeVirt := True\<rparr>
      else if g = ''hco.kubevirt.io'' then info\<lparr>OpenShiftVirtualization := True\<rparr>
      else info)"

definition discoverVirtualization :: "'w kvo \<Rightarrow> ClusterInfo \<Rightarrow> ('w, ClusterInfo go) io" where
  "discoverVirtualization K info =
     bindE (wrapE ''discover API groups: '' (Server_Groups K)) (\<lambda>groups.
       let info = fold group_seen groups info in
       ok (if OpenShiftVirtualization info then info\<lparr>KubeVirt := True\<rparr> else info))"

definition isDefaultStorageClass :: "smap option \<Rightarrow> bool" where
  "isDefaultStorageClass an = (an \<noteq> None \<and>
     list_ex (\<lambda>k. EqualFold (mget an k) ''true'')
       [''storageclass.kubernetes.io/is-default-class'', ''storageclass.beta.kubernetes.io/is-default-class''])"

definition class_seen :: "StorageClass \<Rightarrow> ClusterInfo \<Rightarrow> ClusterInfo" where
  "class_seen sc info =
     (let info = info\<lparr>AllStorageClasses := AllStorageClasses info @ [sc_Name sc]\<rparr> in
      if isDefaultStorageClass (sc_Annotations sc) \<and> DefaultStorageClass info = ''''
      then info\<lparr>DefaultStorageClass := sc_Name sc\<rparr> else info)"

definition recommend :: "StorageClass list \<Rightarrow> ClusterInfo \<Rightarrow> ClusterInfo" where
  "recommend scs info =
     (if DefaultStorageClass info \<noteq> '''' then
        info\<lparr>RecommendedStorageClass := DefaultStorageClass info, StorageClassReason := ''cluster default''\<rparr>
      else case List.find (\<lambda>sc. sc_Name sc = ''px-csi-db'') scs of
        Some sc \<Rightarrow> info\<lparr>RecommendedStorageClass := sc_Name sc,
                       StorageClassReason := ''recommended Portworx storage class''\<rparr>
      | None \<Rightarrow> info)"

definition discoverStorageClasses :: "'w kvo \<Rightarrow> ClusterInfo \<Rightarrow> ('w, ClusterInfo go) io" where
  "discoverStorageClasses K info =
     bindE (wrapE ''list StorageClasses: '' (Storage_Classes K)) (\<lambda>scs.
       ok (recommend scs (fold class_seen scs info)))"

definition no_info :: ClusterInfo where
  "no_info = \<lparr>CurrentContext = '''', APIServer = '''', OpenShift = False, OpenShiftVersion = '''',
     KubeVirt = False, OpenShiftVirtualization = False, DefaultStorageClass = '''',
     RecommendedStorageClass = '''', StorageClassReason = '''', AllStorageClasses = []\<rparr>"

definition DiscoverCluster :: "'w kvo \<Rightarrow> Clients \<Rightarrow> ('w, ClusterInfo go) io" where
  "DiscoverCluster K clients =
     (let info = no_info\<lparr>CurrentContext := c_CurrentContext clients, APIServer := Host clients\<rparr> in
      bindE (discoverOpenShift K info) (\<lambda>info.
      bindE (discoverVirtualization K info) (discoverStorageClasses K)))"

section \<open>Permissions\<close>

record PermissionCheck =
  pc_Name :: string
  pc_Verb :: string
  pc_Group :: string
  pc_Resource :: string
  pc_Namespace :: string
  Allowed :: bool
  Reason :: string

definition permission :: "string \<Rightarrow> string \<Rightarrow> string \<Rightarrow> string \<Rightarrow> PermissionCheck" where
  "permission name grp resource ns = \<lparr>pc_Name = name, pc_Verb = ''create'', pc_Group = grp,
     pc_Resource = resource, pc_Namespace = ns, Allowed = False, Reason = ''''\<rparr>"

definition deploy_permissions :: "PermissionCheck list" where
  "deploy_permissions = [
     permission ''Create namespaces'' '''' ''namespaces'' '''',
     permission ''Create cluster roles'' ''rbac.authorization.k8s.io'' ''clusterroles'' '''',
     permission ''Create cluster role bindings'' ''rbac.authorization.k8s.io'' ''clusterrolebindings'' '''',
     permission ''Create OLM subscriptions'' ''operators.coreos.com'' ''subscriptions'' ''openshift-operators'',
     permission ''Create secrets'' '''' ''secrets'' ''openshift-logging'',
     permission ''Create service accounts'' '''' ''serviceaccounts'' ''openshift-logging'']"

definition review_result :: "ReviewStatus \<Rightarrow> PermissionCheck \<Rightarrow> PermissionCheck" where
  "review_result st check = check\<lparr>Allowed := rs_Allowed st, Reason :=
     (if rs_Denied st \<and> rs_Reason st = '''' then ''permission denied'' else rs_Reason st)\<rparr>"

fun check_permissions :: "'w kvo \<Rightarrow> PermissionCheck list \<Rightarrow> ('w, PermissionCheck list go) io" where
  "check_permissions K [] = ok []"
| "check_permissions K (check # checks) =
     bindE (wrapE (''check permission '' @ quoted K (pc_Name check) @ '': '')
       (Access_Review K (pc_Namespace check) (pc_Verb check) (pc_Group check) (pc_Resource check))) (\<lambda>st.
     bindE (check_permissions K checks) (\<lambda>rest. ok (review_result st check # rest)))"

definition CheckDeployPermissions :: "'w kvo \<Rightarrow> ('w, PermissionCheck list go) io" where
  "CheckDeployPermissions K = check_permissions K deploy_permissions"

section \<open>The storage class\<close>

text \<open>What the folds compute: the first default class with a name, else \<open>px-csi-db\<close>.\<close>

definition default_class :: "StorageClass list \<Rightarrow> string" where
  "default_class scs = (case List.find (\<lambda>sc. isDefaultStorageClass (sc_Annotations sc) \<and> sc_Name sc \<noteq> '''') scs of
     Some sc \<Rightarrow> sc_Name sc | None \<Rightarrow> '''')"

lemma fold_class_seen:
  "DefaultStorageClass (fold class_seen scs info) =
     (if DefaultStorageClass info = '''' then default_class scs else DefaultStorageClass info)"
  "AllStorageClasses (fold class_seen scs info) = AllStorageClasses info @ map sc_Name scs"
  "RecommendedStorageClass (fold class_seen scs info) = RecommendedStorageClass info"
  by (induction scs arbitrary: info) (auto simp: class_seen_def default_class_def Let_def)

lemma recommend_spec:
  assumes "RecommendedStorageClass info = ''''" and "DefaultStorageClass info = ''''"
  shows "RecommendedStorageClass (recommend scs (fold class_seen scs info)) =
    (if default_class scs \<noteq> '''' then default_class scs
     else if ''px-csi-db'' \<in> sc_Name ` set scs then ''px-csi-db'' else '''')"
proof (cases "default_class scs = ''''")
  case True
  then have d: "DefaultStorageClass (fold class_seen scs info) = ''''" using assms by (simp add: fold_class_seen)
  show ?thesis
  proof (cases "List.find (\<lambda>sc. sc_Name sc = ''px-csi-db'') scs")
    case None
    then have "''px-csi-db'' \<notin> sc_Name ` set scs" unfolding find_None_iff by force
    with None True d assms show ?thesis by (simp add: recommend_def fold_class_seen)
  next
    case (Some sc)
    with find_SomeD [OF Some] have "sc_Name sc = ''px-csi-db''" "''px-csi-db'' \<in> sc_Name ` set scs" by force+
    with Some True d assms show ?thesis by (simp add: recommend_def)
  qed
next
  case False
  then show ?thesis using assms by (simp add: recommend_def fold_class_seen)
qed

section \<open>Nothing is written\<close>

text \<open>Calls that only read; the review of a permission creates no object, and a generated key
  is local.\<close>

definition reads :: "action \<Rightarrow> bool" where
  "reads a \<longleftrightarrow> (case a of
     Get _ _ _ \<Rightarrow> True
   | Now \<Rightarrow> True
   | Req r \<Rightarrow> (case r of DGet _ _ _ \<Rightarrow> True | DList _ _ \<Rightarrow> True | TList _ _ \<Rightarrow> True | GroupVersion _ \<Rightarrow> True
       | AccessReview _ _ _ _ \<Rightarrow> True | NewClient _ \<Rightarrow> True | LookPath _ \<Rightarrow> True | Stat _ \<Rightarrow> True
       | Print _ \<Rightarrow> True | ReadPassword \<Rightarrow> True | Tick \<Rightarrow> True
       | ReadFile _ \<Rightarrow> True | ReadDir _ \<Rightarrow> True | GenerateKey _ \<Rightarrow> True | _ \<Rightarrow> False)
   | _ \<Rightarrow> False)"

lemma reads_simps [simp]:
  "reads (Get k ns n)" "reads Now" "reads (Req (DGet r ns n))" "reads (Req (DList r ns))"
  "reads (Req (TList s ns))" "reads (Req (GroupVersion s))" "reads (Req (AccessReview ns v g s))"
  "reads (Req (NewClient s))" "reads (Req (LookPath s))" "reads (Req (Stat s))" "reads (Req (Print s))"
  "reads (Req Tick)" "reads (Req ReadPassword)" "\<not> reads (Create x)" "\<not> reads (Patch b x)" "\<not> reads (Req (DCreate r ns j))"
  "\<not> reads (Req (DUpdate r ns j))" "\<not> reads (Req (DMergePatch r ns n j))" "\<not> reads (Req (TUpdate x))"
  "\<not> reads (Req (RunCommand p args))" "reads (Req (ReadFile p))" "reads (Req (ReadDir p))"
  "reads (Req (GenerateKey bits))" "\<not> reads (Req (CreateToken ns n secs))"
  by (simp_all add: reads_def)

named_theorems reading "operations that only read"

lemma reading_prims [reading]:
  "emits reads (Client_Config K p)" "emits reads (Raw_Config K p)" "emits reads (New_For_Config K w)"
  "emits reads (D_Get K r ns n)" "emits reads (D_List K r ns)" "emits reads (Server_Groups K)"
  "emits reads (Server_Resources K gv)" "emits reads (Storage_Classes K)" "emits reads (Deployments K ns)"
  "emits reads (Access_Review K ns v g s)" "emits reads (Look_Path K p)" "emits reads (Stat_File K p)"
  "emits reads (fprint s)" "emits reads (fprintln s)" "emits reads tick"
  "emits reads (Read_Password K)" "emits reads (Get_ServiceAccount K ns n)" "emits reads (Get_ClusterRole K n)"
  "emits reads (Get_ClusterRoleBinding K n)" "emits reads (Get_Deployment K ns n)" "emits reads (Get_ClusterService K ns n)"
  "emits reads (Get_Webhook K n)" "emits reads (Get_StorageClass K n)" "emits reads (Generate_Key K b)"
  "emits reads (Read_File K p)" "emits reads (Read_Dir K p)" "emits reads (List_Pods K ns)" "emits reads (List_PVCs K ns)"
  unfolding kvo_prims by (rule emits_call; simp)+

lemma reading_NewClients [reading]: "emits reads (NewClients K)"
  unfolding NewClients_def Let_def by (intro wp reading)

lemma reading_DiscoverCluster [reading]: "emits reads (DiscoverCluster K c)"
  unfolding DiscoverCluster_def discoverOpenShift_def discoverVirtualization_def discoverStorageClasses_def Let_def
  by (intro wp reading)

lemma reading_check_permissions: "emits reads (check_permissions K cs)"
  by (induction cs) (auto intro!: wp reading)

lemma reading_CheckDeployPermissions [reading]: "emits reads (CheckDeployPermissions K)"
  unfolding CheckDeployPermissions_def by (rule reading_check_permissions)

end
