(* ===== verification/Onboarding.thy ===== *)
theory Onboarding imports Platform OsDetect GoTime begin

text \<open>
  \<open>pkg/onboarding\<close>: bringing VMs that already exist under the operator. \<open>Discover\<close> lists the
  running VMs and classifies each by its annotations, its OS label and two label selectors;
  \<open>Run\<close> prints the table, then injects the monitoring key into the guest of every VM that
  is ready, over SSH with a password, and marks the VM for the controller.
\<close>

section \<open>Data\<close>

record OnboardConfig =
  oc_Namespace :: string
  VMName :: string
  LinuxSelector :: string
  WindowsSelector :: string
  DryRun :: bool
  LinuxUser :: string
  LinuxPassword :: string
  WindowsUser :: string
  WindowsPassword :: string
  SSHPort :: int
  JumpHost :: string
  JumpUser :: string
  JumpPort :: int
  JumpKey :: string
  KeySecretNamespace :: string
  KeySecretName :: string

datatype VMState = StateReady | StateAlreadyManaged | StateInProgress | StateSkipped
  | StateConflict | StateOnboarded | StateFailed

fun state_string :: "VMState \<Rightarrow> string" where
  "state_string StateReady = ''READY TO ONBOARD''"
| "state_string StateAlreadyManaged = ''ALREADY MANAGED''"
| "state_string StateInProgress = ''IN PROGRESS''"
| "state_string StateSkipped = ''SKIPPED''"
| "state_string StateConflict = ''CONFLICT''"
| "state_string StateOnboarded = ''ONBOARDED''"
| "state_string StateFailed = ''FAILED''"

record Candidate =
  ca_Namespace :: string
  ca_Name :: string
  ca_IP :: string
  ca_OS :: string
  ca_OSSource :: string
  ca_State :: VMState
  ca_Reason :: string

definition applyDefaults :: "OnboardConfig \<Rightarrow> OnboardConfig" where
  "applyDefaults cfg = cfg\<lparr>
     SSHPort := (if SSHPort cfg = 0 then 22 else SSHPort cfg),
     JumpUser := or_default (JumpUser cfg) ''core'',
     JumpPort := (if JumpPort cfg = 0 then 22 else JumpPort cfg),
     WindowsUser := or_default (WindowsUser cfg) ''Administrator'',
     KeySecretNamespace := or_default (KeySecretNamespace cfg) ''kubevirt-observability-system'',
     KeySecretName := or_default (KeySecretName cfg) ''lin-vm-mon-secret''\<rparr>"

definition vmGVR :: gvr where
  "vmGVR = GVR ''kubevirt.io'' ''v1'' ''virtualmachines''"

definition vmiGVR :: gvr where
  "vmiGVR = GVR ''kubevirt.io'' ''v1'' ''virtualmachineinstances''"

section \<open>Classification\<close>

definition normalize_keywords :: "string list" where
  "normalize_keywords = [''linux'', ''ubuntu'', ''debian'', ''rhel'', ''centos'', ''rocky'', ''alma'',
     ''oel'', ''oracle'', ''fedora'']"

definition normalizeOS :: "string \<Rightarrow> string" where
  "normalizeOS raw = (let v = ToLower (TrimSpace raw) in
     if Contains v ''win'' then ''windows''
     else if list_ex (Contains v) normalize_keywords \<or> v = ''ol'' then ''linux''
     else '''')"

definition resolveExistingOS :: "Candidate \<Rightarrow> smap option \<Rightarrow> Candidate" where
  "resolveExistingOS c vmLabels = (let os = normalizeOS (mget vmLabels osLabel) in
     if os \<noteq> '''' then c\<lparr>ca_OS := os, ca_OSSource := ''label''\<rparr> else c)"

type_synonym selector = "(smap \<Rightarrow> bool) option"

definition parseSelector :: "'w kvo \<Rightarrow> string \<Rightarrow> selector go" where
  "parseSelector K raw = (if TrimSpace raw = '''' then Inr None
     else goE (labels_Parse K raw) (\<lambda>s. Inr (Some s)))"

definition selectorMatches :: "selector \<Rightarrow> smap \<Rightarrow> smap \<Rightarrow> bool" where
  "selectorMatches selector vmLabels vmiLabels = (case selector of
     None \<Rightarrow> False
   | Some matches \<Rightarrow> matches vmLabels \<or> matches vmiLabels)"

definition first_ip :: "gval \<Rightarrow> string" where
  "first_ip vmi = (case fst (NestedSlice [''status'', ''interfaces''] vmi) of
     GMap m # _ \<Rightarrow> (case map_of m ''ipAddress'' of Some (GString ip) \<Rightarrow> ip | _ \<Rightarrow> '''')
   | _ \<Rightarrow> '''')"

text \<open>The OS that the label or a matching selector gives, with its source.\<close>

definition with_os :: "string \<Rightarrow> bool \<Rightarrow> bool \<Rightarrow> Candidate \<Rightarrow> Candidate" where
  "with_os existingOS linuxMatch windowsMatch c =
     (if existingOS \<noteq> '''' then c\<lparr>ca_OS := existingOS, ca_OSSource := ''label''\<rparr>
      else if linuxMatch then c\<lparr>ca_OS := ''linux'', ca_OSSource := ''selector''\<rparr>
      else if windowsMatch then c\<lparr>ca_OS := ''windows'', ca_OSSource := ''selector''\<rparr>
      else c)"

definition in_state :: "VMState \<Rightarrow> string \<Rightarrow> Candidate \<Rightarrow> Candidate" where
  "in_state st reason c = c\<lparr>ca_State := st, ca_Reason := reason\<rparr>"

definition managed_state :: "smap option \<Rightarrow> Candidate \<Rightarrow> Candidate" where
  "managed_state an c =
     (if mget an AnnRemediationCompleted = ''true'' then in_state StateAlreadyManaged ''onboarding completed'' c
      else if mget an AnnStatus = ''skipped'' \<and> mget an AnnReason = ''missing-os-label'' then
        (if ca_OS c = ''unknown'' then in_state StateSkipped ''OS could not be determined'' c
         else in_state StateReady ''recover skipped VM'' c)
      else in_state StateInProgress ''already managed'' c)"

text \<open>The argument \<open>cfg\<close> of the source is not used there.\<close>

definition classifyVM :: "gval \<Rightarrow> gval \<Rightarrow> selector \<Rightarrow> selector \<Rightarrow> Candidate" where
  "classifyVM vm vmi linuxSelector windowsSelector = (let
     c = \<lparr>ca_Namespace = GetNamespace vm, ca_Name = GetName vm, ca_IP = first_ip vmi, ca_OS = ''unknown'',
          ca_OSSource = ''-'', ca_State = StateReady, ca_Reason = ''''\<rparr>;
     an = GetAnnotations vm in
     if mget an AnnDisableMonitoring = ''true'' then in_state StateSkipped ''monitoring disabled'' c
     else let
       vmLabels = non_nil (GetLabels vm); vmiLabels = non_nil (GetLabels vmi);
       linuxMatch = selectorMatches linuxSelector vmLabels vmiLabels;
       windowsMatch = selectorMatches windowsSelector vmLabels vmiLabels in
     if linuxMatch \<and> windowsMatch then in_state StateConflict ''matches both Linux and Windows selectors'' c
     else let
       existingOS = normalizeOS (mget (GetLabels vm) osLabel);
       c = with_os existingOS linuxMatch windowsMatch c in
     if existingOS \<noteq> '''' \<and> linuxMatch \<and> existingOS \<noteq> ''linux'' then
       in_state StateConflict ''existing OS label conflicts with Linux selector'' c
     else if existingOS \<noteq> '''' \<and> windowsMatch \<and> existingOS \<noteq> ''windows'' then
       in_state StateConflict ''existing OS label conflicts with Windows selector'' c
     else if mget an AnnBootstrapManaged = ''true'' then managed_state an c
     else if ca_OS c \<noteq> ''unknown'' then c
     else in_state StateSkipped ''OS could not be determined'' c)"

section \<open>Discovery\<close>

definition is_running :: "OnboardConfig \<Rightarrow> gval \<Rightarrow> bool" where
  "is_running cfg vmi \<longleftrightarrow> NestedString [''status'', ''phase''] vmi = ''Running''
     \<and> (VMName cfg = '''' \<or> GetName vmi = VMName cfg)"

fun classify_all :: "'w kvo \<Rightarrow> OnboardConfig \<Rightarrow> selector \<Rightarrow> selector \<Rightarrow> gval list \<Rightarrow> ('w, Candidate list go) io" where
  "classify_all K cfg ls ws [] = ok []"
| "classify_all K cfg ls ws (vmi # vmis) =
     (if \<not> is_running cfg vmi then classify_all K cfg ls ws vmis
      else let ns = GetNamespace vmi; name = GetName vmi in
        bindE (wrapE (''get VirtualMachine '' @ ns @ ''/'' @ name @ '': '') (D_Get K vmGVR ns name)) (\<lambda>vm.
        bindE (classify_all K cfg ls ws vmis) (\<lambda>cs. ok (classifyVM vm vmi ls ws # cs))))"

text \<open>\<open>sort.Slice\<close> by namespace, then name. Both are different for different VMs, so the order
  it leaves open between equal keys does not matter.\<close>

definition sort_candidates :: "Candidate list \<Rightarrow> Candidate list" where
  "sort_candidates cs = sort_key (\<lambda>c. [ca_Namespace c, ca_Name c]) cs"

definition Discover :: "'w kvo \<Rightarrow> OnboardConfig \<Rightarrow> ('w, Candidate list go) io" where
  "Discover K cfg = (case parseSelector K (LinuxSelector cfg) of
       Inl err \<Rightarrow> fail (Wrapf ''invalid --linux-selector: '' err)
     | Inr ls \<Rightarrow> (case parseSelector K (WindowsSelector cfg) of
       Inl err \<Rightarrow> fail (Wrapf ''invalid --windows-selector: '' err)
     | Inr ws \<Rightarrow>
         bindE (wrapE ''list VirtualMachineInstances: '' (D_List K vmiGVR (oc_Namespace cfg))) (\<lambda>vmis.
         bindE (classify_all K cfg ls ws vmis) (\<lambda>cs. ok (sort_candidates cs)))))"

section \<open>The guest\<close>

definition monitoringPublicKey :: "'w kvo \<Rightarrow> OnboardConfig \<Rightarrow> ('w, string go) io" where
  "monitoringPublicKey K cfg = (let at = KeySecretNamespace cfg @ ''/'' @ KeySecretName cfg in
     bindE (wrapE (''read monitoring SSH secret '' @ at @ '': '')
              (Get_Secret (kube K) (KeySecretNamespace cfg) (KeySecretName cfg))) (\<lambda>secret.
       let key = TrimSpace (mget (sec_Data secret) ''id_rsa.pub'') in
       if key = '''' then fail (Errorf (''monitoring SSH secret '' @ at @ '' has no id_rsa.pub''))
       else ok key))"

definition ssh_options :: "int \<Rightarrow> string list" where
  "ssh_options port = [''-p'', Itoa port, ''-o'', ''StrictHostKeyChecking=no'', ''-o'', ''UserKnownHostsFile=/dev/null'',
     ''-o'', ''ConnectTimeout=10'', ''-o'', ''ServerAliveInterval=5'', ''-o'', ''ServerAliveCountMax=2'']"

definition baseSSHArgs :: "'w kvo \<Rightarrow> OnboardConfig \<Rightarrow> ('w, string list go) io" where
  "baseSSHArgs K cfg = (let
     args = ssh_options (if SSHPort cfg = 0 then 22 else SSHPort cfg);
     jumpPort = (if JumpPort cfg = 0 then 22 else JumpPort cfg);
     jumpTarget = or_default (JumpUser cfg) ''core'' @ ''@'' @ JumpHost cfg in
     if JumpHost cfg = '''' then ok args
     else if JumpKey cfg \<noteq> '''' then
       bindE (wrapE (''OCP jump host key '' @ quoted K (JumpKey cfg) @ '': '') (Stat_File K (JumpKey cfg))) (\<lambda>_.
         ok (args @ [''-o'', ''ProxyCommand=ssh -i '' @ JumpKey cfg @ '' -p '' @ Itoa jumpPort
           @ '' -o StrictHostKeyChecking=no -o UserKnownHostsFile=/dev/null -o ConnectTimeout=10 -W %h:%p '' @ jumpTarget]))
     else ok (args @ [''-o'', ''ProxyJump='' @ jumpTarget @ '':'' @ Itoa jumpPort]))"

definition runPasswordSSH ::
  "'w kvo \<Rightarrow> OnboardConfig \<Rightarrow> string \<Rightarrow> string \<Rightarrow> string \<Rightarrow> string \<Rightarrow> ('w, unit go) io" where
  "runPasswordSSH K cfg user password ip remoteCommand = do {
     found \<leftarrow> Look_Path K ''sshpass'';
     case found of
       Inl err \<Rightarrow> fail (Errorf ''sshpass is required for existing VM onboarding'')
     | Inr _ \<Rightarrow> bindE (baseSSHArgs K cfg) (\<lambda>args. do {
         (err, output) \<leftarrow> Run_Command K ''sshpass''
           ([''-p'', password, ''ssh''] @ args @ [user @ ''@'' @ ip, remoteCommand]);
         case err of
           Some e \<Rightarrow> fail (suffixed ''SSH bootstrap failed: '' e ('': '' @ TrimSpace output))
         | None \<Rightarrow> ok () }) }"

definition shellSingleQuote :: "string \<Rightarrow> string" where
  "shellSingleQuote value = squote @ ReplaceAll value squote (squote @ [dquote] @ squote @ [dquote] @ squote) @ squote"

definition linux_key_before :: string where
  "linux_key_before = newline @ unlines [
     ''set -e'',
     ''mkdir -p ~/.ssh'',
     ''chmod 700 ~/.ssh'',
     ''touch ~/.ssh/authorized_keys''] @ ''grep -qxF ''"

definition linux_key_between :: string where
  "linux_key_between = '' ~/.ssh/authorized_keys ||'' @ newline @ ''  echo ''"

definition linux_key_after :: string where
  "linux_key_after = unlines [
     '' >> ~/.ssh/authorized_keys'',
     ''chmod 600 ~/.ssh/authorized_keys'',
     '''',
     ''if command -v firewall-cmd >/dev/null 2>&1; then'',
     ''  firewall-cmd --permanent --add-port=22/tcp || true'',
     ''  firewall-cmd --permanent --add-port=9100/tcp || true'',
     ''  firewall-cmd --reload || true'',
     ''fi'']"

definition linux_key_command :: "string \<Rightarrow> string" where
  "linux_key_command key = linux_key_before @ key @ linux_key_between @ key @ linux_key_after"

definition injectLinuxKey ::
  "'w kvo \<Rightarrow> OnboardConfig \<Rightarrow> string \<Rightarrow> string \<Rightarrow> string \<Rightarrow> string \<Rightarrow> ('w, unit go) io" where
  "injectLinuxKey K cfg ip user password publicKey =
     runPasswordSSH K cfg user password ip (linux_key_command (shellSingleQuote publicKey))"

definition in_squotes :: "string \<Rightarrow> string" where
  "in_squotes s = squote @ s @ squote"

definition windows_key_before :: string where
  "windows_key_before =
     ''powershell.exe -NoProfile -ExecutionPolicy Bypass -Command '' @ [dquote]
     @ ''$authKeys='' @ in_squotes (''C:'' @ bslash @ ''ProgramData'' @ bslash @ ''ssh'' @ bslash @ ''administrators_authorized_keys'') @ ''; ''
     @ ''New-Item -ItemType Directory -Force -Path '' @ in_squotes (''C:'' @ bslash @ ''ProgramData'' @ bslash @ ''ssh'') @ '' | Out-Null; ''
     @ ''if (!(Test-Path $authKeys)) { New-Item -ItemType File -Force -Path $authKeys | Out-Null }; ''
     @ ''$key=''"

definition windows_key_after :: string where
  "windows_key_after =
     ''; ''
     @ ''if (-not (Select-String -Path $authKeys -SimpleMatch $key -Quiet)) { Add-Content -Path $authKeys -Value $key }; ''
     @ ''icacls $authKeys /inheritance:r | Out-Null; ''
     @ ''icacls $authKeys /grant '' @ in_squotes ''Administrators:F'' @ '' | Out-Null; ''
     @ ''icacls $authKeys /grant '' @ in_squotes ''SYSTEM:F'' @ '' | Out-Null; ''
     @ ''Set-Service sshd -StartupType Automatic; ''
     @ ''Start-Service sshd'' @ [dquote]"

definition windows_key_command :: "string \<Rightarrow> string" where
  "windows_key_command escapedKey = windows_key_before @ in_squotes escapedKey @ windows_key_after"

definition injectWindowsKey ::
  "'w kvo \<Rightarrow> OnboardConfig \<Rightarrow> string \<Rightarrow> string \<Rightarrow> string \<Rightarrow> string \<Rightarrow> ('w, unit go) io" where
  "injectWindowsKey K cfg ip user password publicKey =
     runPasswordSSH K cfg user password ip (windows_key_command (ReplaceAll publicKey squote (squote @ squote)))"

definition bootstrapGuest :: "'w kvo \<Rightarrow> OnboardConfig \<Rightarrow> Candidate \<Rightarrow> string \<Rightarrow> ('w, unit go) io" where
  "bootstrapGuest K cfg c publicKey =
     (if ca_OS c = ''linux'' then
        (if LinuxUser cfg = '''' \<or> LinuxPassword cfg = '''' then
           fail (Errorf ''KVO_LINUX_USER/KVO_LINUX_PASSWORD not configured'')
         else injectLinuxKey K cfg (ca_IP c) (LinuxUser cfg) (LinuxPassword cfg) publicKey)
      else if ca_OS c = ''windows'' then
        (if WindowsUser cfg = '''' \<or> WindowsPassword cfg = '''' then
           fail (Errorf ''KVO_WINDOWS_USER/KVO_WINDOWS_PASSWORD not configured'')
         else injectWindowsKey K cfg (ca_IP c) (WindowsUser cfg) (WindowsPassword cfg) publicKey)
      else fail (Errorf (''unsupported OS '' @ quoted K (ca_OS c))))"

section \<open>The mark for the controller\<close>

text \<open>\<open>Format("20060102150405")\<close> of a time in UTC.\<close>

definition format_stamp :: "int \<Rightarrow> string" where
  "format_stamp t = (let s = t div second; sod = s mod 86400 in
     case civil_of_days (s div 86400) of (y, m, d) \<Rightarrow>
       appendInt y 4 @ appendInt m 2 @ appendInt d 2
       @ appendInt (sod div 3600) 2 @ appendInt (sod div 60 mod 60) 2 @ appendInt (sod mod 60) 2)"

definition mark_labels :: "'w kvo \<Rightarrow> Candidate \<Rightarrow> smap \<Rightarrow> smap go" where
  "mark_labels K c labels =
     (if ca_OSSource c = ''selector'' then
        let os = mget (Some labels) osLabel; existing = normalizeOS os in
        if existing \<noteq> '''' \<and> existing \<noteq> ca_OS c then
          Inl (Errorf (''refusing to overwrite conflicting kubevirt.io/os='' @ quoted K os))
        else if os = '''' then Inr (fmupd osLabel (ca_OS c) labels)
        else Inr labels
      else Inr labels)"

definition requested :: "int \<Rightarrow> smap \<Rightarrow> smap" where
  "requested now m = fmupd AnnReconcileAt (format_stamp now)
     (fmupd AnnSSHBootstrapComplete ''true'' (fmupd AnnRemediationRequired ''true''
     (fmupd AnnLoggingEnabled ''true'' (fmupd AnnBootstrapManaged ''true'' m))))"

definition drop_skipped :: "smap \<Rightarrow> smap" where
  "drop_skipped m = (if mget (Some m) AnnReason = ''missing-os-label''
     then fmdrop AnnExporter (fmdrop AnnBootstrapOS (fmdrop AnnStatus (fmdrop AnnReason m))) else m)"

definition metadata_patch :: "smap \<Rightarrow> smap \<Rightarrow> gval" where
  "metadata_patch labels annotations =
     GMap [(''metadata'', GMap [(''annotations'', of_smap annotations), (''labels'', of_smap labels)])]"

text \<open>Marshalling a map of strings does not fail; the patch is the value that is sent.\<close>

definition markVMReadyForReconciliation :: "'w kvo \<Rightarrow> Candidate \<Rightarrow> ('w, unit go) io" where
  "markVMReadyForReconciliation K c = (let at = ca_Namespace c @ ''/'' @ ca_Name c in
     bindE (wrapE (''get VM '' @ at @ '' before patch: '') (D_Get K vmGVR (ca_Namespace c) (ca_Name c))) (\<lambda>vm.
     case mark_labels K c (non_nil (GetLabels vm)) of
       Inl err \<Rightarrow> fail err
     | Inr labels \<Rightarrow> do {
         now \<leftarrow> Time_Now (kube K);
         wrapE (''patch VM '' @ at @ '': '')
           (D_Merge_Patch K vmGVR (ca_Namespace c) (ca_Name c)
             (metadata_patch labels (drop_skipped (requested now (non_nil (GetAnnotations vm)))))) }))"

section \<open>Run\<close>

definition table_line :: "string \<Rightarrow> string \<Rightarrow> string \<Rightarrow> string \<Rightarrow> string \<Rightarrow> string" where
  "table_line ns vm os source status = pad_right 45 ns @ '' '' @ pad_right 30 vm @ '' '' @ pad_right 10 os @ '' ''
     @ pad_right 10 source @ '' '' @ status @ newline"

definition candidate_line :: "Candidate \<Rightarrow> string" where
  "candidate_line c = table_line (ca_Namespace c) (ca_Name c) (ca_OS c) (ca_OSSource c)
     (state_string (ca_State c) @ (if ca_Reason c \<noteq> '''' then '' - '' @ ca_Reason c else ''''))"

fun print_all :: "string list \<Rightarrow> ('w, unit) io" where
  "print_all [] = ret ()"
| "print_all (s # ss) = do { _ \<leftarrow> fprint s; print_all ss }"

definition number :: "nat \<Rightarrow> string" where
  "number n = Itoa (int n)"

definition in_states :: "VMState list \<Rightarrow> Candidate list \<Rightarrow> nat" where
  "in_states sts cs = length (filter (\<lambda>c. ca_State c \<in> set sts) cs)"

definition counts :: "Candidate list \<Rightarrow> string list" where
  "counts cs = [newline, ''Summary:'' @ newline,
     ''  Running VMs:       '' @ number (length cs) @ newline,
     ''  Ready to onboard:  '' @ number (in_states [StateReady] cs) @ newline,
     ''  Already managed:   '' @ number (in_states [StateAlreadyManaged] cs) @ newline,
     ''  In progress:       '' @ number (in_states [StateInProgress] cs) @ newline,
     ''  Conflicts:         '' @ number (in_states [StateConflict] cs) @ newline,
     ''  Skipped:           '' @ number (in_states [StateSkipped, StateOnboarded, StateFailed] cs) @ newline]"

definition onboarding_failed :: "string \<Rightarrow> ('w, bool) io" where
  "onboarding_failed reason = do { _ \<leftarrow> fprintln (''  FAILED: '' @ reason); ret False }"

text \<open>One turn of the loop for a candidate that is ready: whether it was onboarded. The state
  and the reason the source stores in the candidate are not read again.\<close>

definition onboard :: "'w kvo \<Rightarrow> OnboardConfig \<Rightarrow> string \<Rightarrow> Candidate \<Rightarrow> ('w, bool) io" where
  "onboard K cfg publicKey c = do {
     _ \<leftarrow> fprintln (''Onboarding '' @ ca_Namespace c @ ''/'' @ ca_Name c @ '' ('' @ ca_OS c @ '', '' @ ca_IP c @ '')...'');
     if ca_IP c = '''' \<or> ca_IP c = ''10.0.2.2'' then onboarding_failed ''invalid VM IP''
     else do {
       r \<leftarrow> bootstrapGuest K cfg c publicKey;
       case r of
         Inl err \<Rightarrow> onboarding_failed (Error err)
       | Inr _ \<Rightarrow> do {
           r \<leftarrow> markVMReadyForReconciliation K c;
           case r of
             Inl err \<Rightarrow> onboarding_failed (Error err)
           | Inr _ \<Rightarrow> do { _ \<leftarrow> fprintln ''  ONBOARDED''; ret True } } } }"

fun onboard_all :: "'w kvo \<Rightarrow> OnboardConfig \<Rightarrow> string \<Rightarrow> Candidate list \<Rightarrow> nat \<Rightarrow> nat \<Rightarrow> ('w, nat \<times> nat) io" where
  "onboard_all K cfg key [] onboarded failed = ret (onboarded, failed)"
| "onboard_all K cfg key (c # cs) onboarded failed =
     (if ca_State c \<noteq> StateReady then onboard_all K cfg key cs onboarded failed
      else do {
        done \<leftarrow> onboard K cfg key c;
        if done then onboard_all K cfg key cs (Suc onboarded) failed
        else onboard_all K cfg key cs onboarded (Suc failed) })"

definition execute :: "'w kvo \<Rightarrow> OnboardConfig \<Rightarrow> Candidate list \<Rightarrow> ('w, unit go) io" where
  "execute K cfg candidates = bindE (monitoringPublicKey K cfg) (\<lambda>publicKey. do {
     _ \<leftarrow> print_all [newline, ''Executing onboarding...'' @ newline, newline];
     (onboarded, failed) \<leftarrow> onboard_all K cfg publicKey candidates 0 0;
     _ \<leftarrow> print_all [newline, ''Execution summary:'' @ newline,
       ''  Onboarded: '' @ number onboarded @ newline, ''  Failed:    '' @ number failed @ newline];
     if failed > 0 then fail (Errorf (number failed @ '' VM(s) failed onboarding'')) else ok () })"

definition Run :: "'w kvo \<Rightarrow> OnboardConfig \<Rightarrow> ('w, unit go) io" where
  "Run K cfg = (let cfg = applyDefaults cfg in
     bindE (wrapE ''create Kubernetes clients: '' (NewClients K)) (\<lambda>_.
     bindE (Discover K cfg) (\<lambda>candidates. do {
       _ \<leftarrow> print_all [''KubeVirt Observability Existing VM Onboarding'' @ newline, newline];
       _ \<leftarrow> print_all (if DryRun cfg then [''DRY RUN - no changes will be made'' @ newline, newline] else []);
       if candidates = [] then do { _ \<leftarrow> fprintln ''No running VMs found.''; ok () }
       else do {
         _ \<leftarrow> fprint (table_line ''NAMESPACE'' ''VM'' ''OS'' ''SOURCE'' ''STATUS'');
         _ \<leftarrow> print_all (map candidate_line candidates);
         _ \<leftarrow> print_all (counts candidates);
         if DryRun cfg \<or> in_states [StateReady] candidates = 0 then ok ()
         else execute K cfg candidates } })))"

end
