(* ===== verification/OnboardingProps.thy ===== *)
theory OnboardingProps imports Onboarding VMController begin

text \<open>
  What holds of the onboarding command: which VMs it takes for ready, what it touches, that
  the guest's shell reads the key it is given, and what the controller makes of a VM that
  was onboarded.
\<close>

section \<open>The second classifier\<close>

lemma is_space_lower [simp]: "is_space (lower_char c) = is_space c"
proof (cases "65 \<le> (of_char c :: nat) \<and> (of_char c :: nat) \<le> 90")
  case True
  then have "(of_char c :: nat) \<in> set [65..<91]" by (simp only: set_upt atLeastLessThan_iff) arith
  then have "c \<in> set (map char_of [65..<91::nat])" unfolding set_map by (metis char_of_char image_eqI)
  moreover have "list_all (\<lambda>c. \<not> is_space (lower_char c) \<and> \<not> is_space c) (map char_of [65..<91::nat])"
    by code_simp
  ultimately show ?thesis by (auto simp: list_all_iff)
next
  case False
  then have "lower_char c = c" unfolding lower_char_def by argo
  then show ?thesis by simp
qed

lemma ToLower_TrimSpace: "ToLower (TrimSpace s) = TrimSpace (ToLower s)"
proof -
  have d: "map lower_char (dropWhile is_space t) = dropWhile is_space (map lower_char t)" for t
    by (simp add: dropWhile_map o_def)
  show ?thesis unfolding TrimSpace_def ToLower_def by (simp only: rev_map d [symmetric])
qed

lemma Contains_dropWhile_eq:
  assumes "p \<noteq> []" and "\<not> list_ex P p"
  shows "Contains (dropWhile P s) p = Contains s p"
proof (induction s)
  case (Cons c s)
  show ?case
  proof (cases "P c")
    case True
    with assms have "\<not> HasPrefix (c # s) p" by (cases p) auto
    with True Cons show ?thesis by simp
  qed simp
qed simp

lemma Contains_rev_eq: "Contains (rev s) (rev p) = Contains s p"
proof -
  have "Contains s p \<Longrightarrow> Contains (rev s) (rev p)" for s p
    unfolding Contains_iff by (metis append.assoc rev_append)
  then show ?thesis by (metis rev_rev_ident)
qed

lemma Contains_TrimSpace_eq:
  assumes "p \<noteq> []" and "\<not> list_ex is_space p"
  shows "Contains (TrimSpace s) p = Contains s p"
proof -
  let ?t = "dropWhile is_space s"
  have "Contains (TrimSpace s) p = Contains (rev (TrimSpace s)) (rev p)" by (simp add: Contains_rev_eq)
  also have "\<dots> = Contains (dropWhile is_space (rev ?t)) (rev p)" by (simp add: TrimSpace_def)
  also have "\<dots> = Contains (rev ?t) (rev p)"
    by (rule Contains_dropWhile_eq) (use assms in \<open>simp_all add: list_ex_iff\<close>)
  also have "\<dots> = Contains s p" using assms by (simp add: Contains_rev_eq Contains_dropWhile_eq)
  finally show ?thesis .
qed

text \<open>The keyword that makes a lower-case label a Linux one for \<open>kvoctl\<close>.\<close>

definition normalize_linux :: "string \<Rightarrow> bool" where
  "normalize_linux l \<longleftrightarrow> list_ex (Contains l) normalize_keywords \<or> TrimSpace l = ''ol''"

lemma keywords_solid: "list_all (\<lambda>k. k \<noteq> [] \<and> \<not> list_ex is_space k) (''win'' # normalize_keywords)"
  by code_simp

lemma normalizeOS_eq:
  "normalizeOS s = (if Contains (ToLower s) ''win'' then ''windows''
     else if normalize_linux (ToLower s) then ''linux'' else '''')"
proof -
  have k: "Contains (ToLower (TrimSpace s)) k = Contains (ToLower s) k" if "k \<in> set (''win'' # normalize_keywords)" for k
    unfolding ToLower_TrimSpace
    by (rule Contains_TrimSpace_eq) (use that keywords_solid in \<open>auto simp: list_all_iff\<close>)
  then have "list_ex (Contains (ToLower (TrimSpace s))) normalize_keywords = list_ex (Contains (ToLower s)) normalize_keywords"
    by (intro list_ex_cong refl) simp
  with k [of "''win''"] show ?thesis
    by (simp add: normalizeOS_def normalize_linux_def Let_def ToLower_TrimSpace)
qed

interpretation no: keyword_classifier normalizeOS "''windows''" "''''" normalize_linux
  by unfold_locales (simp_all add: normalizeOS_eq)

text \<open>The classifiers agree where the operator's knows the label.\<close>

lemma linux_keywords_subset: "set linux_keywords \<subseteq> set normalize_keywords"
  by code_simp

lemma normalizeOS_known:
  "classify_label s \<noteq> Unknown \<Longrightarrow> normalizeOS s = family_string (classify_label s)"
  using linux_keywords_subset
  by (auto simp: classify_label_def normalizeOS_eq normalize_linux_def Let_def list_ex_iff split: if_splits)

lemma normalizeOS_cases: "normalizeOS s \<in> {'''', ''linux'', ''windows''}"
  by (simp add: normalizeOS_eq)

section \<open>Which VMs are ready\<close>

definition matches_vm :: "selector \<Rightarrow> gval \<Rightarrow> gval \<Rightarrow> bool" where
  "matches_vm sel vm vmi = selectorMatches sel (non_nil (GetLabels vm)) (non_nil (GetLabels vmi))"

definition the_label :: "gval \<Rightarrow> string" where
  "the_label vm = mget (GetLabels vm) osLabel"

text \<open>The OS that label and selectors determine, if they determine one without contradiction.\<close>

definition determined_os :: "gval \<Rightarrow> gval \<Rightarrow> selector \<Rightarrow> selector \<Rightarrow> string \<Rightarrow> bool" where
  "determined_os vm vmi ls ws os \<longleftrightarrow> os \<in> {''linux'', ''windows''}
     \<and> (matches_vm ls vm vmi \<longrightarrow> os = ''linux'') \<and> (matches_vm ws vm vmi \<longrightarrow> os = ''windows'')
     \<and> (normalizeOS (the_label vm) = os
        \<or> normalizeOS (the_label vm) = '''' \<and> (matches_vm ls vm vmi \<or> matches_vm ws vm vmi))"

text \<open>A VM whose bootstrap nobody has under way: unmanaged, or skipped for want of an OS label.\<close>

definition unattended :: "smap option \<Rightarrow> bool" where
  "unattended an \<longleftrightarrow> mget an AnnBootstrapManaged \<noteq> ''true''
     \<or> mget an AnnRemediationCompleted \<noteq> ''true'' \<and> mget an AnnStatus = ''skipped'' \<and> mget an AnnReason = ''missing-os-label''"

lemma in_state_simps [simp]:
  "ca_State (in_state st r c) = st" "ca_OS (in_state st r c) = ca_OS c" "ca_IP (in_state st r c) = ca_IP c"
  "ca_Namespace (in_state st r c) = ca_Namespace c" "ca_Name (in_state st r c) = ca_Name c"
  "ca_Reason (in_state st r c) = r" "ca_OSSource (in_state st r c) = ca_OSSource c"
  by (simp_all add: in_state_def)

lemma with_os_simps [simp]:
  "ca_Namespace (with_os e l w c) = ca_Namespace c" "ca_Name (with_os e l w c) = ca_Name c"
  "ca_IP (with_os e l w c) = ca_IP c" "ca_State (with_os e l w c) = ca_State c"
  by (simp_all add: with_os_def)

lemma managed_state_simps [simp]:
  "ca_Namespace (managed_state an c) = ca_Namespace c" "ca_Name (managed_state an c) = ca_Name c"
  "ca_IP (managed_state an c) = ca_IP c" "ca_OS (managed_state an c) = ca_OS c"
  "ca_OSSource (managed_state an c) = ca_OSSource c"
  "ca_State (managed_state an c) = StateReady \<longleftrightarrow> mget an AnnRemediationCompleted \<noteq> ''true''
     \<and> mget an AnnStatus = ''skipped'' \<and> mget an AnnReason = ''missing-os-label'' \<and> ca_OS c \<noteq> ''unknown''"
  by (auto simp: managed_state_def)

lemma classifyVM_identity [simp]:
  "ca_Namespace (classifyVM vm vmi ls ws) = GetNamespace vm" "ca_Name (classifyVM vm vmi ls ws) = GetName vm"
  "ca_IP (classifyVM vm vmi ls ws) = first_ip vmi"
  by (simp_all add: classifyVM_def Let_def)

lemma classifyVM_fresh: "ca_State (classifyVM vm vmi ls ws) \<notin> {StateOnboarded, StateFailed}"
  by (simp add: classifyVM_def Let_def managed_state_def)

text \<open>
  C20. The classification of a running VM. It is ready exactly when monitoring is not disabled
  for it, its label and the selectors determine one OS without contradiction, and nobody
  has its bootstrap under way or done: it is unmanaged, or the controller skipped it for
  want of an OS label. The candidate then carries that OS, and the address of the VM's
  first interface.
\<close>
theorem classifyVM_ready_iff:
  "ca_State (classifyVM vm vmi ls ws) = StateReady \<longleftrightarrow>
     mget (GetAnnotations vm) AnnDisableMonitoring \<noteq> ''true'' \<and> unattended (GetAnnotations vm)
     \<and> determined_os vm vmi ls ws (ca_OS (classifyVM vm vmi ls ws))"
proof -
  consider (none) "normalizeOS (the_label vm) = ''''" | (linux) "normalizeOS (the_label vm) = ''linux''"
    | (windows) "normalizeOS (the_label vm) = ''windows''" using normalizeOS_cases by blast
  then show ?thesis
  proof cases
    case none
    then show ?thesis
      by (simp add: classifyVM_def Let_def with_os_def determined_os_def unattended_def the_label_def matches_vm_def)
  next
    case linux
    then show ?thesis
      by (simp add: classifyVM_def Let_def with_os_def determined_os_def unattended_def the_label_def matches_vm_def)
  next
    case windows
    then show ?thesis
      by (simp add: classifyVM_def Let_def with_os_def determined_os_def unattended_def the_label_def matches_vm_def)
  qed
qed

section \<open>What the guest reads\<close>

text \<open>
  A word of a POSIX shell, from its start to the blank or line end that ends it: quotes are
  removed, and what a shell would expand or treat as an operator has no reading here.
\<close>

datatype quoting = Bare | Single | Double

definition shell_special :: "char list" where
  "shell_special = ''$`|&;<>()*?[#~=%'' @ bslash"

fun sh_word :: "quoting \<Rightarrow> string \<Rightarrow> (string \<times> string) option" where
  "sh_word Bare [] = Some ([], [])"
| "sh_word Single [] = None"
| "sh_word Double [] = None"
| "sh_word Bare (c # cs) =
     (if c = CHR 0x27 then sh_word Single cs
      else if c = dquote then sh_word Double cs
      else if is_space c then Some ([], c # cs)
      else if c \<in> set shell_special then None
      else map_option (apfst (Cons c)) (sh_word Bare cs))"
| "sh_word Single (c # cs) =
     (if c = CHR 0x27 then sh_word Bare cs else map_option (apfst (Cons c)) (sh_word Single cs))"
| "sh_word Double (c # cs) =
     (if c = dquote then sh_word Bare cs
      else if c \<in> set (''$`'' @ bslash) then None
      else map_option (apfst (Cons c)) (sh_word Double cs))"

text \<open>The rest of a PowerShell string in single quotes, after its opening quote.\<close>

fun ps_single :: "string \<Rightarrow> (string \<times> string) option" where
  "ps_single [] = None"
| "ps_single (c # cs) =
     (if c \<noteq> CHR 0x27 then map_option (apfst (Cons c)) (ps_single cs)
      else (case cs of
          [] \<Rightarrow> Some ([], [])
        | d # ds \<Rightarrow> if d = CHR 0x27 then map_option (apfst (Cons d)) (ps_single ds) else Some ([], cs)))"

lemma ReplaceAll_char:
  "ReplaceAll (c # cs) [p] r = (if c = p then r else [c]) @ ReplaceAll cs [p] r" "ReplaceAll [] [p] r = []"
  by (simp_all add: ReplaceAll.simps)

lemma dquote_squote [simp]: "dquote \<noteq> CHR 0x27" "CHR 0x27 \<noteq> dquote"
  by (simp_all add: dquote_def)

lemma sh_word_single:
  "sh_word Single (ReplaceAll v squote (squote @ [dquote] @ squote @ [dquote] @ squote) @ squote @ rest) =
     map_option (apfst (append v)) (sh_word Bare rest)"
  by (induction v)
    (auto simp: squote_def ReplaceAll_char bslash_def option.map_comp o_def apfst_def map_prod_def split_beta option.map_id0 [unfolded id_def])

lemma shellSingleQuote_word:
  "sh_word Bare (shellSingleQuote v @ rest) = map_option (apfst (append v)) (sh_word Bare rest)"
proof -
  have "sh_word Bare (shellSingleQuote v @ rest) =
    sh_word Single (ReplaceAll v squote (squote @ [dquote] @ squote @ [dquote] @ squote) @ squote @ rest)"
    by (simp add: shellSingleQuote_def squote_def)
  then show ?thesis by (simp only: sh_word_single)
qed

lemma ps_single_escaped:
  "rest \<noteq> [] \<Longrightarrow> hd rest \<noteq> CHR 0x27 \<Longrightarrow> ps_single (ReplaceAll v squote (squote @ squote) @ squote @ rest) = Some (v, rest)"
proof (induction v)
  case Nil
  then show ?case by (cases rest) (simp_all add: squote_def ReplaceAll_char)
qed (simp add: squote_def ReplaceAll_char)

lemma count_ReplaceAll:
  "count_list (ReplaceAll v squote (squote @ squote)) dquote = count_list v dquote"
  by (induction v) (simp_all add: squote_def ReplaceAll_char)

lemma after_key:
  "sh_word Bare linux_key_between = Some ([], linux_key_between)" "sh_word Bare linux_key_after = Some ([], linux_key_after)"
  "windows_key_after \<noteq> []" "hd windows_key_after \<noteq> CHR 0x27"
  "count_list windows_key_before dquote = 1" "count_list windows_key_after dquote = 1"
  by (simp_all add: linux_key_between_def linux_key_after_def unlines_def is_space_def dquote_def
        windows_key_before_def windows_key_after_def in_squotes_def squote_def bslash_def)

lemma sh_word_after: "sh_word Bare (linux_key_between @ t) = Some ([], linux_key_between @ t)"
  by (simp add: linux_key_between_def is_space_def dquote_def)

text \<open>
  C28. The key that is injected. Whatever the public key in the Secret contains, the Linux
  command has it in two places, and at both the guest's shell reads one word, the key
  itself; in the Windows command PowerShell reads the key as the value of \<open>$key\<close>, and the
  quotes of the whole command line stay the only double quotes but those of the key.
\<close>
theorem injected_key_is_read:
  "linux_key_command (shellSingleQuote key) =
     linux_key_before @ shellSingleQuote key @ linux_key_between @ shellSingleQuote key @ linux_key_after
   \<and> sh_word Bare (shellSingleQuote key @ linux_key_between @ shellSingleQuote key @ linux_key_after)
       = Some (key, linux_key_between @ shellSingleQuote key @ linux_key_after)
   \<and> sh_word Bare (shellSingleQuote key @ linux_key_after) = Some (key, linux_key_after)
   \<and> (\<exists>body. windows_key_command (ReplaceAll key squote (squote @ squote)) = windows_key_before @ squote @ body
       \<and> ps_single body = Some (key, windows_key_after))
   \<and> count_list (windows_key_command (ReplaceAll key squote (squote @ squote))) dquote = count_list key dquote + 2"
proof (intro conjI exI)
  show "windows_key_command (ReplaceAll key squote (squote @ squote)) =
      windows_key_before @ squote @ ReplaceAll key squote (squote @ squote) @ squote @ windows_key_after"
    by (simp add: windows_key_command_def in_squotes_def)
  show "ps_single (ReplaceAll key squote (squote @ squote) @ squote @ windows_key_after) = Some (key, windows_key_after)"
    by (rule ps_single_escaped) (rule after_key)+
  show "count_list (windows_key_command (ReplaceAll key squote (squote @ squote))) dquote = count_list key dquote + 2"
    by (simp only: windows_key_command_def in_squotes_def count_list_append count_ReplaceAll after_key)
      (simp add: squote_def)
qed (simp_all add: linux_key_command_def shellSingleQuote_word sh_word_after after_key)

section \<open>What a run touches\<close>

text \<open>\<open>c\<close> is the classification of a running VM that matches the configuration, as the cluster
  answered for it.\<close>

definition target :: "'w kvo \<Rightarrow> OnboardConfig \<Rightarrow> Candidate \<Rightarrow> bool" where
  "target K cfg c \<longleftrightarrow> (\<exists>ls ws vm vmi w. parseSelector K (LinuxSelector cfg) = Inr ls
     \<and> parseSelector K (WindowsSelector cfg) = Inr ws \<and> is_running cfg vmi
     \<and> fst (d_get K vmGVR (GetNamespace vmi) (GetName vmi) w) = Inr vm \<and> c = classifyVM vm vmi ls ws)"

definition usable_ip :: "string \<Rightarrow> bool" where
  "usable_ip ip \<longleftrightarrow> ip \<notin> {'''', ''10.0.2.2''}"

text \<open>A command for the guest of the candidate, or a patch of its VM.\<close>

definition concerns :: "Candidate \<Rightarrow> action \<Rightarrow> bool" where
  "concerns c a \<longleftrightarrow> ca_State c = StateReady \<and> usable_ip (ca_IP c)
     \<and> ((\<exists>opts user cmd. a = Req (RunCommand ''sshpass'' (opts @ [user @ ''@'' @ ca_IP c, cmd])))
        \<or> (\<exists>p. a = Req (DMergePatch vmGVR (ca_Namespace c) (ca_Name c) p)))"

lemma calls_reading: "emits reads m \<Longrightarrow> (\<And>r. Q r) \<Longrightarrow> calls reads m Q"
  unfolding calls_def emits_def by (erule does_mono) simp

lemma calls_print_all [calls_rules]: "(\<And>s. P (Req (Print s))) \<Longrightarrow> (\<And>r. Q r) \<Longrightarrow> calls P (print_all ss) Q"
  by (induction ss) (auto intro!: calls_rules)

lemma reading_Get_Secret [reading]: "emits reads (Get_Secret C ns n)" "emits reads (Time_Now C)"
  unfolding prim_defs by (rule emits_call; simp)+

lemma calls_classify_all:
  assumes "parseSelector K (LinuxSelector cfg) = Inr ls" and "parseSelector K (WindowsSelector cfg) = Inr ws"
  shows "calls reads (classify_all K cfg ls ws vmis) (fetched (\<lambda>cs. \<forall>c\<in>set cs. target K cfg c))"
proof (induction vmis)
  case Nil
  show ?case by (simp add: calls_rules)
next
  case (Cons vmi vmis)
  have found: "target K cfg (classifyVM vm vmi ls ws)"
    if "is_running cfg vmi" "fst (d_get K vmGVR (GetNamespace vmi) (GetName vmi) w) = Inr vm" for vm w
    using that assms unfolding target_def by metis
  show ?case
    unfolding classify_all.simps Let_def
    by (rule calls_if, rule Cons.IH, rule calls_bindE, rule calls_wrapE, rule calls_D_Get)
      (auto intro!: calls_bindE calls_mono [OF Cons.IH] calls_ret simp: fetched_def found)
qed

lemma set_sort_candidates [simp]: "set (sort_candidates cs) = set cs"
  by (simp add: sort_candidates_def)

lemma calls_Discover [calls_rules]:
  "(\<And>r. fetched (\<lambda>cs. \<forall>c\<in>set cs. target K cfg c) r \<Longrightarrow> Q r) \<Longrightarrow> calls reads (Discover K cfg) Q"
proof (rule calls_mono [where P = reads and Q = "fetched (\<lambda>cs. \<forall>c\<in>set cs. target K cfg c)"])
  show "calls reads (Discover K cfg) (fetched (\<lambda>cs. \<forall>c\<in>set cs. target K cfg c))"
    unfolding Discover_def
    by (intro calls_rules conjI allI impI calls_mono [OF calls_classify_all]) (auto intro!: calls_rules)
qed auto

lemma reading_baseSSHArgs [reading]: "emits reads (baseSSHArgs K cfg)"
  unfolding baseSSHArgs_def Let_def by (intro wp reading)

lemma calls_runPasswordSSH [calls_rules]:
  assumes "\<And>a. reads a \<Longrightarrow> P a" and "\<And>opts cmd. P (Req (RunCommand ''sshpass'' (opts @ [user @ ''@'' @ ip, cmd])))"
    and "\<And>e. Q (Inl e)" and "(\<exists>p args w. fst (fst (run_cmd K p args w)) = None) \<Longrightarrow> Q (Inr ())"
  shows "calls P (runPasswordSSH K cfg user password ip cmd) Q"
proof -
  have base: "calls P (baseSSHArgs K cfg) (\<lambda>_. True)"
    by (rule calls_mono [OF calls_reading [OF reading_baseSSHArgs]]) (use assms(1) in auto)
  have run: "P (Req (RunCommand ''sshpass'' ([''-p'', password, ''ssh''] @ args @ [user @ ''@'' @ ip, cmd])))" for args
    using assms(2) [of "[''-p'', password, ''ssh''] @ args"] by simp
  have ran: "Q (Inr ())" if "(None, out) = fst (run_cmd K p args w)" for out p args w
    by (rule assms(4)) (metis fst_conv that)
  show ?thesis
    unfolding runPasswordSSH_def
    by (intro calls_rules conjI allI impI calls_mono [OF base])
      (use assms(1,3) run in \<open>auto intro!: calls_rules split: option.splits intro: ran\<close>)
qed

lemma calls_bootstrapGuest:
  assumes "\<And>a. reads a \<Longrightarrow> P a"
    and "\<And>opts user cmd. P (Req (RunCommand ''sshpass'' (opts @ [user @ ''@'' @ ca_IP c, cmd])))"
    and "\<And>e. Q (Inl e)" and "(\<exists>p args w. fst (fst (run_cmd K p args w)) = None) \<Longrightarrow> Q (Inr ())"
  shows "calls P (bootstrapGuest K cfg c key) Q"
  unfolding bootstrapGuest_def injectLinuxKey_def injectWindowsKey_def
  by (intro calls_rules) (use assms in auto)

lemma calls_markVM:
  assumes "\<And>a. reads a \<Longrightarrow> P a" and "\<And>p. P (Req (DMergePatch vmGVR (ca_Namespace c) (ca_Name c) p))"
    and "\<And>r. Q r"
  shows "calls P (markVMReadyForReconciliation K c) Q"
  unfolding markVMReadyForReconciliation_def Let_def
  by (intro calls_rules conjI allI impI) (use assms in \<open>auto split: sum.splits intro!: calls_rules\<close>)

lemma calls_onboard:
  assumes "\<And>a. reads a \<Longrightarrow> P a"
    and "\<And>opts user cmd. usable_ip (ca_IP c) \<Longrightarrow> P (Req (RunCommand ''sshpass'' (opts @ [user @ ''@'' @ ca_IP c, cmd])))"
    and "\<And>p. usable_ip (ca_IP c) \<Longrightarrow> (\<exists>p args w. fst (fst (run_cmd K p args w)) = None) \<Longrightarrow>
           P (Req (DMergePatch vmGVR (ca_Namespace c) (ca_Name c) p))"
    and "\<And>r. Q r"
  shows "calls P (onboard K cfg key c) Q"
proof -
  have ip: "usable_ip (ca_IP c)" if "\<not> (ca_IP c = '''' \<or> ca_IP c = ''10.0.2.2'')"
    using that by (simp add: usable_ip_def)
  have marked: "calls P (markVMReadyForReconciliation K c) (\<lambda>r. calls P (g r) Q)"
    if "\<not> (ca_IP c = '''' \<or> ca_IP c = ''10.0.2.2'')" "\<exists>p args w. fst (fst (run_cmd K p args w)) = None"
      "\<And>r. calls P (g r) Q" for g :: "unit go \<Rightarrow> _"
    by (rule calls_markVM) (use assms ip that in auto)
  show ?thesis
    unfolding onboard_def onboarding_failed_def
    by (intro calls_rules calls_bootstrapGuest marked) (use assms ip in \<open>auto split: sum.splits intro!: calls_rules\<close>)
qed

lemma calls_onboard_all:
  assumes "\<And>a. reads a \<Longrightarrow> P a"
    and "\<And>c. c \<in> set cs \<Longrightarrow> ca_State c = StateReady \<Longrightarrow> calls P (onboard K cfg key c) (\<lambda>_. True)"
  shows "calls P (onboard_all K cfg key cs n m) (\<lambda>_. True)"
  using assms(2)
proof (induction cs arbitrary: n m)
  case Nil
  show ?case by (simp add: calls_rules)
next
  case (Cons c cs)
  then have rest: "calls P (onboard_all K cfg key cs n m) (\<lambda>_. True)" for n m by simp
  show ?case
    unfolding onboard_all.simps
    by (intro calls_if rest calls_bind calls_post [OF Cons.prems]) simp_all
qed

lemma calls_execute:
  assumes "\<And>a. reads a \<Longrightarrow> P a"
    and "\<And>c key. c \<in> set cs \<Longrightarrow> ca_State c = StateReady \<Longrightarrow> calls P (onboard K cfg key c) (\<lambda>_. True)"
  shows "calls P (execute K cfg cs) (\<lambda>_. True)"
proof -
  have key: "calls P (monitoringPublicKey K cfg) (\<lambda>_. True)"
    unfolding monitoringPublicKey_def Let_def
    by (rule calls_mono [where P = reads], rule calls_reading, intro wp reading) (use assms(1) in auto)
  have all: "calls P (onboard_all K cfg k cs 0 0) Q" if "\<And>r. Q r" for k Q
    by (rule calls_mono [OF calls_onboard_all]) (use assms that in auto)
  show ?thesis
    unfolding execute_def
    by (intro calls_bindE calls_mono [OF key] conjI allI impI calls_rules all) (use assms(1) in auto)
qed

lemma calls_Run:
  assumes "\<And>a. reads a \<Longrightarrow> P a"
    and "\<And>c key. \<not> DryRun cfg \<Longrightarrow> target K (applyDefaults cfg) c \<Longrightarrow> ca_State c = StateReady \<Longrightarrow>
           calls P (onboard K (applyDefaults cfg) key c) (\<lambda>_. True)"
  shows "calls P (Run K cfg) (\<lambda>_. True)"
proof -
  have dry: "DryRun (applyDefaults cfg) = DryRun cfg" by (simp add: applyDefaults_def)
  have con: "calls P (NewClients K) (\<lambda>_. True)"
    by (rule calls_mono [OF calls_reading [OF reading_NewClients]]) (use assms(1) in auto)
  have found: "calls P (Discover K (applyDefaults cfg)) (fetched (\<lambda>cs. \<forall>c\<in>set cs. target K (applyDefaults cfg) c))"
    by (rule calls_mono [where P = reads], rule calls_Discover) (use assms(1) in auto)
  have exec: "calls P (execute K (applyDefaults cfg) cs) (\<lambda>_. True)"
    if "\<not> DryRun cfg" "\<forall>c\<in>set cs. target K (applyDefaults cfg) c" for cs
    by (rule calls_execute) (use assms that in auto)
  show ?thesis
    unfolding Run_def Let_def dry
    by (intro calls_bindE calls_wrapE calls_mono [OF con] calls_mono [OF found] conjI allI impI)
      (auto intro!: calls_rules exec simp: assms(1))
qed


definition patches :: "action \<Rightarrow> bool" where
  "patches a \<longleftrightarrow> (case a of Req r \<Rightarrow> (case r of DMergePatch _ _ _ _ \<Rightarrow> True | _ \<Rightarrow> False) | _ \<Rightarrow> False)"

lemma reads_not_patches: "reads a \<Longrightarrow> \<not> patches a"
  by (auto simp: reads_def patches_def split: action.splits request.splits)


section \<open>A run that reports success\<close>

definition marked_in :: "action list \<Rightarrow> Candidate \<Rightarrow> bool" where
  "marked_in l c \<longleftrightarrow> (\<exists>p. Req (DMergePatch vmGVR (ca_Namespace c) (ca_Name c) p) \<in> set l)"

lemma marked_in_append: "marked_in l c \<Longrightarrow> marked_in (l @ l') c" "marked_in l' c \<Longrightarrow> marked_in (l @ l') c"
  by (auto simp: marked_in_def)

lemma does_any: "calls P m (\<lambda>_. True) \<Longrightarrow> (\<And>r l. Q r l) \<Longrightarrow> does m Q"
  unfolding calls_def by (erule does_mono) simp

lemma does_mark:
  "does (markVMReadyForReconciliation K c) (\<lambda>r l. r = Inr () \<longrightarrow> marked_in l c)"
  unfolding markVMReadyForReconciliation_def Let_def kvo_prims prim_defs
  by (auto intro!: does_intros simp: marked_in_def split: sum.splits)

lemma does_onboard: "does (onboard K cfg key c) (\<lambda>done l. done \<longrightarrow> marked_in l c)"
proof -
  have b: "does (bootstrapGuest K cfg c key) Q" if "\<And>r l. Q r l" for Q
    by (rule does_any [where P = "\<lambda>_. True"], rule calls_bootstrapGuest) (use that in auto)
  show ?thesis
    unfolding onboard_def onboarding_failed_def kvo_prims
    by (intro does_intros b does_mono [OF does_mark] does_case_sum)
      (auto intro!: does_intros simp: marked_in_def)
qed

lemma does_onboard_all:
  "does (onboard_all K cfg key cs n m) (\<lambda>r l. snd r \<ge> m \<and>
     (snd r = m \<longrightarrow> list_all (marked_in l) (filter (\<lambda>c. ca_State c = StateReady) cs)))"
proof (induction cs arbitrary: n m)
  case Nil
  show ?case by (simp add: does_return)
next
  case (Cons c cs)
  show ?case
  proof (cases "ca_State c = StateReady")
    case False
    then show ?thesis using Cons [of n m] by simp
  next
    case True
    have "does (if d then onboard_all K cfg key cs (Suc n) m else onboard_all K cfg key cs n (Suc m))
        (\<lambda>r l'. snd r \<ge> m \<and> (snd r = m \<longrightarrow> list_all (marked_in (l @ l')) (filter (\<lambda>c. ca_State c = StateReady) (c # cs))))"
      if "d \<longrightarrow> marked_in l c" for d l
      using that True
      by (intro does_if; intro does_mono [OF Cons]) (auto simp: list_all_iff intro: marked_in_append)
    then show ?thesis
      unfolding onboard_all.simps using True
      by (simp only: not_not if_False if_True simp_thms) (rule does_bind, erule does_mono [OF does_onboard])
  qed
qed

lemma does_print_all: "(\<And>l. Q () l) \<Longrightarrow> does (print_all ss) Q"
  by (rule does_any [where P = "\<lambda>_. True"]) (auto intro: calls_rules)

text \<open>
  Success of the execution means that all is done: it returns without an error only
  when every candidate that was ready was marked for the controller in this run, whatever
  the guests and the cluster answered; one failure makes the command fail.
\<close>
theorem execute_reports_failures:
  "is_Inl (result (execute K cfg cs) s)
   \<or> list_all (marked_in (trace (execute K cfg cs) s)) (filter (\<lambda>c. ca_State c = StateReady) cs)"
proof -
  have key: "does (monitoringPublicKey K cfg) (\<lambda>_ _. True)"
    by (rule does_any [where P = "\<lambda>_. True"])
      (auto simp: monitoringPublicKey_def Let_def intro!: calls_mono [OF calls_reading] wp reading)
  have all: "does (do { _ \<leftarrow> print_all ss; (n, m) \<leftarrow> onboard_all K cfg k cs 0 0; _ \<leftarrow> print_all (tt n m);
        if m > 0 then fail (e m) else ok () })
      (\<lambda>r l. is_Inl r \<or> list_all (marked_in (l0 @ l)) (filter (\<lambda>c. ca_State c = StateReady) cs))" for ss k tt e l0
    by (rule does_bind, rule does_print_all, rule does_bind, rule does_mono [OF does_onboard_all])
      (auto intro!: does_bind does_print_all does_intros simp: list_all_iff marked_in_def)
  have "does (execute K cfg cs) (\<lambda>r l. is_Inl r \<or> list_all (marked_in l) (filter (\<lambda>c. ca_State c = StateReady) cs))"
    unfolding execute_def
    by (rule does_bindE, rule does_mono [OF key]) (auto split: sum.splits intro: all simp del: print_all.simps)
  then show ?thesis by (rule does_trace)
qed


end
