(* ===== verification/OnboardedVM.thy ===== *)
theory OnboardedVM imports OnboardingProps VMLifecycle begin

text \<open>
  From onboarding to the controller. The mark of \<open>kvoctl\<close> is a JSON merge patch of the VM's
  labels and annotations; here is what the stored VM is afterwards, and what the
  classification and \<open>Reconcile\<close> make of it.
\<close>

section \<open>The VM after the patch\<close>

definition strings_or_absent :: "gval option \<Rightarrow> bool" where
  "strings_or_absent v \<longleftrightarrow> (case v of None \<Rightarrow> True | Some x \<Rightarrow> (case x of GMap m \<Rightarrow> as_strings m \<noteq> None | _ \<Rightarrow> False))"

text \<open>A VM as the API server stores it: labels and annotations are absent or maps of strings.\<close>

definition stored_vm :: "gval \<Rightarrow> bool" where
  "stored_vm g \<longleftrightarrow> (case nested [''metadata''] g of
     Some (GMap md) \<Rightarrow> strings_or_absent (map_of md ''labels'') \<and> strings_or_absent (map_of md ''annotations'')
   | _ \<Rightarrow> False)"

definition entries :: "smap \<Rightarrow> (string \<times> gval) list" where
  "entries m = map (\<lambda>k. (k, GString (mget (Some m) k))) (sorted_keys m)"

definition string_map :: "gval option \<Rightarrow> smap option" where
  "string_map v = (case v of Some x \<Rightarrow> (case x of GMap m \<Rightarrow> map_option fmap_of_list (as_strings m) | _ \<Rightarrow> None) | None \<Rightarrow> None)"

lemma set_update_sub: "e \<in> set (AList.update k v m) \<Longrightarrow> e = (k, v) \<or> e \<in> set m"
  by (induction m) (auto split: if_splits)

lemma merge_entries_strings:
  assumes "\<forall>e\<in>set p. \<exists>s. snd e = GString s" and "\<forall>e\<in>set m. \<exists>s. snd e = GString s"
  shows "\<forall>e\<in>set (merge_entries p m). \<exists>s. snd e = GString s"
  using assms
proof (induction p arbitrary: m)
  case (Cons e p)
  obtain k s where e: "e = (k, GString s)" using Cons.prems(1) by (cases e) auto
  have "\<forall>e\<in>set (AList.update k (GString s) m). \<exists>s. snd e = GString s"
    using Cons.prems(2) set_update_sub by fastforce
  with Cons e show ?case by simp
qed simp

lemma merged_strings:
  assumes "strings_or_absent v"
  defines "old \<equiv> (case v of Some x \<Rightarrow> (case x of GMap m \<Rightarrow> m | _ \<Rightarrow> []) | None \<Rightarrow> [])"
  shows "strings_or_absent (Some (GMap (merge_entries (entries an) old)))"
    and "fmlookup (non_nil (string_map (Some (GMap (merge_entries (entries an) old))))) k =
      (case fmlookup an k of Some s \<Rightarrow> Some s | None \<Rightarrow> fmlookup (non_nil (string_map v)) k)"
proof -
  obtain l where l: "as_strings old = Some l"
    using assms by (auto simp: strings_or_absent_def old_def split: option.splits gval.splits)
  have sv: "string_map v = Some (fmap_of_list l) \<or> string_map v = None \<and> l = []"
    using assms l by (auto simp: strings_or_absent_def string_map_def split: option.splits gval.splits)
  have "\<forall>e\<in>set (merge_entries (entries an) old). \<exists>s. snd e = GString s"
    by (rule merge_entries_strings) (use l as_strings_iff [of old] in \<open>auto simp: entries_def\<close>)
  then obtain r where r: "as_strings (merge_entries (entries an) old) = Some r" using as_strings_iff by fastforce
  then show "strings_or_absent (Some (GMap (merge_entries (entries an) old)))" by (simp add: strings_or_absent_def)
  have "map_option GString (map_of r k) = map_of (merge_entries (entries an) old) k"
    by (simp add: as_strings_map_of [OF r])
  also have "\<dots> = (case map_option GString (fmlookup an k) of None \<Rightarrow> map_of old k
      | Some x \<Rightarrow> if x = GNil then None else Some (merge_patch x (case map_of old k of None \<Rightarrow> GNil | Some y \<Rightarrow> y)))"
    using map_of_merge_entries [OF distinct_of_smap [of an]] by (simp only: entries_def map_of_of_smap)
  also have "\<dots> = map_option GString (case fmlookup an k of Some s \<Rightarrow> Some s | None \<Rightarrow> map_of l k)"
    by (simp add: as_strings_map_of [OF l] split: option.splits)
  finally have "map_of r k = (case fmlookup an k of Some s \<Rightarrow> Some s | None \<Rightarrow> map_of l k)"
    by (metis (no_types, lifting) gval.inject(4) option.inj_map_strong)
  then show "fmlookup (non_nil (string_map (Some (GMap (merge_entries (entries an) old))))) k =
      (case fmlookup an k of Some s \<Rightarrow> Some s | None \<Rightarrow> fmlookup (non_nil (string_map v)) k)"
    using r sv by (auto simp: string_map_def fmlookup_of_list split: option.splits)
qed

lemma metadata_fields:
  assumes "nested [''metadata''] g = Some (GMap md)"
  shows "GetLabels g = string_map (map_of md ''labels'')" "GetAnnotations g = string_map (map_of md ''annotations'')"
    and "GetName g = (case map_of md ''name'' of Some (GString s) \<Rightarrow> s | _ \<Rightarrow> '''')"
    and "GetNamespace g = (case map_of md ''namespace'' of Some (GString s) \<Rightarrow> s | _ \<Rightarrow> '''')"
  using assms
  by (auto simp: GetLabels_def GetAnnotations_def GetName_def GetNamespace_def NestedStringMap_def NestedString_def
      string_map_def split: gval.splits option.splits)

lemma merged_metadata:
  assumes "nested [''metadata''] g = Some (GMap md)"
  shows "\<exists>md'. nested [''metadata''] (merge_patch (metadata_patch ls an) g) = Some (GMap md')
    \<and> map_of md' ''annotations'' = Some (merge_patch (of_smap an) (case map_of md ''annotations'' of None \<Rightarrow> GNil | Some x \<Rightarrow> x))
    \<and> map_of md' ''labels'' = Some (merge_patch (of_smap ls) (case map_of md ''labels'' of None \<Rightarrow> GNil | Some x \<Rightarrow> x))
    \<and> map_of md' ''name'' = map_of md ''name'' \<and> map_of md' ''namespace'' = map_of md ''namespace''"
proof -
  obtain m where m: "g = GMap m" "map_of m ''metadata'' = Some (GMap md)"
    using assms by (auto split: gval.splits option.splits)
  let ?p = "[(''annotations'', of_smap an), (''labels'', of_smap ls)]"
  have d: "distinct (map fst ?p)" by simp
  have "of_smap an \<noteq> GNil" "of_smap ls \<noteq> GNil" by (simp_all add: of_smap_def)
  with m d show ?thesis
    by (simp add: metadata_patch_def map_of_merge_entries update_conv' del: merge_entries.simps(2))
qed

lemma after_mark:
  assumes "stored_vm g"
  and g': "g' = merge_patch (metadata_patch ls an) g"
  shows "stored_vm g'" "GetName g' = GetName g" "GetNamespace g' = GetNamespace g"
    and "fmlookup (non_nil (GetAnnotations g')) k =
      (case fmlookup an k of Some s \<Rightarrow> Some s | None \<Rightarrow> fmlookup (non_nil (GetAnnotations g)) k)"
    and "fmlookup (non_nil (GetLabels g')) k =
      (case fmlookup ls k of Some s \<Rightarrow> Some s | None \<Rightarrow> fmlookup (non_nil (GetLabels g)) k)"
proof -
  obtain md where md: "nested [''metadata''] g = Some (GMap md)"
    and s: "strings_or_absent (map_of md ''labels'')" "strings_or_absent (map_of md ''annotations'')"
    using assms(1) by (auto simp: stored_vm_def simp del: nested.simps split: option.splits gval.splits)
  from merged_metadata [OF md, of ls an, folded g'] obtain md' where
    md': "nested [''metadata''] g' = Some (GMap md')"
      "map_of md' ''annotations'' = Some (merge_patch (of_smap an) (case map_of md ''annotations'' of None \<Rightarrow> GNil | Some x \<Rightarrow> x))"
      "map_of md' ''labels'' = Some (merge_patch (of_smap ls) (case map_of md ''labels'' of None \<Rightarrow> GNil | Some x \<Rightarrow> x))"
      "map_of md' ''name'' = map_of md ''name''" "map_of md' ''namespace'' = map_of md ''namespace''" by blast
  have mp: "merge_patch (of_smap m) (case v of None \<Rightarrow> GNil | Some x \<Rightarrow> x) =
      GMap (merge_entries (entries m) (case v of Some x \<Rightarrow> (case x of GMap m \<Rightarrow> m | _ \<Rightarrow> []) | None \<Rightarrow> []))" for m v
    by (simp add: of_smap_def entries_def split: option.splits)
  show "stored_vm g'"
    using merged_strings(1) [OF s(1), of ls] merged_strings(1) [OF s(2), of an]
    by (simp only: stored_vm_def md' mp option.case gval.case)
  show "GetName g' = GetName g" "GetNamespace g' = GetNamespace g"
    by (simp_all only: metadata_fields [OF md] metadata_fields [OF md'(1)] md'(4,5))
  show "fmlookup (non_nil (GetAnnotations g')) k =
      (case fmlookup an k of Some s \<Rightarrow> Some s | None \<Rightarrow> fmlookup (non_nil (GetAnnotations g)) k)"
    using merged_strings(2) [OF s(2), of an k] by (simp only: metadata_fields [OF md] metadata_fields [OF md'(1)] md' mp)
  show "fmlookup (non_nil (GetLabels g')) k =
      (case fmlookup ls k of Some s \<Rightarrow> Some s | None \<Rightarrow> fmlookup (non_nil (GetLabels g)) k)"
    using merged_strings(2) [OF s(1), of ls k] by (simp only: metadata_fields [OF md] metadata_fields [OF md'(1)] md' mp)
qed

section \<open>The mark\<close>

text \<open>\<open>p\<close> is a patch that marking the candidate \<open>c\<close> sends for the VM it reads as \<open>g\<close>.\<close>

definition marks :: "'w kvo \<Rightarrow> Candidate \<Rightarrow> gval \<Rightarrow> gval \<Rightarrow> bool" where
  "marks K c g p \<longleftrightarrow> (\<exists>now labels. mark_labels K c (non_nil (GetLabels g)) = Inr labels
     \<and> p = metadata_patch labels (drop_skipped (requested now (non_nil (GetAnnotations g)))))"

lemma mark_sends:
  assumes "Req (DMergePatch r ns n p) \<in> set (trace (markVMReadyForReconciliation K c) s)"
  shows "\<exists>g w. fst (d_get K vmGVR (ca_Namespace c) (ca_Name c) w) = Inr g \<and> marks K c g p"
proof -
  have "calls (\<lambda>a. \<forall>r ns n p. a = Req (DMergePatch r ns n p) \<longrightarrow>
      (\<exists>g w. fst (d_get K vmGVR (ca_Namespace c) (ca_Name c) w) = Inr g \<and> marks K c g p))
    (markVMReadyForReconciliation K c) (\<lambda>_. True)"
    unfolding markVMReadyForReconciliation_def Let_def
    by (intro calls_bindE calls_wrapE calls_D_Get conjI allI impI)
      (auto split: sum.splits intro!: calls_rules simp: marks_def, metis)
  from calls_trace [OF this, of s] assms show ?thesis by (auto simp: list_all_iff)
qed

definition request_keys :: "string list" where
  "request_keys = [AnnBootstrapManaged, AnnLoggingEnabled, AnnRemediationRequired, AnnSSHBootstrapComplete, AnnReconcileAt]"

lemma marked_annotations:
  assumes "stored_vm g" and "marks K c g p"
  shows "mget (GetAnnotations (merge_patch p g)) AnnBootstrapManaged = ''true''"
    and "mget (GetAnnotations (merge_patch p g)) AnnRemediationRequired = ''true''"
    and "k \<notin> set request_keys \<Longrightarrow>
      fmlookup (non_nil (GetAnnotations (merge_patch p g))) k = fmlookup (non_nil (GetAnnotations g)) k"
proof -
  obtain now labels where p: "p = metadata_patch labels (drop_skipped (requested now (non_nil (GetAnnotations g))))"
    using assms(2) by (auto simp: marks_def)
  have get: "mget m k = (case fmlookup (non_nil m) k of None \<Rightarrow> '''' | Some v \<Rightarrow> v)" for m k
    by (cases m) (simp_all add: mget_def)
  show "mget (GetAnnotations (merge_patch p g)) AnnBootstrapManaged = ''true''"
    and "mget (GetAnnotations (merge_patch p g)) AnnRemediationRequired = ''true''"
    unfolding p get by (simp_all add: after_mark [OF assms(1) refl] drop_skipped_def requested_def)
  show "fmlookup (non_nil (GetAnnotations (merge_patch p g))) k = fmlookup (non_nil (GetAnnotations g)) k"
    if "k \<notin> set request_keys"
    using that unfolding p
    by (auto simp: after_mark [OF assms(1) refl] drop_skipped_def requested_def request_keys_def split: option.splits)
qed

lemma marked_label:
  assumes "stored_vm g" and "marks K c g p"
  shows "the_label (merge_patch p g) = (if ca_OSSource c = ''selector'' \<and> the_label g = '''' then ca_OS c else the_label g)"
    and "ca_OSSource c \<noteq> ''selector'' \<or> the_label g \<noteq> '''' \<Longrightarrow>
      non_nil (GetLabels (merge_patch p g)) = non_nil (GetLabels g)"
proof -
  obtain now labels where p: "p = metadata_patch labels (drop_skipped (requested now (non_nil (GetAnnotations g))))"
    and l: "mark_labels K c (non_nil (GetLabels g)) = Inr labels"
    using assms(2) by (auto simp: marks_def)
  have lab: "labels = (if ca_OSSource c = ''selector'' \<and> the_label g = ''''
      then fmupd osLabel (ca_OS c) (non_nil (GetLabels g)) else non_nil (GetLabels g))"
    using l by (auto simp: mark_labels_def the_label_def Let_def split: if_splits)
  have look: "fmlookup (non_nil (GetLabels (merge_patch p g))) k = fmlookup labels k" for k
    unfolding p by (auto simp: after_mark [OF assms(1) refl] lab split: option.splits)
  have get: "the_label x = (case fmlookup (non_nil (GetLabels x)) osLabel of None \<Rightarrow> '''' | Some v \<Rightarrow> v)" for x
    by (cases "GetLabels x") (simp_all add: the_label_def mget_def)
  show "the_label (merge_patch p g) = (if ca_OSSource c = ''selector'' \<and> the_label g = '''' then ca_OS c else the_label g)"
    using look by (simp add: get [of "merge_patch p g"] lab) (simp add: get)
  show "non_nil (GetLabels (merge_patch p g)) = non_nil (GetLabels g)"
    if "ca_OSSource c \<noteq> ''selector'' \<or> the_label g \<noteq> ''''"
    using that look by (intro fmap_ext) (auto simp: lab)
qed

section \<open>What the controller does with it\<close>

text \<open>The VM as the typed client decodes the stored object.\<close>

definition decodes :: "gval \<Rightarrow> VirtualMachine \<Rightarrow> bool" where
  "decodes g vm \<longleftrightarrow> vm_Name vm = GetName g \<and> vm_Namespace vm = GetNamespace g
     \<and> vm_Labels vm = GetLabels g \<and> Annotations vm = GetAnnotations g"

lemma classify_empty: "classify_label '''' = Unknown"
  by code_simp

lemma Detect_decoded: "decodes g vm \<Longrightarrow> Detect vm = classify_label (the_label g)"
  by (cases "GetLabels g") (simp_all add: Detect_def decodes_def the_label_def classify_empty)

lemma Reconcile_managed:
  assumes "\<And>w. getVM C ns n w = (Inr vm, w)" and "mget (Annotations vm) AnnBootstrapManaged = ''true''"
  shows "run_state (Reconcile L C ns n) s = run_state
    (if Detect vm = Unknown then do {
       _ \<leftarrow> eventf vm ''Warning'' ''OSDetectionSkipped'' os_label_message; mark C vm StatusSkipped ''missing-os-label'' }
     else if mget (Annotations vm) AnnBootstrapOS = ''unknown'' \<or> mget (Annotations vm) AnnExporter = ''unknown''
     then bindE (patch_annotations C drop_unknown vm) (\<lambda>_. ok (Result 1))
     else reconcile_known L C vm (Detect vm)) \<lparr>world = world s, acts = acts s @ [Get KVM ns n]\<rparr>"
proof -
  have "Annotations vm \<noteq> None" using assms(2) by (cases "Annotations vm") auto
  with assms show ?thesis by (auto simp: Reconcile_def Get_VM_def Let_def)
qed



lemma normal_forms:
  "normalizeOS '''' = ''''" "normalizeOS ''linux'' = ''linux''" "normalizeOS ''windows'' = ''windows''"
  by code_simp+

text \<open>
  Recovery is not recorded. The mark deletes the stale reason \<open>missing-os-label\<close> and its
  companions from the map it sends, but a merge patch keeps what it does not mention: the
  stored VM still carries them. Until the controller has written a new status, the next
  \<open>kvoctl onboard\<close> therefore finds the VM ready again, not in progress, and bootstraps its
  guest once more.
\<close>
theorem recovered_vm_stays_ready:
  assumes "stored_vm g" and "c = classifyVM g vmi ls ws" and "ca_State c = StateReady"
    and "mget (GetAnnotations g) AnnStatus = ''skipped''" and "mget (GetAnnotations g) AnnReason = ''missing-os-label''"
    and "mget (GetAnnotations g) AnnRemediationCompleted \<noteq> ''true''" and "marks K c g p"
    and "matches_vm ls (merge_patch p g) vmi = matches_vm ls g vmi"
    and "matches_vm ws (merge_patch p g) vmi = matches_vm ws g vmi"
  shows "ca_State (classifyVM (merge_patch p g) vmi ls ws) = StateReady"
proof -
  let ?g = "merge_patch p g"
  have get: "mget m k = (case fmlookup (non_nil m) k of None \<Rightarrow> '''' | Some v \<Rightarrow> v)" for m k
    by (cases m) (simp_all add: mget_def)
  have same: "mget (GetAnnotations ?g) k = mget (GetAnnotations g) k" if "k \<notin> set request_keys" for k
    unfolding get by (simp add: marked_annotations(3) [OF assms(1,7) that])
  have keep: "mget (GetAnnotations ?g) AnnStatus = ''skipped''" "mget (GetAnnotations ?g) AnnReason = ''missing-os-label''"
    "mget (GetAnnotations ?g) AnnRemediationCompleted \<noteq> ''true''"
    "mget (GetAnnotations ?g) AnnDisableMonitoring = mget (GetAnnotations g) AnnDisableMonitoring"
    using assms(4-6) by (simp_all add: same request_keys_def)
  have ready: "mget (GetAnnotations g) AnnDisableMonitoring \<noteq> ''true''" "determined_os g vmi ls ws (ca_OS c)"
    using assms(2,3) by (simp_all add: classifyVM_ready_iff)
  have os: "normalizeOS (ca_OS c) = ca_OS c"
    using ready(2) by (auto simp: determined_os_def normal_forms)
  have lab: "the_label ?g = (if ca_OSSource c = ''selector'' \<and> the_label g = '''' then ca_OS c else the_label g)"
    by (rule marked_label [OF assms(1,7)])
  with ready(2) os lab normal_forms assms(8,9) have det: "determined_os ?g vmi ls ws (ca_OS c)"
    by (auto simp: determined_os_def)
  have "ca_OS (classifyVM ?g vmi ls ws) = ca_OS c"
    using det keep ready(1) normalizeOS_cases [of "the_label ?g"]
    by (auto simp: classifyVM_def Let_def with_os_def determined_os_def matches_vm_def the_label_def)
  with det keep ready(1) show ?thesis by (simp add: classifyVM_ready_iff unattended_def)
qed

section \<open>Witnesses\<close>

definition json_vm :: "string \<Rightarrow> (string \<times> gval) list \<Rightarrow> gval" where
  "json_vm os an = GMap [(''metadata'', GMap [(''name'', GString ''db''), (''namespace'', GString ''team-a''),
     (''labels'', GMap [(osLabel, GString os)]), (''annotations'', GMap an)])]"

definition skipped_vm :: gval where
  "skipped_vm = json_vm ''ubuntu'' [(AnnBootstrapManaged, GString ''true''), (AnnStatus, GString ''skipped''),
     (AnnReason, GString ''missing-os-label'')]"

definition oracle_vm :: gval where
  "oracle_vm = json_vm ''ol'' []"

definition demo_patch :: "gval \<Rightarrow> gval" where
  "demo_patch g = metadata_patch (non_nil (GetLabels g)) (drop_skipped (requested 0 (non_nil (GetAnnotations g))))"

definition decoded :: "gval \<Rightarrow> VirtualMachine" where
  "decoded g = \<lparr>vm_Name = GetName g, vm_Namespace = GetNamespace g, vm_Labels = GetLabels g,
     Annotations = GetAnnotations g, Template = None\<rparr>"

definition always :: "VirtualMachine \<Rightarrow> unit client" where
  "always vm = idle_client\<lparr>getVM := \<lambda>_ _ w. (Inr vm, w)\<rparr>"

lemma demo_marks: "ca_OSSource c \<noteq> ''selector'' \<Longrightarrow> marks demo_kvo c g (demo_patch g)"
  by (auto simp: marks_def mark_labels_def demo_patch_def)

lemma decoded_decodes: "decodes g (decoded g)"
  by (simp add: decodes_def decoded_def)

lemma json_vm_stored: "stored_vm skipped_vm" "stored_vm oracle_vm"
  by (simp_all add: stored_vm_def skipped_vm_def oracle_vm_def json_vm_def strings_or_absent_def)

lemma json_vm_label: "the_label skipped_vm = ''ubuntu''" "the_label oracle_vm = ''ol''"
  by (simp_all add: the_label_def skipped_vm_def oracle_vm_def json_vm_def GetLabels_def NestedStringMap_def mget_def
      fmlookup_of_list)

lemma skipped_annotations:
  "mget (GetAnnotations skipped_vm) AnnStatus = ''skipped''" "mget (GetAnnotations skipped_vm) AnnReason = ''missing-os-label''"
  "mget (GetAnnotations skipped_vm) AnnBootstrapManaged = ''true''"
  "mget (GetAnnotations skipped_vm) AnnRemediationCompleted = ''''" "mget (GetAnnotations skipped_vm) AnnDisableMonitoring = ''''"
  by (simp_all add: skipped_vm_def json_vm_def GetAnnotations_def NestedStringMap_def mget_def fmlookup_of_list)

lemma oracle_annotations: "mget (GetAnnotations oracle_vm) k = ''''"
  by (simp add: oracle_vm_def json_vm_def GetAnnotations_def NestedStringMap_def mget_def fmlookup_of_list)

lemma label_forms: "normalizeOS ''ubuntu'' = ''linux''" "normalizeOS ''ol'' = ''linux''"
  "classify_label ''ubuntu'' = Linux" "classify_label ''ol'' = Unknown"
  by code_simp+

lemma demo_candidates:
  "ca_OSSource (classifyVM skipped_vm (GMap []) None None) = ''label''"
  "ca_State (classifyVM skipped_vm (GMap []) None None) = StateReady"
  "ca_OSSource (classifyVM oracle_vm (GMap []) None None) = ''label''"
  "ca_State (classifyVM oracle_vm (GMap []) None None) = StateReady"
  using json_vm_label skipped_annotations oracle_annotations
  by (simp_all add: classifyVM_def Let_def selectorMatches_def with_os_def managed_state_def label_forms the_label_def)



theorem recovered_vm_stays_ready_witness:
  "ca_State (classifyVM (merge_patch (demo_patch skipped_vm) skipped_vm) (GMap []) None None) = StateReady"
  by (rule recovered_vm_stays_ready [OF json_vm_stored(1) refl _ _ _ _ demo_marks])
    (simp_all add: demo_candidates skipped_annotations matches_vm_def selectorMatches_def)

end
