(* ===== verification/Operators.thy ===== *)
theory Operators imports Platform begin

text \<open>
  \<open>pkg/operators\<close>: which of the operators the platform needs are installed
  (\<open>discovery.go\<close>), finding a package in a catalog and installing it through OLM
  (\<open>installer.go\<close>), and waiting until it is ready (\<open>wait.go\<close>). The clients are never nil
  here, so the checks for nil clients have no branch. Objects are JSON values, as the
  dynamic client has them.
\<close>

definition subscriptions :: gvr where
  "subscriptions = GVR ''operators.coreos.com'' ''v1alpha1'' ''subscriptions''"

definition clusterserviceversions :: gvr where
  "clusterserviceversions = GVR ''operators.coreos.com'' ''v1alpha1'' ''clusterserviceversions''"

definition operatorgroups :: gvr where
  "operatorgroups = GVR ''operators.coreos.com'' ''v1'' ''operatorgroups''"

definition packagemanifests :: gvr where
  "packagemanifests = GVR ''packages.operators.coreos.com'' ''v1'' ''packagemanifests''"

lemmas operator_gvrs = subscriptions_def clusterserviceversions_def operatorgroups_def packagemanifests_def

section \<open>Discovery\<close>

record Status =
  st_Name :: string
  st_Package :: string
  st_State :: string
  st_Namespace :: string
  st_CSV :: string
  st_Phase :: string

definition missing :: "string \<Rightarrow> string \<Rightarrow> Status" where
  "missing name package = \<lparr>st_Name = name, st_Package = package, st_State = ''Missing'',
     st_Namespace = '''', st_CSV = '''', st_Phase = ''''\<rparr>"

definition required_operators :: "Status list" where
  "required_operators = [missing ''OpenShift Logging Operator'' ''cluster-logging'',
     missing ''Loki Operator'' ''loki-operator'', missing ''Grafana Operator'' ''grafana-operator'']"

definition findSubscription :: "gval list \<Rightarrow> string \<Rightarrow> gval option" where
  "findSubscription subs packageName = List.find (\<lambda>s. NestedString [''spec'', ''name''] s = packageName) subs"

definition operator_status :: "'w kvo \<Rightarrow> gval list \<Rightarrow> Status \<Rightarrow> ('w, Status) io" where
  "operator_status K subs st = (case findSubscription subs (st_Package st) of
     None \<Rightarrow> ret st
   | Some sub \<Rightarrow>
       let st = st\<lparr>st_State := ''Installed'', st_Namespace := GetNamespace sub\<rparr>;
           installedCSV = NestedString [''status'', ''installedCSV''] sub in
       if installedCSV = '''' then ret (st\<lparr>st_Phase := ''Installing''\<rparr>)
       else do {
         csv \<leftarrow> D_Get K clusterserviceversions (GetNamespace sub) installedCSV;
         ret (st\<lparr>st_CSV := installedCSV, st_Phase := (case csv of
             Inl err \<Rightarrow> ''Unknown''
           | Inr csv \<Rightarrow> let phase = NestedString [''status'', ''phase''] csv in
               if phase = '''' then ''Unknown'' else phase)\<rparr>) })"

fun operator_statuses :: "'w kvo \<Rightarrow> gval list \<Rightarrow> Status list \<Rightarrow> ('w, Status list) io" where
  "operator_statuses K subs [] = ret []"
| "operator_statuses K subs (st # sts) = do {
     st' \<leftarrow> operator_status K subs st;
     sts' \<leftarrow> operator_statuses K subs sts;
     ret (st' # sts') }"

text \<open>\<open>Discover\<close> has an error result that it never uses.\<close>

definition DiscoverOperators :: "'w kvo \<Rightarrow> ('w, Status list) io" where
  "DiscoverOperators K = do {
     subs \<leftarrow> D_List K subscriptions '''';
     case subs of
       Inl err \<Rightarrow> ret (map (\<lambda>st. st\<lparr>st_State := ''Unknown''\<rparr>) required_operators)
     | Inr subs \<Rightarrow> operator_statuses K subs required_operators }"

definition Ready :: "Status \<Rightarrow> bool" where
  "Ready s \<longleftrightarrow> st_State s = ''Installed'' \<and> EqualFold (st_Phase s) ''Succeeded''"

definition status_String :: "Status \<Rightarrow> string" where
  "status_String s =
     (if st_State s = ''Missing'' then st_Name s @ '': missing''
      else if st_State s = ''Unknown'' then st_Name s @ '': unknown''
      else st_Name s @ '': '' @ st_State s @ '' ('' @ st_Namespace s @ '', '' @ st_Phase s @ '')'')"

section \<open>Packages\<close>

record PackageInfo =
  pi_Name :: string
  pi_CatalogSource :: string
  pi_CatalogSourceNamespace :: string
  DefaultChannel :: string

definition defaultCatalogSource :: string where
  "defaultCatalogSource = ''redhat-operators''"

definition defaultCatalogSourceNamespace :: string where
  "defaultCatalogSourceNamespace = ''openshift-marketplace''"

definition package_found :: "'w kvo \<Rightarrow> string \<Rightarrow> string \<Rightarrow> gval list \<Rightarrow> PackageInfo go" where
  "package_found K packageName catalogSource items =
     (case List.find (\<lambda>x. GetName x = packageName \<and> NestedString [''status'', ''catalogSource''] x = catalogSource) items of
        None \<Rightarrow> Inl (Errorf (''package '' @ quoted K packageName @ '' not found in catalog '' @ quoted K catalogSource))
      | Some x \<Rightarrow> let defaultChannel = NestedString [''status'', ''defaultChannel''] x in
          if defaultChannel = '''' then
            Inl (Errorf (''package '' @ quoted K packageName @ '' from catalog '' @ quoted K catalogSource @ '' has no default channel''))
          else Inr \<lparr>pi_Name = packageName, pi_CatalogSource = NestedString [''status'', ''catalogSource''] x,
            pi_CatalogSourceNamespace = NestedString [''status'', ''catalogSourceNamespace''] x,
            DefaultChannel = defaultChannel\<rparr>)"

definition DiscoverPackage :: "'w kvo \<Rightarrow> string \<Rightarrow> string \<Rightarrow> ('w, PackageInfo go) io" where
  "DiscoverPackage K packageName catalogSource =
     (if packageName = '''' then fail (Errorf ''package name is required'')
      else let catalogSource = (if catalogSource = '''' then defaultCatalogSource else catalogSource) in
      bindE (wrapE ''list PackageManifests: '' (D_List K packagemanifests defaultCatalogSourceNamespace)) (\<lambda>items.
        ret (package_found K packageName catalogSource items)))"

section \<open>Installation\<close>

record InstallConfig =
  Package :: string
  TargetNamespace :: string
  OperatorGroupName :: string
  CatalogSource :: string
  CatalogNamespace :: string
  Channel :: string

definition cluster_monitoring :: string where
  "cluster_monitoring = ''openshift.io/cluster-monitoring''"

definition ensureNamespace :: "'w kvo \<Rightarrow> string \<Rightarrow> ('w, unit go) io" where
  "ensureNamespace K namespace =
     (if namespace = '''' then fail (Errorf ''namespace is required'')
      else do {
        r \<leftarrow> Get_Namespace (kube K) namespace;
        case r of
          Inr existing \<Rightarrow>
            (if mget (ns_Labels existing) cluster_monitoring \<noteq> ''true'' then
               wrapE (''label namespace '' @ quoted K namespace @ '' for cluster monitoring: '')
                 (T_Update K (ONamespace (existing\<lparr>ns_Labels :=
                    Some (fmupd cluster_monitoring ''true'' (non_nil (ns_Labels existing)))\<rparr>)))
             else ok ())
        | Inl err \<Rightarrow>
            if \<not> IsNotFound err then fail (Wrapf (''get namespace '' @ quoted K namespace @ '': '') err)
            else do {
              r \<leftarrow> Create_Obj (kube K) (ONamespace
                \<lparr>ns_Name = namespace, ns_Labels = Some (fmupd cluster_monitoring ''true'' fmempty)\<rparr>);
              case r of
                Inl err \<Rightarrow> if \<not> IsAlreadyExists err
                  then fail (Wrapf (''create namespace '' @ quoted K namespace @ '': '') err) else ok ()
              | Inr _ \<Rightarrow> ok () } })"

definition operator_group :: "string \<Rightarrow> string \<Rightarrow> gval" where
  "operator_group namespace name = GMap [
     (''apiVersion'', GString ''operators.coreos.com/v1''),
     (''kind'', GString ''OperatorGroup''),
     (''metadata'', GMap [(''name'', GString name), (''namespace'', GString namespace)]),
     (''spec'', GMap [(''upgradeStrategy'', GString ''Default'')])]"

definition ensureOperatorGroup :: "'w kvo \<Rightarrow> string \<Rightarrow> string \<Rightarrow> ('w, unit go) io" where
  "ensureOperatorGroup K namespace name =
     (if name = '''' then fail (Errorf ''OperatorGroup name is required'')
      else do {
        r \<leftarrow> D_Get K operatorgroups namespace name;
        case r of
          Inr _ \<Rightarrow> ok ()
        | Inl err \<Rightarrow>
            if \<not> IsNotFound err then fail (Wrapf (''get OperatorGroup '' @ namespace @ ''/'' @ name @ '': '') err)
            else do {
              r \<leftarrow> D_Create K operatorgroups namespace (operator_group namespace name);
              case r of
                Inl err \<Rightarrow> if \<not> IsAlreadyExists err
                  then fail (Wrapf (''create OperatorGroup '' @ namespace @ ''/'' @ name @ '': '') err) else ok ()
              | Inr _ \<Rightarrow> ok () } })"

definition with_catalog_defaults :: "InstallConfig \<Rightarrow> InstallConfig" where
  "with_catalog_defaults cfg = cfg\<lparr>
     CatalogSource := (if CatalogSource cfg = '''' then defaultCatalogSource else CatalogSource cfg),
     CatalogNamespace := (if CatalogNamespace cfg = '''' then defaultCatalogSourceNamespace else CatalogNamespace cfg)\<rparr>"

definition subscription :: "InstallConfig \<Rightarrow> gval" where
  "subscription cfg = GMap [
     (''apiVersion'', GString ''operators.coreos.com/v1alpha1''),
     (''kind'', GString ''Subscription''),
     (''metadata'', GMap [(''name'', GString (Package cfg)), (''namespace'', GString (TargetNamespace cfg))]),
     (''spec'', GMap [(''channel'', GString (Channel cfg)), (''name'', GString (Package cfg)),
        (''source'', GString (CatalogSource cfg)), (''sourceNamespace'', GString (CatalogNamespace cfg)),
        (''installPlanApproval'', GString ''Automatic'')])]"

definition set_field :: "string \<Rightarrow> string list \<Rightarrow> string \<Rightarrow> gval \<Rightarrow> gval go" where
  "set_field what ks s x = (case SetNestedField (GString s) ks x of
     Inl err \<Rightarrow> Inl (Wrapf (''set subscription '' @ what @ '': '') err) | Inr y \<Rightarrow> Inr y)"

definition retargeted :: "InstallConfig \<Rightarrow> gval \<Rightarrow> gval go" where
  "retargeted cfg existing =
     goE (set_field ''channel'' [''spec'', ''channel''] (Channel cfg) existing) (\<lambda>x.
     goE (set_field ''source'' [''spec'', ''source''] (CatalogSource cfg) x) (\<lambda>x.
       set_field ''source namespace'' [''spec'', ''sourceNamespace''] (CatalogNamespace cfg) x))"

definition ensureSubscription :: "'w kvo \<Rightarrow> InstallConfig \<Rightarrow> ('w, unit go) io" where
  "ensureSubscription K cfg = (let at = TargetNamespace cfg @ ''/'' @ Package cfg @ '': '' in do {
     r \<leftarrow> D_Get K subscriptions (TargetNamespace cfg) (Package cfg);
     case r of
       Inr existing \<Rightarrow>
         (if NestedString [''spec'', ''channel''] existing = Channel cfg
             \<and> NestedString [''spec'', ''source''] existing = CatalogSource cfg then ok ()
          else case retargeted cfg existing of
              Inl err \<Rightarrow> fail err
            | Inr x \<Rightarrow> wrapE (''update Subscription '' @ at) (D_Update K subscriptions (TargetNamespace cfg) x))
     | Inl err \<Rightarrow>
         if \<not> IsNotFound err then fail (Wrapf (''get Subscription '' @ at) err)
         else wrapE (''create Subscription '' @ at)
           (D_Create K subscriptions (TargetNamespace cfg) (subscription cfg)) })"

definition EnsureInstalled :: "'w kvo \<Rightarrow> InstallConfig \<Rightarrow> ('w, unit go) io" where
  "EnsureInstalled K cfg =
     (if Package cfg = '''' then fail (Errorf ''operator package is required'')
      else if TargetNamespace cfg = '''' then fail (Errorf ''target namespace is required'')
      else if OperatorGroupName cfg = '''' then fail (Errorf ''OperatorGroup name is required'')
      else let cfg = with_catalog_defaults cfg in
      if Channel cfg = '''' then fail (Errorf ''operator channel is required'')
      else bindE (ensureNamespace K (TargetNamespace cfg)) (\<lambda>_.
           bindE (ensureOperatorGroup K (TargetNamespace cfg) (OperatorGroupName cfg)) (\<lambda>_.
             ensureSubscription K cfg)))"

section \<open>Waiting\<close>

record WaitConfig =
  wc_Package :: string
  wc_Namespace :: string

text \<open>
  One turn of the loop: the verdict of a tick, if it gives one. The loop ends when the
  \<open>select\<close> takes the deadline; \<open>n\<close> is the number of ticks it takes before, so the
  definition covers every schedule.
\<close>

definition poll_operator :: "'w kvo \<Rightarrow> WaitConfig \<Rightarrow> ('w, unit go option) io" where
  "poll_operator K cfg = do {
     _ \<leftarrow> tick;
     sub \<leftarrow> D_Get K subscriptions (wc_Namespace cfg) (wc_Package cfg);
     case sub of
       Inl err \<Rightarrow> ret None
     | Inr sub \<Rightarrow>
         let csvName = NestedString [''status'', ''installedCSV''] sub in
         if csvName = '''' then ret None
         else do {
           csv \<leftarrow> D_Get K clusterserviceversions (wc_Namespace cfg) csvName;
           ret (case csv of
               Inl err \<Rightarrow> None
             | Inr csv \<Rightarrow>
                 let phase = NestedString [''status'', ''phase''] csv in
                 if phase = ''Succeeded'' then Some (Inr ())
                 else if phase = ''Failed'' then Some (Inl (Errorf (''operator '' @ quoted K (wc_Package cfg)
                   @ '' installation failed: '' @ NestedString [''status'', ''reason''] csv @ '': ''
                   @ NestedString [''status'', ''message''] csv)))
                 else None) } }"

fun wait_operator :: "'w kvo \<Rightarrow> WaitConfig \<Rightarrow> nat \<Rightarrow> ('w, unit go) io" where
  "wait_operator K cfg 0 = fail (Errorf (''timeout waiting for operator '' @ quoted K (wc_Package cfg)
     @ '' in namespace '' @ quoted K (wc_Namespace cfg)))"
| "wait_operator K cfg (Suc n) = do {
     verdict \<leftarrow> poll_operator K cfg;
     case verdict of Some r \<Rightarrow> ret r | None \<Rightarrow> wait_operator K cfg n }"

definition WaitForReady :: "'w kvo \<Rightarrow> WaitConfig \<Rightarrow> nat \<Rightarrow> ('w, unit go) io" where
  "WaitForReady K cfg n =
     (if wc_Package cfg = '''' then fail (Errorf ''operator package is required'')
      else if wc_Namespace cfg = '''' then fail (Errorf ''operator namespace is required'')
      else wait_operator K cfg n)"

section \<open>Discovery and waiting only read\<close>

lemma reading_operator_statuses: "emits reads (operator_statuses K subs sts)"
proof (induction sts)
  case (Cons st sts)
  have "emits reads (operator_status K subs st)"
    unfolding operator_status_def Let_def by (intro wp reading)
  with Cons show ?case by (auto intro!: wp)
qed (simp add: wp)

lemma reading_DiscoverOperators [reading]: "emits reads (DiscoverOperators K)"
  unfolding DiscoverOperators_def by (intro wp reading reading_operator_statuses)

lemma reading_DiscoverPackage [reading]: "emits reads (DiscoverPackage K p c)"
  unfolding DiscoverPackage_def Let_def by (intro wp reading)

lemma reading_WaitForReady [reading]: "emits reads (WaitForReady K cfg n)"
proof -
  have "emits reads (wait_operator K cfg n)"
  proof (induction n)
    case (Suc n)
    then show ?case unfolding wait_operator.simps poll_operator_def Let_def by (intro wp reading)
  qed (simp add: wp)
  then show ?thesis unfolding WaitForReady_def by (intro wp)
qed

end
