(* ===== verification/Store.thy ===== *)
theory Store imports Platform begin

text \<open>
  A sequential API server, and weakest preconditions over its state. \<open>wpt m Q w\<close> says that
  the operation \<open>m\<close>, started in the world \<open>w\<close>, ends with a result, a world and a list of
  calls that satisfy \<open>Q\<close>. The installers of \<open>kvoctl\<close> are shown to converge with it.
\<close>

section \<open>Weakest preconditions\<close>

definition wpt :: "('w, 'a) io \<Rightarrow> ('a \<Rightarrow> 'w \<Rightarrow> action list \<Rightarrow> bool) \<Rightarrow> 'w \<Rightarrow> bool" where
  "wpt m Q w \<longleftrightarrow> (\<forall>s. world s = w \<longrightarrow>
     (\<exists>l. acts (snd (run_state m s)) = acts s @ l \<and> Q (fst (run_state m s)) (world (snd (run_state m s))) l))"

named_theorems wpt_rules "rules of wpt"

lemma wpt_mono: "wpt m Q w \<Longrightarrow> (\<And>r w' l. Q r w' l \<Longrightarrow> Q' r w' l) \<Longrightarrow> wpt m Q' w"
  by (fastforce simp: wpt_def)

lemma wpt_ret [wpt_rules]: "Q x w [] \<Longrightarrow> wpt (ret x) Q w"
  by (simp add: wpt_def)

lemma wpt_call: "(\<And>r w'. f w = (r, w') \<Longrightarrow> Q r w' [a]) \<Longrightarrow> wpt (call a f) Q w"
  by (auto simp: wpt_def call_def split: prod.splits)

lemma wpt_bind [wpt_rules]:
  fixes m :: "('w, 'a) io"
  assumes "wpt m (\<lambda>x w1 l1. wpt (f x) (\<lambda>r w2 l2. Q r w2 (l1 @ l2)) w1) w"
  shows "wpt (m \<bind> f) Q w"
  unfolding wpt_def
proof (intro allI impI)
  fix s :: "'w st"
  assume "world s = w"
  obtain x s1 where m: "run_state m s = (x, s1)" by fastforce
  with assms \<open>world s = w\<close> obtain l1 where l1: "acts s1 = acts s @ l1"
    "wpt (f x) (\<lambda>r w2 l2. Q r w2 (l1 @ l2)) (world s1)"
    unfolding wpt_def [of m] by (metis fst_conv snd_conv)
  obtain r s2 where f: "run_state (f x) s1 = (r, s2)" by fastforce
  with l1(2) obtain l2 where "acts s2 = acts s1 @ l2" "Q r (world s2) (l1 @ l2)"
    unfolding wpt_def [of "f x"] by (metis fst_conv snd_conv)
  with l1(1) m f show "\<exists>l. acts (snd (run_state (m \<bind> f) s)) = acts s @ l
      \<and> Q (fst (run_state (m \<bind> f) s)) (world (snd (run_state (m \<bind> f) s))) l"
    by simp
qed

lemma wpt_case_sum [wpt_rules]:
  "(\<And>e. r = Inl e \<Longrightarrow> wpt (f e) Q w) \<Longrightarrow> (\<And>x. r = Inr x \<Longrightarrow> wpt (g x) Q w) \<Longrightarrow>
    wpt (case r of Inl e \<Rightarrow> f e | Inr x \<Rightarrow> g x) Q w"
  by (cases r) auto

lemma wpt_bindE [wpt_rules]:
  "wpt m (\<lambda>x w1 l1. (\<forall>e. x = Inl e \<longrightarrow> Q (Inl e) w1 l1)
     \<and> (\<forall>y. x = Inr y \<longrightarrow> wpt (f y) (\<lambda>r w2 l2. Q r w2 (l1 @ l2)) w1)) w \<Longrightarrow> wpt (bindE m f) Q w"
  unfolding bindE_def
  by (rule wpt_bind, erule wpt_mono) (auto split: sum.splits intro: wpt_ret)

lemma wpt_wrapE [wpt_rules]:
  "wpt m (\<lambda>x w1 l1. (\<forall>e. x = Inl e \<longrightarrow> Q (Inl (Wrapf p e)) w1 l1) \<and> (\<forall>y. x = Inr y \<longrightarrow> Q (Inr y) w1 l1)) w \<Longrightarrow>
    wpt (wrapE p m) Q w"
  unfolding wrapE_def by (rule wpt_bind, erule wpt_mono) (auto split: sum.splits intro: wpt_ret)

lemma wpt_case_option [wpt_rules]:
  "(r = None \<Longrightarrow> wpt f Q w) \<Longrightarrow> (\<And>x. r = Some x \<Longrightarrow> wpt (g x) Q w) \<Longrightarrow>
    wpt (case r of None \<Rightarrow> f | Some x \<Rightarrow> g x) Q w"
  by (cases r) auto

lemma wpt_if [wpt_rules]:
  "(b \<Longrightarrow> wpt m Q w) \<Longrightarrow> (\<not> b \<Longrightarrow> wpt n Q w) \<Longrightarrow> wpt (if b then m else n) Q w"
  by simp

lemma wpt_let [wpt_rules]: "(\<And>x. x = t \<Longrightarrow> wpt (f x) Q w) \<Longrightarrow> wpt (let x = t in f x) Q w"
  by simp

lemma wpt_run: "wpt m Q (world s) \<Longrightarrow> Q (result m s) (world (snd (run_state m s))) (trace m s)"
  by (auto simp: wpt_def trace_def result_def)

section \<open>The server\<close>

text \<open>
  What a stored object keeps of the one that was sent: every string in it. The server may
  add fields.
\<close>

definition keeps :: "gval \<Rightarrow> gval \<Rightarrow> bool" where
  "keeps x y \<longleftrightarrow> (\<forall>ks. NestedString ks x = '''' \<or> NestedString ks y = NestedString ks x)"

definition keeps_labels :: "smap option \<Rightarrow> smap option \<Rightarrow> bool" where
  "keeps_labels a b \<longleftrightarrow> (\<forall>k. mget a k = '''' \<or> mget b k = mget a k)"

text \<open>
  Reads answer with what is stored, or with an error that is not \<open>NotFound\<close> when something
  is; a write that succeeds stores its object, and one that finds the object there already
  changes nothing. \<open>\<sigma>\<close> are the objects of the dynamic client, \<open>\<tau>\<close> the namespaces.
\<close>

definition dyn_store :: "'w kvo \<Rightarrow> ('w \<Rightarrow> gvr \<times> string \<times> string \<Rightarrow> gval option) \<Rightarrow> ('w \<Rightarrow> string \<Rightarrow> Namespace option) \<Rightarrow> bool" where
  "dyn_store K \<sigma> \<tau> \<longleftrightarrow>
     (\<forall>r ns n w res w'. d_get K r ns n w = (res, w') \<longrightarrow> \<sigma> w' = \<sigma> w \<and> \<tau> w' = \<tau> w \<and> (case res of
        Inl e \<Rightarrow> IsNotFound e \<longrightarrow> \<sigma> w (r, ns, n) = None
      | Inr x \<Rightarrow> \<sigma> w (r, ns, n) = Some x \<and> GetName x = n))
     \<and> (\<forall>r ns x w res w'. d_create K r ns x w = (res, w') \<longrightarrow> (case res of
        Inl e \<Rightarrow> IsAlreadyExists e \<longrightarrow> \<sigma> w' = \<sigma> w \<and> \<tau> w' = \<tau> w \<and> \<sigma> w (r, ns, GetName x) \<noteq> None
      | Inr _ \<Rightarrow> \<tau> w' = \<tau> w \<and> (\<exists>y. keeps x y \<and> \<sigma> w' = (\<sigma> w)((r, ns, GetName x) \<mapsto> y))))
     \<and> (\<forall>r ns x w res w'. d_update K r ns x w = (res, w') \<longrightarrow> (case res of
        Inl e \<Rightarrow> True
      | Inr _ \<Rightarrow> \<tau> w' = \<tau> w \<and> (\<exists>y. keeps x y \<and> \<sigma> w' = (\<sigma> w)((r, ns, GetName x) \<mapsto> y))))
     \<and> (\<forall>n w res w'. getNamespace (kube K) n w = (res, w') \<longrightarrow> \<sigma> w' = \<sigma> w \<and> \<tau> w' = \<tau> w \<and> (case res of
        Inl e \<Rightarrow> IsNotFound e \<longrightarrow> \<tau> w n = None
      | Inr x \<Rightarrow> \<tau> w n = Some x \<and> ns_Name x = n))
     \<and> (\<forall>x w res w'. createObj (kube K) (ONamespace x) w = (res, w') \<longrightarrow> (case res of
        Inl e \<Rightarrow> IsAlreadyExists e \<longrightarrow> \<sigma> w' = \<sigma> w \<and> \<tau> w' = \<tau> w \<and> \<tau> w (ns_Name x) \<noteq> None
      | Inr _ \<Rightarrow> \<sigma> w' = \<sigma> w \<and> (\<exists>y. keeps_labels (ns_Labels x) (ns_Labels y) \<and> \<tau> w' = (\<tau> w)(ns_Name x \<mapsto> y))))
     \<and> (\<forall>x w res w'. t_update K (ONamespace x) w = (res, w') \<longrightarrow> (case res of
        Inl e \<Rightarrow> True
      | Inr _ \<Rightarrow> \<sigma> w' = \<sigma> w \<and> (\<exists>y. keeps_labels (ns_Labels x) (ns_Labels y) \<and> \<tau> w' = (\<tau> w)(ns_Name x \<mapsto> y))))"

lemmas dyn_laws =
  dyn_store_def [THEN iffD1, THEN conjunct1, rule_format]
  dyn_store_def [THEN iffD1, THEN conjunct2, THEN conjunct1, rule_format]
  dyn_store_def [THEN iffD1, THEN conjunct2, THEN conjunct2, THEN conjunct1, rule_format]
  dyn_store_def [THEN iffD1, THEN conjunct2, THEN conjunct2, THEN conjunct2, THEN conjunct1, rule_format]
  dyn_store_def [THEN iffD1, THEN conjunct2, THEN conjunct2, THEN conjunct2, THEN conjunct2, THEN conjunct1, rule_format]
  dyn_store_def [THEN iffD1, THEN conjunct2, THEN conjunct2, THEN conjunct2, THEN conjunct2, THEN conjunct2, rule_format]

lemma wpt_D_Get:
  assumes "dyn_store K \<sigma> \<tau>"
    and "\<And>res w'. \<sigma> w' = \<sigma> w \<Longrightarrow> \<tau> w' = \<tau> w \<Longrightarrow> (\<And>e. res = Inl e \<Longrightarrow> IsNotFound e \<Longrightarrow> \<sigma> w (r, ns, n) = None) \<Longrightarrow>
      (\<And>x. res = Inr x \<Longrightarrow> \<sigma> w (r, ns, n) = Some x \<and> GetName x = n) \<Longrightarrow> Q res w' [Req (DGet r ns n)]"
  shows "wpt (D_Get K r ns n) Q w"
  unfolding kvo_prims
  by (rule wpt_call, drule dyn_laws(1) [OF assms(1)], rule assms(2)) (auto split: sum.splits)

lemma wpt_D_Create:
  assumes "dyn_store K \<sigma> \<tau>"
    and "\<And>e w'. (IsAlreadyExists e \<Longrightarrow> \<sigma> w' = \<sigma> w \<and> \<tau> w' = \<tau> w \<and> \<sigma> w (r, ns, GetName x) \<noteq> None) \<Longrightarrow>
      Q (Inl e) w' [Req (DCreate r ns x)]"
    and "\<And>y w'. \<tau> w' = \<tau> w \<Longrightarrow> keeps x y \<Longrightarrow> \<sigma> w' = (\<sigma> w)((r, ns, GetName x) \<mapsto> y) \<Longrightarrow> Q (Inr ()) w' [Req (DCreate r ns x)]"
  shows "wpt (D_Create K r ns x) Q w"
  unfolding kvo_prims
  by (rule wpt_call, drule dyn_laws(2) [OF assms(1)]) (auto split: sum.splits intro: assms(2,3))

lemma wpt_D_Update:
  assumes "dyn_store K \<sigma> \<tau>"
    and "\<And>e w'. Q (Inl e) w' [Req (DUpdate r ns x)]"
    and "\<And>y w'. \<tau> w' = \<tau> w \<Longrightarrow> keeps x y \<Longrightarrow> \<sigma> w' = (\<sigma> w)((r, ns, GetName x) \<mapsto> y) \<Longrightarrow> Q (Inr ()) w' [Req (DUpdate r ns x)]"
  shows "wpt (D_Update K r ns x) Q w"
  unfolding kvo_prims
  by (rule wpt_call, drule dyn_laws(3) [OF assms(1)]) (auto split: sum.splits intro: assms(2,3))

lemma wpt_Get_Namespace:
  assumes "dyn_store K \<sigma> \<tau>"
    and "\<And>res w'. \<sigma> w' = \<sigma> w \<Longrightarrow> \<tau> w' = \<tau> w \<Longrightarrow> (\<And>e. res = Inl e \<Longrightarrow> IsNotFound e \<Longrightarrow> \<tau> w n = None) \<Longrightarrow>
      (\<And>x. res = Inr x \<Longrightarrow> \<tau> w n = Some x \<and> ns_Name x = n) \<Longrightarrow> Q res w' [Get KNamespace '''' n]"
  shows "wpt (Get_Namespace (kube K) n) Q w"
  unfolding prim_defs
  by (rule wpt_call, drule dyn_laws(4) [OF assms(1)], rule assms(2)) (auto split: sum.splits)

lemma wpt_Create_Namespace:
  assumes "dyn_store K \<sigma> \<tau>"
    and "\<And>e w'. (IsAlreadyExists e \<Longrightarrow> \<sigma> w' = \<sigma> w \<and> \<tau> w' = \<tau> w \<and> \<tau> w (ns_Name z) \<noteq> None) \<Longrightarrow>
      Q (Inl e) w' [Create (ONamespace z)]"
    and "\<And>y w'. \<sigma> w' = \<sigma> w \<Longrightarrow> keeps_labels (ns_Labels z) (ns_Labels y) \<Longrightarrow> \<tau> w' = (\<tau> w)(ns_Name z \<mapsto> y) \<Longrightarrow>
      Q (Inr ()) w' [Create (ONamespace z)]"
  shows "wpt (Create_Obj (kube K) (ONamespace z)) Q w"
  unfolding prim_defs
  by (rule wpt_call, drule dyn_laws(5) [OF assms(1)]) (auto split: sum.splits intro: assms(2,3))

lemma wpt_Update_Namespace:
  assumes "dyn_store K \<sigma> \<tau>"
    and "\<And>e w'. Q (Inl e) w' [Req (TUpdate (ONamespace z))]"
    and "\<And>y w'. \<sigma> w' = \<sigma> w \<Longrightarrow> keeps_labels (ns_Labels z) (ns_Labels y) \<Longrightarrow> \<tau> w' = (\<tau> w)(ns_Name z \<mapsto> y) \<Longrightarrow>
      Q (Inr ()) w' [Req (TUpdate (ONamespace z))]"
  shows "wpt (T_Update K (ONamespace z)) Q w"
  unfolding kvo_prims
  by (rule wpt_call, drule dyn_laws(6) [OF assms(1)]) (auto split: sum.splits intro: assms(2,3))

lemmas wpt_store = wpt_D_Get wpt_D_Create wpt_D_Update wpt_Get_Namespace wpt_Create_Namespace wpt_Update_Namespace

end
