(* ===== verification/OperatorsProps.thy ===== *)
theory OperatorsProps imports Operators Store begin

text \<open>
  Installing an operator converges: a successful run leaves namespace, OperatorGroup and
  Subscription as wanted, and another run then writes nothing. Waiting succeeds only on a
  \<open>Succeeded\<close> answer.
\<close>

section \<open>Setting fields\<close>

lemma nested_set: "SetNestedField x ks v = Inr v' \<Longrightarrow> nested ks v' = Some x"
proof (induction x ks v arbitrary: v' rule: SetNestedField.induct)
  case (2 x k ks m)
  show ?case
  proof (cases "ks = []")
    case False
    with "2.prems" obtain y where "SetNestedField x ks (case map_of m k of None \<Rightarrow> GMap [] | Some y \<Rightarrow> y) = Inr y"
      "v' = GMap (AList.update k y m)" by (auto simp: goE_Inr)
    with "2.IH" False show ?thesis by (simp add: update_conv')
  qed (use "2.prems" in \<open>auto simp: update_conv'\<close>)
qed simp_all

lemma nested_set_other:
  "SetNestedField x (k # ks) v = Inr v' \<Longrightarrow> j \<noteq> k \<Longrightarrow> nested (j # js) v' = nested (j # js) v"
  by (cases v) (auto simp: goE_Inr update_conv' split: if_splits)

lemma nested_set_sibling:
  assumes "SetNestedField x [a, b] v = Inr v'" and "c \<noteq> b"
  shows "nested [a, c] v' = nested [a, c] v"
proof (cases v)
  case (GMap m)
  with assms(1) obtain y where y: "SetNestedField x [b] (case map_of m a of None \<Rightarrow> GMap [] | Some y \<Rightarrow> y) = Inr y"
    "v' = GMap (AList.update a y m)" by (auto simp: goE_Inr)
  from nested_set_other [OF y(1) assms(2), of "[]"] show ?thesis
    unfolding y(2) GMap by (cases "map_of m a") (simp_all add: update_conv')
qed (use assms in simp_all)

lemma set_field_Inr: "set_field what ks s x = Inr y \<longleftrightarrow> SetNestedField (GString s) ks x = Inr y"
  by (auto simp: set_field_def split: sum.splits)

lemma retargeted_fields:
  assumes "retargeted cfg x = Inr y"
  shows "NestedString [''spec'', ''channel''] y = Channel cfg" "NestedString [''spec'', ''source''] y = CatalogSource cfg"
    and "GetName y = GetName x"
proof -
  obtain x1 x2 where s: "SetNestedField (GString (Channel cfg)) [''spec'', ''channel''] x = Inr x1"
    "SetNestedField (GString (CatalogSource cfg)) [''spec'', ''source''] x1 = Inr x2"
    "SetNestedField (GString (CatalogNamespace cfg)) [''spec'', ''sourceNamespace''] x2 = Inr y"
    using assms unfolding retargeted_def by (auto elim!: goE_InrE simp: set_field_Inr)
  have "nested [''spec'', ''channel''] y = Some (GString (Channel cfg))"
    using nested_set [OF s(1)] nested_set_sibling [OF s(2), of "''channel''"] nested_set_sibling [OF s(3), of "''channel''"]
    by simp
  then show "NestedString [''spec'', ''channel''] y = Channel cfg" by (simp add: NestedString_def del: nested.simps)
  have "nested [''spec'', ''source''] y = Some (GString (CatalogSource cfg))"
    using nested_set [OF s(2)] nested_set_sibling [OF s(3), of "''source''"] by simp
  then show "NestedString [''spec'', ''source''] y = CatalogSource cfg" by (simp add: NestedString_def del: nested.simps)
  show "GetName y = GetName x"
    using nested_set_other [OF s(1), of "''metadata''"] nested_set_other [OF s(2), of "''metadata''"]
      nested_set_other [OF s(3), of "''metadata''"] by (simp add: GetName_def NestedString_def del: nested.simps)
qed

section \<open>What is installed\<close>

definition labelled :: "('w \<Rightarrow> string \<Rightarrow> Namespace option) \<Rightarrow> 'w \<Rightarrow> string \<Rightarrow> bool" where
  "labelled \<tau> w ns \<longleftrightarrow> (case \<tau> w ns of None \<Rightarrow> False | Some x \<Rightarrow> mget (ns_Labels x) cluster_monitoring = ''true'')"

definition subscribed :: "InstallConfig \<Rightarrow> gval option \<Rightarrow> bool" where
  "subscribed cfg v \<longleftrightarrow> (case v of None \<Rightarrow> False | Some x \<Rightarrow>
     NestedString [''spec'', ''channel''] x = Channel cfg \<and> NestedString [''spec'', ''source''] x = CatalogSource cfg)"

definition installed ::
  "('w \<Rightarrow> gvr \<times> string \<times> string \<Rightarrow> gval option) \<Rightarrow> ('w \<Rightarrow> string \<Rightarrow> Namespace option) \<Rightarrow> InstallConfig \<Rightarrow> 'w \<Rightarrow> bool" where
  "installed \<sigma> \<tau> cfg w \<longleftrightarrow> labelled \<tau> w (TargetNamespace cfg)
     \<and> \<sigma> w (operatorgroups, TargetNamespace cfg, OperatorGroupName cfg) \<noteq> None
     \<and> subscribed (with_catalog_defaults cfg) (\<sigma> w (subscriptions, TargetNamespace cfg, Package cfg))"

lemma keeps_labelled:
  "keeps_labels (Some (fmupd cluster_monitoring ''true'' m)) b \<Longrightarrow> mget b cluster_monitoring = ''true''"
  by (auto simp: keeps_labels_def dest: spec [of _ cluster_monitoring])

lemma wpt_ensureNamespace:
  assumes "dyn_store K \<sigma> \<tau>"
  shows "wpt (ensureNamespace K ns) (\<lambda>r w' l. (labelled \<tau> w ns \<longrightarrow> list_all reads l \<and> \<sigma> w' = \<sigma> w \<and> \<tau> w' = \<tau> w)
    \<and> (r = Inr () \<longrightarrow> \<sigma> w' = \<sigma> w \<and> labelled \<tau> w' ns)) w"
  unfolding ensureNamespace_def
  by (intro wpt_rules wpt_store [OF assms])
    (auto simp: labelled_def split: option.splits dest: keeps_labelled)

lemma subscription_names: "GetName (subscription cfg) = Package cfg" "GetName (operator_group ns n) = n"
  by (simp_all add: subscription_def operator_group_def GetName_def NestedString_def)

lemma wpt_ensureOperatorGroup:
  assumes "dyn_store K \<sigma> \<tau>"
  shows "wpt (ensureOperatorGroup K ns n) (\<lambda>r w' l.
      (\<sigma> w (operatorgroups, ns, n) \<noteq> None \<longrightarrow> list_all reads l \<and> \<sigma> w' = \<sigma> w \<and> \<tau> w' = \<tau> w)
    \<and> (r = Inr () \<longrightarrow> \<tau> w' = \<tau> w \<and> \<sigma> w' (operatorgroups, ns, n) \<noteq> None)) w"
  unfolding ensureOperatorGroup_def
  by (intro wpt_rules wpt_store [OF assms]) (auto simp: subscription_names)

lemma subscribed_keeps: "keeps x y \<Longrightarrow> Channel cfg \<noteq> '''' \<Longrightarrow> CatalogSource cfg \<noteq> '''' \<Longrightarrow> subscribed cfg (Some x) \<Longrightarrow> subscribed cfg (Some y)"
  by (auto simp: subscribed_def keeps_def dest: spec [of _ "[''spec'', ''channel'']"] spec [of _ "[''spec'', ''source'']"])

lemma group_neq: "operatorgroups \<noteq> subscriptions"
  by (simp add: operator_gvrs)

lemma wpt_ensureSubscription:
  assumes "dyn_store K \<sigma> \<tau>" and "Channel cfg \<noteq> ''''" and "CatalogSource cfg \<noteq> ''''"
  defines "key \<equiv> (subscriptions, TargetNamespace cfg, Package cfg)"
  shows "wpt (ensureSubscription K cfg) (\<lambda>r w' l. (subscribed cfg (\<sigma> w key) \<longrightarrow> list_all reads l)
    \<and> (r = Inr () \<longrightarrow> \<tau> w' = \<tau> w \<and> subscribed cfg (\<sigma> w' key) \<and> (\<forall>ns n. \<sigma> w' (operatorgroups, ns, n) = \<sigma> w (operatorgroups, ns, n)))) w"
proof -
  have new: "subscribed cfg (Some (subscription cfg))"
    by (simp add: subscribed_def subscription_def NestedString_def)
  have changed: "subscribed cfg (Some y)" if "retargeted cfg x = Inr y" for x y
    using retargeted_fields [OF that] by (simp add: subscribed_def)
  show ?thesis
    unfolding ensureSubscription_def Let_def key_def
    by (intro wpt_rules wpt_store [OF assms(1)] conjI allI impI)
      (auto simp: subscription_names subscribed_def [of _ "Some _"] subscribed_def [of _ None] retargeted_fields group_neq
        dest!: subscribed_keeps [OF _ assms(2,3) changed] subscribed_keeps [OF _ assms(2,3) new])
qed

section \<open>Convergence\<close>

lemma with_defaults_simps [simp]:
  "TargetNamespace (with_catalog_defaults cfg) = TargetNamespace cfg" "Package (with_catalog_defaults cfg) = Package cfg"
  "OperatorGroupName (with_catalog_defaults cfg) = OperatorGroupName cfg" "Channel (with_catalog_defaults cfg) = Channel cfg"
  "CatalogSource (with_catalog_defaults cfg) \<noteq> ''''"
  by (simp_all add: with_catalog_defaults_def defaultCatalogSource_def)

lemma wpt_EnsureInstalled:
  assumes "dyn_store K \<sigma> \<tau>"
  shows "wpt (EnsureInstalled K cfg) (\<lambda>r w' l. (installed \<sigma> \<tau> cfg w \<longrightarrow> list_all reads l)
    \<and> (r = Inr () \<longrightarrow> installed \<sigma> \<tau> cfg w')) w"
  unfolding EnsureInstalled_def
  by (intro wpt_rules wpt_mono [OF wpt_ensureNamespace [OF assms]] wpt_mono [OF wpt_ensureOperatorGroup [OF assms]]
      wpt_mono [OF wpt_ensureSubscription [OF assms]] conjI allI impI)
    (auto simp: installed_def labelled_def)


section \<open>Waiting\<close>

definition succeeded :: "'w kvo \<Rightarrow> WaitConfig \<Rightarrow> bool" where
  "succeeded K cfg \<longleftrightarrow> (\<exists>name w csv. fst (d_get K clusterserviceversions (wc_Namespace cfg) name w) = Inr csv
     \<and> NestedString [''status'', ''phase''] csv = ''Succeeded'')"

lemma poll_length: "does (poll_operator K cfg) (\<lambda>r l. length l \<le> 3)"
  unfolding poll_operator_def kvo_prims Let_def by (intro does_intros) auto

lemma succeededI:
  "fst (d_get K clusterserviceversions (wc_Namespace cfg) name w) = Inr csv \<Longrightarrow>
    NestedString [''status'', ''phase''] csv = ''Succeeded'' \<Longrightarrow> succeeded K cfg"
  unfolding succeeded_def by blast

lemma poll_operator_success: "calls (\<lambda>_. True) (poll_operator K cfg) (\<lambda>r. r = Some (Inr ()) \<longrightarrow> succeeded K cfg)"
  unfolding poll_operator_def Let_def
  by (intro calls_rules) (auto split: sum.splits if_splits intro: succeededI)

lemma wait_length: "does (wait_operator K cfg n) (\<lambda>r l. length l \<le> 3 * n)"
proof (induction n)
  case (Suc n)
  show ?case
    unfolding wait_operator.simps
    by (rule does_bind, rule does_mono [OF poll_length])
      (auto intro!: does_case_option does_return does_mono [OF Suc])
qed (simp add: does_return)

lemma wait_success: "calls (\<lambda>_. True) (wait_operator K cfg n) (\<lambda>r. r = Inr () \<longrightarrow> succeeded K cfg \<and> n > 0)"
proof (induction n)
  case (Suc n)
  show ?case
    unfolding wait_operator.simps
    by (rule calls_bind, rule calls_mono [OF poll_operator_success])
      (auto intro!: calls_case_option calls_ret calls_mono [OF Suc])
qed (simp add: calls_rules)

text \<open>
  Waiting for an operator. Whatever the schedule of ticks, the wait ends within \<open>n\<close>
  ticks, each of which makes at most two requests, all of them reads; and it succeeds only if
  the cluster answered for some ClusterServiceVersion of the operator's namespace that it
  is in phase \<open>Succeeded\<close>. Without a tick before the deadline it fails.
\<close>
theorem WaitForReady_bounded:
  "length (trace (WaitForReady K cfg n) s) \<le> 3 * n \<and> list_all reads (trace (WaitForReady K cfg n) s)
   \<and> (is_Inl (result (WaitForReady K cfg n) s) \<or> succeeded K cfg \<and> n > 0)"
proof (intro conjI)
  have "does (WaitForReady K cfg n) (\<lambda>r l. length l \<le> 3 * n)"
    unfolding WaitForReady_def by (intro does_if does_return wait_length) simp_all
  then show "length (trace (WaitForReady K cfg n) s) \<le> 3 * n" by (rule does_trace)
  show "list_all reads (trace (WaitForReady K cfg n) s)"
    using reading_WaitForReady does_trace unfolding emits_def by blast
  have "calls (\<lambda>_. True) (WaitForReady K cfg n) (\<lambda>r. is_Inl r \<or> succeeded K cfg \<and> n > 0)"
    unfolding WaitForReady_def
    by (intro calls_if calls_ret calls_mono [OF wait_success]) (auto simp: is_Inl_def split: sum.splits)
  then show "is_Inl (result (WaitForReady K cfg n) s) \<or> succeeded K cfg \<and> n > 0"
    using calls_trace by blast
qed

section \<open>Witness\<close>

text \<open>A server that keeps its objects in two maps.\<close>

type_synonym server = "(gvr \<times> string \<times> string \<Rightarrow> gval option) \<times> (string \<Rightarrow> Namespace option)"

definition put :: "gvr \<Rightarrow> string \<Rightarrow> gval \<Rightarrow> server \<Rightarrow> server" where
  "put r ns x w = ((fst w)((r, ns, GetName x) \<mapsto> x), snd w)"

definition map_kube :: "server client" where
  "map_kube = \<lparr>
     getVM = (\<lambda>_ _ w. (Inl not_found, w)), getVMIObj = (\<lambda>_ _ w. (Inl not_found, w)),
     getSecret = (\<lambda>_ _ w. (Inl not_found, w)), getConfigMap = (\<lambda>_ _ w. (Inl not_found, w)),
     getNamespace = (\<lambda>n w. (case snd w n of None \<Rightarrow> Inl not_found
        | Some x \<Rightarrow> if ns_Name x = n then Inr x else Inl (Errorf ''corrupt''), w)),
     getService = (\<lambda>_ _ w. (Inl not_found, w)),
     getEndpoints = (\<lambda>_ _ w. (Inl not_found, w)), getServiceMonitor = (\<lambda>_ _ w. (Inl not_found, w)),
     getRoleBinding = (\<lambda>_ _ w. (Inl not_found, w)), getRouteHost = (\<lambda>_ _ w. (Inl not_found, w)),
     getUnstructured = (\<lambda>_ _ _ _ w. (Inl not_found, w)),
     createObj = (\<lambda>x w. case x of ONamespace n \<Rightarrow> (Inr (), (fst w, (snd w)(ns_Name n \<mapsto> n))) | _ \<Rightarrow> (Inr (), w)),
     patchObj = (\<lambda>_ x w. (Inr (), w)), patchVMObj = (\<lambda>_ x w. (Inr x, w)),
     dial_tcp = (\<lambda>_ _ w. (Inr (), w)), ssh_parse_key = (\<lambda>k. Inr k), ssh_dial = (\<lambda>_ _ _ _ w. (Inr 1, w)),
     ssh_session = (\<lambda>_ w. (Inr 2, w)), ssh_exec = (\<lambda>_ _ _ w. ((None, '''', ''''), w)),
     ssh_combined = (\<lambda>_ _ _ w. ((None, ''''), w)), time_now = (\<lambda>w. (0, w))\<rparr>"

definition map_kvo :: "server kvo" where
  "map_kvo = (offline_kvo map_kube)\<lparr>
     d_get := (\<lambda>r ns n w. (case fst w (r, ns, n) of None \<Rightarrow> Inl not_found
        | Some x \<Rightarrow> if GetName x = n then Inr x else Inl (Errorf ''corrupt''), w)),
     d_create := (\<lambda>r ns x w. (Inr (), put r ns x w)), d_update := (\<lambda>r ns x w. (Inr (), put r ns x w)),
     t_update := (\<lambda>x w. case x of ONamespace n \<Rightarrow> (Inr (), (fst w, (snd w)(ns_Name n \<mapsto> n))) | _ \<Rightarrow> (Inr (), w))\<rparr>"

lemma keeps_refl [simp]: "keeps x x" "keeps_labels a a"
  by (simp_all add: keeps_def keeps_labels_def)

lemma map_kvo_store: "dyn_store map_kvo fst snd"
  unfolding dyn_store_def
  by (intro conjI; auto simp: map_kvo_def offline_kvo_def map_kube_def put_def not_found_def IsNotFound_def
      split: option.splits if_splits)
    (use keeps_refl in blast)+

definition loki_operator :: InstallConfig where
  "loki_operator = \<lparr>Package = ''loki-operator'', TargetNamespace = ''openshift-operators-redhat'',
     OperatorGroupName = ''loki-operator'', CatalogSource = '''', CatalogNamespace = '''', Channel = ''stable-6.2''\<rparr>"

definition empty_server :: "server st" where
  "empty_server = \<lparr>world = (\<lambda>_. None, \<lambda>_. None), acts = []\<rparr>"

lemma loki_run: "result (EnsureInstalled map_kvo loki_operator) empty_server = Inr ()"
  by (simp add: result_def empty_server_def EnsureInstalled_def loki_operator_def with_catalog_defaults_def
      ensureNamespace_def ensureOperatorGroup_def ensureSubscription_def Let_def bindE_def wrapE_def
      prim_defs kvo_prims map_kvo_def offline_kvo_def map_kube_def not_found_def IsNotFound_def put_def operator_gvrs)


end
