(* ===== verification/Ensure.thy ===== *)
theory Ensure imports Store begin

text \<open>
  What the installers of \<open>kvoctl\<close> (\<open>pkg/vmmonitoring\<close>, \<open>pkg/grafana\<close>, \<open>pkg/loki\<close>, \<open>pkg/logging\<close>,
  \<open>pkg/alerting\<close>) have in common: the shapes of their error handling, the polling loops, paths
  of files, and the contract of a server that stores Secrets.
\<close>

section \<open>Get, then update or create\<close>

text \<open>
  \<open>if err != nil && !apierrors.IsAlreadyExists(err) { return wrap(err) }; return nil\<close> after a
  creation, and
  \<open>if err == nil { found }; if !apierrors.IsNotFound(err) { return wrap(err) }; missing\<close> after
  a get.
\<close>

definition tolerate :: "(goerr \<Rightarrow> goerr) \<Rightarrow> ('w, unit go) io \<Rightarrow> ('w, unit go) io" where
  "tolerate wrap create = do {
     r \<leftarrow> create;
     case r of
       Inl err \<Rightarrow> if \<not> IsAlreadyExists err then fail (wrap err) else ok ()
     | Inr _ \<Rightarrow> ok () }"

definition get_or :: "(goerr \<Rightarrow> goerr) \<Rightarrow> ('w, 'a go) io \<Rightarrow> ('a \<Rightarrow> ('w, unit go) io) \<Rightarrow> ('w, unit go) io \<Rightarrow> ('w, unit go) io" where
  "get_or wrap get found missing = do {
     r \<leftarrow> get;
     case r of
       Inr x \<Rightarrow> found x
     | Inl err \<Rightarrow> if \<not> IsNotFound err then fail (wrap err) else missing }"

lemma emits_tolerate [wp]: "emits P m \<Longrightarrow> emits P (tolerate wrap m)"
  unfolding tolerate_def by (intro wp)

lemma emits_get_or [wp]:
  "emits P get \<Longrightarrow> (\<And>x. emits P (found x)) \<Longrightarrow> emits P missing \<Longrightarrow> emits P (get_or wrap get found missing)"
  unfolding get_or_def by (intro wp)

lemma calls_tolerate [calls_rules]:
  "calls P m (\<lambda>r. (\<forall>e. r = Inl e \<longrightarrow> IsAlreadyExists e \<longrightarrow> Q (Inr ()))
     \<and> (\<forall>e. r = Inl e \<longrightarrow> \<not> IsAlreadyExists e \<longrightarrow> Q (Inl (wrap e))) \<and> (r = Inr () \<longrightarrow> Q (Inr ()))) \<Longrightarrow>
    calls P (tolerate wrap m) Q"
  unfolding tolerate_def by (rule calls_bind, erule calls_mono) (auto split: sum.splits intro: calls_ret)

lemma calls_get_or [calls_rules]:
  "calls P get (\<lambda>r. (\<forall>x. r = Inr x \<longrightarrow> calls P (found x) Q)
     \<and> (\<forall>e. r = Inl e \<longrightarrow> IsNotFound e \<longrightarrow> calls P missing Q)
     \<and> (\<forall>e. r = Inl e \<longrightarrow> \<not> IsNotFound e \<longrightarrow> Q (Inl (wrap e)))) \<Longrightarrow>
    calls P (get_or wrap get found missing) Q"
  unfolding get_or_def by (rule calls_bind, erule calls_mono) (auto split: sum.splits intro: calls_ret)

text \<open>Stepping rules of \<open>wpt\<close> that keep the outcomes of a call apart.\<close>

named_theorems wps "stepping rules of wpt"

lemma wps_bindE [wps]:
  "wpt m (\<lambda>x w1 l1. case x of Inl e \<Rightarrow> Q (Inl e) w1 l1 | Inr y \<Rightarrow> wpt (f y) (\<lambda>r w2 l2. Q r w2 (l1 @ l2)) w1) w \<Longrightarrow>
    wpt (bindE m f) Q w"
  by (rule wpt_bindE, erule wpt_mono) auto

lemma wps_wrapE [wps]:
  "wpt m (\<lambda>x w1 l1. Q (case x of Inl e \<Rightarrow> Inl (Wrapf p e) | Inr y \<Rightarrow> Inr y) w1 l1) w \<Longrightarrow> wpt (wrapE p m) Q w"
  by (rule wpt_wrapE, erule wpt_mono) auto

lemma wps_tolerate [wps]:
  "wpt m (\<lambda>r w1 l1. Q (case r of Inl e \<Rightarrow> if IsAlreadyExists e then Inr () else Inl (wrap e) | Inr y \<Rightarrow> Inr ()) w1 l1) w \<Longrightarrow>
    wpt (tolerate wrap m) Q w"
  unfolding tolerate_def
  by (rule wpt_bind, erule wpt_mono) (auto split: sum.splits if_splits intro!: wpt_ret)

lemma wps_get_or [wps]:
  "wpt get (\<lambda>r w1 l1. case r of Inr x \<Rightarrow> wpt (found x) (\<lambda>r w2 l2. Q r w2 (l1 @ l2)) w1
     | Inl e \<Rightarrow> if IsNotFound e then wpt missing (\<lambda>r w2 l2. Q r w2 (l1 @ l2)) w1 else Q (Inl (wrap e)) w1 l1) w \<Longrightarrow>
    wpt (get_or wrap get found missing) Q w"
  unfolding get_or_def
  by (rule wpt_bind, erule wpt_mono) (auto split: sum.splits if_splits intro!: wpt_ret)

lemmas [wps] = wpt_ret wpt_bind wpt_case_sum wpt_case_option wpt_if wpt_let

text \<open>The label and the annotations \<open>kvoctl\<close> marks what it makes with.\<close>

definition managed_by :: string where "managed_by = ''app.kubernetes.io/managed-by''"
definition token_expiration :: string where "token_expiration = ''kvo.portworx.io/token-expiration''"
definition token_service_account :: string where "token_service_account = ''kvo.portworx.io/token-service-account''"

section \<open>Bindings of ServiceAccounts\<close>

definition service_account_binding :: "string \<Rightarrow> smap option \<Rightarrow> string \<Rightarrow> string \<Rightarrow> string \<Rightarrow> ClusterRoleBinding" where
  "service_account_binding name labels roleName namespace serviceAccount = \<lparr>
     crb_Meta = meta '''' name labels None,
     crb_RoleRef = \<lparr>rr_APIGroup = ''rbac.authorization.k8s.io'', rr_Kind = ''ClusterRole'', rr_Name = roleName\<rparr>,
     crb_Subjects = [\<lparr>sub_Kind = ''ServiceAccount'', sub_Name = serviceAccount, sub_Namespace = namespace\<rparr>],
     crb_Rest = GMap []\<rparr>"

text \<open>
  The binding is created, or its subjects replaced, unless it is a binding of another role,
  which \<open>mismatch\<close> says of the existing one.
\<close>

definition ensure_binding ::
  "'w kvo \<Rightarrow> (ClusterRoleBinding \<Rightarrow> goerr option) \<Rightarrow> ClusterRoleBinding \<Rightarrow> ('w, unit go) io" where
  "ensure_binding K mismatch desired = (let at = quoted K (o_Name (crb_Meta desired)) @ '': '' in
     get_or (Wrapf (''get ClusterRoleBinding '' @ at)) (Get_ClusterRoleBinding K (o_Name (crb_Meta desired)))
       (\<lambda>existing. case mismatch existing of
          Some err \<Rightarrow> fail err
        | None \<Rightarrow> wrapE (''update ClusterRoleBinding '' @ at)
            (T_Update K (OClusterRoleBinding (existing\<lparr>crb_Subjects := crb_Subjects desired\<rparr>))))
       (tolerate (Wrapf (''create ClusterRoleBinding '' @ at)) (Create_Obj (kube K) (OClusterRoleBinding desired))))"

section \<open>Objects of the dynamic client\<close>

text \<open>The object replaces the one that is there, whose version it takes over, or is created.\<close>

definition apply_dynamic :: "'w kvo \<Rightarrow> gvr \<Rightarrow> string \<Rightarrow> string \<Rightarrow> string \<Rightarrow> gval \<Rightarrow> ('w, unit go) io" where
  "apply_dynamic K r what namespace name desired = (let at = what @ '' '' @ namespace @ ''/'' @ name @ '': '' in
     get_or (Wrapf (''get '' @ at)) (D_Get K r namespace name)
       (\<lambda>existing. wrapE (''update '' @ at)
          (D_Update K r namespace (SetResourceVersion (GetResourceVersion existing) desired)))
       (wrapE (''create '' @ at) (D_Create K r namespace desired)))"

text \<open>The first verdict of a loop over conditions.\<close>

fun first_verdict :: "('a \<Rightarrow> 'b option) \<Rightarrow> 'a list \<Rightarrow> 'b option" where
  "first_verdict f [] = None"
| "first_verdict f (x # xs) = (case f x of None \<Rightarrow> first_verdict f xs | Some y \<Rightarrow> Some y)"

lemma first_verdict_SomeE: "first_verdict f xs = Some y \<Longrightarrow> \<exists>x\<in>set xs. f x = Some y"
  by (induction xs) (auto split: option.splits)

text \<open>A condition of the status of an object: a map with a type and a status.\<close>

definition condition_is :: "string \<Rightarrow> string \<Rightarrow> gval \<Rightarrow> bool" where
  "condition_is what status raw \<longleftrightarrow>
     (case raw of GMap _ \<Rightarrow> NestedString [''type''] raw = what \<and> NestedString [''status''] raw = status | _ \<Rightarrow> False)"

definition has_condition :: "string \<Rightarrow> string \<Rightarrow> gval \<Rightarrow> bool" where
  "has_condition what status x \<longleftrightarrow> list_ex (condition_is what status) (fst (NestedSlice [''status'', ''conditions''] x))"

section \<open>Polling\<close>

text \<open>
  A loop over a ticker and a deadline: \<open>n\<close> is the number of ticks the \<open>select\<close> takes before it
  takes the deadline, so every schedule is covered; a step may give the loop's verdict.
\<close>

fun poll :: "nat \<Rightarrow> ('w, unit go) io \<Rightarrow> ('w, unit go option) io \<Rightarrow> ('w, unit go) io" where
  "poll 0 timeout step = timeout"
| "poll (Suc n) timeout step = do {
     _ \<leftarrow> tick;
     verdict \<leftarrow> step;
     case verdict of Some r \<Rightarrow> ret r | None \<Rightarrow> poll n timeout step }"

lemma reading_poll [reading]:
  "emits reads timeout \<Longrightarrow> emits reads step \<Longrightarrow> emits reads (poll n timeout step)"
  by (induction n) (auto intro!: wp reading)

text \<open>What a readiness check promises: it only reads, and it gives success only when ready.\<close>

locale readiness =
  fixes step :: "('w, unit go option) io"
    and ready :: bool
  assumes checks: "calls reads step (\<lambda>v. v = Some (Inr ()) \<longrightarrow> ready)"
begin

lemma poll_ready:
  "calls reads timeout (\<lambda>r. r \<noteq> Inr ()) \<Longrightarrow> calls reads (poll n timeout step) (\<lambda>r. r = Inr () \<longrightarrow> ready)"
proof (induction n)
  case 0
  then show ?case by (auto elim: calls_mono)
next
  case (Suc n)
  have verdict: "calls reads (case v of Some r \<Rightarrow> ret r | None \<Rightarrow> poll n timeout step) (\<lambda>r. r = Inr () \<longrightarrow> ready)"
    if "v = Some (Inr ()) \<longrightarrow> ready" for v
    using that Suc by (cases v) (auto intro: calls_ret)
  have "calls reads (step \<bind> (\<lambda>v. case v of Some r \<Rightarrow> ret r | None \<Rightarrow> poll n timeout step)) (\<lambda>r. r = Inr () \<longrightarrow> ready)"
    by (rule calls_bind, rule calls_mono [OF checks]) (simp_all add: verdict)
  moreover have "calls reads tick (\<lambda>_. True)" by (intro calls_rules) simp_all
  ultimately show ?case by (auto intro: calls_bind elim: calls_mono)
qed

lemma poll_success:
  assumes "calls reads timeout (\<lambda>r. r \<noteq> Inr ())"
  shows "list_all reads (trace (poll n timeout step) s) \<and> (result (poll n timeout step) s = Inr () \<longrightarrow> ready)"
  using calls_trace [OF poll_ready [OF assms]] by blast

end

section \<open>Paths\<close>

text \<open>\<open>path.Clean\<close> and \<open>filepath.Join\<close> on Unix.\<close>

fun split_slash :: "string \<Rightarrow> string list" where
  "split_slash [] = [[]]"
| "split_slash (c # s) = (if c = CHR ''/'' then [] # split_slash s
     else (case split_slash s of [] \<Rightarrow> [[c]] | x # xs \<Rightarrow> (c # x) # xs))"

text \<open>The cleaned path so far, last component first, and the next component.\<close>

definition path_step :: "bool \<Rightarrow> string \<Rightarrow> string list \<Rightarrow> string list" where
  "path_step rooted c out =
     (if c = '''' \<or> c = ''.'' then out
      else if c = ''..'' then (case out of
          [] \<Rightarrow> if rooted then [] else [c]
        | x # r \<Rightarrow> if x = ''..'' then c # out else r)
      else c # out)"

definition path_Clean :: "string \<Rightarrow> string" where
  "path_Clean p = (let rooted = HasPrefix p ''/''; body = Join (rev (fold (path_step rooted) (split_slash p) [])) ''/'' in
     if rooted then ''/'' @ body else if body = '''' then ''.'' else body)"

definition filepath_Join :: "string \<Rightarrow> string \<Rightarrow> string" where
  "filepath_Join dir name =
     (if dir \<noteq> '''' then path_Clean (dir @ ''/'' @ name) else if name \<noteq> '''' then path_Clean name else '''')"

lemma filepath_Join_examples:
  "filepath_Join ''config'' ''rbac.yaml'' = ''config/rbac.yaml''"
  "filepath_Join ''/etc//kvo/./x/..'' ''rbac.yaml'' = ''/etc/kvo/rbac.yaml''"
  "filepath_Join ''../a/../..'' ''b'' = ''../../b''"
  "filepath_Join '''' ''b'' = ''b''"
  by code_simp+

section \<open>A server that stores Secrets\<close>

text \<open>
  The contract of \<open>secret_store\<close> with updates, for a server nothing else writes to: a failed
  creation changes no Secret, and reading the clock or a ServiceAccount, making a token or a
  key neither.
\<close>

definition opaque :: "string \<Rightarrow> string \<Rightarrow> smap \<Rightarrow> Secret" where
  "opaque ns n data = \<lparr>sec_Meta = meta ns n None None, sec_Type = ''Opaque'', sec_Data = Some data\<rparr>"

definition secret_server :: "'w kvo \<Rightarrow> ('w \<Rightarrow> string \<times> string \<Rightarrow> Secret option) \<Rightarrow> bool" where
  "secret_server K \<sigma> \<longleftrightarrow> secret_store (kube K) \<sigma>
     \<and> (\<forall>x w e w'. createObj (kube K) (OSecret x) w = (Inl e, w') \<longrightarrow> \<sigma> w' = \<sigma> w)
     \<and> (\<forall>x w r w'. t_update K (OSecret x) w = (r, w') \<longrightarrow>
          (case r of Inl e \<Rightarrow> \<sigma> w' = \<sigma> w | Inr _ \<Rightarrow> \<sigma> w' = (\<sigma> w)(secret_key x \<mapsto> x)))
     \<and> (\<forall>w. \<sigma> (snd (time_now (kube K) w)) = \<sigma> w)
     \<and> (\<forall>ns n w. \<sigma> (snd (t_serviceaccount K ns n w)) = \<sigma> w)
     \<and> (\<forall>ns n t w. \<sigma> (snd (create_token K ns n t w)) = \<sigma> w)
     \<and> (\<forall>b w. \<sigma> (snd (rsa_generate K b w)) = \<sigma> w)"

lemma wps_Get_Secret:
  assumes "secret_server K \<sigma>"
    and "\<And>e w'. \<sigma> w' = \<sigma> w \<Longrightarrow> (IsNotFound e \<Longrightarrow> \<sigma> w (ns, n) = None) \<Longrightarrow> Q (Inl e) w' [Get KSecret ns n]"
    and "\<And>x w'. \<sigma> w' = \<sigma> w \<Longrightarrow> \<sigma> w (ns, n) = Some x \<Longrightarrow> secret_key x = (ns, n) \<Longrightarrow> Q (Inr x) w' [Get KSecret ns n]"
  shows "wpt (Get_Secret (kube K) ns n) Q w"
  unfolding prim_defs
proof (rule wpt_call)
  fix r w'
  assume g: "getSecret (kube K) ns n w = (r, w')"
  from assms(1) have "secret_store (kube K) \<sigma>" by (simp add: secret_server_def)
  from secret_storeD(1) [OF this g] show "Q r w' [Get KSecret ns n]"
    by (cases r) (auto intro: assms(2,3))
qed

lemma wps_Create_Secret:
  assumes "secret_server K \<sigma>"
    and "\<And>e w'. \<sigma> w' = \<sigma> w \<Longrightarrow> (IsAlreadyExists e \<Longrightarrow> \<sigma> w (secret_key x) \<noteq> None) \<Longrightarrow> Q (Inl e) w' [Create (OSecret x)]"
    and "\<And>w'. \<sigma> w' = (\<sigma> w)(secret_key x \<mapsto> x) \<Longrightarrow> Q (Inr ()) w' [Create (OSecret x)]"
  shows "wpt (Create_Obj (kube K) (OSecret x)) Q w"
  unfolding prim_defs
proof (rule wpt_call)
  fix r w'
  assume c: "createObj (kube K) (OSecret x) w = (r, w')"
  from assms(1) have "secret_store (kube K) \<sigma>"
    and keep: "\<And>e w'. createObj (kube K) (OSecret x) w = (Inl e, w') \<Longrightarrow> \<sigma> w' = \<sigma> w"
    by (simp_all add: secret_server_def)
  from secret_storeD(2) [OF this(1) c] keep c show "Q r w' [Create (OSecret x)]"
    by (cases r) (auto intro: assms(2,3))
qed

lemma wps_Update_Secret:
  assumes "secret_server K \<sigma>"
    and "\<And>e w'. \<sigma> w' = \<sigma> w \<Longrightarrow> Q (Inl e) w' [Req (TUpdate (OSecret x))]"
    and "\<And>w'. \<sigma> w' = (\<sigma> w)(secret_key x \<mapsto> x) \<Longrightarrow> Q (Inr ()) w' [Req (TUpdate (OSecret x))]"
  shows "wpt (T_Update K (OSecret x)) Q w"
  unfolding kvo_prims
proof (rule wpt_call)
  fix r w'
  assume "t_update K (OSecret x) w = (r, w')"
  with assms(1) have "case r of Inl e \<Rightarrow> \<sigma> w' = \<sigma> w | Inr _ \<Rightarrow> \<sigma> w' = (\<sigma> w)(secret_key x \<mapsto> x)"
    unfolding secret_server_def by blast
  then show "Q r w' [Req (TUpdate (OSecret x))]"
    by (cases r) (auto intro: assms(2,3))
qed

text \<open>A call that changes no Secret.\<close>

lemma wps_quiet_call:
  assumes "\<And>w. \<sigma> (snd (f w)) = \<sigma> w"
    and "\<And>e w'. \<sigma> w' = \<sigma> w \<Longrightarrow> fst (f w) = Inl e \<Longrightarrow> Q (Inl e) w' [a]"
    and "\<And>x w'. \<sigma> w' = \<sigma> w \<Longrightarrow> fst (f w) = Inr x \<Longrightarrow> Q (Inr x) w' [a]"
  shows "wpt (call a f) Q w"
proof (rule wpt_call)
  fix r w'
  assume "f w = (r, w')"
  with assms(1) [of w] show "Q r w' [a]" by (cases r) (auto intro: assms(2,3))
qed

lemma quiet_calls:
  assumes "secret_server K \<sigma>"
  shows "\<sigma> (snd (t_serviceaccount K ns n w)) = \<sigma> w" "\<sigma> (snd (create_token K ns n secs w)) = \<sigma> w"
    "\<sigma> (snd (rsa_generate K bits w)) = \<sigma> w"
  using assms unfolding secret_server_def by blast+

lemma wps_quiet:
  assumes "secret_server K \<sigma>"
  shows "(\<And>t w'. \<sigma> w' = \<sigma> w \<Longrightarrow> t = fst (time_now (kube K) w) \<Longrightarrow> Q1 t w' [Now]) \<Longrightarrow> wpt (Time_Now (kube K)) Q1 w"
    and "(\<And>e w'. \<sigma> w' = \<sigma> w \<Longrightarrow> Q2 (Inl e) w' [Get KServiceAccount ns n]) \<Longrightarrow>
      (\<And>x w'. \<sigma> w' = \<sigma> w \<Longrightarrow> Q2 (Inr x) w' [Get KServiceAccount ns n]) \<Longrightarrow> wpt (Get_ServiceAccount K ns n) Q2 w"
    and "(\<And>e w'. \<sigma> w' = \<sigma> w \<Longrightarrow> Q3 (Inl e) w' [Req (CreateToken ns n secs)]) \<Longrightarrow>
      (\<And>x w'. \<sigma> w' = \<sigma> w \<Longrightarrow> fst (create_token K ns n secs w) = Inr x \<Longrightarrow> Q3 (Inr x) w' [Req (CreateToken ns n secs)]) \<Longrightarrow>
      wpt (Create_Token K ns n secs) Q3 w"
    and "(\<And>e w'. \<sigma> w' = \<sigma> w \<Longrightarrow> Q4 (Inl e) w' [Req (GenerateKey bits)]) \<Longrightarrow>
      (\<And>x w'. \<sigma> w' = \<sigma> w \<Longrightarrow> Q4 (Inr x) w' [Req (GenerateKey bits)]) \<Longrightarrow> wpt (Generate_Key K bits) Q4 w"
proof -
  show "(\<And>t w'. \<sigma> w' = \<sigma> w \<Longrightarrow> t = fst (time_now (kube K) w) \<Longrightarrow> Q1 t w' [Now]) \<Longrightarrow> wpt (Time_Now (kube K)) Q1 w"
    using assms unfolding secret_server_def prim_defs by - (rule wpt_call, metis fst_conv snd_conv)
qed (unfold kvo_prims, (rule wps_quiet_call, rule quiet_calls [OF assms], blast, blast)+)

lemmas wps_secrets = wps_Get_Secret wps_Create_Secret wps_Update_Secret wps_quiet

end
