(* ===== verification/VMInstaller.thy ===== *)
theory VMInstaller imports Ensure GoTime begin

text \<open>
  \<open>pkg/vmmonitoring\<close>: the installation of the operator. The manifests of a directory are
  applied one by one (\<open>installer.go\<close>), the SSH key pair is made when there is none
  (\<open>ssh.go\<close>), the token the guests write logs with is issued and renewed (\<open>loki.go\<close>), and
  the installer waits for the webhook's certificate and for the operator.
\<close>

section \<open>Configuration\<close>

record VMConfig =
  vc_Namespace :: string
  ConfigDir :: string
  OperatorImage :: string
  SSHUsername :: string
  LokiNamespace :: string
  LokiWriterSA :: string

definition LinuxPublicKeySecret :: string where "LinuxPublicKeySecret = ''lin-vm-mon-secret''"
definition LinuxPrivateKeySecret :: string where "LinuxPrivateKeySecret = ''lin-vm-mon-private''"
definition LokiWriterTokenSecret :: string where "LokiWriterTokenSecret = ''vm-loki-writer-token''"
definition OperatorDeployment :: string where "OperatorDeployment = ''kubevirt-observability-operator''"
definition WebhookSecret :: string where "WebhookSecret = ''kubevirt-observability-webhook-certs''"

definition DefaultVMConfig :: VMConfig where
  "DefaultVMConfig = \<lparr>vc_Namespace = ''kubevirt-observability-system'', ConfigDir = ''config'',
     OperatorImage = ''pure-artifactory.dev.purestorage.com/px-docker-dev-virtual/vm-monitoring-operator:0.1'',
     SSHUsername = ''root'', LokiNamespace = ''openshift-logging'', LokiWriterSA = ''collector''\<rparr>"

definition vmDefaults :: "VMConfig \<Rightarrow> VMConfig" where
  "vmDefaults cfg = \<lparr>
     vc_Namespace = or_default (vc_Namespace cfg) (vc_Namespace DefaultVMConfig),
     ConfigDir = or_default (ConfigDir cfg) (ConfigDir DefaultVMConfig),
     OperatorImage = or_default (OperatorImage cfg) (OperatorImage DefaultVMConfig),
     SSHUsername = or_default (SSHUsername cfg) (SSHUsername DefaultVMConfig),
     LokiNamespace = or_default (LokiNamespace cfg) (LokiNamespace DefaultVMConfig),
     LokiWriterSA = or_default (LokiWriterSA cfg) (LokiWriterSA DefaultVMConfig)\<rparr>"

section \<open>The SSH key pair\<close>

definition public_secret :: "VMConfig \<Rightarrow> string \<Rightarrow> Secret" where
  "public_secret cfg publicBytes = opaque (vc_Namespace cfg) LinuxPublicKeySecret (fmupd ''id_rsa.pub'' publicBytes fmempty)"

definition private_secret :: "VMConfig \<Rightarrow> string \<Rightarrow> Secret" where
  "private_secret cfg privatePEM = opaque (vc_Namespace cfg) LinuxPrivateKeySecret
     (fmupd ''username'' (SSHUsername cfg) (fmupd ''id_rsa'' privatePEM fmempty))"

definition new_ssh_pair :: "'w kvo \<Rightarrow> VMConfig \<Rightarrow> ('w, unit go) io" where
  "new_ssh_pair K cfg =
     bindE (wrapE ''generate RSA SSH key: '' (Generate_Key K 4096)) (\<lambda>privateKey.
     case authorized_key K privateKey of
       Inl err \<Rightarrow> fail (Wrapf ''generate SSH public key: '' err)
     | Inr publicBytes \<Rightarrow>
         bindE (tolerate (Wrapf ''create public SSH key secret: '')
           (Create_Obj (kube K) (OSecret (public_secret cfg publicBytes)))) (\<lambda>_.
         tolerate (Wrapf ''create private SSH key secret: '')
           (Create_Obj (kube K) (OSecret (private_secret cfg (private_pem K privateKey))))))"

text \<open>The error of a get that is not \<open>NotFound\<close>.\<close>

definition get_failure :: "'a go \<Rightarrow> goerr option" where
  "get_failure r = (case r of Inl err \<Rightarrow> if \<not> IsNotFound err then Some err else None | Inr _ \<Rightarrow> None)"

definition incomplete_pair :: goerr where
  "incomplete_pair = Errorf (''SSH key secret pair is incomplete; expected both '' @ LinuxPublicKeySecret
     @ '' and '' @ LinuxPrivateKeySecret)"

definition ensureSSHSecrets :: "'w kvo \<Rightarrow> VMConfig \<Rightarrow> ('w, unit go) io" where
  "ensureSSHSecrets K cfg = do {
     pub \<leftarrow> Get_Secret (kube K) (vc_Namespace cfg) LinuxPublicKeySecret;
     priv \<leftarrow> Get_Secret (kube K) (vc_Namespace cfg) LinuxPrivateKeySecret;
     if \<not> is_Inl pub \<and> \<not> is_Inl priv then ok ()
     else (case get_failure pub of
       Some err \<Rightarrow> fail (Wrapf ''get public SSH key secret: '' err)
     | None \<Rightarrow> (case get_failure priv of
       Some err \<Rightarrow> fail (Wrapf ''get private SSH key secret: '' err)
     | None \<Rightarrow>
         if is_Inl pub \<noteq> is_Inl priv then fail incomplete_pair
         else new_ssh_pair K cfg)) }"

section \<open>The token of the log writer\<close>

definition lokiWriterTokenExpirationSeconds :: int where
  "lokiWriterTokenExpirationSeconds = 365 * 24 * 60 * 60"

definition writer_account :: "VMConfig \<Rightarrow> string" where
  "writer_account cfg = LokiNamespace cfg @ ''/'' @ LokiWriterSA cfg"

definition with_metadata :: "(smap \<Rightarrow> smap) \<Rightarrow> Secret \<Rightarrow> Secret" where
  "with_metadata annotate x = x\<lparr>sec_Meta := (sec_Meta x)\<lparr>
     o_Labels := Some (fmupd managed_by ''kvoctl'' (non_nil (o_Labels (sec_Meta x)))),
     o_Annotations := Some (annotate (non_nil (o_Annotations (sec_Meta x))))\<rparr>\<rparr>"

text \<open>The token is still good: its label and its annotation are brought up to date.\<close>

definition reuse_token :: "'w kvo \<Rightarrow> VMConfig \<Rightarrow> Secret \<Rightarrow> ('w, unit go) io" where
  "reuse_token K cfg existing =
     (if mget (o_Labels (sec_Meta existing)) managed_by \<noteq> ''kvoctl''
         \<or> mget (o_Annotations (sec_Meta existing)) token_service_account \<noteq> writer_account cfg
      then wrapE ''update Loki writer token metadata: ''
        (T_Update K (OSecret (with_metadata (fmupd token_service_account (writer_account cfg)) existing)))
      else ok ())"

definition token_annotations :: "VMConfig \<Rightarrow> int \<Rightarrow> smap \<Rightarrow> smap" where
  "token_annotations cfg expiration m = fmupd token_service_account (writer_account cfg)
     (fmupd token_expiration (format_rfc3339 expiration) m)"

definition new_token_secret :: "VMConfig \<Rightarrow> string \<Rightarrow> int \<Rightarrow> Secret" where
  "new_token_secret cfg token expiration = \<lparr>
     sec_Meta = meta (vc_Namespace cfg) LokiWriterTokenSecret (Some (fmupd managed_by ''kvoctl'' fmempty))
       (Some (token_annotations cfg expiration fmempty)),
     sec_Type = ''Opaque'', sec_Data = Some (fmupd ''token'' token fmempty)\<rparr>"

text \<open>
  A new token, written over the existing Secret or into a new one. After a failed get the
  client returns an object without a name.
\<close>

definition store_token :: "'w kvo \<Rightarrow> VMConfig \<Rightarrow> Secret option \<Rightarrow> string \<Rightarrow> int \<Rightarrow> ('w, unit go) io" where
  "store_token K cfg existing token expiration = (case existing of
     Some x \<Rightarrow> if o_Name (sec_Meta x) \<noteq> '''' then
         wrapE ''update Loki writer token secret: '' (T_Update K (OSecret
           ((with_metadata (token_annotations cfg expiration) x)\<lparr>sec_Data := Some (fmupd ''token'' token fmempty)\<rparr>)))
       else tolerate (Wrapf ''create Loki writer token secret: '')
         (Create_Obj (kube K) (OSecret (new_token_secret cfg token expiration)))
   | None \<Rightarrow> tolerate (Wrapf ''create Loki writer token secret: '')
       (Create_Obj (kube K) (OSecret (new_token_secret cfg token expiration))))"

definition renew_token :: "'w kvo \<Rightarrow> VMConfig \<Rightarrow> Secret option \<Rightarrow> ('w, unit go) io" where
  "renew_token K cfg existing =
     bindE (wrapE (''create token for ServiceAccount '' @ writer_account cfg @ '': '')
       (Create_Token K (LokiNamespace cfg) (LokiWriterSA cfg) lokiWriterTokenExpirationSeconds)) (\<lambda>token.
     if tok_Token token = '''' then
       fail (Errorf (''token request for ServiceAccount '' @ writer_account cfg @ '' returned an empty token''))
     else (case tok_Expiration token of
       None \<Rightarrow> fail (Errorf (''token for ServiceAccount '' @ writer_account cfg @ '' has no expiration timestamp''))
     | Some expiration \<Rightarrow> store_token K cfg existing (tok_Token token) expiration))"

definition ensureLokiWriterTokenSecret :: "'w kvo \<Rightarrow> VMConfig \<Rightarrow> ('w, unit go) io" where
  "ensureLokiWriterTokenSecret K cfg = get_or (Wrapf ''get Loki writer token secret: '')
     (Get_Secret (kube K) (vc_Namespace cfg) LokiWriterTokenSecret)
     (\<lambda>existing.
       if mget (sec_Data existing) ''token'' = '''' then
         fail (Errorf (''Secret '' @ vc_Namespace cfg @ ''/'' @ LokiWriterTokenSecret @ '' exists but token data is missing''))
       else (case parse_rfc3339 (mget (o_Annotations (sec_Meta existing)) token_expiration) of
         None \<Rightarrow> renew_token K cfg (Some existing)
       | Some expiration \<Rightarrow> do {
           now \<leftarrow> Time_Now (kube K);
           if now < expiration then reuse_token K cfg existing else renew_token K cfg (Some existing) }))
     (renew_token K cfg None)"

definition ensureLokiWriter :: "'w kvo \<Rightarrow> VMConfig \<Rightarrow> ('w, unit go) io" where
  "ensureLokiWriter K cfg =
     bindE (wrapE (''get Loki token ServiceAccount '' @ writer_account cfg @ '': '')
       (Get_ServiceAccount K (LokiNamespace cfg) (LokiWriterSA cfg))) (\<lambda>_.
       ensureLokiWriterTokenSecret K cfg)"

section \<open>Applying manifests\<close>

definition applyNamespace :: "'w kvo \<Rightarrow> Namespace \<Rightarrow> ('w, unit go) io" where
  "applyNamespace K desired = get_or id (Get_Namespace (kube K) (ns_Name desired)) (\<lambda>_. ok ())
     (tolerate id (Create_Obj (kube K) (ONamespace desired)))"

definition applyServiceAccount :: "'w kvo \<Rightarrow> ServiceAccount \<Rightarrow> ('w, unit go) io" where
  "applyServiceAccount K desired =
     get_or id (Get_ServiceAccount K (o_Namespace (sa_Meta desired)) (o_Name (sa_Meta desired))) (\<lambda>_. ok ())
       (tolerate id (Create_Obj (kube K) (OServiceAccount desired)))"

text \<open>The desired labels and annotations on the metadata that is there.\<close>

definition relabelled :: "ObjectMeta \<Rightarrow> ObjectMeta \<Rightarrow> ObjectMeta" where
  "relabelled desired existing = existing\<lparr>o_Labels := o_Labels desired, o_Annotations := o_Annotations desired\<rparr>"

definition applyClusterRole :: "'w kvo \<Rightarrow> ClusterRole \<Rightarrow> ('w, unit go) io" where
  "applyClusterRole K desired = get_or id (Get_ClusterRole K (o_Name (cr_Meta desired)))
     (\<lambda>existing. T_Update K (OClusterRole (existing\<lparr>cr_Rules := cr_Rules desired,
        cr_Meta := relabelled (cr_Meta desired) (cr_Meta existing)\<rparr>)))
     (tolerate id (Create_Obj (kube K) (OClusterRole desired)))"

definition applyClusterRoleBinding :: "'w kvo \<Rightarrow> ClusterRoleBinding \<Rightarrow> ('w, unit go) io" where
  "applyClusterRoleBinding K desired = get_or id (Get_ClusterRoleBinding K (o_Name (crb_Meta desired)))
     (\<lambda>existing.
       if crb_RoleRef existing \<noteq> crb_RoleRef desired then
         fail (Errorf (''ClusterRoleBinding '' @ quoted K (o_Name (crb_Meta desired)) @ '' already references ''
           @ rr_Kind (crb_RoleRef existing) @ ''/'' @ rr_Name (crb_RoleRef existing) @ '', expected ''
           @ rr_Kind (crb_RoleRef desired) @ ''/'' @ rr_Name (crb_RoleRef desired)))
       else T_Update K (OClusterRoleBinding (existing\<lparr>crb_Subjects := crb_Subjects desired,
         crb_Meta := relabelled (crb_Meta desired) (crb_Meta existing)\<rparr>)))
     (tolerate id (Create_Obj (kube K) (OClusterRoleBinding desired)))"

definition applyService :: "'w kvo \<Rightarrow> ClusterService \<Rightarrow> ('w, unit go) io" where
  "applyService K desired =
     get_or id (Get_ClusterService K (o_Namespace (cs_Meta desired)) (o_Name (cs_Meta desired)))
       (\<lambda>existing. T_Update K (OClusterService (desired\<lparr>cs_ResourceVersion := cs_ResourceVersion existing,
          ClusterIP := ClusterIP existing, ClusterIPs := ClusterIPs existing, IPFamilies := IPFamilies existing,
          IPFamilyPolicy := IPFamilyPolicy existing, HealthCheckNodePort := HealthCheckNodePort existing\<rparr>)))
       (tolerate id (Create_Obj (kube K) (OClusterService desired)))"

definition applyDeployment :: "'w kvo \<Rightarrow> Deployment \<Rightarrow> ('w, unit go) io" where
  "applyDeployment K desired =
     get_or id (Get_Deployment K (o_Namespace (dep_Meta desired)) (o_Name (dep_Meta desired)))
       (\<lambda>existing. T_Update K (ODeployment (desired\<lparr>dep_ResourceVersion := dep_ResourceVersion existing\<rparr>)))
       (tolerate id (Create_Obj (kube K) (ODeployment desired)))"

definition applyMutatingWebhook :: "'w kvo \<Rightarrow> WebhookConfiguration \<Rightarrow> ('w, unit go) io" where
  "applyMutatingWebhook K desired = get_or id (Get_Webhook K (o_Name (wh_Meta desired)))
     (\<lambda>existing. T_Update K (OWebhook (desired\<lparr>wh_ResourceVersion := wh_ResourceVersion existing\<rparr>)))
     (tolerate id (Create_Obj (kube K) (OWebhook desired)))"

text \<open>The image of the first container named manager, if there is one.\<close>

fun set_manager_image :: "string \<Rightarrow> Container list \<Rightarrow> Container list option" where
  "set_manager_image img [] = None"
| "set_manager_image img (c # cs) =
     (if ctr_Name c \<noteq> ''manager'' then map_option (\<lambda>cs. c # cs) (set_manager_image img cs)
      else Some (c\<lparr>Image := img\<rparr> # cs))"

text \<open>\<open>json.Unmarshal\<close> of the data, whose error is returned, and the operation of the kind.\<close>

definition decoded_as :: "'a go \<Rightarrow> ('a \<Rightarrow> ('w, unit go) io) \<Rightarrow> ('w, unit go) io" where
  "decoded_as r apply_it = (case r of Inl err \<Rightarrow> fail err | Inr obj \<Rightarrow> apply_it obj)"

definition applyObject :: "'w kvo \<Rightarrow> VMConfig \<Rightarrow> string \<Rightarrow> gval \<Rightarrow> ('w, unit go) io" where
  "applyObject K cfg kind data =
     (if kind = ''Namespace'' then decoded_as (decode_Namespace K data) (applyNamespace K)
      else if kind = ''ServiceAccount'' then decoded_as (decode_ServiceAccount K data) (applyServiceAccount K)
      else if kind = ''ClusterRole'' then decoded_as (decode_ClusterRole K data) (applyClusterRole K)
      else if kind = ''ClusterRoleBinding'' then decoded_as (decode_ClusterRoleBinding K data) (applyClusterRoleBinding K)
      else if kind = ''Service'' then decoded_as (decode_Service K data) (applyService K)
      else if kind = ''Deployment'' then decoded_as (decode_Deployment K data) (\<lambda>obj.
        case set_manager_image (OperatorImage cfg) (Containers obj) of
          None \<Rightarrow> fail (Errorf ''deployment template has no manager container'')
        | Some cs \<Rightarrow> applyDeployment K (obj\<lparr>Containers := cs\<rparr>))
      else if kind = ''MutatingWebhookConfiguration'' then decoded_as (decode_Webhook K data) (applyMutatingWebhook K)
      else fail (Errorf (''unsupported manifest kind '' @ quoted K kind)))"

text \<open>The documents of a file, then the error that ended the decoding, if it was not the end.\<close>

fun apply_docs :: "'w kvo \<Rightarrow> VMConfig \<Rightarrow> string \<Rightarrow> (string \<times> gval) list list \<Rightarrow> goerr option \<Rightarrow> ('w, unit go) io" where
  "apply_docs K cfg path [] end =
     (case end of None \<Rightarrow> ok () | Some err \<Rightarrow> fail (Wrapf (''decode '' @ path @ '': '') err))"
| "apply_docs K cfg path (raw # docs) end =
     (if raw = [] then apply_docs K cfg path docs end
      else let kind = (case map_of raw ''kind'' of Some (GString s) \<Rightarrow> s | _ \<Rightarrow> '''') in
      if kind = '''' then fail (Errorf (path @ '' contains object without kind''))
      else bindE (wrapE (''apply '' @ kind @ '' from '' @ path @ '': '') (applyObject K cfg kind (GMap raw))) (\<lambda>_.
        apply_docs K cfg path docs end))"

definition applyFile :: "'w kvo \<Rightarrow> VMConfig \<Rightarrow> string \<Rightarrow> ('w, unit go) io" where
  "applyFile K cfg name = (let path = filepath_Join (ConfigDir cfg) name in
     bindE (wrapE (''read '' @ path @ '': '') (Read_File K path)) (\<lambda>data.
       case yaml_docs K data of (docs, end) \<Rightarrow> apply_docs K cfg path docs end))"

section \<open>Waiting\<close>

definition webhook_certificate :: "'w kvo \<Rightarrow> VMConfig \<Rightarrow> ('w, unit go option) io" where
  "webhook_certificate K cfg = do {
     r \<leftarrow> Get_Secret (kube K) (vc_Namespace cfg) WebhookSecret;
     ret (case r of
         Inl err \<Rightarrow> if IsNotFound err then None else Some (Inl (Wrapf ''get webhook certificate Secret: '' err))
       | Inr secret \<Rightarrow>
           if mget (sec_Data secret) ''tls.crt'' \<noteq> '''' \<and> mget (sec_Data secret) ''tls.key'' \<noteq> '''' then Some (Inr ())
           else None) }"

definition waitForWebhookCertificate :: "'w kvo \<Rightarrow> VMConfig \<Rightarrow> nat \<Rightarrow> ('w, unit go) io" where
  "waitForWebhookCertificate K cfg n = poll n
     (fail (Errorf (''timeout waiting for webhook certificate Secret '' @ vc_Namespace cfg @ ''/'' @ WebhookSecret)))
     (webhook_certificate K cfg)"

definition operator_ready :: "'w kvo \<Rightarrow> VMConfig \<Rightarrow> ('w, unit go option) io" where
  "operator_ready K cfg = do {
     r \<leftarrow> Get_Deployment K (vc_Namespace cfg) OperatorDeployment;
     ret (case r of
         Inl err \<Rightarrow> if IsNotFound err then None else Some (Inl err)
       | Inr deployment \<Rightarrow>
           if ObservedGeneration deployment < Generation deployment then None
           else if ReadyReplicas deployment \<ge> 1 \<and> AvailableReplicas deployment \<ge> 1 then Some (Inr ())
           else None) }"

definition VMWaitForReady :: "'w kvo \<Rightarrow> VMConfig \<Rightarrow> nat \<Rightarrow> ('w, unit go) io" where
  "VMWaitForReady K cfg n = (let cfg = vmDefaults cfg in poll n
     (fail (Errorf (''timeout waiting for Deployment '' @ vc_Namespace cfg @ ''/'' @ OperatorDeployment)))
     (operator_ready K cfg))"

section \<open>Install\<close>

definition apply_file_wrapped :: "'w kvo \<Rightarrow> VMConfig \<Rightarrow> string \<Rightarrow> ('w, unit go) io" where
  "apply_file_wrapped K cfg name = wrapE (''apply '' @ name @ '': '') (applyFile K cfg name)"

definition VMInstall :: "'w kvo \<Rightarrow> VMConfig \<Rightarrow> nat \<Rightarrow> nat \<Rightarrow> ('w, unit go) io" where
  "VMInstall K cfg certificate_ticks ready_ticks = (let cfg = vmDefaults cfg in
     bindE (apply_file_wrapped K cfg ''namespace.yaml'') (\<lambda>_.
     bindE (wrapE ''ensure SSH credentials: '' (ensureSSHSecrets K cfg)) (\<lambda>_.
     bindE (wrapE ''ensure Loki writer token: '' (ensureLokiWriter K cfg)) (\<lambda>_.
     bindE (apply_file_wrapped K cfg ''serviceaccount.yaml'') (\<lambda>_.
     bindE (apply_file_wrapped K cfg ''rbac.yaml'') (\<lambda>_.
     bindE (apply_file_wrapped K cfg ''service.yaml'') (\<lambda>_.
     bindE (waitForWebhookCertificate K cfg certificate_ticks) (\<lambda>_.
     bindE (apply_file_wrapped K cfg ''deployment.yaml'') (\<lambda>_.
     bindE (apply_file_wrapped K cfg ''mutatingwebhook.yaml'') (\<lambda>_.
       VMWaitForReady K cfg ready_ticks))))))))))"

end
