(* ===== verification/VMInstallerProps.thy ===== *)
theory VMInstallerProps imports VMInstaller begin

text \<open>
  What the installation of the operator promises: the SSH key pair is never replaced, the
  log writer's token is renewed only when it has to be, and success means that the webhook's
  certificate and a ready operator were seen.
\<close>

section \<open>The SSH key pair\<close>

abbreviation public_at :: "VMConfig \<Rightarrow> string \<times> string" where
  "public_at cfg \<equiv> (vc_Namespace cfg, LinuxPublicKeySecret)"

abbreviation private_at :: "VMConfig \<Rightarrow> string \<times> string" where
  "private_at cfg \<equiv> (vc_Namespace cfg, LinuxPrivateKeySecret)"

lemma pair_keys [simp]:
  "secret_key (public_secret cfg b) = public_at cfg" "secret_key (private_secret cfg p) = private_at cfg"
  "LinuxPublicKeySecret \<noteq> LinuxPrivateKeySecret" "LinuxPrivateKeySecret \<noteq> LinuxPublicKeySecret"
  by (simp_all add: secret_key_def public_secret_def private_secret_def opaque_def
      LinuxPublicKeySecret_def LinuxPrivateKeySecret_def)

definition matching_pair :: "'w kvo \<Rightarrow> VMConfig \<Rightarrow> (string \<times> string \<Rightarrow> Secret option) \<Rightarrow> bool" where
  "matching_pair K cfg S \<longleftrightarrow> (\<exists>key b. authorized_key K key = Inr b
     \<and> S (public_at cfg) = Some (public_secret cfg b) \<and> S (private_at cfg) = Some (private_secret cfg (private_pem K key)))"

text \<open>From no pair: success leaves a matching pair, failure at most its public half.\<close>

lemma wpt_new_ssh_pair:
  assumes "secret_server K \<sigma>" and "\<sigma> w (public_at cfg) = None" and "\<sigma> w (private_at cfg) = None"
  shows "wpt (new_ssh_pair K cfg) (\<lambda>r w' l. (\<forall>k. k \<noteq> public_at cfg \<longrightarrow> k \<noteq> private_at cfg \<longrightarrow> \<sigma> w' k = \<sigma> w k)
     \<and> (r = Inr () \<longrightarrow> matching_pair K cfg (\<sigma> w')) \<and> (r \<noteq> Inr () \<longrightarrow> \<sigma> w' (private_at cfg) = None)) w"
  unfolding new_ssh_pair_def
  by ((rule wps wps_secrets [OF assms(1)] | simp only: sum.case split: if_split | intro conjI impI
      | (auto simp: assms(2,3) matching_pair_def; fail))+)

lemma wpt_ensureSSHSecrets:
  assumes "secret_server K \<sigma>"
  shows "wpt (ensureSSHSecrets K cfg) (\<lambda>r w' l. (\<forall>k x. \<sigma> w k = Some x \<longrightarrow> \<sigma> w' k = Some x)
     \<and> (r = Inr () \<longrightarrow> (\<sigma> w (public_at cfg) \<noteq> None \<and> \<sigma> w (private_at cfg) \<noteq> None \<and> \<sigma> w' = \<sigma> w)
          \<or> (\<sigma> w (public_at cfg) = None \<and> \<sigma> w (private_at cfg) = None \<and> matching_pair K cfg (\<sigma> w')))
     \<and> (r \<noteq> Inr () \<longrightarrow> \<sigma> w (private_at cfg) = None \<longrightarrow> \<sigma> w' (private_at cfg) = None)) w"
  unfolding ensureSSHSecrets_def
  by ((rule wps wps_secrets [OF assms(1)] wpt_mono [OF wpt_new_ssh_pair [OF assms(1)]] | simp only: sum.case split: if_split | intro conjI impI
      | (auto simp: get_failure_def split: if_splits; fail)
      | (simp add: get_failure_def split: if_splits; metis option.distinct(1)))+)

text \<open>
  C36. The key pair of the operator. On a server that stores what it is sent, making sure of the
  key pair never changes a Secret that is there. It succeeds only when both halves were
  there already, and then changes nothing, or when neither was, and then it leaves a public
  and a private Secret of one generated key.
\<close>
theorem ssh_pair_is_never_replaced:
  assumes "secret_server K \<sigma>" and "world s' = world (snd (run_state (ensureSSHSecrets K cfg) s))"
  shows "(\<forall>k x. \<sigma> (world s) k = Some x \<longrightarrow> \<sigma> (world s') k = Some x)
     \<and> (result (ensureSSHSecrets K cfg) s = Inr () \<longrightarrow>
          (\<sigma> (world s) (public_at cfg) \<noteq> None \<and> \<sigma> (world s) (private_at cfg) \<noteq> None \<and> \<sigma> (world s') = \<sigma> (world s))
        \<or> (\<sigma> (world s) (public_at cfg) = None \<and> \<sigma> (world s) (private_at cfg) = None \<and> matching_pair K cfg (\<sigma> (world s'))))"
  using wpt_run [OF wpt_ensureSSHSecrets [OF assms(1), where cfg = cfg], where s = s] assms(2) by simp

text \<open>
  C37. An installation that fails half way blocks itself. When there was no pair, and a run fails
  after it stored the public half (because the private one is refused, by a quota or an
  admission policy), every later run on that server fails too, even when the reason is gone:
  the private half of the stored key is lost, and the code refuses an incomplete pair.
\<close>
theorem failed_pair_blocks_installation:
  assumes "secret_server K \<sigma>" and "\<sigma> (world s) (private_at cfg) = None"
    and "result (ensureSSHSecrets K cfg) s \<noteq> Inr ()"
    and "\<sigma> (world (snd (run_state (ensureSSHSecrets K cfg) s))) (public_at cfg) \<noteq> None"
    and "secret_server K' \<sigma>" and "\<sigma> (world s') = \<sigma> (world (snd (run_state (ensureSSHSecrets K cfg) s)))"
  shows "result (ensureSSHSecrets K' cfg) s' \<noteq> Inr ()"
  using wpt_run [OF wpt_ensureSSHSecrets [OF assms(1), where cfg = cfg], where s = s] assms(2,3,4,6)
    wpt_run [OF wpt_ensureSSHSecrets [OF assms(5), where cfg = cfg], where s = s'] by auto

section \<open>The token of the log writer\<close>

abbreviation token_at :: "VMConfig \<Rightarrow> string \<times> string" where
  "token_at cfg \<equiv> (vc_Namespace cfg, LokiWriterTokenSecret)"

definition asks_token :: "VMConfig \<Rightarrow> action" where
  "asks_token cfg = Req (CreateToken (LokiNamespace cfg) (LokiWriterSA cfg) lokiWriterTokenExpirationSeconds)"

text \<open>The Secret is kvoctl's and names the account of the token.\<close>

definition recorded :: "VMConfig \<Rightarrow> Secret \<Rightarrow> bool" where
  "recorded cfg x \<longleftrightarrow> mget (o_Labels (sec_Meta x)) managed_by = ''kvoctl''
     \<and> mget (o_Annotations (sec_Meta x)) token_service_account = writer_account cfg"

text \<open>A token that was there and is still good: its expiration is later than a time the clock gave.\<close>

definition kept_token :: "'w kvo \<Rightarrow> VMConfig \<Rightarrow> Secret option \<Rightarrow> Secret \<Rightarrow> bool" where
  "kept_token K cfg before x \<longleftrightarrow> (\<exists>y t w. before = Some y \<and> sec_Data x = sec_Data y \<and> mget (sec_Data y) ''token'' \<noteq> ''''
     \<and> parse_rfc3339 (mget (o_Annotations (sec_Meta y)) token_expiration) = Some t \<and> fst (time_now (kube K) w) < t
     \<and> mget (o_Annotations (sec_Meta x)) token_expiration = mget (o_Annotations (sec_Meta y)) token_expiration)"

text \<open>A token the server issued, recorded with its expiration.\<close>

definition issued_token :: "'w kvo \<Rightarrow> VMConfig \<Rightarrow> Secret \<Rightarrow> bool" where
  "issued_token K cfg x \<longleftrightarrow> (\<exists>st t w. fst (create_token K (LokiNamespace cfg) (LokiWriterSA cfg) lokiWriterTokenExpirationSeconds w) = Inr st
     \<and> tok_Expiration st = Some t \<and> tok_Token st \<noteq> '''' \<and> sec_Data x = Some (fmupd ''token'' (tok_Token st) fmempty)
     \<and> mget (o_Annotations (sec_Meta x)) token_expiration = format_rfc3339 t)"

definition good_token :: "'w kvo \<Rightarrow> VMConfig \<Rightarrow> Secret option \<Rightarrow> action list \<Rightarrow> Secret \<Rightarrow> bool" where
  "good_token K cfg before l x \<longleftrightarrow> recorded cfg x
     \<and> (kept_token K cfg before x \<and> asks_token cfg \<notin> set l \<or> issued_token K cfg x \<and> asks_token cfg \<in> set l)"

lemma token_names [simp]:
  "managed_by \<noteq> token_service_account" "token_expiration \<noteq> token_service_account" "token_service_account \<noteq> token_expiration"
  by (simp_all add: managed_by_def token_expiration_def token_service_account_def)

lemma with_metadata_simps [simp]:
  "secret_key (with_metadata f x) = secret_key x" "sec_Data (with_metadata f x) = sec_Data x"
  "mget (o_Labels (sec_Meta (with_metadata f x))) managed_by = ''kvoctl''"
  "o_Annotations (sec_Meta (with_metadata f x)) = Some (f (non_nil (o_Annotations (sec_Meta x))))"
  by (simp_all add: secret_key_def with_metadata_def)

lemma new_token_secret_simps [simp]:
  "secret_key (new_token_secret cfg t e) = token_at cfg" "sec_Data (new_token_secret cfg t e) = Some (fmupd ''token'' t fmempty)"
  "mget (o_Labels (sec_Meta (new_token_secret cfg t e))) managed_by = ''kvoctl''"
  "o_Annotations (sec_Meta (new_token_secret cfg t e)) = Some (token_annotations cfg e fmempty)"
  by (simp_all add: secret_key_def new_token_secret_def)

lemma token_annotations_simps [simp]:
  "mget (Some (token_annotations cfg e m)) token_expiration = format_rfc3339 e"
  "mget (Some (token_annotations cfg e m)) token_service_account = writer_account cfg"
  by (simp_all add: token_annotations_def)

lemma secret_key_data [simp]: "secret_key (x\<lparr>sec_Data := d\<rparr>) = secret_key x"
  by (simp add: secret_key_def)

lemma stored_as: "f = S(k \<mapsto> x) \<Longrightarrow> P x \<Longrightarrow> \<exists>x. f = S(k \<mapsto> x) \<and> P x"
  by blast

lemma stored_back: "S k = Some x \<Longrightarrow> P x \<Longrightarrow> \<exists>x. S = S(k \<mapsto> x) \<and> P x"
  by (metis fun_upd_triv)

lemma wpt_renew_token:
  assumes "secret_server K \<sigma>"
    and "\<And>x. existing = Some x \<Longrightarrow> secret_key x = token_at cfg" and "existing = None \<Longrightarrow> \<sigma> w (token_at cfg) = None"
  shows "wpt (renew_token K cfg existing) (\<lambda>r w' l. (r = Inr () \<longrightarrow> (\<exists>x. \<sigma> w' = (\<sigma> w)(token_at cfg \<mapsto> x)
     \<and> recorded cfg x \<and> issued_token K cfg x \<and> asks_token cfg \<in> set l)) \<and> (r \<noteq> Inr () \<longrightarrow> \<sigma> w' = \<sigma> w)) w"
proof -
  have named: "o_Name (sec_Meta x) \<noteq> ''''" if "existing = Some x" for x
    using assms(2) [OF that] by (simp add: secret_key_def LokiWriterTokenSecret_def)
  show ?thesis
    unfolding renew_token_def store_token_def
    by ((rule wps wps_secrets [OF assms(1)] | simp only: sum.case split: if_split | intro conjI impI
        | (rule stored_as, (simp add: assms(2); fail), (auto simp: recorded_def issued_token_def asks_token_def; fail))
        | (auto simp: named assms(3); fail))+)
qed

lemma wpt_ensureLokiWriterTokenSecret:
  assumes "secret_server K \<sigma>"
  shows "wpt (ensureLokiWriterTokenSecret K cfg) (\<lambda>r w' l.
     (r = Inr () \<longrightarrow> (\<exists>x. \<sigma> w' = (\<sigma> w)(token_at cfg \<mapsto> x) \<and> good_token K cfg (\<sigma> w (token_at cfg)) l x))
     \<and> (r \<noteq> Inr () \<longrightarrow> \<sigma> w' = \<sigma> w)) w"
  unfolding ensureLokiWriterTokenSecret_def reuse_token_def
  by ((rule wps wps_secrets [OF assms(1)] wpt_mono [OF wpt_renew_token [OF assms(1)]]
      | simp only: sum.case split: if_split | intro conjI impI
      | (rule stored_as, (simp; fail), (auto simp: good_token_def asks_token_def recorded_def kept_token_def; fail))
      | (rule stored_back, assumption, (auto simp: good_token_def asks_token_def recorded_def kept_token_def; fail))
      | (auto simp: good_token_def; fail))+)


section \<open>Waiting\<close>

definition certificate_seen :: "'w kvo \<Rightarrow> VMConfig \<Rightarrow> bool" where
  "certificate_seen K cfg \<longleftrightarrow> (\<exists>w x. fst (getSecret (kube K) (vc_Namespace cfg) WebhookSecret w) = Inr x
     \<and> mget (sec_Data x) ''tls.crt'' \<noteq> '''' \<and> mget (sec_Data x) ''tls.key'' \<noteq> '''')"

definition operator_seen :: "'w kvo \<Rightarrow> VMConfig \<Rightarrow> bool" where
  "operator_seen K cfg \<longleftrightarrow> (\<exists>w d. fst (t_deployment K (vc_Namespace cfg) OperatorDeployment w) = Inr d
     \<and> Generation d \<le> ObservedGeneration d \<and> 1 \<le> ReadyReplicas d \<and> 1 \<le> AvailableReplicas d)"

interpretation certificate: readiness "webhook_certificate K cfg" "certificate_seen K cfg" for K cfg
proof
  show "calls reads (webhook_certificate K cfg) (\<lambda>v. v = Some (Inr ()) \<longrightarrow> certificate_seen K cfg)"
    unfolding webhook_certificate_def prim_defs
    by (rule calls_bind, rule calls_call, simp, rule calls_ret)
      (auto simp: certificate_seen_def split: sum.splits if_splits)
qed

interpretation operator: readiness "operator_ready K cfg" "operator_seen K cfg" for K cfg
proof
  show "calls reads (operator_ready K cfg) (\<lambda>v. v = Some (Inr ()) \<longrightarrow> operator_seen K cfg)"
    unfolding operator_ready_def kvo_prims
    by (rule calls_bind, rule calls_call, simp, rule calls_ret)
      (force simp: operator_seen_def split: sum.splits if_splits)
qed

lemma calls_waitForWebhookCertificate:
  "calls reads (waitForWebhookCertificate K cfg n) (\<lambda>r. r = Inr () \<longrightarrow> certificate_seen K cfg)"
  unfolding waitForWebhookCertificate_def by (rule certificate.poll_ready) (simp add: calls_ret)

lemma calls_VMWaitForReady:
  "calls reads (VMWaitForReady K cfg n) (\<lambda>r. r = Inr () \<longrightarrow> operator_seen K (vmDefaults cfg))"
  unfolding VMWaitForReady_def Let_def by (rule operator.poll_ready) (simp add: calls_ret)

section \<open>What the installation writes\<close>

definition installer_writes :: "VMConfig \<Rightarrow> action \<Rightarrow> bool" where
  "installer_writes cfg a \<longleftrightarrow> (case a of
     Create x \<Rightarrow> (case x of
         OSecret y \<Rightarrow> secret_key y \<in> {public_at cfg, private_at cfg, token_at cfg}
       | ONamespace _ \<Rightarrow> True | OServiceAccount _ \<Rightarrow> True | OClusterRole _ \<Rightarrow> True | OClusterRoleBinding _ \<Rightarrow> True
       | OClusterService _ \<Rightarrow> True | ODeployment _ \<Rightarrow> True | OWebhook _ \<Rightarrow> True | _ \<Rightarrow> False)
   | Req r \<Rightarrow> (case r of
         TUpdate x \<Rightarrow> (case x of
             OSecret y \<Rightarrow> secret_key y = token_at cfg
           | OClusterRole _ \<Rightarrow> True | OClusterRoleBinding _ \<Rightarrow> True | OClusterService _ \<Rightarrow> True
           | ODeployment _ \<Rightarrow> True | OWebhook _ \<Rightarrow> True | _ \<Rightarrow> False)
       | CreateToken ns n secs \<Rightarrow> ns = LokiNamespace cfg \<and> n = LokiWriterSA cfg
       | _ \<Rightarrow> False)
   | _ \<Rightarrow> False)"

definition installs :: "VMConfig \<Rightarrow> action \<Rightarrow> bool" where
  "installs cfg a \<longleftrightarrow> reads a \<or> installer_writes cfg a"

lemma installs_reads: "reads a \<Longrightarrow> installs cfg a"
  by (simp add: installs_def)

lemma secret_key_named: "named ns n (sec_Meta x) \<Longrightarrow> secret_key x = (ns, n)"
  by (simp add: secret_key_def named_def)

lemma calls_applyObject: "calls (installs cfg) (applyObject K cfg kind data) (\<lambda>_. True)"
  unfolding applyObject_def decoded_as_def applyNamespace_def applyServiceAccount_def applyClusterRole_def
    applyClusterRoleBinding_def applyService_def applyDeployment_def applyMutatingWebhook_def get_or_def tolerate_def prim_defs
  by (intro calls_rules calls_call) (simp_all add: installs_def installer_writes_def)

lemma calls_apply_docs: "calls (installs cfg) (apply_docs K cfg path docs end) (\<lambda>_. True)"
proof (induction docs)
  case (Cons raw docs)
  then show ?case unfolding apply_docs.simps Let_def
    by (intro calls_if calls_bindE calls_wrapE calls_mono [OF calls_applyObject]) (auto intro: calls_ret)
qed (auto intro: calls_ret split: option.splits)

lemma calls_apply_file: "calls (installs cfg) (apply_file_wrapped K cfg name) (\<lambda>_. True)"
  unfolding apply_file_wrapped_def applyFile_def Let_def
  by ((rule calls_rules calls_mono [OF calls_apply_docs] | intro conjI allI impI | (simp add: installs_def; fail))+)

lemma emits_calls: "emits P m \<Longrightarrow> calls P m (\<lambda>_. True)"
  by (simp add: emits_def calls_def)

lemma calls_ensureSSHSecrets: "calls (installs cfg) (ensureSSHSecrets K cfg) (\<lambda>_. True)"
  unfolding ensureSSHSecrets_def new_ssh_pair_def kvo_prims prim_defs
  by (intro emits_calls wp) (simp_all add: installs_def installer_writes_def)

lemma calls_ensureLokiWriter:
  assumes "honest (kube K)"
  shows "calls (installs cfg) (ensureLokiWriter K cfg) (\<lambda>_. True)"
proof -
  have renew: "calls (installs cfg) (renew_token K cfg existing) (\<lambda>_. True)"
    if "\<And>x. existing = Some x \<Longrightarrow> secret_key x = token_at cfg" for existing
    unfolding renew_token_def store_token_def
    by ((rule calls_rules | intro conjI allI impI | (simp add: installs_def installer_writes_def that; fail))+)
  show ?thesis
    unfolding ensureLokiWriter_def ensureLokiWriterTokenSecret_def reuse_token_def
    by ((rule assms renew calls_rules | intro conjI allI impI
        | (simp add: installs_def installer_writes_def secret_key_named; fail))+)
qed

lemma calls_VMInstall:
  assumes "honest (kube K)"
  shows "calls (installs (vmDefaults cfg)) (VMInstall K cfg n m)
      (\<lambda>r. r = Inr () \<longrightarrow> certificate_seen K (vmDefaults cfg) \<and> operator_seen K (vmDefaults cfg))"
proof -
  have idem: "vmDefaults (vmDefaults cfg) = vmDefaults cfg" by (simp add: vmDefaults_def or_default_def DefaultVMConfig_def)
  note waits = calls_mono [OF calls_waitForWebhookCertificate installs_reads] calls_mono [OF calls_VMWaitForReady installs_reads]
  show ?thesis
    unfolding VMInstall_def Let_def
    by (intro calls_bindE calls_wrapE calls_mono [OF calls_apply_file] calls_mono [OF calls_ensureSSHSecrets]
        calls_mono [OF calls_ensureLokiWriter [OF assms]] waits conjI allI impI) (auto simp: idem)
qed

text \<open>
  The installation of the operator. Everything it does reads the cluster, or prepares, or
  creates an object of one of the seven kinds of manifests or one of its three Secrets, or
  updates a ClusterRole, its binding, a Service, a Deployment, a webhook configuration or
  the Secret of the token, or requests that token; it never updates a Namespace or a
  ServiceAccount that is there, nor the Secrets of the key pair, nor touches a VM. And it
  succeeds only if the server showed the webhook's certificate, and a Deployment of the
  operator that is available at its current generation.
\<close>
theorem VMInstall_confined_and_ready:
  assumes "honest (kube K)"
  shows "list_all (installs (vmDefaults cfg)) (trace (VMInstall K cfg n m) s)
     \<and> (result (VMInstall K cfg n m) s = Inr () \<longrightarrow> certificate_seen K (vmDefaults cfg) \<and> operator_seen K (vmDefaults cfg))"
  using calls_trace [OF calls_VMInstall [OF assms]] by blast

lemma set_manager_image_spec:
  "set_manager_image img cs = Some cs' \<Longrightarrow> \<exists>before c after. cs = before @ c # after \<and> ctr_Name c = ''manager''
     \<and> (\<forall>b\<in>set before. ctr_Name b \<noteq> ''manager'') \<and> cs' = before @ c\<lparr>Image := img\<rparr> # after"
proof (induction cs arbitrary: cs')
  case (Cons c cs)
  show ?case
  proof (cases "ctr_Name c = ''manager''")
    case True
    with Cons.prems show ?thesis by (intro exI [of _ "[]"]) auto
  next
    case False
    with Cons.prems obtain ds where "set_manager_image img cs = Some ds" "cs' = c # ds" by auto
    with Cons.IH [OF this(1)] False show ?thesis by (metis append_Cons set_ConsD)
  qed
qed simp

section \<open>Concrete servers\<close>

definition secrets_kvo :: "(string \<times> string \<Rightarrow> Secret option) kvo" where
  "secrets_kvo = (offline_kvo map_client)\<lparr>
     t_update := (\<lambda>x w. case x of OSecret y \<Rightarrow> (Inr (), w(secret_key y \<mapsto> y)) | _ \<Rightarrow> (Inr (), w))\<rparr>"

text \<open>One on which a quota refuses the private half.\<close>

definition full_kvo :: "(string \<times> string \<Rightarrow> Secret option) kvo" where
  "full_kvo = secrets_kvo\<lparr>kube := map_client\<lparr>createObj := (\<lambda>x w. case x of
     OSecret y \<Rightarrow> if o_Name (sec_Meta y) = LinuxPrivateKeySecret then (Inl (Errorf ''exceeded quota''), w)
       else createObj map_client x w
   | _ \<Rightarrow> createObj map_client x w)\<rparr>\<rparr>"

lemma secrets_kvo_simps [simp]:
  "kube secrets_kvo = map_client" "t_update secrets_kvo (OSecret y) w = (Inr (), w(secret_key y \<mapsto> y))"
  "rsa_generate secrets_kvo b w = (Inr ''key'', w)" "authorized_key secrets_kvo k = Inr (''public '' @ k)"
  "private_pem secrets_kvo k = ''private '' @ k" "t_serviceaccount secrets_kvo ns n w = (Inl not_found, w)"
  "create_token secrets_kvo ns n t w = (Inr \<lparr>tok_Token = ''token'', tok_Expiration = Some 0\<rparr>, w)"
  "time_now map_client w = (0, w)"
  by (simp_all add: secrets_kvo_def offline_kvo_def map_client_def)

lemma full_kvo_simps [simp]:
  "createObj (kube full_kvo) (OSecret y) w = (if o_Name (sec_Meta y) = LinuxPrivateKeySecret then (Inl (Errorf ''exceeded quota''), w)
     else createObj map_client (OSecret y) w)"
  "getSecret (kube full_kvo) = getSecret map_client" "patchObj (kube full_kvo) = patchObj map_client"
  "time_now (kube full_kvo) w = (0, w)" "t_update full_kvo = t_update secrets_kvo"
  "rsa_generate full_kvo b w = (Inr ''key'', w)" "authorized_key full_kvo k = Inr (''public '' @ k)"
  "private_pem full_kvo k = ''private '' @ k" "t_serviceaccount full_kvo ns n w = (Inl not_found, w)"
  "create_token full_kvo = create_token secrets_kvo"
  by (simp_all add: full_kvo_def secrets_kvo_def offline_kvo_def map_client_def)

lemma secrets_kvo_server: "secret_server secrets_kvo (\<lambda>w. w)"
  unfolding secret_server_def using map_client_store
  by (auto simp: secrets_kvo_def offline_kvo_def map_client_def split: option.splits)

lemma quota_kinds [simp]: "\<not> IsNotFound (Errorf msg)" "\<not> IsAlreadyExists (Errorf msg)"
  by (simp_all add: IsNotFound_def IsAlreadyExists_def)

lemma full_kvo_server: "secret_server full_kvo (\<lambda>w. w)"
  unfolding secret_server_def secret_store_def
  by (auto split: option.splits if_splits)

abbreviation no_secrets :: "(string \<times> string \<Rightarrow> Secret option) st" where
  "no_secrets \<equiv> \<lparr>world = (\<lambda>_. None), acts = []\<rparr>"

lemmas run_installer = ensureSSHSecrets_def new_ssh_pair_def ensureLokiWriterTokenSecret_def renew_token_def store_token_def
  get_or_def tolerate_def bindE_def wrapE_def kvo_prims prim_defs

lemma first_pair_run: "run_state (ensureSSHSecrets secrets_kvo cfg) no_secrets =
   (Inr (), \<lparr>world = [public_at cfg \<mapsto> public_secret cfg ''public key'', private_at cfg \<mapsto> private_secret cfg ''private key''],
     acts = [Get KSecret (vc_Namespace cfg) LinuxPublicKeySecret, Get KSecret (vc_Namespace cfg) LinuxPrivateKeySecret,
       Req (GenerateKey 4096), Create (OSecret (public_secret cfg ''public key'')),
       Create (OSecret (private_secret cfg ''private key''))]\<rparr>)"
  by (simp add: run_installer get_failure_def)

theorem ssh_pair_is_never_replaced_witness:
  "matching_pair secrets_kvo DefaultVMConfig (world (snd (run_state (ensureSSHSecrets secrets_kvo DefaultVMConfig) no_secrets)))"
  using ssh_pair_is_never_replaced [OF secrets_kvo_server refl, where cfg = DefaultVMConfig and s = no_secrets]
  by (simp add: first_pair_run result_def)

lemma refused_pair_run: "run_state (ensureSSHSecrets full_kvo cfg) no_secrets =
   (Inl (Wrapf ''create private SSH key secret: '' (Errorf ''exceeded quota'')),
    \<lparr>world = [public_at cfg \<mapsto> public_secret cfg ''public key''],
     acts = [Get KSecret (vc_Namespace cfg) LinuxPublicKeySecret, Get KSecret (vc_Namespace cfg) LinuxPrivateKeySecret,
       Req (GenerateKey 4096), Create (OSecret (public_secret cfg ''public key'')),
       Create (OSecret (private_secret cfg ''private key''))]\<rparr>)"
  by (simp add: run_installer get_failure_def private_secret_def public_secret_def opaque_def secret_key_def)

theorem failed_pair_blocks_installation_witness:
  "result (ensureSSHSecrets secrets_kvo DefaultVMConfig) (snd (run_state (ensureSSHSecrets full_kvo DefaultVMConfig) no_secrets)) \<noteq> Inr ()"
  by (rule failed_pair_blocks_installation [OF full_kvo_server _ _ _ secrets_kvo_server refl])
    (simp_all add: refused_pair_run result_def)

lemma first_token_run: "run_state (ensureLokiWriterTokenSecret secrets_kvo cfg) no_secrets =
   (Inr (), \<lparr>world = [token_at cfg \<mapsto> new_token_secret cfg ''token'' 0],
     acts = [Get KSecret (vc_Namespace cfg) LokiWriterTokenSecret, asks_token cfg,
       Create (OSecret (new_token_secret cfg ''token'' 0))]\<rparr>)"
  by (simp add: run_installer asks_token_def)


theorem VMInstall_confined_and_ready_witness:
  "list_all (installs DefaultVMConfig) (trace (VMInstall secrets_kvo DefaultVMConfig 0 0) no_secrets)"
proof -
  have "honest (kube secrets_kvo)" using map_client_honest by simp
  moreover have "vmDefaults DefaultVMConfig = DefaultVMConfig"
    by (simp add: vmDefaults_def DefaultVMConfig_def or_default_def)
  ultimately show ?thesis using VMInstall_confined_and_ready [of secrets_kvo DefaultVMConfig 0 0 no_secrets] by simp
qed

end
