(* ===== verification/GrafanaDiscovery.thy ===== *)
theory GrafanaDiscovery imports Platform begin

text \<open>
  \<open>pkg/grafana/discovery.go\<close>: the search for a Grafana that is in the cluster already, first a
  Deployment named grafana, then one with the label \<open>app=grafana\<close>.
\<close>

record DiscoveryResult =
  Found :: bool
  dr_Namespace :: string
  dr_Deployment :: string

definition GrafanaDeploymentName :: string where
  "GrafanaDeploymentName = ''grafana''"

definition grafana_in :: "ObjectMeta list \<Rightarrow> DiscoveryResult" where
  "grafana_in ds = (case List.find (\<lambda>d. o_Name d = GrafanaDeploymentName) ds of
     Some d \<Rightarrow> \<lparr>Found = True, dr_Namespace = o_Namespace d, dr_Deployment = o_Name d\<rparr>
   | None \<Rightarrow> (case List.find (\<lambda>d. mget (o_Labels d) ''app'' = ''grafana'') ds of
     Some d \<Rightarrow> \<lparr>Found = True, dr_Namespace = o_Namespace d, dr_Deployment = o_Name d\<rparr>
   | None \<Rightarrow> \<lparr>Found = False, dr_Namespace = '''', dr_Deployment = ''''\<rparr>))"

definition DiscoverGrafana :: "'w kvo \<Rightarrow> ('w, DiscoveryResult go) io" where
  "DiscoverGrafana K = bindE (wrapE ''list Deployments while discovering Grafana: '' (Deployments K ''''))
     (\<lambda>ds. ok (grafana_in ds))"

end
