(* ===== verification/GrafanaDeployment.thy ===== *)
theory GrafanaDeployment imports Ensure GrafanaDiscovery begin

text \<open>
  \<open>pkg/grafana/deployment.go\<close> and \<open>config.go\<close>: the Deployment of Grafana. A Deployment that is
  there is merged with what the observability datasources need (two environment variables,
  three mounts and three volumes), which is refused when it would overwrite something; else
  a whole Deployment is created.
\<close>

section \<open>Configuration\<close>

record GrafanaConfig =
  gc_Namespace :: string
  GrafanaImage :: string
  PrometheusURL :: string
  LokiURL :: string
  PrometheusUID :: string
  LokiUID :: string
  DashboardDir :: string
  PrometheusTokenNamespace :: string
  PrometheusTokenServiceAccount :: string
  LokiTokenNamespace :: string
  LokiTokenServiceAccount :: string

definition GrafanaNamespace :: string where "GrafanaNamespace = ''grafana''"
definition GrafanaServiceAccount :: string where "GrafanaServiceAccount = ''grafana''"
definition DatasourceConfigMapName :: string where "DatasourceConfigMapName = ''grafana-source-config''"
definition DashboardProviderConfigMapName :: string where "DashboardProviderConfigMapName = ''grafana-dashboard-config''"
definition DashboardsConfigMapName :: string where "DashboardsConfigMapName = ''grafana-dashboards''"
definition PrometheusTokenSecretName :: string where "PrometheusTokenSecretName = ''grafana-prometheus-token''"
definition LokiTokenSecretName :: string where "LokiTokenSecretName = ''grafana-loki-token''"

definition DefaultGrafanaConfig :: GrafanaConfig where
  "DefaultGrafanaConfig = \<lparr>gc_Namespace = GrafanaNamespace, GrafanaImage = ''grafana/grafana:11.5.0'',
     PrometheusURL = ''https://thanos-querier.openshift-monitoring.svc:9091'',
     LokiURL = ''https://logging-loki-gateway-http.openshift-logging.svc:8080'',
     PrometheusUID = ''kvo-prometheus'', LokiUID = ''kvo-loki'', DashboardDir = ''config/grafana/dashboards'',
     PrometheusTokenNamespace = GrafanaNamespace, PrometheusTokenServiceAccount = GrafanaServiceAccount,
     LokiTokenNamespace = GrafanaNamespace, LokiTokenServiceAccount = GrafanaServiceAccount\<rparr>"

definition grafanaDefaults :: "GrafanaConfig \<Rightarrow> GrafanaConfig" where
  "grafanaDefaults cfg = (let ns = or_default (gc_Namespace cfg) GrafanaNamespace in \<lparr>
     gc_Namespace = ns,
     GrafanaImage = or_default (GrafanaImage cfg) (GrafanaImage DefaultGrafanaConfig),
     PrometheusURL = or_default (PrometheusURL cfg) (PrometheusURL DefaultGrafanaConfig),
     LokiURL = or_default (LokiURL cfg) (LokiURL DefaultGrafanaConfig),
     PrometheusUID = or_default (PrometheusUID cfg) (PrometheusUID DefaultGrafanaConfig),
     LokiUID = or_default (LokiUID cfg) (LokiUID DefaultGrafanaConfig),
     DashboardDir = or_default (DashboardDir cfg) (DashboardDir DefaultGrafanaConfig),
     PrometheusTokenNamespace = or_default (PrometheusTokenNamespace cfg) ns,
     PrometheusTokenServiceAccount = or_default (PrometheusTokenServiceAccount cfg) GrafanaServiceAccount,
     LokiTokenNamespace = or_default (LokiTokenNamespace cfg) ns,
     LokiTokenServiceAccount = or_default (LokiTokenServiceAccount cfg) GrafanaServiceAccount\<rparr>)"

section \<open>Merging into a Deployment\<close>

definition refusing :: string where
  "refusing = ''; refusing to overwrite it''"

definition secret_env :: "string \<Rightarrow> string \<Rightarrow> string \<Rightarrow> EnvVar" where
  "secret_env name secretName secretKey = \<lparr>env_Name = name, env_Value = '''',
     ValueFrom = Some \<lparr>SecretKeyRef = Some (secretName, secretKey), evs_Rest = GMap []\<rparr>\<rparr>"

definition ensureSecretEnvVar :: "'w kvo \<Rightarrow> string \<Rightarrow> string \<Rightarrow> string \<Rightarrow> EnvVar list \<Rightarrow> EnvVar list go" where
  "ensureSecretEnvVar K name secretName secretKey vars = (case List.find (\<lambda>e. env_Name e = name) vars of
     None \<Rightarrow> Inr (vars @ [secret_env name secretName secretKey])
   | Some e \<Rightarrow>
       if env_Value e \<noteq> '''' then
         Inl (Errorf (''environment variable '' @ quoted K name @ '' already exists with a literal value'' @ refusing))
       else (case ValueFrom e of
         None \<Rightarrow> Inl (Errorf (''environment variable '' @ quoted K name
           @ '' already exists but does not reference a Secret'' @ refusing))
       | Some source \<Rightarrow> (case SecretKeyRef source of
           None \<Rightarrow> Inl (Errorf (''environment variable '' @ quoted K name
             @ '' already exists but does not reference a Secret'' @ refusing))
         | Some (refName, refKey) \<Rightarrow>
             if refName \<noteq> secretName \<or> refKey \<noteq> secretKey then
               Inl (Errorf (''environment variable '' @ quoted K name @ '' references Secret '' @ refName @ ''/'' @ refKey
                 @ '', expected '' @ secretName @ ''/'' @ secretKey @ refusing))
             else Inr vars)))"

definition new_mount :: "string \<Rightarrow> string \<Rightarrow> VolumeMount" where
  "new_mount name path = \<lparr>mnt_Name = name, MountPath = path, mnt_Rest = GMap []\<rparr>"

text \<open>The loop stops at the first mount with the name or with the path.\<close>

definition ensureVolumeMount :: "'w kvo \<Rightarrow> string \<Rightarrow> string \<Rightarrow> VolumeMount list \<Rightarrow> VolumeMount list go" where
  "ensureVolumeMount K name mountPath mounts =
     (case List.find (\<lambda>m. mnt_Name m = name \<or> MountPath m = mountPath) mounts of
        None \<Rightarrow> Inr (mounts @ [new_mount name mountPath])
      | Some m \<Rightarrow>
          if mnt_Name m = name then
            (if MountPath m \<noteq> mountPath then
               Inl (Errorf (''Grafana volume mount '' @ quoted K name @ '' already exists at '' @ quoted K (MountPath m)
                 @ '', expected '' @ quoted K mountPath @ refusing))
             else Inr mounts)
          else Inl (Errorf (''Grafana mount path '' @ quoted K mountPath @ '' is already used by volume ''
            @ quoted K (mnt_Name m) @ '', expected '' @ quoted K name @ refusing)))"

lemma new_mount_simps [simp]: "mnt_Name (new_mount name path) = name" "MountPath (new_mount name path) = path"
  by (simp_all add: new_mount_def)

lemma new_mount_name: "new_mount name path = m \<Longrightarrow> mnt_Name m = name"
  by auto

definition newConfigMapVolume :: "string \<Rightarrow> string \<Rightarrow> PodVolume" where
  "newConfigMapVolume volumeName configMapName =
     \<lparr>pv_Name = volumeName, pv_ConfigMap = Some configMapName, pv_Rest = GMap []\<rparr>"

definition ensureConfigMapVolume :: "'w kvo \<Rightarrow> string \<Rightarrow> string \<Rightarrow> PodVolume list \<Rightarrow> PodVolume list go" where
  "ensureConfigMapVolume K volumeName configMapName volumes = (case List.find (\<lambda>v. pv_Name v = volumeName) volumes of
     None \<Rightarrow> Inr (volumes @ [newConfigMapVolume volumeName configMapName])
   | Some v \<Rightarrow> (case pv_ConfigMap v of
       None \<Rightarrow> Inl (Errorf (''Grafana volume '' @ quoted K volumeName
         @ '' already exists but is not a ConfigMap volume'' @ refusing))
     | Some there \<Rightarrow>
         if there \<noteq> configMapName then
           Inl (Errorf (''Grafana volume '' @ quoted K volumeName @ '' references ConfigMap '' @ quoted K there
             @ '', expected '' @ quoted K configMapName @ refusing))
         else Inr volumes))"

definition grafanaContainerName :: string where "grafanaContainerName = ''grafana''"

definition datasourceVolumeName :: string where "datasourceVolumeName = ''grafana-source-config''"
definition providerVolumeName :: string where "providerVolumeName = ''grafana-dash-config''"
definition dashboardVolumeName :: string where "dashboardVolumeName = ''dashboard-templates''"
definition datasourceMountPath :: string where "datasourceMountPath = ''/etc/grafana/provisioning/datasources''"
definition providerMountPath :: string where "providerMountPath = ''/etc/grafana/provisioning/dashboards''"
definition dashboardMountPath :: string where "dashboardMountPath = ''/var/lib/grafana/dashboards''"

definition findGrafanaContainer :: "Container list \<Rightarrow> nat option" where
  "findGrafanaContainer containers = index_where (\<lambda>c. ctr_Name c = grafanaContainerName) containers"

text \<open>\<open>return fmt.Errorf("what: %w", err)\<close>\<close>

definition configuring :: "string \<Rightarrow> 'a go \<Rightarrow> 'a go" where
  "configuring what r = (case r of Inl err \<Rightarrow> Inl (Wrapf what err) | Inr x \<Rightarrow> Inr x)"

definition merge_container :: "'w kvo \<Rightarrow> Container \<Rightarrow> Container go" where
  "merge_container K c =
     goE (configuring ''configure Prometheus token environment variable: ''
       (ensureSecretEnvVar K ''PROMETHEUS_TOKEN'' PrometheusTokenSecretName ''token'' (Env c))) (\<lambda>vars.
     goE (configuring ''configure Loki token environment variable: ''
       (ensureSecretEnvVar K ''LOKI_TOKEN'' LokiTokenSecretName ''token'' vars)) (\<lambda>vars.
     goE (ensureVolumeMount K datasourceVolumeName datasourceMountPath (VolumeMounts c)) (\<lambda>mounts.
     goE (ensureVolumeMount K providerVolumeName providerMountPath mounts) (\<lambda>mounts.
     goE (ensureVolumeMount K dashboardVolumeName dashboardMountPath mounts) (\<lambda>mounts.
       Inr (c\<lparr>Env := vars, VolumeMounts := mounts\<rparr>))))))"

definition merge_volumes :: "'w kvo \<Rightarrow> PodVolume list \<Rightarrow> PodVolume list go" where
  "merge_volumes K volumes =
     goE (ensureConfigMapVolume K datasourceVolumeName DatasourceConfigMapName volumes) (\<lambda>volumes.
     goE (ensureConfigMapVolume K providerVolumeName DashboardProviderConfigMapName volumes) (\<lambda>volumes.
       ensureConfigMapVolume K dashboardVolumeName DashboardsConfigMapName volumes))"

text \<open>The argument \<open>cfg\<close> of the source is not used there.\<close>

definition mergeExistingGrafanaDeployment :: "'w kvo \<Rightarrow> Deployment \<Rightarrow> Deployment go" where
  "mergeExistingGrafanaDeployment K deployment = (case findGrafanaContainer (Containers deployment) of
     None \<Rightarrow> Inl (Errorf (''existing Grafana Deployment '' @ o_Namespace (dep_Meta deployment) @ ''/''
       @ o_Name (dep_Meta deployment) @ '' has no container named '' @ quoted K grafanaContainerName))
   | Some i \<Rightarrow>
       goE (merge_container K (Containers deployment ! i)) (\<lambda>c.
       goE (merge_volumes K (PodVolumes deployment)) (\<lambda>volumes.
         Inr (deployment\<lparr>Containers := (Containers deployment)[i := c], PodVolumes := volumes\<rparr>))))"

section \<open>A new Deployment\<close>

definition grafana_labels :: "smap option" where
  "grafana_labels = Some (fmupd managed_by ''kvoctl'' (fmupd ''app'' ''grafana'' fmempty))"

definition app_label :: gval where
  "app_label = GMap [(''app'', GString ''grafana'')]"

definition newGrafanaDeployment :: "GrafanaConfig \<Rightarrow> Deployment" where
  "newGrafanaDeployment cfg = \<lparr>
     dep_Meta = meta (gc_Namespace cfg) GrafanaDeploymentName grafana_labels None,
     dep_ResourceVersion = '''', Generation = 0,
     Containers = [\<lparr>
       ctr_Name = grafanaContainerName, Image = GrafanaImage cfg,
       Env = [secret_env ''PROMETHEUS_TOKEN'' PrometheusTokenSecretName ''token'',
              secret_env ''LOKI_TOKEN'' LokiTokenSecretName ''token''],
       VolumeMounts = [new_mount datasourceVolumeName datasourceMountPath, new_mount providerVolumeName providerMountPath,
              new_mount dashboardVolumeName dashboardMountPath],
       ctr_Rest = GMap [(''imagePullPolicy'', GString ''IfNotPresent''),
         (''ports'', GSlice [GMap [(''name'', GString ''http''), (''containerPort'', GInt 3000), (''protocol'', GString ''TCP'')]]),
         (''readinessProbe'', GMap [(''httpGet'', GMap [(''path'', GString ''/login''), (''port'', GInt 3000)]),
            (''periodSeconds'', GInt 10), (''timeoutSeconds'', GInt 1), (''successThreshold'', GInt 1), (''failureThreshold'', GInt 3)]),
         (''resources'', GMap [(''requests'', GMap [(''cpu'', GString ''2''), (''memory'', GString ''4Gi'')]),
            (''limits'', GMap [(''cpu'', GString ''4''), (''memory'', GString ''8Gi'')])])]\<rparr>],
     PodVolumes = [newConfigMapVolume datasourceVolumeName DatasourceConfigMapName,
       newConfigMapVolume providerVolumeName DashboardProviderConfigMapName,
       newConfigMapVolume dashboardVolumeName DashboardsConfigMapName],
     dep_Rest = GMap [(''replicas'', GInt 1), (''selector'', GMap [(''matchLabels'', app_label)]),
       (''template'', GMap [(''metadata'', GMap [(''labels'', app_label)]),
          (''spec'', GMap [(''serviceAccountName'', GString GrafanaServiceAccount)])])],
     ObservedGeneration = 0, ReadyReplicas = 0, AvailableReplicas = 0\<rparr>"

section \<open>EnsureDeployment\<close>

definition EnsureDeployment :: "'w kvo \<Rightarrow> GrafanaConfig \<Rightarrow> ('w, unit go) io" where
  "EnsureDeployment K cfg = (let cfg = grafanaDefaults cfg; at = gc_Namespace cfg @ ''/'' @ GrafanaDeploymentName @ '': '' in
     get_or (Wrapf (''get Grafana Deployment '' @ at)) (Get_Deployment K (gc_Namespace cfg) GrafanaDeploymentName)
       (\<lambda>existing. case mergeExistingGrafanaDeployment K existing of
          Inl err \<Rightarrow> fail err
        | Inr merged \<Rightarrow> wrapE (''update existing Grafana Deployment '' @ at) (T_Update K (ODeployment merged)))
       (tolerate (Wrapf (''create Grafana Deployment '' @ at)) (Create_Obj (kube K) (ODeployment (newGrafanaDeployment cfg)))))"

section \<open>Append or refuse\<close>

text \<open>
  The contract of the three merging steps: they leave the list, append their entry, or refuse;
  what they return they would leave.
\<close>

locale append_or_refuse =
  fixes ensure :: "'a list \<Rightarrow> 'a list go"
    and entry :: 'a
    and conforms :: "'a \<Rightarrow> bool"
  assumes outcome: "ensure xs = Inr ys \<Longrightarrow> (ys = xs \<and> list_ex conforms xs) \<or> ys = xs @ [entry]"
    and again: "ensure xs = Inr ys \<Longrightarrow> ensure ys = Inr ys"
    and stable: "ensure xs = Inr xs \<Longrightarrow> ensure (xs @ zs) = Inr (xs @ zs)"
    and entry_conforms: "conforms entry"
begin

lemma keeps_prefix: "ensure xs = Inr ys \<Longrightarrow> \<exists>zs. ys = xs @ zs"
  using outcome by blast

lemma conforms_after: "ensure xs = Inr ys \<Longrightarrow> list_ex conforms ys"
  using outcome entry_conforms by fastforce

lemma settled: "ensure xs = Inr ys \<Longrightarrow> ensure (ys @ zs) = Inr (ys @ zs) \<and> list_ex conforms (ys @ zs)"
  using again stable conforms_after by (metis list_ex_append)

end

definition reads_secret :: "string \<Rightarrow> string \<Rightarrow> string \<Rightarrow> EnvVar \<Rightarrow> bool" where
  "reads_secret name secretName secretKey e \<longleftrightarrow> env_Name e = name \<and> env_Value e = ''''
     \<and> map_option SecretKeyRef (ValueFrom e) = Some (Some (secretName, secretKey))"

definition mounted_at :: "string \<Rightarrow> string \<Rightarrow> VolumeMount \<Rightarrow> bool" where
  "mounted_at name path m \<longleftrightarrow> mnt_Name m = name \<and> MountPath m = path"

definition holds_config_map :: "string \<Rightarrow> string \<Rightarrow> PodVolume \<Rightarrow> bool" where
  "holds_config_map name configMap v \<longleftrightarrow> pv_Name v = name \<and> pv_ConfigMap v = Some configMap"

lemma find_SomeE: "List.find P xs = Some x \<Longrightarrow> x \<in> set xs \<and> P x"
  by (rule find_SomeD)

lemma find_append: "List.find P (xs @ ys) = (case List.find P xs of None \<Rightarrow> List.find P ys | Some x \<Rightarrow> Some x)"
  by (induction xs) auto

interpretation env_var: append_or_refuse "ensureSecretEnvVar K name secretName secretKey"
  "secret_env name secretName secretKey" "reads_secret name secretName secretKey"
  for K name secretName secretKey
proof
  fix xs ys
  assume e: "ensureSecretEnvVar K name secretName secretKey xs = Inr ys"
  then show "(ys = xs \<and> list_ex (reads_secret name secretName secretKey) xs) \<or> ys = xs @ [secret_env name secretName secretKey]"
    by (auto simp: ensureSecretEnvVar_def reads_secret_def list_ex_iff dest!: find_SomeE split: option.splits if_splits)
  from e show "ensureSecretEnvVar K name secretName secretKey ys = Inr ys"
    by (auto simp: ensureSecretEnvVar_def find_append secret_env_def split: option.splits if_splits)
next
  fix xs zs
  assume "ensureSecretEnvVar K name secretName secretKey xs = Inr xs"
  then show "ensureSecretEnvVar K name secretName secretKey (xs @ zs) = Inr (xs @ zs)"
    by (auto simp: ensureSecretEnvVar_def find_append split: option.splits if_splits)
qed (simp add: reads_secret_def secret_env_def)

interpretation mount: append_or_refuse "ensureVolumeMount K name path" "new_mount name path" "mounted_at name path"
  for K name path
proof
  fix xs ys
  assume e: "ensureVolumeMount K name path xs = Inr ys"
  then show "(ys = xs \<and> list_ex (mounted_at name path) xs) \<or> ys = xs @ [new_mount name path]"
    by (auto simp: ensureVolumeMount_def mounted_at_def new_mount_def list_ex_iff dest!: find_SomeE split: option.splits if_splits)
  from e show "ensureVolumeMount K name path ys = Inr ys"
    by (auto simp: ensureVolumeMount_def find_append split: option.splits if_splits dest: new_mount_name)
next
  fix xs zs
  assume "ensureVolumeMount K name path xs = Inr xs"
  then show "ensureVolumeMount K name path (xs @ zs) = Inr (xs @ zs)"
    by (auto simp: ensureVolumeMount_def find_append split: option.splits if_splits)
qed (simp add: mounted_at_def new_mount_def)

interpretation volume: append_or_refuse "ensureConfigMapVolume K name configMap" "newConfigMapVolume name configMap"
  "holds_config_map name configMap" for K name configMap
proof
  fix xs ys
  assume e: "ensureConfigMapVolume K name configMap xs = Inr ys"
  then show "(ys = xs \<and> list_ex (holds_config_map name configMap) xs) \<or> ys = xs @ [newConfigMapVolume name configMap]"
    by (auto simp: ensureConfigMapVolume_def holds_config_map_def list_ex_iff dest!: find_SomeE split: option.splits if_splits)
  from e show "ensureConfigMapVolume K name configMap ys = Inr ys"
    by (auto simp: ensureConfigMapVolume_def find_append newConfigMapVolume_def split: option.splits if_splits)
next
  fix xs zs
  assume "ensureConfigMapVolume K name configMap xs = Inr xs"
  then show "ensureConfigMapVolume K name configMap (xs @ zs) = Inr (xs @ zs)"
    by (auto simp: ensureConfigMapVolume_def find_append split: option.splits if_splits)
qed (simp add: holds_config_map_def newConfigMapVolume_def)

end
