(* ===== verification/GrafanaInstall.thy ===== *)
theory GrafanaInstall imports GrafanaDeployment GoTime begin

text \<open>
  The rest of \<open>pkg/grafana\<close>: namespace, RBAC, Service, Route, ConfigMaps of datasources and
  dashboards, the tokens of the datasources, and \<open>Install\<close>, which puts them together around
  a Grafana of its own or one that is there.
\<close>

section \<open>Namespace and RBAC\<close>

definition kvoctl_label :: "smap option" where
  "kvoctl_label = Some (fmupd managed_by ''kvoctl'' fmempty)"

definition GrafanaEnsureNamespace :: "'w kvo \<Rightarrow> string \<Rightarrow> ('w, unit go) io" where
  "GrafanaEnsureNamespace K namespace =
     (if namespace = '''' then fail (Errorf ''Grafana namespace is required'')
      else get_or (Wrapf (''get namespace '' @ quoted K namespace @ '': '')) (Get_Namespace (kube K) namespace) (\<lambda>_. ok ())
        (tolerate (Wrapf (''create namespace '' @ quoted K namespace @ '': ''))
          (Create_Obj (kube K) (ONamespace \<lparr>ns_Name = namespace, ns_Labels = kvoctl_label\<rparr>))))"

definition DefaultReaderServiceAccount :: string where "DefaultReaderServiceAccount = ''grafana''"
definition LokiApplicationReaderRole :: string where "LokiApplicationReaderRole = ''grafana-loki-application-reader''"

definition ensureServiceAccount :: "'w kvo \<Rightarrow> string \<Rightarrow> string \<Rightarrow> ('w, unit go) io" where
  "ensureServiceAccount K namespace name = (let at = namespace @ ''/'' @ name @ '': '' in
     get_or (Wrapf (''get ServiceAccount '' @ at)) (Get_ServiceAccount K namespace name) (\<lambda>_. ok ())
       (tolerate (Wrapf (''create ServiceAccount '' @ at))
         (Create_Obj (kube K) (OServiceAccount \<lparr>sa_Meta = meta namespace name None None, sa_Rest = GMap []\<rparr>))))"

definition application_reader_role :: ClusterRole where
  "application_reader_role = \<lparr>cr_Meta = meta '''' LokiApplicationReaderRole None None,
     cr_Rules = [\<lparr>APIGroups = [''loki.grafana.com''], Resources = [''application''], ResourceNames = [''logs''],
       Verbs = [''get''], pr_Rest = GMap []\<rparr>], cr_Rest = GMap []\<rparr>"

definition ensureLokiApplicationReaderRole :: "'w kvo \<Rightarrow> ('w, unit go) io" where
  "ensureLokiApplicationReaderRole K = (let at = quoted K LokiApplicationReaderRole @ '': '' in
     get_or (Wrapf (''get ClusterRole '' @ at)) (Get_ClusterRole K LokiApplicationReaderRole)
       (\<lambda>existing. wrapE (''update ClusterRole '' @ at)
          (T_Update K (OClusterRole (existing\<lparr>cr_Rules := cr_Rules application_reader_role\<rparr>))))
       (tolerate (Wrapf (''create ClusterRole '' @ at)) (Create_Obj (kube K) (OClusterRole application_reader_role))))"

definition reader_mismatch :: "'w kvo \<Rightarrow> string \<Rightarrow> string \<Rightarrow> ClusterRoleBinding \<Rightarrow> goerr option" where
  "reader_mismatch K name roleName existing =
     (if rr_Name (crb_RoleRef existing) \<noteq> roleName then
        Some (Errorf (''ClusterRoleBinding '' @ quoted K name @ '' references '' @ quoted K (rr_Name (crb_RoleRef existing))
          @ '', expected '' @ quoted K roleName))
      else None)"

definition ensureReaderBinding :: "'w kvo \<Rightarrow> string \<Rightarrow> string \<Rightarrow> string \<Rightarrow> string \<Rightarrow> ('w, unit go) io" where
  "ensureReaderBinding K name roleName namespace serviceAccount =
     ensure_binding K (reader_mismatch K name roleName) (service_account_binding name None roleName namespace serviceAccount)"

definition EnsureReaderFoundation :: "'w kvo \<Rightarrow> string \<Rightarrow> ('w, unit go) io" where
  "EnsureReaderFoundation K namespace =
     (if namespace = '''' then fail (Errorf ''Grafana reader namespace is required'')
      else bindE (ensureServiceAccount K namespace DefaultReaderServiceAccount) (\<lambda>_.
           bindE (ensureLokiApplicationReaderRole K) (\<lambda>_.
             ensureReaderBinding K LokiApplicationReaderRole LokiApplicationReaderRole namespace DefaultReaderServiceAccount)))"

definition PrometheusViewClusterRole :: string where "PrometheusViewClusterRole = ''cluster-monitoring-view''"
definition GrafanaPrometheusBinding :: string where "GrafanaPrometheusBinding = ''kvo-grafana-cluster-monitoring-view''"

text \<open>
  A get that does not find the ServiceAccount is followed by a creation; the error that is
  left, of either, is returned unless it is \<open>AlreadyExists\<close>.
\<close>

definition ensureGrafanaServiceAccount :: "'w kvo \<Rightarrow> string \<Rightarrow> ('w, unit go) io" where
  "ensureGrafanaServiceAccount K namespace = do {
     r \<leftarrow> Get_ServiceAccount K namespace GrafanaServiceAccount;
     r \<leftarrow> (case r of
         Inl err \<Rightarrow> if IsNotFound err
           then Create_Obj (kube K) (OServiceAccount \<lparr>sa_Meta = meta namespace GrafanaServiceAccount kvoctl_label None, sa_Rest = GMap []\<rparr>)
           else fail err
       | Inr _ \<Rightarrow> ok ());
     case r of
       Inl err \<Rightarrow> if \<not> IsAlreadyExists err
         then fail (Wrapf (''ensure Grafana ServiceAccount '' @ namespace @ ''/'' @ GrafanaServiceAccount @ '': '') err) else ok ()
     | Inr _ \<Rightarrow> ok () }"

definition prometheus_binding :: "string \<Rightarrow> ClusterRoleBinding" where
  "prometheus_binding namespace =
     service_account_binding GrafanaPrometheusBinding kvoctl_label PrometheusViewClusterRole namespace GrafanaServiceAccount"

definition prometheus_mismatch :: "'w kvo \<Rightarrow> string \<Rightarrow> ClusterRoleBinding \<Rightarrow> goerr option" where
  "prometheus_mismatch K namespace existing =
     (if crb_RoleRef existing \<noteq> crb_RoleRef (prometheus_binding namespace) then
        Some (Errorf (''ClusterRoleBinding '' @ quoted K GrafanaPrometheusBinding @ '' has unexpected RoleRef ''
          @ rr_Kind (crb_RoleRef existing) @ ''/'' @ rr_Name (crb_RoleRef existing)))
      else None)"

definition EnsureServiceAccountAndRBAC :: "'w kvo \<Rightarrow> GrafanaConfig \<Rightarrow> ('w, unit go) io" where
  "EnsureServiceAccountAndRBAC K cfg = (let cfg = grafanaDefaults cfg in
     bindE (ensureGrafanaServiceAccount K (gc_Namespace cfg)) (\<lambda>_.
       ensure_binding K (prometheus_mismatch K (gc_Namespace cfg)) (prometheus_binding (gc_Namespace cfg))))"

section \<open>Service and Route\<close>

definition GrafanaServiceName :: string where "GrafanaServiceName = ''grafana''"
definition GrafanaRouteName :: string where "GrafanaRouteName = ''grafana''"

definition grafana_service :: "string \<Rightarrow> ClusterService" where
  "grafana_service namespace = \<lparr>cs_Meta = meta namespace GrafanaServiceName grafana_labels None, cs_ResourceVersion = '''',
     ClusterIP = '''', ClusterIPs = [], IPFamilies = [], IPFamilyPolicy = None, HealthCheckNodePort = 0,
     cs_Rest = GMap [(''selector'', app_label),
       (''ports'', GSlice [GMap [(''name'', GString ''http''), (''port'', GInt 3000), (''targetPort'', GInt 3000), (''protocol'', GString ''TCP'')]])]\<rparr>"

definition EnsureService :: "'w kvo \<Rightarrow> GrafanaConfig \<Rightarrow> ('w, unit go) io" where
  "EnsureService K cfg = (let cfg = grafanaDefaults cfg; at = gc_Namespace cfg @ ''/'' @ GrafanaServiceName @ '': '' in
     get_or (Wrapf (''get Grafana Service '' @ at)) (Get_ClusterService K (gc_Namespace cfg) GrafanaServiceName) (\<lambda>_. ok ())
       (tolerate (Wrapf (''create Grafana Service '' @ at))
         (Create_Obj (kube K) (OClusterService (grafana_service (gc_Namespace cfg))))))"

definition routeGVR :: gvr where
  "routeGVR = GVR ''route.openshift.io'' ''v1'' ''routes''"

definition grafana_route :: "string \<Rightarrow> Route" where
  "grafana_route namespace = \<lparr>rt_Meta = meta namespace GrafanaRouteName grafana_labels None,
     rt_To = (''Service'', GrafanaServiceName), rt_TargetPort = ''http'', rt_Termination = ''edge''\<rparr>"

definition EnsureRoute :: "'w kvo \<Rightarrow> GrafanaConfig \<Rightarrow> ('w, unit go) io" where
  "EnsureRoute K cfg = (let cfg = grafanaDefaults cfg; at = gc_Namespace cfg @ ''/'' @ GrafanaRouteName @ '': '' in
     get_or (Wrapf (''get Grafana Route '' @ at)) (D_Get K routeGVR (gc_Namespace cfg) GrafanaRouteName) (\<lambda>_. ok ())
       (case route_unstructured K (grafana_route (gc_Namespace cfg)) of
          Inl err \<Rightarrow> fail (Wrapf ''convert Grafana Route to unstructured: '' err)
        | Inr object \<Rightarrow> tolerate (Wrapf (''create Grafana Route '' @ at)) (D_Create K routeGVR (gc_Namespace cfg) object)))"

section \<open>The address of Loki\<close>

text \<open>
  \<open>unstructured.NestedString\<close> with its error, for a value on the way that is no map or an end
  that is no string; the text of that error is not written out.
\<close>

definition accessor_error :: goerr where
  "accessor_error = Errorf ''accessor error''"

fun NestedStringE :: "string list \<Rightarrow> gval \<Rightarrow> string option go" where
  "NestedStringE [] v = (case v of GString s \<Rightarrow> Inr (Some s) | _ \<Rightarrow> Inl accessor_error)"
| "NestedStringE (k # ks) v = (case v of
     GNil \<Rightarrow> Inr None
   | GMap m \<Rightarrow> (case map_of m k of None \<Rightarrow> Inr None | Some x \<Rightarrow> NestedStringE ks x)
   | _ \<Rightarrow> Inl accessor_error)"

definition LokiRouteName :: string where "LokiRouteName = ''logging-loki''"
definition LokiRouteNamespace :: string where "LokiRouteNamespace = ''openshift-logging''"

definition loki_url :: "gval \<Rightarrow> string go" where
  "loki_url route = (case NestedStringE [''spec'', ''host''] route of
     Inl err \<Rightarrow> Inl (Wrapf ''read Loki Route host: '' err)
   | Inr host \<Rightarrow> (case host of
       Some h \<Rightarrow> if h = '''' then Inl (Errorf (''Loki Route '' @ LokiRouteNamespace @ ''/'' @ LokiRouteName @ '' has no spec.host''))
         else Inr (''https://'' @ h @ ''/api/logs/v1/application'')
     | None \<Rightarrow> Inl (Errorf (''Loki Route '' @ LokiRouteNamespace @ ''/'' @ LokiRouteName @ '' has no spec.host''))))"

definition DiscoverLokiDatasourceURL :: "'w kvo \<Rightarrow> ('w, string go) io" where
  "DiscoverLokiDatasourceURL K =
     bindE (wrapE (''get Loki Route '' @ LokiRouteNamespace @ ''/'' @ LokiRouteName @ '': '')
       (D_Get K routeGVR LokiRouteNamespace LokiRouteName)) (\<lambda>route. ret (loki_url route))"

section \<open>ConfigMaps\<close>

definition ensureConfigMapData :: "'w kvo \<Rightarrow> string \<Rightarrow> string \<Rightarrow> smap \<Rightarrow> ('w, unit go) io" where
  "ensureConfigMapData K namespace name desiredData = (let at = namespace @ ''/'' @ name @ '': '' in
     get_or (Wrapf (''get ConfigMap '' @ at)) (Get_ConfigMap (kube K) namespace name)
       (\<lambda>existing. wrapE (''update ConfigMap '' @ at)
          (T_Update K (OConfigMap (existing\<lparr>cm_Data := Some (fmadd (non_nil (cm_Data existing)) desiredData)\<rparr>))))
       (tolerate (Wrapf (''create ConfigMap '' @ at))
          (Create_Obj (kube K) (OConfigMap \<lparr>cm_Meta = meta namespace name kvoctl_label None, cm_Data = Some desiredData\<rparr>))))"

definition KVODatasourceConfigKey :: string where "KVODatasourceConfigKey = ''kvo-datasources.yaml''"
definition KVODashboardProviderConfigKey :: string where "KVODashboardProviderConfigKey = ''kvo-dashboards.yaml''"

definition in_dquotes :: "string \<Rightarrow> string" where
  "in_dquotes s = [CHR 0x22] @ s @ [CHR 0x22]"

definition datasources :: "GrafanaConfig \<Rightarrow> string" where
  "datasources cfg = unlines [
     ''apiVersion: 1'',
     '''',
     ''datasources:'',
     ''  - name: KVO Prometheus'',
     ''    uid: '' @ PrometheusUID cfg,
     ''    type: prometheus'',
     ''    access: proxy'',
     ''    orgId: 1'',
     ''    url: '' @ PrometheusURL cfg,
     ''    isDefault: false'',
     ''    editable: true'',
     ''    jsonData:'',
     ''      httpHeaderName1: Authorization'',
     ''      tlsSkipVerify: true'',
     ''      timeInterval: 5s'',
     ''    secureJsonData:'',
     ''      httpHeaderValue1: '' @ in_dquotes ''Bearer ${PROMETHEUS_TOKEN}'',
     '''',
     ''  - name: KVO Loki'',
     ''    uid: '' @ LokiUID cfg,
     ''    type: loki'',
     ''    access: proxy'',
     ''    orgId: 1'',
     ''    url: '' @ LokiURL cfg,
     ''    isDefault: false'',
     ''    editable: true'',
     ''    jsonData:'',
     ''      httpHeaderName1: Authorization'',
     ''      httpHeaderName2: X-Scope-OrgID'',
     ''      tlsSkipVerify: true'',
     ''    secureJsonData:'',
     ''      httpHeaderValue1: '' @ in_dquotes ''Bearer ${LOKI_TOKEN}'',
     ''      httpHeaderValue2: '' @ in_dquotes ''application'']"

definition EnsureDatasourceConfigMap :: "'w kvo \<Rightarrow> GrafanaConfig \<Rightarrow> ('w, unit go) io" where
  "EnsureDatasourceConfigMap K cfg = (let cfg = grafanaDefaults cfg in
     ensureConfigMapData K (gc_Namespace cfg) DatasourceConfigMapName (fmupd KVODatasourceConfigKey (datasources cfg) fmempty))"

definition dashboardProvider :: string where
  "dashboardProvider = unlines [
     ''apiVersion: 1'',
     '''',
     ''providers:'',
     ''  - name: KubeVirt Observability'',
     ''    orgId: 1'',
     ''    type: file'',
     ''    disableDeletion: false'',
     ''    updateIntervalSeconds: 30'',
     ''    allowUiUpdates: true'',
     ''    options:'',
     ''      path: /var/lib/grafana/dashboards'',
     ''      foldersFromFilesStructure: false'']"

text \<open>\<open>filepath.Ext\<close>: from the last dot of the last element of the path.\<close>

definition filepath_Ext :: "string \<Rightarrow> string" where
  "filepath_Ext s = (let stem = takeWhile (\<lambda>c. c \<noteq> CHR ''.'' \<and> c \<noteq> CHR ''/'') (rev s) in
     case drop (length stem) (rev s) of
       c # _ \<Rightarrow> if c = CHR ''.'' then c # rev stem else ''''
     | [] \<Rightarrow> '''')"

definition dashboard_names :: "(string \<times> bool) list \<Rightarrow> string list" where
  "dashboard_names entries = sort (map fst (filter (\<lambda>(name, isDir). \<not> isDir \<and> EqualFold (filepath_Ext name) ''.json'') entries))"

fun read_dashboards :: "'w kvo \<Rightarrow> string \<Rightarrow> string list \<Rightarrow> smap \<Rightarrow> ('w, smap go) io" where
  "read_dashboards K dir [] dashboards = ok dashboards"
| "read_dashboards K dir (name # names) dashboards = (let path = filepath_Join dir name in
     bindE (wrapE (''read dashboard '' @ quoted K path @ '': '') (Read_File K path)) (\<lambda>data.
     case valid_json K data of
       Inl err \<Rightarrow> fail (Wrapf (''dashboard '' @ quoted K path @ '' contains invalid JSON: '') err)
     | Inr _ \<Rightarrow> read_dashboards K dir names (fmupd name data dashboards)))"

definition loadDashboards :: "'w kvo \<Rightarrow> string \<Rightarrow> ('w, smap go) io" where
  "loadDashboards K dir =
     bindE (wrapE (''read dashboard directory '' @ quoted K dir @ '': '') (Read_Dir K dir)) (\<lambda>entries.
       let names = dashboard_names entries in
       if names = [] then fail (Errorf (''no dashboard JSON files found in '' @ quoted K dir))
       else read_dashboards K dir names fmempty)"

definition EnsureDashboardConfigMaps :: "'w kvo \<Rightarrow> GrafanaConfig \<Rightarrow> ('w, unit go) io" where
  "EnsureDashboardConfigMaps K cfg = (let cfg = grafanaDefaults cfg in
     bindE (wrapE ''ensure dashboard provider ConfigMap: '' (ensureConfigMapData K (gc_Namespace cfg)
       DashboardProviderConfigMapName (fmupd KVODashboardProviderConfigKey dashboardProvider fmempty))) (\<lambda>_.
     bindE (loadDashboards K (DashboardDir cfg)) (\<lambda>dashboards.
       wrapE ''ensure dashboards ConfigMap: ''
         (ensureConfigMapData K (gc_Namespace cfg) DashboardsConfigMapName dashboards))))"

section \<open>Tokens\<close>

definition datasourceTokenExpirationSeconds :: int where
  "datasourceTokenExpirationSeconds = 365 * 24 * 60 * 60"

definition datasource_token :: "string \<Rightarrow> string \<Rightarrow> string \<Rightarrow> string \<Rightarrow> int \<Rightarrow> Secret" where
  "datasource_token namespace name account token expiration = \<lparr>
     sec_Meta = meta namespace name kvoctl_label
       (Some (fmupd token_expiration (format_rfc3339 expiration) (fmupd token_service_account account fmempty))),
     sec_Type = ''Opaque'', sec_Data = Some (fmupd ''token'' token fmempty)\<rparr>"

definition ensureTokenSecret :: "'w kvo \<Rightarrow> string \<Rightarrow> string \<Rightarrow> string \<Rightarrow> string \<Rightarrow> ('w, unit go) io" where
  "ensureTokenSecret K targetNamespace secretName saNamespace saName =
     (let account = saNamespace @ ''/'' @ saName; at = targetNamespace @ ''/'' @ secretName in
     bindE (wrapE (''get ServiceAccount '' @ account @ '': '') (Get_ServiceAccount K saNamespace saName)) (\<lambda>_.
     get_or (Wrapf (''get Secret '' @ at @ '': '')) (Get_Secret (kube K) targetNamespace secretName)
       (\<lambda>existing. if mget (sec_Data existing) ''token'' = ''''
          then fail (Errorf (''Secret '' @ at @ '' exists but token data is missing'')) else ok ())
       (bindE (wrapE (''create token for ServiceAccount '' @ account @ '': '')
          (Create_Token K saNamespace saName datasourceTokenExpirationSeconds)) (\<lambda>token.
        if tok_Token token = '''' then
          fail (Errorf (''token request for ServiceAccount '' @ account @ '' returned an empty token''))
        else (case tok_Expiration token of
          None \<Rightarrow> fail (Errorf (''token for ServiceAccount '' @ account @ '' has no expiration timestamp''))
        | Some expiration \<Rightarrow> tolerate (Wrapf (''create Secret '' @ at @ '': '')) (Create_Obj (kube K)
            (OSecret (datasource_token targetNamespace secretName account (tok_Token token) expiration))))))))"

definition EnsureDatasourceTokenSecrets :: "'w kvo \<Rightarrow> GrafanaConfig \<Rightarrow> ('w, unit go) io" where
  "EnsureDatasourceTokenSecrets K cfg = (let cfg = grafanaDefaults cfg in
     bindE (wrapE ''ensure Prometheus token: '' (ensureTokenSecret K (gc_Namespace cfg) PrometheusTokenSecretName
       (PrometheusTokenNamespace cfg) (PrometheusTokenServiceAccount cfg))) (\<lambda>_.
     wrapE ''ensure Loki token: '' (ensureTokenSecret K (gc_Namespace cfg) LokiTokenSecretName
       (LokiTokenNamespace cfg) (LokiTokenServiceAccount cfg))))"

section \<open>Install\<close>

text \<open>The tokens are those of grafana/grafana wherever Grafana runs.\<close>

definition install_config :: "GrafanaConfig \<Rightarrow> DiscoveryResult \<Rightarrow> string \<Rightarrow> GrafanaConfig" where
  "install_config cfg discovery lokiURL = cfg\<lparr>LokiURL := lokiURL,
     gc_Namespace := (if Found discovery then dr_Namespace discovery else gc_Namespace cfg),
     PrometheusTokenNamespace := GrafanaNamespace, PrometheusTokenServiceAccount := GrafanaServiceAccount,
     LokiTokenNamespace := GrafanaNamespace, LokiTokenServiceAccount := GrafanaServiceAccount\<rparr>"

definition unless_existing :: "bool \<Rightarrow> ('w, unit go) io \<Rightarrow> ('w, unit go) io" where
  "unless_existing existing m = (if \<not> existing then m else ok ())"

lemma unless_existing_simps [simp]: "unless_existing True m = ok ()" "unless_existing False m = m"
  by (simp_all add: unless_existing_def)

text \<open>What is put in place around a Grafana, with the configuration that was found for it.\<close>

definition install_parts :: "'w kvo \<Rightarrow> bool \<Rightarrow> GrafanaConfig \<Rightarrow> ('w, unit go) io" where
  "install_parts K existing cfg =
     bindE (wrapE ''ensure Grafana authentication namespace: '' (GrafanaEnsureNamespace K GrafanaNamespace)) (\<lambda>_.
     bindE (wrapE ''ensure Grafana authentication ServiceAccount/RBAC: ''
       (EnsureServiceAccountAndRBAC K (cfg\<lparr>gc_Namespace := GrafanaNamespace\<rparr>))) (\<lambda>_.
     bindE (wrapE ''ensure Grafana deployment namespace: '' (GrafanaEnsureNamespace K (gc_Namespace cfg))) (\<lambda>_.
     bindE (wrapE ''ensure Grafana datasource ConfigMap: '' (EnsureDatasourceConfigMap K cfg)) (\<lambda>_.
     bindE (wrapE ''ensure Grafana dashboard ConfigMaps: '' (EnsureDashboardConfigMaps K cfg)) (\<lambda>_.
     bindE (wrapE ''ensure Grafana datasource token Secrets: '' (EnsureDatasourceTokenSecrets K cfg)) (\<lambda>_.
     bindE (unless_existing existing (wrapE ''ensure Grafana Service: '' (EnsureService K cfg))) (\<lambda>_.
     bindE (wrapE ''ensure Grafana Deployment: '' (EnsureDeployment K cfg)) (\<lambda>_.
       unless_existing existing (wrapE ''ensure Grafana Route: '' (EnsureRoute K cfg))))))))))"

definition GrafanaInstall :: "'w kvo \<Rightarrow> GrafanaConfig \<Rightarrow> ('w, DiscoveryResult go) io" where
  "GrafanaInstall K cfg =
     bindE (wrapE ''discover Grafana: '' (DiscoverGrafana K)) (\<lambda>discovery.
     bindE (wrapE ''discover Loki datasource URL: '' (DiscoverLokiDatasourceURL K)) (\<lambda>lokiURL.
     let cfg = install_config (grafanaDefaults cfg) discovery lokiURL in
     bindE (install_parts K (Found discovery) cfg) (\<lambda>_.
       ok \<lparr>Found = True, dr_Namespace = gc_Namespace cfg, dr_Deployment = GrafanaDeploymentName\<rparr>)))"

end
