(* ===== verification/Success.thy ===== *)
theory Success imports Ensure begin

text \<open>
  What an operation has done when it succeeds: \<open>achieves P m\<close> says that a successful run of \<open>m\<close>
  made a call that satisfies \<open>P\<close>. The chains of steps of the installers stop at the first
  error, so what one step achieves the whole chain does.
\<close>

definition achieves :: "(action \<Rightarrow> bool) \<Rightarrow> ('w, 'a go) io \<Rightarrow> bool" where
  "achieves P m \<longleftrightarrow> does m (\<lambda>r l. is_Inl r \<or> list_ex P l)"

abbreviation acts_only :: "('w, 'a) io \<Rightarrow> bool" where
  "acts_only m \<equiv> emits (\<lambda>_. True) m"

lemma acts_onlyI: "emits P m \<Longrightarrow> acts_only m"
  by (erule emits_mono) simp

lemma acts_only_calls: "calls P m Q \<Longrightarrow> acts_only m"
  by (rule acts_onlyI, erule calls_emits)

lemma calls_step: "emits P m \<Longrightarrow> (\<And>r. Q r) \<Longrightarrow> calls P m Q"
  by (simp add: emits_def calls_def)

named_theorems achieving "rules of achieves"

lemma achieves_call: "P a \<Longrightarrow> achieves P (call a f)"
  unfolding achieves_def by (rule does_call) simp

lemma achieves_fail [achieving]: "achieves P (fail e)"
  unfolding achieves_def by (rule does_return) simp

lemma achieves_wrapE [achieving]: "achieves P m \<Longrightarrow> achieves P (wrapE p m)"
  unfolding achieves_def by (rule does_wrapE, erule does_mono) (auto split: sum.splits)

lemma achieves_bindE:
  assumes "achieves P m" and "\<And>x. acts_only (f x)"
  shows "achieves P (bindE m f)"
  unfolding achieves_def
  by (rule does_bindE, rule does_mono [OF assms(1) [unfolded achieves_def]])
    (auto split: sum.splits intro: does_mono [OF assms(2) [unfolded emits_def]])

lemma achieves_later:
  assumes "acts_only m" and "\<And>x. achieves P (f x)"
  shows "achieves P (bindE m f)"
  unfolding achieves_def
  by (rule does_bindE, rule does_mono [OF assms(1) [unfolded emits_def]])
    (auto split: sum.splits intro: does_mono [OF assms(2) [unfolded achieves_def]])

lemma achieves_then:
  assumes "acts_only m" and "\<And>x. achieves P (f x)"
  shows "achieves P (m \<bind> f)"
  unfolding achieves_def
  by (rule does_bind, rule does_mono [OF assms(1) [unfolded emits_def]])
    (auto intro: does_mono [OF assms(2) [unfolded achieves_def]])

text \<open>With what is known of the result of the first step.\<close>

lemma achieves_known:
  assumes "calls Q m (\<lambda>r. \<forall>x. r = Inr x \<longrightarrow> achieves P (f x))"
  shows "achieves P (bindE m f)"
  unfolding achieves_def
proof (rule does_bindE, rule does_mono [OF assms [unfolded calls_def]])
  fix r :: "'b go" and l
  assume known: "list_all Q l \<and> (\<forall>x. r = Inr x \<longrightarrow> achieves P (f x))"
  have "does (f x) (\<lambda>r' l'. is_Inl r' \<or> list_ex P (l @ l'))" if "r = Inr x" for x
    using known that unfolding achieves_def by (auto elim: does_mono)
  then show "case r of Inl e \<Rightarrow> is_Inl (Inl e) \<or> list_ex P l | Inr y \<Rightarrow> does (f y) (\<lambda>r' l'. is_Inl r' \<or> list_ex P (l @ l'))"
    by (auto split: sum.splits)
qed

lemma achieves_if [achieving]: "(b \<Longrightarrow> achieves P m) \<Longrightarrow> (\<not> b \<Longrightarrow> achieves P n) \<Longrightarrow> achieves P (if b then m else n)"
  by simp

text \<open>A creation that may have been overtaken was tried all the same.\<close>

lemma achieves_tolerate_Create: "P (Create x) \<Longrightarrow> achieves P (tolerate wrap (Create_Obj C x))"
  unfolding achieves_def tolerate_def prim_defs
  by (intro does_bind does_call does_case_sum does_if does_return) simp_all

lemma achieves_get_or:
  "acts_only get \<Longrightarrow> (\<And>x. achieves P (found x)) \<Longrightarrow> achieves P missing \<Longrightarrow> achieves P (get_or wrap get found missing)"
  unfolding get_or_def
  by (rule achieves_then) (auto split: sum.splits intro: achieves_fail)

lemma achieves_trace: "achieves P m \<Longrightarrow> is_Inl (result m s) \<or> list_ex P (trace m s)"
  unfolding achieves_def by (rule does_trace)

text \<open>\<open>only_if R m\<close>: the operation \<open>m\<close> succeeds only when \<open>R\<close> holds.\<close>

definition only_if :: "bool \<Rightarrow> ('w, 'a go) io \<Rightarrow> bool" where
  "only_if R m \<longleftrightarrow> (\<forall>s x. result m s = Inr x \<longrightarrow> R)"

lemma only_if_result: "only_if R m \<Longrightarrow> is_Inl (result m s) \<or> R"
  by (cases "result m s") (auto simp: only_if_def)

lemma only_if_calls: "calls P m (\<lambda>r. \<forall>x. r = Inr x \<longrightarrow> R) \<Longrightarrow> only_if R m"
  unfolding only_if_def by (blast dest: calls_trace)

lemma only_if_unit: "calls P m (\<lambda>r. r = Inr () \<longrightarrow> R) \<Longrightarrow> only_if R m"
  by (rule only_if_calls) simp

lemma only_if_then: "(\<And>x. only_if R (f x)) \<Longrightarrow> only_if R (m \<bind> f)"
  unfolding only_if_def result_def by (metis (no_types, lifting) prod.collapse run_state_bind case_prod_conv)

lemma only_if_bindE:
  assumes "only_if R m"
  shows "only_if R (bindE m f)"
  unfolding only_if_def
proof (intro allI impI)
  fix s x
  assume x: "result (bindE m f) s = Inr x"
  obtain r s' where m: "run_state m s = (r, s')" by (cases "run_state m s")
  with x obtain y where "r = Inr y" by (cases r) (auto simp: bindE_def result_def)
  with m have "result m s = Inr y" by (simp add: result_def)
  with assms show R by (auto simp: only_if_def)
qed

lemma only_if_later: "(\<And>x. only_if R (f x)) \<Longrightarrow> only_if R (bindE m f)"
  unfolding bindE_def by (rule only_if_then) (auto simp: only_if_def result_def split: sum.splits)

lemma only_if_wrapE:
  assumes "only_if R m"
  shows "only_if R (wrapE p m)"
  unfolding only_if_def
proof (intro allI impI)
  fix s x
  assume x: "result (wrapE p m) s = Inr x"
  obtain r s' where m: "run_state m s = (r, s')" by (cases "run_state m s")
  with x obtain y where "r = Inr y" by (cases r) (auto simp: wrapE_def result_def)
  with m have "result m s = Inr y" by (simp add: result_def)
  with assms show R by (auto simp: only_if_def)
qed

lemmas only_if_rules = only_if_then only_if_later only_if_wrapE

end
