(* ===== verification/GrafanaProps.thy ===== *)
theory GrafanaProps imports GrafanaInstall Success begin

text \<open>
  What the installation of Grafana keeps of a Deployment that is there, and how it treats a
  Grafana of another name and a token that ran out.
\<close>

section \<open>Merging into a Deployment\<close>

text \<open>What the datasources and dashboards need of a container and of a Deployment.\<close>

definition container_provides :: "Container \<Rightarrow> bool" where
  "container_provides c \<longleftrightarrow>
     list_ex (reads_secret ''PROMETHEUS_TOKEN'' PrometheusTokenSecretName ''token'') (Env c)
     \<and> list_ex (reads_secret ''LOKI_TOKEN'' LokiTokenSecretName ''token'') (Env c)
     \<and> list_ex (mounted_at datasourceVolumeName datasourceMountPath) (VolumeMounts c)
     \<and> list_ex (mounted_at providerVolumeName providerMountPath) (VolumeMounts c)
     \<and> list_ex (mounted_at dashboardVolumeName dashboardMountPath) (VolumeMounts c)"

definition volumes_provide :: "PodVolume list \<Rightarrow> bool" where
  "volumes_provide vs \<longleftrightarrow>
     list_ex (holds_config_map datasourceVolumeName DatasourceConfigMapName) vs
     \<and> list_ex (holds_config_map providerVolumeName DashboardProviderConfigMapName) vs
     \<and> list_ex (holds_config_map dashboardVolumeName DashboardsConfigMapName) vs"

definition provides :: "Deployment \<Rightarrow> bool" where
  "provides d \<longleftrightarrow> list_ex (\<lambda>c. ctr_Name c = grafanaContainerName \<and> container_provides c) (Containers d) \<and> volumes_provide (PodVolumes d)"

text \<open>A Deployment that is another one with entries appended to the Grafana container and to the volumes.\<close>

definition extends_container :: "Container \<Rightarrow> Container \<Rightarrow> bool" where
  "extends_container c c' \<longleftrightarrow> (\<exists>vars mounts. c' = c\<lparr>Env := Env c @ vars, VolumeMounts := VolumeMounts c @ mounts\<rparr>)"

definition extends :: "Deployment \<Rightarrow> Deployment \<Rightarrow> bool" where
  "extends d d' \<longleftrightarrow> (\<exists>i c' vs. i < length (Containers d) \<and> ctr_Name (Containers d ! i) = grafanaContainerName
     \<and> extends_container (Containers d ! i) c'
     \<and> d' = d\<lparr>Containers := (Containers d)[i := c'], PodVolumes := PodVolumes d @ vs\<rparr>)"

lemma configuring_Inr [simp]: "configuring what r = Inr x \<longleftrightarrow> r = Inr x"
  by (auto simp: configuring_def split: sum.splits)

text \<open>Steps of the same kind in a row, as the laws of the locale give them.\<close>

lemma merge_container_spec:
  assumes "merge_container K c = Inr c'"
  shows "extends_container c c' \<and> container_provides c' \<and> merge_container K c' = Inr c'"
proof -
  from assms obtain v1 v2 m1 m2 m3 where
    steps: "ensureSecretEnvVar K ''PROMETHEUS_TOKEN'' PrometheusTokenSecretName ''token'' (Env c) = Inr v1"
      "ensureSecretEnvVar K ''LOKI_TOKEN'' LokiTokenSecretName ''token'' v1 = Inr v2"
      "ensureVolumeMount K datasourceVolumeName datasourceMountPath (VolumeMounts c) = Inr m1"
      "ensureVolumeMount K providerVolumeName providerMountPath m1 = Inr m2"
      "ensureVolumeMount K dashboardVolumeName dashboardMountPath m2 = Inr m3"
    and c': "c' = c\<lparr>Env := v2, VolumeMounts := m3\<rparr>"
    unfolding merge_container_def by (auto elim!: goE_InrE)
  note keep = steps(1,2) [THEN env_var.keeps_prefix] steps(3-5) [THEN mount.keeps_prefix]
  from keep obtain a b p q r where ext: "v1 = Env c @ a" "v2 = v1 @ b" "m1 = VolumeMounts c @ p" "m2 = m1 @ q" "m3 = m2 @ r"
    by blast
  note env_done = steps(1) [THEN env_var.settled, of b] steps(2) [THEN env_var.settled, of "[]"]
  note mount_done = steps(3) [THEN mount.settled, of "q @ r"] steps(4) [THEN mount.settled, of r] steps(5) [THEN mount.settled, of "[]"]
  have "merge_container K c' = Inr c'" and "container_provides c'"
    using env_done mount_done ext by (simp_all add: merge_container_def container_provides_def c' configuring_def)
  moreover have "extends_container c c'" unfolding extends_container_def c' using ext by auto
  ultimately show ?thesis by blast
qed

lemma merge_volumes_spec:
  assumes "merge_volumes K vs = Inr vs'"
  shows "(\<exists>ws. vs' = vs @ ws) \<and> volumes_provide vs' \<and> merge_volumes K vs' = Inr vs'"
proof -
  from assms obtain v1 v2 where
    steps: "ensureConfigMapVolume K datasourceVolumeName DatasourceConfigMapName vs = Inr v1"
      "ensureConfigMapVolume K providerVolumeName DashboardProviderConfigMapName v1 = Inr v2"
      "ensureConfigMapVolume K dashboardVolumeName DashboardsConfigMapName v2 = Inr vs'"
    unfolding merge_volumes_def by (auto elim!: goE_InrE)
  from steps [THEN volume.keeps_prefix] obtain a b c where ext: "v1 = vs @ a" "v2 = v1 @ b" "vs' = v2 @ c" by blast
  note settled = steps(1) [THEN volume.settled, of "b @ c"] steps(2) [THEN volume.settled, of c] steps(3) [THEN volume.settled, of "[]"]
  then show ?thesis using ext by (simp add: merge_volumes_def volumes_provide_def)
qed

text \<open>
  C10. What the merge does to a Grafana of the user. When it does not refuse, the Deployment
  keeps everything it had: only the container named grafana and the volumes of the pod
  change, and those only by entries appended at their ends. The result has the two
  environment variables from the Secrets of the tokens, and the three mounts of the three
  ConfigMaps. And it is stable: merging it again, as the next deployment does, changes
  nothing and refuses nothing.
\<close>
theorem merge_extends_provides_and_settles:
  assumes "mergeExistingGrafanaDeployment K d = Inr d'"
  shows "extends d d' \<and> provides d' \<and> mergeExistingGrafanaDeployment K d' = Inr d'"
proof -
  from assms obtain i c' vs where i: "findGrafanaContainer (Containers d) = Some i"
    and c': "merge_container K (Containers d ! i) = Inr c'" and vs: "merge_volumes K (PodVolumes d) = Inr vs"
    and d': "d' = d\<lparr>Containers := (Containers d)[i := c'], PodVolumes := vs\<rparr>"
    unfolding mergeExistingGrafanaDeployment_def by (auto elim!: goE_InrE split: option.splits)
  from i have at: "i < length (Containers d)" "ctr_Name (Containers d ! i) = grafanaContainerName"
    unfolding findGrafanaContainer_def by (auto dest: index_where_Some)
  from merge_container_spec [OF c'] have c: "extends_container (Containers d ! i) c'" "container_provides c'"
    "merge_container K c' = Inr c'" by blast+
  from c(1) at(2) have name: "ctr_Name c' = grafanaContainerName" by (auto simp: extends_container_def)
  from merge_volumes_spec [OF vs] obtain ws where v: "vs = PodVolumes d @ ws" "volumes_provide vs" "merge_volumes K vs = Inr vs"
    by blast
  have "extends d d'" unfolding extends_def using at c(1) v(1) d' by blast
  moreover have "provides d'"
    using at c(2) name v(2) by (auto simp: provides_def d' list_ex_iff intro!: bexI [of _ c'] set_update_memI)
  moreover have "findGrafanaContainer ((Containers d)[i := c']) = Some i"
    using i name unfolding findGrafanaContainer_def by (auto intro: index_where_update)
  then have "mergeExistingGrafanaDeployment K d' = Inr d'"
    using at c(3) v(3) by (simp add: mergeExistingGrafanaDeployment_def d')
  ultimately show ?thesis by blast
qed

text \<open>A Grafana with a sidecar and a mount of its own.\<close>

definition user_grafana :: Deployment where
  "user_grafana = (newGrafanaDeployment DefaultGrafanaConfig)\<lparr>
     Containers := [\<lparr>ctr_Name = ''proxy'', Image = ''p'', Env = [], VolumeMounts = [], ctr_Rest = GNil\<rparr>,
       \<lparr>ctr_Name = ''grafana'', Image = ''g'', Env = [\<lparr>env_Name = ''GF_PATHS'', env_Value = ''/x'', ValueFrom = None\<rparr>],
        VolumeMounts = [new_mount ''data'' ''/var/lib/grafana''], ctr_Rest = GNil\<rparr>],
     PodVolumes := []\<rparr>"

lemma user_grafana_merges: "\<not> is_Inl (mergeExistingGrafanaDeployment demo_kvo user_grafana)"
  by (simp add: user_grafana_def newGrafanaDeployment_def mergeExistingGrafanaDeployment_def findGrafanaContainer_def
      grafanaContainerName_def merge_container_def merge_volumes_def ensureSecretEnvVar_def ensureVolumeMount_def
      ensureConfigMapVolume_def secret_env_def newConfigMapVolume_def configuring_def
      datasourceVolumeName_def providerVolumeName_def dashboardVolumeName_def datasourceMountPath_def
      providerMountPath_def dashboardMountPath_def)

theorem merge_extends_provides_and_settles_witness:
  "\<exists>d. mergeExistingGrafanaDeployment demo_kvo user_grafana = Inr d \<and> provides d"
proof -
  from user_grafana_merges obtain d where "mergeExistingGrafanaDeployment demo_kvo user_grafana = Inr d"
    by (cases "mergeExistingGrafanaDeployment demo_kvo user_grafana") (auto simp: is_Inl_def)
  with merge_extends_provides_and_settles [OF this] show ?thesis by blast
qed

section \<open>A Grafana found by its label\<close>

text \<open>What the installation does around a Grafana that is there.\<close>

definition around_grafana :: "action \<Rightarrow> bool" where
  "around_grafana a \<longleftrightarrow> reads a \<or> (case a of
     Create x \<Rightarrow> (case x of ONamespace _ \<Rightarrow> True | OServiceAccount _ \<Rightarrow> True | OClusterRoleBinding _ \<Rightarrow> True
       | OConfigMap _ \<Rightarrow> True | OSecret _ \<Rightarrow> True | ODeployment _ \<Rightarrow> True | _ \<Rightarrow> False)
   | Req r \<Rightarrow> (case r of
         TUpdate x \<Rightarrow> (case x of OClusterRoleBinding _ \<Rightarrow> True | OConfigMap _ \<Rightarrow> True | ODeployment _ \<Rightarrow> True | _ \<Rightarrow> False)
       | CreateToken ns n _ \<Rightarrow> ns = GrafanaNamespace \<and> n = GrafanaServiceAccount
       | _ \<Rightarrow> False)
   | _ \<Rightarrow> False)"

lemma around_reads: "reads a \<Longrightarrow> around_grafana a"
  by (simp add: around_grafana_def)

lemma around_steps:
  "emits around_grafana (DiscoverGrafana K)"
  "emits around_grafana (DiscoverLokiDatasourceURL K)"
  "emits around_grafana (GrafanaEnsureNamespace K ns)"
  "emits around_grafana (EnsureServiceAccountAndRBAC K cfg)"
  "emits around_grafana (EnsureDatasourceConfigMap K cfg)"
  "emits around_grafana (EnsureDeployment K cfg)"
  unfolding DiscoverGrafana_def DiscoverLokiDatasourceURL_def GrafanaEnsureNamespace_def EnsureServiceAccountAndRBAC_def
    ensureGrafanaServiceAccount_def ensure_binding_def EnsureDatasourceConfigMap_def ensureConfigMapData_def
    EnsureDeployment_def Let_def kvo_prims prim_defs
  by (intro wp; simp add: around_grafana_def)+

lemma around_dashboards: "emits around_grafana (EnsureDashboardConfigMaps K cfg)"
proof -
  have files: "emits around_grafana (read_dashboards K dir names m)" for dir names m
    by (induction names arbitrary: m) (auto simp: Let_def kvo_prims around_grafana_def intro!: wp)
  show ?thesis
    unfolding EnsureDashboardConfigMaps_def ensureConfigMapData_def loadDashboards_def Let_def kvo_prims prim_defs
    by (intro wp files; simp add: around_grafana_def)
qed

lemma around_tokens:
  assumes "PrometheusTokenNamespace cfg = GrafanaNamespace" "PrometheusTokenServiceAccount cfg = GrafanaServiceAccount"
    "LokiTokenNamespace cfg = GrafanaNamespace" "LokiTokenServiceAccount cfg = GrafanaServiceAccount"
  shows "emits around_grafana (EnsureDatasourceTokenSecrets K cfg)"
  using assms
  unfolding EnsureDatasourceTokenSecrets_def ensureTokenSecret_def Let_def kvo_prims prim_defs
  by (intro wp) (simp_all add: around_grafana_def grafanaDefaults_def or_default_def Let_def GrafanaNamespace_def GrafanaServiceAccount_def)

text \<open>The creation of a Deployment named grafana in a namespace.\<close>

definition creates_grafana :: "string \<Rightarrow> action \<Rightarrow> bool" where
  "creates_grafana ns a \<longleftrightarrow> (case a of
     Create x \<Rightarrow> (case x of
         ODeployment d \<Rightarrow> o_Namespace (dep_Meta d) = ns \<and> o_Name (dep_Meta d) = GrafanaDeploymentName
       | _ \<Rightarrow> False)
   | _ \<Rightarrow> False)"

lemma EnsureDeployment_creates:
  assumes "\<And>w. fst (t_deployment K (gc_Namespace cfg) GrafanaDeploymentName w) = Inl not_found" and "gc_Namespace cfg \<noteq> ''''"
  shows "achieves (creates_grafana (gc_Namespace cfg)) (EnsureDeployment K cfg)"
proof -
  have ns: "gc_Namespace (grafanaDefaults cfg) = gc_Namespace cfg"
    using assms(2) by (simp add: grafanaDefaults_def or_default_def Let_def)
  have get: "calls (\<lambda>_. True) (Get_Deployment K (gc_Namespace cfg) GrafanaDeploymentName) (\<lambda>r. r = Inl not_found)"
    unfolding kvo_prims by (rule calls_call) (simp_all add: assms(1))
  have create: "achieves (creates_grafana (gc_Namespace cfg))
      (tolerate wrap (Create_Obj (kube K) (ODeployment (newGrafanaDeployment (grafanaDefaults cfg)))))" for wrap
    by (rule achieves_tolerate_Create) (simp add: creates_grafana_def newGrafanaDeployment_def meta_def ns)
  show ?thesis
    unfolding EnsureDeployment_def Let_def ns get_or_def achieves_def
    by (rule does_bind, rule does_mono [OF get [unfolded calls_def]])
      (auto simp: IsNotFound_def not_found_def intro: does_mono [OF create [unfolded achieves_def]])
qed

lemma around_parts:
  assumes "PrometheusTokenNamespace cfg = GrafanaNamespace" "PrometheusTokenServiceAccount cfg = GrafanaServiceAccount"
    "LokiTokenNamespace cfg = GrafanaNamespace" "LokiTokenServiceAccount cfg = GrafanaServiceAccount"
  shows "emits around_grafana (install_parts K True cfg)"
  unfolding install_parts_def unless_existing_simps
  by (intro wp around_steps around_dashboards around_tokens assms)

lemma parts_create:
  assumes "achieves P (EnsureDeployment K cfg)"
    and "PrometheusTokenNamespace cfg = GrafanaNamespace" "PrometheusTokenServiceAccount cfg = GrafanaServiceAccount"
    "LokiTokenNamespace cfg = GrafanaNamespace" "LokiTokenServiceAccount cfg = GrafanaServiceAccount"
  shows "achieves P (install_parts K True cfg)"
proof -
  note around = around_steps around_dashboards around_tokens [OF assms(2-5)]
  note acts = around [THEN emits_wrapE, THEN acts_onlyI]
  show ?thesis
    unfolding install_parts_def unless_existing_simps
    by (intro achieves_later [OF acts(3)] achieves_later [OF acts(4)] achieves_later [OF acts(5)] achieves_later [OF acts(7)]
        achieves_later [OF acts(8)] achieves_later [OF acts_onlyI [OF emits_return]] achieves_bindE [OF achieves_wrapE [OF assms(1)]])
      (simp_all add: wp)
qed

lemma around_installed:
  "emits around_grafana (install_parts K True (install_config cfg d url))"
  by (rule around_parts) (simp_all add: install_config_def)

lemma labelled_create:
  assumes "\<And>w. fst (t_deployment K ns GrafanaDeploymentName w) = Inl not_found" and "ns \<noteq> ''''" and "Found d" "dr_Namespace d = ns"
  shows "achieves (creates_grafana ns) (install_parts K True (install_config cfg d url))"
proof -
  have ns: "gc_Namespace (install_config cfg d url) = ns" using assms(3,4) by (simp add: install_config_def)
  have "achieves (creates_grafana (gc_Namespace (install_config cfg d url))) (EnsureDeployment K (install_config cfg d url))"
    by (rule EnsureDeployment_creates) (simp_all add: ns assms(1,2))
  then show ?thesis unfolding ns by (rule parts_create) (simp_all add: install_config_def)
qed


text \<open>A cluster with a Grafana named monitoring in the namespace team.\<close>

definition labelled_kvo :: "unit kvo" where
  "labelled_kvo = demo_kvo\<lparr>
     deployments := (\<lambda>_ w. (Inr [meta ''team'' ''monitoring'' (Some (fmupd ''app'' ''grafana'' fmempty)) None], w)),
     d_get := (\<lambda>_ _ _ w. (Inr (GMap [(''spec'', GMap [(''host'', GString ''loki.example'')])]), w)),
     t_serviceaccount := (\<lambda>ns n w. (Inr \<lparr>sa_Meta = meta ns n None None, sa_Rest = GMap []\<rparr>, w)),
     read_dir := (\<lambda>_ w. (Inr [(''vm.json'', False)], w)), read_file := (\<lambda>_ w. (Inr ''{}'', w))\<rparr>"

lemma labelled_install: "\<not> is_Inl (result (GrafanaInstall labelled_kvo DefaultGrafanaConfig) fresh)"
  by code_simp


section \<open>A token that ran out\<close>

text \<open>
  C32. The Secret of a datasource's token is made with the time at which the token ends, a year
  later, but that time is never read: a Secret with a token in it is left as it is,
  whatever its annotations say and whatever the time is, so a deployment a year later does
  not renew the token, as the one of the Loki writer is.
\<close>
theorem datasource_token_is_never_renewed:
  assumes "\<And>w. \<not> is_Inl (fst (t_serviceaccount K saNamespace saName w))"
    and "\<And>w. fst (getSecret (kube K) ns n w) = Inr existing" and "mget (sec_Data existing) ''token'' \<noteq> ''''"
  shows "trace (ensureTokenSecret K ns n saNamespace saName) s = [Get KServiceAccount saNamespace saName, Get KSecret ns n]
    \<and> result (ensureTokenSecret K ns n saNamespace saName) s = Inr ()"
proof -
  obtain sa w1 where sa: "t_serviceaccount K saNamespace saName (world s) = (Inr sa, w1)"
    using assms(1) [of "world s"] by (cases "t_serviceaccount K saNamespace saName (world s)") (auto simp: is_Inl_def split: sum.splits)
  obtain w2 where secret: "getSecret (kube K) ns n w1 = (Inr existing, w2)"
    using assms(2) [of w1] by (cases "getSecret (kube K) ns n w1") auto
  from sa secret assms(3) show ?thesis
    by (simp add: trace_def result_def ensureTokenSecret_def get_or_def bindE_def wrapE_def kvo_prims prim_defs Let_def)
qed

text \<open>A token that ended in 1970.\<close>

definition old_token :: Secret where
  "old_token = datasource_token ''grafana'' LokiTokenSecretName ''grafana/grafana'' ''expired'' 0"

definition old_token_kvo :: "unit kvo" where
  "old_token_kvo = offline_kvo (idle_client\<lparr>getSecret := (\<lambda>_ _ w. (Inr old_token, w))\<rparr>)
     \<lparr>t_serviceaccount := (\<lambda>ns n w. (Inr \<lparr>sa_Meta = meta ns n None None, sa_Rest = GMap []\<rparr>, w))\<rparr>"

theorem datasource_token_is_never_renewed_witness:
  "result (ensureTokenSecret old_token_kvo ''grafana'' LokiTokenSecretName ''grafana'' ''grafana'') fresh = Inr ()"
proof -
  have "mget (sec_Data old_token) ''token'' \<noteq> ''''" by (simp add: old_token_def datasource_token_def mget_def)
  with datasource_token_is_never_renewed [where K = old_token_kvo and existing = old_token]
  show ?thesis by (simp add: old_token_kvo_def offline_kvo_def is_Inl_def)
qed

end
