(* ===== verification/Loki.thy ===== *)
theory Loki imports Ensure GoTime begin

text \<open>
  \<open>pkg/loki/installer.go\<close>: the Secret of the object storage, the LokiStack, and the wait for
  it, which reports now and then what is not ready yet.
\<close>

section \<open>Configuration\<close>

record LokiS3Config =
  lk_Bucket :: string
  lk_Endpoint :: string
  lk_Region :: string
  lk_AccessKey :: string
  lk_SecretKey :: string

record LokiConfig =
  lk_Name :: string
  lk_Namespace :: string
  lk_Size :: string
  lk_StorageClass :: string
  RetentionDays :: int
  StorageSecret :: string
  SchemaVersion :: string
  SchemaDate :: string
  lk_S3 :: LokiS3Config

section \<open>The storage Secret\<close>

definition set_unless_empty :: "string \<Rightarrow> string \<Rightarrow> smap \<Rightarrow> smap" where
  "set_unless_empty k v m = (if v \<noteq> '''' then fmupd k v m else m)"

definition storage_data :: "LokiS3Config \<Rightarrow> smap" where
  "storage_data s3 =
     set_unless_empty ''region'' (lk_Region s3) (set_unless_empty ''endpoint'' (lk_Endpoint s3)
       (fmupd ''access_key_secret'' (lk_SecretKey s3) (fmupd ''access_key_id'' (lk_AccessKey s3)
         (fmupd ''bucketnames'' (lk_Bucket s3) fmempty))))"

definition EnsureStorageSecret :: "'w kvo \<Rightarrow> LokiConfig \<Rightarrow> ('w, unit go) io" where
  "EnsureStorageSecret K cfg =
     (if lk_Namespace cfg = '''' then fail (Errorf ''Loki namespace is required'')
      else if StorageSecret cfg = '''' then fail (Errorf ''Loki storage secret name is required'')
      else if lk_Bucket (lk_S3 cfg) = '''' then fail (Errorf ''S3 bucket is required'')
      else if lk_AccessKey (lk_S3 cfg) = '''' then fail (Errorf ''S3 access key is required'')
      else if lk_SecretKey (lk_S3 cfg) = '''' then fail (Errorf ''S3 secret key is required'')
      else let data = storage_data (lk_S3 cfg); at = lk_Namespace cfg @ ''/'' @ StorageSecret cfg @ '': '' in
        get_or (Wrapf (''get Loki S3 Secret '' @ at)) (Get_Secret (kube K) (lk_Namespace cfg) (StorageSecret cfg))
          (\<lambda>existing. wrapE (''update Loki S3 Secret '' @ at) (T_Update K (OSecret (existing\<lparr>sec_Data := Some data\<rparr>))))
          (wrapE (''create Loki S3 Secret '' @ at)
            (Create_Obj (kube K) (OSecret (opaque (lk_Namespace cfg) (StorageSecret cfg) data)))))"

section \<open>The LokiStack\<close>

definition lokistacks :: gvr where
  "lokistacks = GVR ''loki.grafana.com'' ''v1'' ''lokistacks''"

definition stackDefaults :: "LokiConfig \<Rightarrow> LokiConfig" where
  "stackDefaults cfg = cfg\<lparr>
     lk_Size := or_default (lk_Size cfg) ''1x.medium'',
     SchemaVersion := or_default (SchemaVersion cfg) ''v13'',
     SchemaDate := or_default (SchemaDate cfg) ''2024-04-02'',
     RetentionDays := (if RetentionDays cfg = 0 then 7 else RetentionDays cfg)\<rparr>"

definition match_labels :: "string \<Rightarrow> string \<Rightarrow> gval" where
  "match_labels k v = GMap [(''matchLabels'', GMap [(k, GString v)])]"

definition loki_stack :: "LokiConfig \<Rightarrow> gval" where
  "loki_stack cfg = GMap [
     (''apiVersion'', GString ''loki.grafana.com/v1''),
     (''kind'', GString ''LokiStack''),
     (''metadata'', GMap [(''name'', GString (lk_Name cfg)), (''namespace'', GString (lk_Namespace cfg))]),
     (''spec'', GMap [
       (''managementState'', GString ''Managed''),
       (''limits'', GMap [(''global'', GMap [(''retention'', GMap [(''days'', GInt (RetentionDays cfg))])])]),
       (''rules'', GMap [
         (''enabled'', GBool True),
         (''namespaceSelector'', match_labels ''vm-monitoring-alerts'' ''enabled''),
         (''selector'', match_labels ''app'' ''vm-monitoring'')]),
       (''size'', GString (lk_Size cfg)),
       (''storage'', GMap [
         (''schemas'', GSlice [GMap [(''effectiveDate'', GString (SchemaDate cfg)), (''version'', GString (SchemaVersion cfg))]]),
         (''secret'', GMap [(''name'', GString (StorageSecret cfg)), (''type'', GString ''s3'')])]),
       (''storageClassName'', GString (lk_StorageClass cfg)),
       (''tenants'', GMap [(''mode'', GString ''openshift-logging'')])])]"

definition storage_class_error :: "'w kvo \<Rightarrow> string \<Rightarrow> goerr \<Rightarrow> goerr" where
  "storage_class_error K storageClass err =
     (if IsNotFound err then Errorf (''configured Loki StorageClass '' @ quoted K storageClass
        @ '' does not exist; recreate the StorageClass or set KVO_STORAGE_CLASS to an available StorageClass'')
      else Wrapf (''get Loki StorageClass '' @ quoted K storageClass @ '': '') err)"

definition EnsureLokiStack :: "'w kvo \<Rightarrow> LokiConfig \<Rightarrow> ('w, unit go) io" where
  "EnsureLokiStack K cfg =
     (if lk_Name cfg = '''' then fail (Errorf ''LokiStack name is required'')
      else if lk_Namespace cfg = '''' then fail (Errorf ''LokiStack namespace is required'')
      else if lk_StorageClass cfg = '''' then fail (Errorf ''Loki StorageClass is required'')
      else do {
        r \<leftarrow> Get_StorageClass K (lk_StorageClass cfg);
        case r of
          Inl err \<Rightarrow> fail (storage_class_error K (lk_StorageClass cfg) err)
        | Inr _ \<Rightarrow>
            if StorageSecret cfg = '''' then fail (Errorf ''Loki storage Secret is required'')
            else let cfg = stackDefaults cfg in
            if RetentionDays cfg < 1 \<or> RetentionDays cfg > 30 then
              fail (Errorf (''Loki retention must be between 1 and 30 days, got '' @ Itoa (RetentionDays cfg)))
            else apply_dynamic K lokistacks ''LokiStack'' (lk_Namespace cfg) (lk_Name cfg) (loki_stack cfg) })"

section \<open>What is not ready\<close>

definition matchesLokiStackResource :: "string \<Rightarrow> smap option \<Rightarrow> string \<Rightarrow> bool" where
  "matchesLokiStackResource resourceName labels stackName \<longleftrightarrow>
     Contains resourceName stackName
     \<or> list_ex (\<lambda>key. Contains (ToLower key) ''loki'' \<and> mget labels key = stackName) (sorted_keys (non_nil labels))"

definition isPodReady :: "Pod \<Rightarrow> bool" where
  "isPodReady pod \<longleftrightarrow> pod_Phase pod = ''Running''
     \<and> list_all cst_Ready (InitContainerStatuses pod) \<and> list_all cst_Ready (ContainerStatuses pod)"

definition containerState :: "ContainerStatus \<Rightarrow> string" where
  "containerState status = (case Waiting status of
     Some reason \<Rightarrow> if reason \<noteq> '''' then reason else ''Waiting''
   | None \<Rightarrow> (case Terminated status of
       Some reason \<Rightarrow> if reason \<noteq> '''' then ''Terminated: '' @ reason else ''Terminated''
     | None \<Rightarrow> if Running status then ''Running / NotReady'' else ''NotReady''))"

text \<open>\<open>fmt.Fprintf(&out, "  %-32s %s\n", label, value)\<close>\<close>

definition summary_line :: "string \<Rightarrow> string \<Rightarrow> string" where
  "summary_line label value = ''  '' @ pad_right 32 label @ '' '' @ value @ newline"

definition container_lines :: "string \<Rightarrow> ContainerStatus list \<Rightarrow> string" where
  "container_lines what statuses = concat (map (\<lambda>st. summary_line (what @ cst_Name st) (containerState st))
     (filter (\<lambda>st. \<not> cst_Ready st) statuses))"

definition pod_lines :: "string \<Rightarrow> string \<Rightarrow> Pod \<Rightarrow> string" where
  "pod_lines namespace stackName pod =
     (if \<not> matchesLokiStackResource (pod_Name pod) (pod_Labels pod) stackName \<or> isPodReady pod then ''''
      else summary_line ''Namespace'' namespace @ summary_line ''Pod'' (pod_Name pod) @ summary_line ''Phase'' (pod_Phase pod)
        @ container_lines ''InitContainer '' (InitContainerStatuses pod)
        @ container_lines ''Container '' (ContainerStatuses pod) @ newline)"

definition pvc_lines :: "string \<Rightarrow> string \<Rightarrow> PersistentVolumeClaim \<Rightarrow> string" where
  "pvc_lines namespace stackName pvc =
     (if \<not> matchesLokiStackResource (pvc_Name pvc) (pvc_Labels pvc) stackName \<or> pvc_Phase pvc = ''Bound'' then ''''
      else summary_line ''Namespace'' namespace @ summary_line ''PVC'' (pvc_Name pvc) @ summary_line ''Status'' (pvc_Phase pvc)
        @ (case pvc_StorageClassName pvc of None \<Rightarrow> '''' | Some sc \<Rightarrow> summary_line ''StorageClass'' sc) @ newline)"

definition lines_of :: "('a \<Rightarrow> string) \<Rightarrow> 'a list go \<Rightarrow> string" where
  "lines_of f r = (case r of Inl err \<Rightarrow> '''' | Inr xs \<Rightarrow> concat (map f xs))"

definition lokiPendingSummary :: "'w kvo \<Rightarrow> string \<Rightarrow> string \<Rightarrow> ('w, string) io" where
  "lokiPendingSummary K namespace stackName = do {
     pods \<leftarrow> List_Pods K namespace;
     pvcs \<leftarrow> List_PVCs K namespace;
     ret (lines_of (pod_lines namespace stackName) pods @ lines_of (pvc_lines namespace stackName) pvcs) }"

section \<open>Waiting\<close>

definition stack_condition :: "gval \<Rightarrow> unit go option" where
  "stack_condition raw = (case raw of
     GMap _ \<Rightarrow>
       let conditionType = NestedString [''type''] raw; status = NestedString [''status''] raw in
       if conditionType = ''Ready'' \<and> status = ''True'' then Some (Inr ())
       else if conditionType = ''Degraded'' \<and> status = ''True'' then
         Some (Inl (Errorf (''LokiStack is degraded: '' @ NestedString [''reason''] raw @ '': '' @ NestedString [''message''] raw)))
       else None
   | _ \<Rightarrow> None)"

definition stack_verdict :: "gval go \<Rightarrow> unit go option" where
  "stack_verdict r = (case r of
     Inl err \<Rightarrow> None
   | Inr stack \<Rightarrow> (case NestedSlice [''status'', ''conditions''] stack of (conditions, found) \<Rightarrow>
       if found then first_verdict stack_condition conditions else None))"

text \<open>\<open>Duration.Round(time.Second)\<close> and \<open>Duration.String\<close> of the rounded, for durations that are not negative.\<close>

definition Round_second :: "int \<Rightarrow> int" where
  "Round_second d = (let r = d mod second in if r + r < second then d - r else d + second - r)"

definition Duration_String :: "int \<Rightarrow> string" where
  "Duration_String d = (let s = d div second; sec = Itoa (s mod 60) @ ''s''; min = Itoa (s div 60 mod 60) @ ''m'' in
     if s < 60 then sec else if s < 3600 then min @ sec else Itoa (s div 3600) @ ''h'' @ min @ sec)"

definition reportInterval :: int where
  "reportInterval = 60 * second"

text \<open>\<open>for nextReport <= elapsed { nextReport += reportInterval }\<close>\<close>

function advance_report :: "int \<Rightarrow> int \<Rightarrow> int" where
  "advance_report elapsed nextReport =
     (if nextReport \<le> elapsed then advance_report elapsed (nextReport + reportInterval) else nextReport)"
  by pat_completeness auto
termination
  by (relation "measure (\<lambda>(elapsed, nextReport). nat (elapsed + 1 - nextReport))") (auto simp: reportInterval_def second_def)

declare advance_report.simps [simp del]

definition still_waiting :: "int \<Rightarrow> string \<Rightarrow> string" where
  "still_waiting elapsed summary = newline @ ''Still waiting for LokiStack after '' @ Duration_String (Round_second elapsed)
     @ ''...'' @ newline @ summary @ newline"

definition loki_timeout :: "string \<Rightarrow> string \<Rightarrow> string \<Rightarrow> goerr" where
  "loki_timeout namespace name summary =
     (if summary \<noteq> '''' then Errorf (''timeout waiting for LokiStack '' @ namespace @ ''/'' @ name @ '' to become ready''
          @ newline @ newline @ ''Non-ready resources:'' @ newline @ summary @ newline @ ''Suggested checks:'' @ newline
          @ ''  oc get pods -n '' @ namespace @ newline @ ''  oc get pvc -n '' @ namespace @ newline
          @ ''  oc get lokistack '' @ name @ '' -n '' @ namespace @ '' -o yaml'')
      else Errorf (''timeout waiting for LokiStack '' @ namespace @ ''/'' @ name @ '' to become ready''))"

text \<open>
  The loop: \<open>n\<close> is the number of ticks the \<open>select\<close> takes before it takes the deadline, \<open>out\<close>
  writes to the writer.
\<close>

fun wait_loki :: "'w kvo \<Rightarrow> string \<Rightarrow> string \<Rightarrow> (string \<Rightarrow> ('w, unit) io) \<Rightarrow> int \<Rightarrow> nat \<Rightarrow> int \<Rightarrow> string \<Rightarrow> ('w, unit go) io" where
  "wait_loki K namespace name out startedAt 0 nextReport lastSummary = do {
     summary \<leftarrow> lokiPendingSummary K namespace name;
     fail (loki_timeout namespace name summary) }"
| "wait_loki K namespace name out startedAt (Suc n) nextReport lastSummary = do {
     _ \<leftarrow> tick;
     stack \<leftarrow> D_Get K lokistacks namespace name;
     case stack_verdict stack of
       Some r \<Rightarrow> ret r
     | None \<Rightarrow> do {
         now \<leftarrow> Time_Now (kube K);
         let elapsed = now - startedAt in
         if elapsed < nextReport then wait_loki K namespace name out startedAt n nextReport lastSummary
         else do {
           summary \<leftarrow> lokiPendingSummary K namespace name;
           _ \<leftarrow> (if summary \<noteq> '''' \<and> summary \<noteq> lastSummary then out (still_waiting elapsed summary) else ret ());
           wait_loki K namespace name out startedAt n (advance_report elapsed nextReport)
             (if summary \<noteq> '''' \<and> summary \<noteq> lastSummary then summary else lastSummary) } } }"

definition WaitForReadyWithProgress ::
  "'w kvo \<Rightarrow> string \<Rightarrow> string \<Rightarrow> (string \<Rightarrow> ('w, unit) io) \<Rightarrow> nat \<Rightarrow> ('w, unit go) io" where
  "WaitForReadyWithProgress K namespace name out n = do {
     startedAt \<leftarrow> Time_Now (kube K);
     wait_loki K namespace name out startedAt n reportInterval '''' }"

text \<open>With \<open>io.Discard\<close>.\<close>

definition LokiWaitForReady :: "'w kvo \<Rightarrow> string \<Rightarrow> string \<Rightarrow> nat \<Rightarrow> ('w, unit go) io" where
  "LokiWaitForReady K namespace name n = WaitForReadyWithProgress K namespace name (\<lambda>_. ret ()) n"

end
