(* ===== verification/Logging.thy ===== *)
theory Logging imports Ensure begin

text \<open>
  \<open>pkg/logging/forwarder.go\<close>: the collector's ServiceAccount and its roles, and the
  ClusterLogForwarder that sends the logs of the applications to Loki.
\<close>

section \<open>Configuration\<close>

record LoggingConfig =
  lg_Name :: string
  lg_Namespace :: string
  ServiceAccountName :: string
  LokiStackName :: string
  LokiStackNamespace :: string
  MaxRecordsPerSecond :: int
  CollectorCPURequest :: string
  CollectorMemoryRequest :: string
  CollectorCPULimit :: string
  CollectorMemoryLimit :: string

section \<open>The collector\<close>

definition EnsureCollectorServiceAccount :: "'w kvo \<Rightarrow> LoggingConfig \<Rightarrow> ('w, unit go) io" where
  "EnsureCollectorServiceAccount K cfg =
     (if lg_Namespace cfg = '''' then fail (Errorf ''collector namespace is required'')
      else if ServiceAccountName cfg = '''' then fail (Errorf ''collector ServiceAccount name is required'')
      else let at = lg_Namespace cfg @ ''/'' @ ServiceAccountName cfg @ '': '' in
        get_or (Wrapf (''get collector ServiceAccount '' @ at))
          (Get_ServiceAccount K (lg_Namespace cfg) (ServiceAccountName cfg)) (\<lambda>_. ok ())
          (tolerate (Wrapf (''create collector ServiceAccount '' @ at)) (Create_Obj (kube K) (OServiceAccount
            \<lparr>sa_Meta = meta (lg_Namespace cfg) (ServiceAccountName cfg) None None, sa_Rest = GMap []\<rparr>))))"

text \<open>The names of the bindings and their roles.\<close>

definition collector_bindings :: "(string \<times> string) list" where
  "collector_bindings = [
     (''kvo-collector-application-logs'', ''collect-application-logs''),
     (''kvo-collector-infrastructure-logs'', ''collect-infrastructure-logs''),
     (''kvo-collector-audit-logs'', ''collect-audit-logs''),
     (''kvo-collector-logs-writer'', ''logging-collector-logs-writer'')]"

definition role_mismatch :: "'w kvo \<Rightarrow> string \<Rightarrow> string \<Rightarrow> ClusterRoleBinding \<Rightarrow> goerr option" where
  "role_mismatch K name roleName existing =
     (if rr_Name (crb_RoleRef existing) \<noteq> roleName then
        Some (Errorf (''ClusterRoleBinding '' @ quoted K name @ '' already references role ''
          @ quoted K (rr_Name (crb_RoleRef existing)) @ '', expected '' @ quoted K roleName))
      else None)"

definition ensureClusterRoleBinding :: "'w kvo \<Rightarrow> string \<Rightarrow> string \<Rightarrow> string \<Rightarrow> string \<Rightarrow> ('w, unit go) io" where
  "ensureClusterRoleBinding K name roleName namespace serviceAccountName =
     ensure_binding K (role_mismatch K name roleName) (service_account_binding name None roleName namespace serviceAccountName)"

fun ensure_bindings :: "'w kvo \<Rightarrow> LoggingConfig \<Rightarrow> (string \<times> string) list \<Rightarrow> ('w, unit go) io" where
  "ensure_bindings K cfg [] = ok ()"
| "ensure_bindings K cfg ((name, role) # bindings) =
     bindE (ensureClusterRoleBinding K name role (lg_Namespace cfg) (ServiceAccountName cfg)) (\<lambda>_. ensure_bindings K cfg bindings)"

definition EnsureCollectorRBAC :: "'w kvo \<Rightarrow> LoggingConfig \<Rightarrow> ('w, unit go) io" where
  "EnsureCollectorRBAC K cfg = ensure_bindings K cfg collector_bindings"

section \<open>The forwarder\<close>

definition clusterlogforwarders :: gvr where
  "clusterlogforwarders = GVR ''observability.openshift.io'' ''v1'' ''clusterlogforwarders''"

definition forwarderDefaults :: "LoggingConfig \<Rightarrow> LoggingConfig" where
  "forwarderDefaults cfg = cfg\<lparr>
     LokiStackNamespace := or_default (LokiStackNamespace cfg) (lg_Namespace cfg),
     MaxRecordsPerSecond := (if MaxRecordsPerSecond cfg = 0 then 200 else MaxRecordsPerSecond cfg),
     CollectorCPURequest := or_default (CollectorCPURequest cfg) ''1'',
     CollectorMemoryRequest := or_default (CollectorMemoryRequest cfg) ''1Gi'',
     CollectorCPULimit := or_default (CollectorCPULimit cfg) ''6'',
     CollectorMemoryLimit := or_default (CollectorMemoryLimit cfg) ''4Gi''\<rparr>"

definition forwarder :: "LoggingConfig \<Rightarrow> gval" where
  "forwarder cfg = GMap [
     (''apiVersion'', GString ''observability.openshift.io/v1''),
     (''kind'', GString ''ClusterLogForwarder''),
     (''metadata'', GMap [(''name'', GString (lg_Name cfg)), (''namespace'', GString (lg_Namespace cfg))]),
     (''spec'', GMap [
       (''collector'', GMap [(''resources'', GMap [
         (''requests'', GMap [(''cpu'', GString (CollectorCPURequest cfg)), (''memory'', GString (CollectorMemoryRequest cfg))]),
         (''limits'', GMap [(''cpu'', GString (CollectorCPULimit cfg)), (''memory'', GString (CollectorMemoryLimit cfg))])])]),
       (''inputs'', GSlice [GMap [(''name'', GString ''vm-namespaces''), (''type'', GString ''application''),
         (''application'', GMap [])]]),
       (''managementState'', GString ''Managed''),
       (''outputs'', GSlice [GMap [
         (''name'', GString ''loki''),
         (''type'', GString ''lokiStack''),
         (''lokiStack'', GMap [
           (''authentication'', GMap [(''token'', GMap [(''from'', GString ''serviceAccount'')])]),
           (''target'', GMap [(''name'', GString (LokiStackName cfg)), (''namespace'', GString (LokiStackNamespace cfg))])]),
         (''rateLimit'', GMap [(''maxRecordsPerSecond'', GInt (MaxRecordsPerSecond cfg))]),
         (''tls'', GMap [(''ca'', GMap [(''configMapName'', GString ''openshift-service-ca.crt''), (''key'', GString ''service-ca.crt'')])])]]),
       (''pipelines'', GSlice [GMap [(''name'', GString ''vm-only''),
         (''inputRefs'', GSlice [GString ''vm-namespaces'']), (''outputRefs'', GSlice [GString ''loki''])]]),
       (''serviceAccount'', GMap [(''name'', GString (ServiceAccountName cfg))])])]"

definition EnsureClusterLogForwarder :: "'w kvo \<Rightarrow> LoggingConfig \<Rightarrow> ('w, unit go) io" where
  "EnsureClusterLogForwarder K cfg =
     (if lg_Name cfg = '''' then fail (Errorf ''ClusterLogForwarder name is required'')
      else if lg_Namespace cfg = '''' then fail (Errorf ''ClusterLogForwarder namespace is required'')
      else if ServiceAccountName cfg = '''' then fail (Errorf ''collector ServiceAccount name is required'')
      else if LokiStackName cfg = '''' then fail (Errorf ''LokiStack name is required'')
      else apply_dynamic K clusterlogforwarders ''ClusterLogForwarder'' (lg_Namespace cfg) (lg_Name cfg)
        (forwarder (forwarderDefaults cfg)))"

section \<open>Waiting\<close>

text \<open>What one condition of the forwarder says.\<close>

definition forwarder_condition :: "gval \<Rightarrow> unit go option" where
  "forwarder_condition raw = (case raw of
     GMap _ \<Rightarrow>
       let conditionType = NestedString [''type''] raw; status = NestedString [''status''] raw in
       if conditionType = ''Ready'' \<and> status = ''True'' then Some (Inr ())
       else if status = ''False'' \<and> conditionType \<in> {''Ready'', ''observability.openshift.io/Valid'', ''observability.openshift.io/Authorized''} then
         (let reason = NestedString [''reason''] raw; message = NestedString [''message''] raw in
          if reason \<noteq> '''' \<or> message \<noteq> '''' then Some (Inl (Errorf (''ClusterLogForwarder not ready: '' @ reason @ '': '' @ message)))
          else None)
       else None
   | _ \<Rightarrow> None)"

definition forwarder_verdict :: "gval \<Rightarrow> unit go option" where
  "forwarder_verdict x = (case NestedSlice [''status'', ''conditions''] x of (conditions, found) \<Rightarrow>
     if \<not> found then None else first_verdict forwarder_condition conditions)"

definition poll_forwarder :: "'w kvo \<Rightarrow> string \<Rightarrow> string \<Rightarrow> ('w, unit go option) io" where
  "poll_forwarder K namespace name = do {
     r \<leftarrow> D_Get K clusterlogforwarders namespace name;
     ret (case r of Inl err \<Rightarrow> None | Inr x \<Rightarrow> forwarder_verdict x) }"

definition LoggingWaitForReady :: "'w kvo \<Rightarrow> string \<Rightarrow> string \<Rightarrow> nat \<Rightarrow> ('w, unit go) io" where
  "LoggingWaitForReady K namespace name n = poll n
     (fail (Errorf (''timeout waiting for ClusterLogForwarder '' @ namespace @ ''/'' @ name)))
     (poll_forwarder K namespace name)"

text \<open>The check is one of readiness.\<close>

definition forwarder_seen :: "'w kvo \<Rightarrow> string \<Rightarrow> string \<Rightarrow> bool" where
  "forwarder_seen K namespace name \<longleftrightarrow>
     (\<exists>w x. fst (d_get K clusterlogforwarders namespace name w) = Inr x \<and> has_condition ''Ready'' ''True'' x)"

lemma forwarder_condition_ready: "forwarder_condition raw = Some (Inr ()) \<Longrightarrow> condition_is ''Ready'' ''True'' raw"
  by (auto simp: forwarder_condition_def condition_is_def Let_def split: gval.splits if_splits)

lemma forwarder_verdict_ready: "forwarder_verdict x = Some (Inr ()) \<Longrightarrow> has_condition ''Ready'' ''True'' x"
  by (auto simp: forwarder_verdict_def has_condition_def list_ex_iff split: prod.splits if_splits
      dest!: first_verdict_SomeE forwarder_condition_ready)

interpretation forwarder: readiness "poll_forwarder K namespace name" "forwarder_seen K namespace name" for K namespace name
proof
  show "calls reads (poll_forwarder K namespace name) (\<lambda>v. v = Some (Inr ()) \<longrightarrow> forwarder_seen K namespace name)"
    unfolding poll_forwarder_def kvo_prims
    by (rule calls_bind, rule calls_call, simp, rule calls_ret)
      (force simp: forwarder_seen_def split: sum.splits dest: forwarder_verdict_ready)
qed

lemma calls_LoggingWaitForReady:
  "calls reads (LoggingWaitForReady K namespace name n) (\<lambda>r. r = Inr () \<longrightarrow> forwarder_seen K namespace name)"
  unfolding LoggingWaitForReady_def by (rule forwarder.poll_ready) (simp add: calls_ret)

end
