(* ===== verification/LokiProps.thy ===== *)
theory LokiProps imports Loki Logging Success begin

text \<open>
  What \<open>pkg/loki\<close> and \<open>pkg/logging\<close> write, when their waits end, and which roles the collector
  gets.
\<close>

section \<open>The wait for the LokiStack\<close>

definition stack_seen :: "'w kvo \<Rightarrow> string \<Rightarrow> string \<Rightarrow> bool" where
  "stack_seen K namespace name \<longleftrightarrow>
     (\<exists>w x. fst (d_get K lokistacks namespace name w) = Inr x \<and> has_condition ''Ready'' ''True'' x)"

lemma stack_condition_ready: "stack_condition raw = Some (Inr ()) \<Longrightarrow> condition_is ''Ready'' ''True'' raw"
  by (auto simp: stack_condition_def condition_is_def Let_def split: gval.splits if_splits)

lemma stack_verdict_ready: "stack_verdict r = Some (Inr ()) \<Longrightarrow> \<exists>x. r = Inr x \<and> has_condition ''Ready'' ''True'' x"
  by (auto simp: stack_verdict_def has_condition_def list_ex_iff split: prod.splits sum.splits if_splits
      dest!: first_verdict_SomeE stack_condition_ready)

lemma reading_lokiPendingSummary [reading]: "emits reads (lokiPendingSummary K namespace name)"
  unfolding lokiPendingSummary_def by (intro wp reading)

lemma calls_wait_loki:
  assumes "\<And>s. emits reads (out s)"
  shows "calls reads (wait_loki K namespace name out startedAt n nextReport lastSummary) (\<lambda>r. r = Inr () \<longrightarrow> stack_seen K namespace name)"
proof (induction n arbitrary: nextReport lastSummary)
  case 0
  then show ?case unfolding wait_loki.simps
    by (intro calls_bind calls_step [OF reading_lokiPendingSummary]) (simp add: calls_ret)
next
  case (Suc n)
  have get: "calls reads (D_Get K lokistacks namespace name) (\<lambda>r. stack_verdict r = Some (Inr ()) \<longrightarrow> stack_seen K namespace name)"
    unfolding kvo_prims by (rule calls_call) (auto simp: stack_seen_def dest!: stack_verdict_ready)
  have tick: "emits reads tick" "emits reads (Time_Now (kube K))" by (intro reading)+ (simp add: prim_defs emits_call)
  show ?case
    unfolding wait_loki.simps Let_def
    by (rule calls_bind, rule calls_step [OF tick(1)], rule calls_bind, rule calls_mono [OF get], assumption)
      (auto split: option.splits intro!: calls_ret calls_bind calls_step [OF tick(2)] calls_step [OF reading_lokiPendingSummary] calls_step [OF assms] calls_if Suc.IH)
qed

lemma calls_WaitForReadyWithProgress:
  assumes "\<And>s. emits reads (out s)"
  shows "calls reads (WaitForReadyWithProgress K namespace name out n) (\<lambda>r. r = Inr () \<longrightarrow> stack_seen K namespace name)"
  unfolding WaitForReadyWithProgress_def prim_defs
  by (intro calls_bind calls_step calls_wait_loki assms) (simp add: emits_call)


section \<open>The retention of the LokiStack\<close>

definition retention_of :: "gval \<Rightarrow> gval option" where
  "retention_of x = nested [''spec'', ''limits'', ''global'', ''retention'', ''days''] x"

text \<open>A write of a LokiStack that keeps logs between one and thirty days.\<close>

definition writes_stack :: "action \<Rightarrow> bool" where
  "writes_stack a \<longleftrightarrow> (\<exists>ns x d. (a = Req (DCreate lokistacks ns x) \<or> a = Req (DUpdate lokistacks ns x))
     \<and> retention_of x = Some (GInt d) \<and> 1 \<le> d \<and> d \<le> 30)"

lemma retention_of_stack:
  "retention_of (loki_stack cfg) = Some (GInt (RetentionDays cfg))"
  "retention_of (SetResourceVersion v (loki_stack cfg)) = Some (GInt (RetentionDays cfg))"
  by (simp_all add: retention_of_def loki_stack_def SetResourceVersion_def goE_def)

text \<open>
  C33. Whatever number of days the configuration asks for, and whatever is in the cluster, a
  LokiStack is written only with a retention from one to thirty days, and everything else
  \<open>EnsureLokiStack\<close> does is reading; a configuration without a number of days gets seven.
\<close>
theorem EnsureLokiStack_retention:
  "list_all (\<lambda>a. reads a \<or> writes_stack a) (trace (EnsureLokiStack K cfg) s)
   \<and> RetentionDays (stackDefaults (cfg\<lparr>RetentionDays := 0\<rparr>)) = 7"
proof
  have "emits (\<lambda>a. reads a \<or> writes_stack a) (EnsureLokiStack K cfg)"
    unfolding EnsureLokiStack_def apply_dynamic_def Let_def kvo_prims
    by (intro wp) (auto simp: writes_stack_def retention_of_stack)
  then show "list_all (\<lambda>a. reads a \<or> writes_stack a) (trace (EnsureLokiStack K cfg) s)"
    unfolding emits_def by (rule does_trace)
qed (simp add: stackDefaults_def)

section \<open>The roles of the collector\<close>

text \<open>A binding of a role to the collector is made, or becomes one of the collector only.\<close>

definition binds :: "LoggingConfig \<Rightarrow> string \<Rightarrow> action \<Rightarrow> bool" where
  "binds cfg role a \<longleftrightarrow> (\<exists>b. (a = Create (OClusterRoleBinding b) \<or> a = Req (TUpdate (OClusterRoleBinding b)))
     \<and> rr_Name (crb_RoleRef b) = role
     \<and> crb_Subjects b = [\<lparr>sub_Kind = ''ServiceAccount'', sub_Name = ServiceAccountName cfg, sub_Namespace = lg_Namespace cfg\<rparr>])"

lemma ensureClusterRoleBinding_binds:
  "achieves (binds cfg role) (ensureClusterRoleBinding K name role (lg_Namespace cfg) (ServiceAccountName cfg))"
  unfolding ensureClusterRoleBinding_def ensure_binding_def Let_def
  by (rule achieves_get_or)
    (auto simp: role_mismatch_def binds_def service_account_binding_def kvo_prims emits_call
      intro!: achieves_tolerate_Create achieving achieves_call)

lemma acts_ensureClusterRoleBinding: "acts_only (ensureClusterRoleBinding K name role ns sa)"
  unfolding ensureClusterRoleBinding_def ensure_binding_def Let_def kvo_prims prim_defs
  by (intro wp) simp_all

lemma acts_ensure_bindings: "acts_only (ensure_bindings K cfg bs)"
  by (induction bs) (auto intro!: wp acts_ensureClusterRoleBinding)

lemma ensure_bindings_bind: "role \<in> snd ` set bs \<Longrightarrow> achieves (binds cfg role) (ensure_bindings K cfg bs)"
proof (induction bs)
  case (Cons b bs)
  obtain name r where b: "b = (name, r)" by (cases b)
  show ?case
  proof (cases "r = role")
    case True
    then show ?thesis unfolding b ensure_bindings.simps
      by (auto intro: achieves_bindE [OF ensureClusterRoleBinding_binds] acts_ensure_bindings)
  next
    case False
    with Cons b show ?thesis by (auto intro!: achieves_later acts_ensureClusterRoleBinding)
  qed
qed simp

text \<open>
  C35. The roles of the log collector. Its comment says that permissions for infrastructure and
  audit logs are intentionally not granted; a successful run has bound the roles that
  collect them, too.
\<close>
theorem collector_may_read_every_log:
  "is_Inl (result (EnsureCollectorRBAC K cfg) s)
   \<or> list_all (\<lambda>role. list_ex (binds cfg role) (trace (EnsureCollectorRBAC K cfg) s))
       [''collect-application-logs'', ''collect-infrastructure-logs'', ''collect-audit-logs'', ''logging-collector-logs-writer'']"
proof -
  have "achieves (binds cfg role) (EnsureCollectorRBAC K cfg)" if "role \<in> snd ` set collector_bindings" for role
    unfolding EnsureCollectorRBAC_def using that by (rule ensure_bindings_bind)
  then have "is_Inl (result (EnsureCollectorRBAC K cfg) s) \<or> list_ex (binds cfg role) (trace (EnsureCollectorRBAC K cfg) s)"
    if "role \<in> snd ` set collector_bindings" for role
    using that by (blast dest: achieves_trace)
  then show ?thesis by (simp add: collector_bindings_def)  blast
qed

end
