(* ===== verification/DeployConfig.thy ===== *)
theory DeployConfig imports Platform begin

text \<open>
  \<open>pkg/deploy/config.go\<close>: the configuration of a deployment, from environment variables or
  from prompts. The standard input is the text that is still to be read; reading it ends
  with \<open>io.EOF\<close> at its end. The access key and the secret key are secrets.
\<close>

section \<open>Data\<close>

record S3Config =
  Bucket :: string
  Endpoint :: string
  Region :: string
  AccessKey :: string
  SecretKey :: string

record DeployConfig =
  S3 :: S3Config
  dc_StorageClass :: string

definition ValidateConfig :: "DeployConfig \<Rightarrow> unit go" where
  "ValidateConfig c =
     (if TrimSpace (Bucket (S3 c)) = '''' then Inl (Errorf ''S3 bucket is required'')
      else if TrimSpace (AccessKey (S3 c)) = '''' then Inl (Errorf ''S3 access key is required'')
      else if TrimSpace (SecretKey (S3 c)) = '''' then Inl (Errorf ''S3 secret key is required'')
      else Inr ())"

section \<open>Reading lines\<close>

text \<open>\<open>ReadString('\n')\<close>: what was read with its line end, the rest, and whether the input ended
  before a line end.\<close>

definition ReadString :: "string \<Rightarrow> string \<times> string \<times> bool" where
  "ReadString input = (let line = takeWhile (\<lambda>c. c \<noteq> CHR 0x0A) input in
     if length line = length input then (input, '''', True)
     else (line @ newline, drop (Suc (length line)) input, False))"

definition EOF_error :: "string \<Rightarrow> goerr" where
  "EOF_error label = Errorf (''read '' @ label @ '': EOF'')"

lemma ReadString_shorter:
  assumes "ReadString input = (value, rest, eof)" and "\<not> (eof \<and> value = '''')"
  shows "length rest < length input"
proof -
  have "length (takeWhile (\<lambda>c. c \<noteq> CHR 0x0A) input) \<le> length input" by (rule length_takeWhile_le)
  with assms show ?thesis by (auto simp: ReadString_def Let_def split: if_splits)
qed

text \<open>A read that got something although the input ended is taken as a line.\<close>

function prompt :: "string \<Rightarrow> string \<Rightarrow> ('w, string go \<times> string) io" where
  "prompt label input = (case ReadString input of (value, rest, eof) \<Rightarrow> do {
     _ \<leftarrow> fprint (label @ '': '');
     if eof \<and> value = '''' then ret (Inl (EOF_error label), rest)
     else if TrimSpace value \<noteq> '''' then ret (Inr (TrimSpace value), rest)
     else do { _ \<leftarrow> fprintln ''  Value is required.''; prompt label rest } })"
  by pat_completeness auto
termination
  by (relation "measure (\<lambda>(label, input). length input)") (auto dest: ReadString_shorter [OF sym])

declare prompt.simps [simp del]

definition promptOptional :: "string \<Rightarrow> string \<Rightarrow> ('w, string go \<times> string) io" where
  "promptOptional label input = (case ReadString input of (value, rest, eof) \<Rightarrow> do {
     _ \<leftarrow> fprint (label @ '': '');
     ret (if eof \<and> value = '''' then Inl (EOF_error label) else Inr (TrimSpace value), rest) })"

definition required :: "string \<Rightarrow> string \<Rightarrow> string go" where
  "required label value = (let secret = TrimSpace value in
     if secret = '''' then Inl (Errorf (label @ '' is required'')) else Inr secret)"

definition promptSecret :: "'w kvo \<Rightarrow> string \<Rightarrow> string \<Rightarrow> ('w, string go \<times> string) io" where
  "promptSecret K label input = do {
     _ \<leftarrow> fprint (label @ '': '');
     if is_terminal K then do {
       value \<leftarrow> Read_Password K;
       _ \<leftarrow> fprintln '''';
       ret (case value of
           Inl err \<Rightarrow> Inl (Wrapf (''read '' @ label @ '': '') err)
         | Inr value \<Rightarrow> required label value, input) }
     else (case ReadString input of (value, rest, eof) \<Rightarrow>
       ret (if eof \<and> value = '''' then Inl (EOF_error label) else required label value, rest)) }"

section \<open>LoadConfig\<close>

text \<open>\<open>if cfg.X == "" { cfg.X, err = ask; if err != nil { return nil, err } }\<close>\<close>

definition ask_unless_set ::
  "string \<Rightarrow> string \<Rightarrow> (string \<Rightarrow> ('w, string go \<times> string) io) \<Rightarrow> (string \<Rightarrow> string \<Rightarrow> ('w, 'a go) io) \<Rightarrow> ('w, 'a go) io" where
  "ask_unless_set value input ask k =
     (if value \<noteq> '''' then k value input
      else do {
        (r, rest) \<leftarrow> ask input;
        case r of Inl err \<Rightarrow> fail err | Inr v \<Rightarrow> k v rest })"

definition LoadConfig :: "'w kvo \<Rightarrow> string \<Rightarrow> ('w, DeployConfig go) io" where
  "LoadConfig K input =
     ask_unless_set (TrimSpace (env K ''LOKI_S3_BUCKET'')) input (prompt ''S3 bucket'') (\<lambda>bucket input.
     ask_unless_set (TrimSpace (env K ''LOKI_S3_ENDPOINT'')) input
       (promptOptional ''S3 endpoint (leave empty for AWS default)'') (\<lambda>endpoint input.
     ask_unless_set (TrimSpace (env K ''LOKI_S3_REGION'')) input
       (promptOptional ''S3 region (leave empty if not required)'') (\<lambda>region input.
     ask_unless_set (env K ''LOKI_S3_ACCESS_KEY'') input (promptSecret K ''S3 access key'') (\<lambda>accessKey input.
     ask_unless_set (env K ''LOKI_S3_SECRET_KEY'') input (promptSecret K ''S3 secret key'') (\<lambda>secretKey input.
       let cfg = \<lparr>S3 = \<lparr>Bucket = bucket, Endpoint = endpoint, Region = region, AccessKey = accessKey, SecretKey = secretKey\<rparr>,
                  dc_StorageClass = TrimSpace (env K ''KVO_STORAGE_CLASS'')\<rparr> in
       case ValidateConfig cfg of Inl err \<Rightarrow> fail err | Inr _ \<Rightarrow> ok cfg)))))"

lemma TrimSpace_Nil [simp]: "TrimSpace [] = []"
  by (simp add: TrimSpace_def)

section \<open>The prompt as a search\<close>

text \<open>The lines of the input, as \<open>ReadString\<close> cuts it; the last may have no line end.\<close>

function input_lines :: "string \<Rightarrow> string list" where
  "input_lines input = (case ReadString input of (value, rest, eof) \<Rightarrow>
     if eof \<and> value = '''' then [] else value # input_lines rest)"
  by pat_completeness auto
termination
  by (relation "measure length") (auto dest: ReadString_shorter [OF sym])

declare input_lines.simps [simp del]

definition rejected :: "string \<Rightarrow> action list" where
  "rejected label = [Req (Print (label @ '': '')), Req (Print (''  Value is required.'' @ newline))]"

lemma does_prompt: "does (prompt label input) (\<lambda>r l. fst r = (case List.find (\<lambda>x. TrimSpace x \<noteq> '''') (input_lines input) of
     Some x \<Rightarrow> Inr (TrimSpace x) | None \<Rightarrow> Inl (EOF_error label))
   \<and> l = concat (map (\<lambda>_. rejected label) (takeWhile (\<lambda>x. TrimSpace x = '''') (input_lines input))) @ [Req (Print (label @ '': ''))])"
proof (induction "length input" arbitrary: input rule: less_induct)
  case less
  obtain v rest eof where r: "ReadString input = (v, rest, eof)" by (cases "ReadString input")
  show ?case
  proof (cases "eof \<and> v = ''''")
    case True
    with r show ?thesis
      by (subst prompt.simps, subst (1 2) input_lines.simps) (auto simp: kvo_prims intro!: does_bind does_call does_return)
  next
    case False
    note lines = input_lines.simps [of input, unfolded r prod.case if_not_P [OF False]]
    note IH = less [OF ReadString_shorter [OF r False]]
    show ?thesis
    proof (cases "TrimSpace v = ''''")
      case True
      show ?thesis
        unfolding prompt.simps [of label input] r prod.case if_not_P [OF False] lines kvo_prims
        by (intro does_bind does_call) (use True in \<open>auto simp: rejected_def intro!: does_bind does_call does_mono [OF IH]\<close>)
    next
      case False
      with r show ?thesis
        unfolding prompt.simps [of label input] r prod.case lines kvo_prims
        by (intro does_bind does_call) (auto intro!: does_return)
    qed
  qed
qed

text \<open>
  C29. The prompt for a required value ends on every input. Its answer is the first line that
  is not blank, trimmed, and the error of the end of the input when there is none; it
  prints the label once per line it reads, and a complaint after each blank one.
\<close>
theorem prompt_reads_first_value:
  "fst (result (prompt label input) s) = (case List.find (\<lambda>x. TrimSpace x \<noteq> '''') (input_lines input) of
     Some x \<Rightarrow> Inr (TrimSpace x) | None \<Rightarrow> Inl (EOF_error label))
   \<and> trace (prompt label input) s =
     concat (map (\<lambda>_. rejected label) (takeWhile (\<lambda>x. TrimSpace x = '''') (input_lines input))) @ [Req (Print (label @ '': ''))]"
  using does_trace [OF does_prompt] by fast

section \<open>The configuration that is loaded\<close>

lemma LoadConfig_valid: "calls (\<lambda>_. True) (LoadConfig K input) (fetched (\<lambda>c. ValidateConfig c = Inr ()))"
proof -
  have ask: "calls (\<lambda>_. True) (ask_unless_set v i a k) Q" if "\<And>v i. calls (\<lambda>_. True) (k v i) Q" "\<And>i. does (a i) (\<lambda>_ _. True)" "\<And>e. Q (Inl e)"
    for v i and a :: "string \<Rightarrow> ('w, string go \<times> string) io" and k :: "string \<Rightarrow> string \<Rightarrow> ('w, DeployConfig go) io" and Q
  proof -
    have run: "calls (\<lambda>_. True) (a i) (\<lambda>_. True)" for i
      using that(2) [of i] unfolding calls_def by (rule does_mono) (simp add: list_all_iff)
    show ?thesis
      unfolding ask_unless_set_def
      by (intro calls_if that(1) calls_bind calls_mono [OF run])
        (auto intro!: calls_ret that split: prod.splits sum.splits)
  qed
  have p: "does (prompt l i) (\<lambda>_ _. True)" for l i by (rule does_mono [OF does_prompt]) simp
  have po: "does (promptOptional l i) (\<lambda>_ _. True)" for l i
    unfolding promptOptional_def kvo_prims by (intro does_intros) simp
  have ps: "does (promptSecret K l i) (\<lambda>_ _. True)" for l i
    unfolding promptSecret_def kvo_prims by (intro does_intros) simp_all
  show ?thesis
    unfolding LoadConfig_def Let_def
    by (intro ask p po ps calls_case_sum calls_ret) (simp_all add: fetched_def)
qed

text \<open>Two operations that make the same calls and leave the same world, whatever they return.\<close>

definition same_calls :: "('w, 'a) io \<Rightarrow> ('w, 'b) io \<Rightarrow> bool" where
  "same_calls m m' \<longleftrightarrow> (\<forall>s. snd (run_state m s) = snd (run_state m' s))"

lemma same_calls_intros:
  "same_calls (ret x) (ret y)"
  "(\<And>x. same_calls (f x) (g x)) \<Longrightarrow> same_calls (m \<bind> f) (m \<bind> g)"
  by (simp_all add: same_calls_def split: prod.splits)

lemma same_calls_ask:
  "(\<And>v i. same_calls (k v i) (k' v i)) \<Longrightarrow> same_calls (ask_unless_set v i a k) (ask_unless_set v i a k')"
  unfolding ask_unless_set_def
  by (auto intro!: same_calls_intros split: sum.splits simp del: bind_simps)

definition with_secrets :: "'w kvo \<Rightarrow> string \<Rightarrow> string \<Rightarrow> 'w kvo" where
  "with_secrets K a b = K\<lparr>env := (env K)(''LOKI_S3_ACCESS_KEY'' := a, ''LOKI_S3_SECRET_KEY'' := b)\<rparr>"

text \<open>
  The secrets of the object storage stay secret. With both keys in the environment, what
  loading the configuration prints and does is the same for all values of the keys; and a
  configuration that is returned has a bucket and both keys.
\<close>
theorem LoadConfig_hides_secrets:
  assumes "a \<noteq> ''''" and "b \<noteq> ''''" and "a' \<noteq> ''''" and "b' \<noteq> ''''"
  shows "trace (LoadConfig (with_secrets K a b) input) s = trace (LoadConfig (with_secrets K a' b') input) s
    \<and> fetched (\<lambda>c. ValidateConfig c = Inr ()) (result (LoadConfig (with_secrets K a b) input) s)"
proof
  have "same_calls (LoadConfig (with_secrets K a b) input) (LoadConfig (with_secrets K a' b') input)"
    unfolding LoadConfig_def Let_def using assms
    by (auto simp: with_secrets_def ask_unless_set_def [of a] ask_unless_set_def [of a'] ask_unless_set_def [of b]
        ask_unless_set_def [of b'] intro!: same_calls_ask same_calls_intros split: sum.splits)
  then show "trace (LoadConfig (with_secrets K a b) input) s = trace (LoadConfig (with_secrets K a' b') input) s"
    by (simp add: same_calls_def trace_def)
  show "fetched (\<lambda>c. ValidateConfig c = Inr ()) (result (LoadConfig (with_secrets K a b) input) s)"
    using calls_trace [OF LoadConfig_valid] by blast
qed

theorem LoadConfig_hides_secrets_witness:
  "trace (LoadConfig (with_secrets demo_kvo ''AKIA1'' ''hunter2'') ''loki'') fresh =
   trace (LoadConfig (with_secrets demo_kvo ''AKIA2'' ''swordfish'') ''loki'') fresh"
  using LoadConfig_hides_secrets [of "''AKIA1''" "''hunter2''" "''AKIA2''" "''swordfish''" demo_kvo "''loki''" fresh] by simp

end
