(* ===== verification/Preflight.thy ===== *)
theory Preflight imports Operators GrafanaDiscovery begin

text \<open>
  \<open>pkg/deploy/preflight.go\<close>: the check of the target cluster before a deployment.
\<close>

section \<open>Output\<close>

definition printStatus :: "string \<Rightarrow> string \<Rightarrow> string \<Rightarrow> ('w, unit) io" where
  "printStatus name status detail =
     (if detail = '''' then fprint (''  '' @ pad_right 32 name @ '' '' @ pad_right 14 status @ newline)
      else fprint (''  '' @ pad_right 32 name @ '' '' @ pad_right 14 status @ '' '' @ detail @ newline))"

definition or_unknown :: "string \<Rightarrow> string" where
  "or_unknown s = (if s = '''' then ''unknown'' else s)"

definition present :: "string \<Rightarrow> bool \<Rightarrow> ('w, unit) io" where
  "present name there = (if there then printStatus name ''READY'' '''' else printStatus name ''MISSING'' '''')"

definition storage_status :: "ClusterInfo \<Rightarrow> ('w, unit) io" where
  "storage_status info =
     (if RecommendedStorageClass info \<noteq> '''' then
        printStatus ''StorageClass'' ''READY'' (RecommendedStorageClass info
          @ (if StorageClassReason info \<noteq> '''' then '' ('' @ StorageClassReason info @ '')'' else ''''))
      else printStatus ''StorageClass'' ''NEEDS INPUT'' (''no default or recommended StorageClass found''
          @ (if AllStorageClasses info \<noteq> [] then ''; available: '' @ Join (AllStorageClasses info) '', '' else '''')))"

definition cluster_status :: "ClusterInfo \<Rightarrow> ('w, unit) io" where
  "cluster_status info = do {
     _ \<leftarrow> printStatus ''Cluster connectivity'' ''READY'' (APIServer info);
     _ \<leftarrow> printStatus ''Current context'' ''READY'' (or_unknown (CurrentContext info));
     _ \<leftarrow> (if OpenShift info then printStatus ''OpenShift'' ''READY'' (or_unknown (OpenShiftVersion info))
           else printStatus ''OpenShift'' ''MISSING'' '''');
     _ \<leftarrow> present ''KubeVirt'' (KubeVirt info);
     _ \<leftarrow> present ''OpenShift Virtualization'' (OpenShiftVirtualization info);
     storage_status info }"

definition grafana_status :: "'w kvo \<Rightarrow> string \<Rightarrow> ('w, unit) io" where
  "grafana_status K name = do {
     discovery \<leftarrow> DiscoverGrafana K;
     case discovery of
       Inl err \<Rightarrow> printStatus name ''NOT INSTALLED'' ''existing Grafana discovery failed''
     | Inr d \<Rightarrow>
         if Found d then do {
           _ \<leftarrow> printStatus name ''NOT INSTALLED'' ''not required; existing Grafana will be reused'';
           printStatus ''Grafana'' ''REUSING'' (dr_Namespace d @ ''/'' @ dr_Deployment d) }
         else printStatus name ''NOT INSTALLED'' ''not required; kvoctl will deploy Grafana'' }"

definition print_operator :: "'w kvo \<Rightarrow> Status \<Rightarrow> ('w, unit) io" where
  "print_operator K st =
     (if Ready st then printStatus (st_Name st) ''READY'' (st_Namespace st)
      else if st_State st = ''Installed'' then printStatus (st_Name st) ''NOT READY''
        (if st_Namespace st \<noteq> '''' then st_Namespace st @ '' / '' @ st_Phase st else st_Phase st)
      else if st_State st = ''Unknown'' then printStatus (st_Name st) ''UNKNOWN'' ''unable to query OLM CSVs''
      else if st_Name st = ''Grafana Operator'' then grafana_status K (st_Name st)
      else printStatus (st_Name st) ''NOT INSTALLED'' ''will be installed by kvoctl deploy'')"

definition print_check :: "PermissionCheck \<Rightarrow> ('w, unit) io" where
  "print_check check =
     (if Allowed check then printStatus (pc_Name check) ''ALLOWED'' ''''
      else printStatus (pc_Name check) ''DENIED'' (if Reason check = '''' then ''permission denied'' else Reason check))"

fun each :: "('a \<Rightarrow> ('w, unit) io) \<Rightarrow> 'a list \<Rightarrow> ('w, unit) io" where
  "each f [] = ret ()"
| "each f (x # xs) = do { _ \<leftarrow> f x; each f xs }"

section \<open>RunPreflight\<close>

definition ready_line :: string where
  "ready_line = ''Preflight completed. Cluster is ready for deployment.''"

definition issues_line :: string where
  "issues_line = ''Preflight completed with permission issues.''"

definition preflight_permissions :: "'w kvo \<Rightarrow> ('w, unit go) io" where
  "preflight_permissions K = do {
     _ \<leftarrow> fprintln '''';
     _ \<leftarrow> fprintln ''Checking deployment permissions...'';
     bindE (wrapE ''check deployment permissions: '' (CheckDeployPermissions K)) (\<lambda>checks. do {
       _ \<leftarrow> each print_check checks;
       _ \<leftarrow> fprintln '''';
       _ \<leftarrow> (if list_all Allowed checks then fprintln ready_line else fprintln issues_line);
       ok () }) }"

definition RunPreflight :: "'w kvo \<Rightarrow> ('w, unit go) io" where
  "RunPreflight K = do {
     _ \<leftarrow> fprintln ''KubeVirt Observability Platform Preflight'';
     _ \<leftarrow> fprintln '''';
     _ \<leftarrow> fprintln ''Checking cluster...'';
     clients \<leftarrow> NewClients K;
     case clients of
       Inl err \<Rightarrow> do { _ \<leftarrow> printStatus ''Cluster connectivity'' ''ERROR'' ''''; fail err }
     | Inr clients \<Rightarrow> do {
         info \<leftarrow> DiscoverCluster K clients;
         case info of
           Inl err \<Rightarrow> do { _ \<leftarrow> printStatus ''Cluster discovery'' ''ERROR'' ''''; fail err }
         | Inr info \<Rightarrow> do {
             _ \<leftarrow> cluster_status info;
             _ \<leftarrow> fprintln '''';
             _ \<leftarrow> fprintln ''Checking platform operators...'';
             statuses \<leftarrow> DiscoverOperators K;
             _ \<leftarrow> each (print_operator K) statuses;
             preflight_permissions K } } }"

section \<open>Properties\<close>

lemma reading_each [reading]: "(\<And>x. emits reads (f x)) \<Longrightarrow> emits reads (each f xs)"
  by (induction xs) (auto intro!: wp)

lemma reading_printStatus [reading]: "emits reads (printStatus n s d)"
  unfolding printStatus_def by (intro wp reading)

lemma reading_preflight [reading]:
  "emits reads (cluster_status info)" "emits reads (print_operator K st)" "emits reads (print_check c)"
  "emits reads (preflight_permissions K)"
  unfolding cluster_status_def present_def storage_status_def print_operator_def grafana_status_def DiscoverGrafana_def
    print_check_def preflight_permissions_def
  by (intro wp reading)+

lemma check_permissions_allowed:
  assumes "\<And>ns v g r w st. fst (access_review K ns v g r w) = Inr st \<Longrightarrow> rs_Allowed st"
  shows "calls (\<lambda>_. True) (check_permissions K cs) (fetched (list_all Allowed))"
proof (induction cs)
  case (Cons c cs)
  have review: "calls (\<lambda>_. True) (Access_Review K ns v g r) (fetched rs_Allowed)" for ns v g r
    unfolding kvo_prims by (rule calls_call) (auto simp: fetched_def dest: assms)
  show ?case
    unfolding check_permissions.simps
    by (intro calls_bindE calls_wrapE calls_mono [OF review])
      (auto simp: review_result_def intro!: calls_mono [OF Cons] calls_ret calls_bindE)
qed (simp add: calls_rules)

lemma does_each_any: "(\<And>x. does (f x) (\<lambda>_ _. True)) \<Longrightarrow> does (each f xs) (\<lambda>_ _. True)"
  by (induction xs) (auto intro!: does_bind does_return elim!: does_mono)

lemma does_if_emits: "emits P m \<Longrightarrow> does m (\<lambda>_ _. True)"
  unfolding emits_def by (erule does_mono) simp

lemma does_emits_bind: "emits P m \<Longrightarrow> (\<And>x l. does (f x) (\<lambda>r l'. Q r (l @ l'))) \<Longrightarrow> does (m \<bind> f) Q"
  unfolding emits_def by (rule does_bind) (erule does_mono, simp)

lemma calls_does: "calls P m Q \<Longrightarrow> does m (\<lambda>r l. Q r)"
  unfolding calls_def by (erule does_mono) simp

text \<open>
  The preflight does not modify the cluster, as its comment promises: every call it makes
  reads, asks for a review, or prints. Its closing verdict is about permissions only. When
  every review allows and the run ends without an error, it prints that the cluster is
  ready for deployment, also when OpenShift, KubeVirt or a storage class is missing.
\<close>
theorem preflight_reads_and_judges_permissions:
  assumes "\<And>ns v g r w st. fst (access_review K ns v g r w) = Inr st \<Longrightarrow> rs_Allowed st"
  shows "list_all reads (trace (RunPreflight K) s)
    \<and> (is_Inl (result (RunPreflight K) s) \<or> Req (Print (ready_line @ newline)) \<in> set (trace (RunPreflight K) s))"
proof
  have "emits reads (RunPreflight K)" unfolding RunPreflight_def by (intro wp reading)
  then show "list_all reads (trace (RunPreflight K) s)" unfolding emits_def by (rule does_trace)
  let ?Q = "\<lambda>r l. is_Inl r \<or> Req (Print (ready_line @ newline)) \<in> set l"
  have perm: "does (CheckDeployPermissions K) (\<lambda>r l. fetched (list_all Allowed) r)"
    unfolding CheckDeployPermissions_def by (rule calls_does [OF check_permissions_allowed [OF assms]])
  have any: "does (each print_check cs) (\<lambda>_ _. True)" for cs
    by (rule does_each_any, rule does_if_emits, rule reading)
  have "does (preflight_permissions K) ?Q"
    unfolding preflight_permissions_def kvo_prims
    by (intro does_bind does_call does_bindE does_wrapE does_mono [OF perm])
      (auto split: sum.splits intro!: does_bind does_mono [OF any] does_call does_return)
  then have last: "does (preflight_permissions K) (\<lambda>r l. ?Q r (l0 @ l))" for l0
    by (rule does_mono) auto
  have "does (RunPreflight K) ?Q"
    unfolding RunPreflight_def
    by (intro does_emits_bind [OF reading_prims(14)] does_emits_bind [OF reading_NewClients] does_emits_bind [OF reading_DiscoverCluster]
        does_emits_bind [OF reading_preflight(1)] does_emits_bind [OF reading_DiscoverOperators] does_emits_bind [OF reading_each]
        does_emits_bind [OF reading_printStatus] does_case_sum does_return reading)
      (auto intro: does_mono [OF last])
  then show "is_Inl (result (RunPreflight K) s) \<or> Req (Print (ready_line @ newline)) \<in> set (trace (RunPreflight K) s)"
    by (rule does_trace)
qed

text \<open>A cluster without OpenShift, KubeVirt and storage classes.\<close>

lemma empty_cluster_passes: "result (RunPreflight demo_kvo) fresh = Inr ()"
  by (simp add: result_def RunPreflight_def NewClients_def DiscoverCluster_def discoverOpenShift_def discoverVirtualization_def
      discoverStorageClasses_def cluster_status_def present_def storage_status_def printStatus_def DiscoverOperators_def
      required_operators_def operator_status_def findSubscription_def missing_def print_operator_def Ready_def grafana_status_def
      DiscoverGrafana_def grafana_in_def preflight_permissions_def CheckDeployPermissions_def deploy_permissions_def
      no_info_def recommend_def Let_def bindE_def wrapE_def kvo_prims demo_kvo_def offline_kvo_def fresh_def
      print_check_def review_result_def permission_def or_unknown_def)

theorem preflight_reads_and_judges_permissions_witness:
  "Req (Print (ready_line @ newline)) \<in> set (trace (RunPreflight demo_kvo) fresh)"
proof -
  have "rs_Allowed st" if "fst (access_review demo_kvo ns v g r w) = Inr st" for ns v g r w st
    using that by (auto simp: demo_kvo_def offline_kvo_def)
  from preflight_reads_and_judges_permissions [where K = demo_kvo and s = fresh, OF this] show ?thesis
    by (simp add: empty_cluster_passes)
qed

end
