(* ===== verification/AlertingInstall.thy ===== *)
theory AlertingInstall imports Ensure begin

text \<open>
  \<open>pkg/alerting\<close>: whether the cluster can deliver alerts, the switch of the Alertmanager for
  user workloads, and the Secret of the Slack webhook. Alerting is optional: most failures
  are reasons of a result, not errors.
\<close>

section \<open>Configuration\<close>

record AlertingConfig =
  ac_Namespace :: string
  ac_SecretName :: string
  SlackWebhookURL :: string

definition AlertingNamespace :: string where "AlertingNamespace = ''kubevirt-observability-system''"
definition AlertingSecretName :: string where "AlertingSecretName = ''kvo-slack-webhook''"
definition UrlKey :: string where "UrlKey = ''url''"
definition UserWorkloadNamespace :: string where "UserWorkloadNamespace = ''openshift-user-workload-monitoring''"
definition UserWorkloadConfigMap :: string where "UserWorkloadConfigMap = ''user-workload-monitoring-config''"

definition DefaultAlertingConfig :: "'w kvo \<Rightarrow> AlertingConfig" where
  "DefaultAlertingConfig K = \<lparr>ac_Namespace = AlertingNamespace, ac_SecretName = AlertingSecretName,
     SlackWebhookURL = TrimSpace (env K ''KVO_SLACK_WEBHOOK_URL'')\<rparr>"

definition AlertingEnabled :: "AlertingConfig \<Rightarrow> bool" where
  "AlertingEnabled c \<longleftrightarrow> TrimSpace (SlackWebhookURL c) \<noteq> ''''"

section \<open>Capabilities\<close>

record Capabilities =
  UserWorkloadMonitoring :: bool
  AlertmanagerConfig :: bool

text \<open>A list of resources that is nil without an error is dereferenced.\<close>

definition has_alertmanagerconfigs :: "'w kvo \<Rightarrow> string \<Rightarrow> ('w, bool go) io" where
  "has_alertmanagerconfigs K groupVersion = do {
     r \<leftarrow> Server_Resources K groupVersion;
     ret (case r of
         Inl err \<Rightarrow> Inr False
       | Inr None \<Rightarrow> Inl nil_deref
       | Inr (Some resources) \<Rightarrow> Inr (''alertmanagerconfigs'' \<in> set resources)) }"

definition discoverCapabilities :: "'w kvo \<Rightarrow> ('w, Capabilities go) io" where
  "discoverCapabilities K = do {
     r \<leftarrow> Get_Namespace (kube K) UserWorkloadNamespace;
     case r of
       Inl err \<Rightarrow>
         if IsNotFound err then ok \<lparr>UserWorkloadMonitoring = False, AlertmanagerConfig = False\<rparr>
         else fail (Wrapf ''check user workload monitoring namespace: '' err)
     | Inr _ \<Rightarrow>
         bindE (has_alertmanagerconfigs K ''monitoring.coreos.com/v1beta1'') (\<lambda>beta.
           if beta then ok \<lparr>UserWorkloadMonitoring = True, AlertmanagerConfig = True\<rparr>
           else bindE (has_alertmanagerconfigs K ''monitoring.coreos.com/v1alpha1'') (\<lambda>alpha.
             ok \<lparr>UserWorkloadMonitoring = True, AlertmanagerConfig = alpha\<rparr>)) }"

section \<open>The Alertmanager for user workloads\<close>

text \<open>
  The map of the configuration, and the entry that switches the Alertmanager on, written into
  it.
\<close>

definition parsed_config :: "'w kvo \<Rightarrow> string \<Rightarrow> (string \<times> gval) list go" where
  "parsed_config K current =
     (if current \<noteq> '''' then
        (case yaml_map K current of
           Inl err \<Rightarrow> Inl (Wrapf ''parse existing user workload monitoring config: '' err)
         | Inr config \<Rightarrow> Inr config)
      else Inr [])"

definition alertmanager_on :: "(string \<times> gval) list \<Rightarrow> (string \<times> gval) list" where
  "alertmanager_on config = (let alertmanager = (case map_of config ''alertmanager'' of Some (GMap m) \<Rightarrow> m | _ \<Rightarrow> []) in
     AList.update ''alertmanager'' (GMap (AList.update ''enableAlertmanagerConfig'' (GBool True)
       (AList.update ''enabled'' (GBool True) alertmanager))) config)"

definition user_workload_config :: "'w kvo \<Rightarrow> string \<Rightarrow> string go" where
  "user_workload_config K current =
     goE (parsed_config K current) (\<lambda>config. case map_yaml K (alertmanager_on config) of
         Inl err \<Rightarrow> Inl (Wrapf ''marshal user workload monitoring config: '' err)
       | Inr updated \<Rightarrow> Inr updated)"

definition config_map_error :: "goerr \<Rightarrow> goerr" where
  "config_map_error err =
     (if IsNotFound err then Errorf (''user workload monitoring ConfigMap '' @ UserWorkloadNamespace @ ''/''
        @ UserWorkloadConfigMap @ '' not found'')
      else Wrapf ''get user workload monitoring ConfigMap: '' err)"

definition enableUserWorkloadAlertmanager :: "'w kvo \<Rightarrow> ('w, unit go) io" where
  "enableUserWorkloadAlertmanager K = do {
     r \<leftarrow> Get_ConfigMap (kube K) UserWorkloadNamespace UserWorkloadConfigMap;
     case r of
       Inl err \<Rightarrow> fail (config_map_error err)
     | Inr cm \<Rightarrow> (case user_workload_config K (mget (cm_Data cm) ''config.yaml'') of
         Inl err \<Rightarrow> fail err
       | Inr updated \<Rightarrow> wrapE ''update user workload monitoring ConfigMap: '' (T_Update K (OConfigMap
           (cm\<lparr>cm_Data := Some (fmupd ''config.yaml'' updated (non_nil (cm_Data cm)))\<rparr>)))) }"

section \<open>The Secret of the webhook\<close>

definition ensureAlertingNamespace :: "'w kvo \<Rightarrow> string \<Rightarrow> ('w, unit go) io" where
  "ensureAlertingNamespace K namespace = get_or (Wrapf (''get namespace '' @ namespace @ '': ''))
     (Get_Namespace (kube K) namespace) (\<lambda>_. ok ())
     (tolerate (Wrapf (''create namespace '' @ namespace @ '': ''))
       (Create_Obj (kube K) (ONamespace \<lparr>ns_Name = namespace, ns_Labels = None\<rparr>)))"

definition alerting_labels :: "smap \<Rightarrow> smap" where
  "alerting_labels m = fmupd ''app.kubernetes.io/component'' ''alerting''
     (fmupd ''app.kubernetes.io/name'' ''kubevirt-observability'' m)"

definition webhook_secret :: "AlertingConfig \<Rightarrow> Secret" where
  "webhook_secret cfg = \<lparr>sec_Meta = meta (ac_Namespace cfg) (ac_SecretName cfg) (Some (alerting_labels fmempty)) None,
     sec_Type = ''Opaque'', sec_Data = Some (fmupd UrlKey (SlackWebhookURL cfg) fmempty)\<rparr>"

definition with_webhook :: "AlertingConfig \<Rightarrow> Secret \<Rightarrow> Secret" where
  "with_webhook cfg existing = existing\<lparr>
     sec_Data := Some (fmupd UrlKey (SlackWebhookURL cfg) (non_nil (sec_Data existing))),
     sec_Meta := (sec_Meta existing)\<lparr>o_Labels := Some (alerting_labels (non_nil (o_Labels (sec_Meta existing))))\<rparr>\<rparr>"

definition ensureWebhookSecret :: "'w kvo \<Rightarrow> AlertingConfig \<Rightarrow> ('w, unit go) io" where
  "ensureWebhookSecret K cfg =
     bindE (ensureAlertingNamespace K (ac_Namespace cfg)) (\<lambda>_.
       get_or (Wrapf ''get Slack webhook secret: '') (Get_Secret (kube K) (ac_Namespace cfg) (ac_SecretName cfg))
         (\<lambda>existing. wrapE ''update Slack webhook secret: '' (T_Update K (OSecret (with_webhook cfg existing))))
         (wrapE ''create Slack webhook secret: '' (Create_Obj (kube K) (OStringSecret (webhook_secret cfg)))))"

section \<open>Install\<close>

record AlertingResult =
  ar_Enabled :: bool
  Configured :: bool
  ar_Reason :: string
  ar_SecretName :: string
  ar_Namespace :: string

text \<open>A panic is handled by nobody.\<close>

definition AlertingInstall :: "'w kvo \<Rightarrow> AlertingConfig \<Rightarrow> ('w, AlertingResult go) io" where
  "AlertingInstall K cfg =
     (let result = \<lparr>ar_Enabled = AlertingEnabled cfg, Configured = False, ar_Reason = '''',
        ar_SecretName = ac_SecretName cfg, ar_Namespace = ac_Namespace cfg\<rparr> in
      if \<not> AlertingEnabled cfg then ok (result\<lparr>ar_Reason := ''KVO_SLACK_WEBHOOK_URL not provided''\<rparr>)
      else do {
        caps \<leftarrow> discoverCapabilities K;
        case caps of
          Inl err \<Rightarrow> if is_panic err then fail err
            else ok (result\<lparr>ar_Reason := ''capability discovery failed: '' @ Error err\<rparr>)
        | Inr caps \<Rightarrow>
            if \<not> UserWorkloadMonitoring caps then ok (result\<lparr>ar_Reason := ''user workload monitoring is not available''\<rparr>)
            else if \<not> AlertmanagerConfig caps then ok (result\<lparr>ar_Reason := ''AlertmanagerConfig API is not available''\<rparr>)
            else do {
              r \<leftarrow> enableUserWorkloadAlertmanager K;
              case r of
                Inl err \<Rightarrow> if is_panic err then fail err
                  else ok (result\<lparr>ar_Reason := ''unable to enable user workload Alertmanager: '' @ Error err\<rparr>)
              | Inr _ \<Rightarrow>
                  bindE (wrapE ''configure Slack webhook secret: '' (ensureWebhookSecret K cfg)) (\<lambda>_.
                    ok (result\<lparr>Configured := True, ar_Reason := ''Slack alerting enabled''\<rparr>)) } })"

section \<open>The switch of the Alertmanager\<close>

text \<open>
  C40. Switching the Alertmanager on keeps the configuration of the user. Every other entry of
  the configuration is as it was, every other setting of the Alertmanager too, the two
  switches are on, and what was a list or a text under that name gives way to a map.
  Switching it on again changes nothing.
\<close>
theorem alertmanager_on_frame:
  "(k = ''alertmanager'' \<or> map_of (alertmanager_on config) k = map_of config k)
   \<and> (j = ''enabled'' \<or> j = ''enableAlertmanagerConfig''
      \<or> nested [''alertmanager'', j] (GMap (alertmanager_on config)) = nested [''alertmanager'', j] (GMap config))
   \<and> nested [''alertmanager'', ''enabled''] (GMap (alertmanager_on config)) = Some (GBool True)
   \<and> nested [''alertmanager'', ''enableAlertmanagerConfig''] (GMap (alertmanager_on config)) = Some (GBool True)
   \<and> alertmanager_on (alertmanager_on config) = alertmanager_on config"
proof -
  have same: "AList.update k v m = m" if "map_of m k = Some v" for k :: string and v :: gval and m
    using that by (induction m) auto
  have again: "alertmanager_on (alertmanager_on config) = alertmanager_on config"
    by (simp add: alertmanager_on_def Let_def update_conv' same)
  have am: "map_of (alertmanager_on config) ''alertmanager'' = Some (GMap (AList.update ''enableAlertmanagerConfig'' (GBool True)
      (AList.update ''enabled'' (GBool True) (case map_of config ''alertmanager'' of Some (GMap m) \<Rightarrow> m | _ \<Rightarrow> []))))"
    by (simp add: alertmanager_on_def Let_def update_conv')
  have other: "k = ''alertmanager'' \<or> map_of (alertmanager_on config) k = map_of config k"
    by (auto simp: alertmanager_on_def Let_def update_conv')
  show ?thesis
    using again am other by (auto simp: update_conv' split: option.splits gval.splits)
qed

end
