(* ===== verification/Deploy.thy ===== *)
theory Deploy imports DeployConfig Preflight Loki Logging GrafanaInstall AlertingInstall VMInstaller begin

text \<open>
  \<open>pkg/deploy/deploy.go\<close>: \<open>Run\<close>, which deploys the whole platform, one stage after the other,
  and stops at the first that fails.
\<close>

section \<open>Output and numbers\<close>

text \<open>\<open>"  %-32s %-14s %s\n"\<close> and \<open>"  %-32s %-14s\n"\<close>.\<close>

definition status_detail :: "string \<Rightarrow> string \<Rightarrow> string \<Rightarrow> ('w, unit) io" where
  "status_detail name status detail =
     fprint (''  '' @ pad_right 32 name @ '' '' @ pad_right 14 status @ '' '' @ detail @ newline)"

definition status_only :: "string \<Rightarrow> string \<Rightarrow> ('w, unit) io" where
  "status_only name status = fprint (''  '' @ pad_right 32 name @ '' '' @ pad_right 14 status @ newline)"

text \<open>\<open>strconv.Atoi\<close>: an optional sign and decimal digits, within 64 bits.\<close>

definition Atoi :: "string \<Rightarrow> int option" where
  "Atoi s = (let (neg, ds) = (case s of
         c # r \<Rightarrow> if c = CHR ''-'' then (True, r) else if c = CHR ''+'' then (False, r) else (False, s)
       | [] \<Rightarrow> (False, [])) in
     if ds = [] then None
     else case those (map digit_value ds) of
       None \<Rightarrow> None
     | Some vs \<Rightarrow>
         let n = foldl (\<lambda>n d. 10 * n + int d) 0 vs; v = (if neg then - n else n) in
         if - (2 ^ 63) \<le> v \<and> v < 2 ^ 63 then Some v else None)"

section \<open>Before anything is written\<close>

definition redHatCatalog :: string where "redHatCatalog = ''redhat-operators''"
definition loggingPackage :: string where "loggingPackage = ''cluster-logging''"
definition loggingNamespace :: string where "loggingNamespace = ''openshift-logging''"
definition lokiPackage :: string where "lokiPackage = ''loki-operator''"
definition lokiNamespace :: string where "lokiNamespace = ''openshift-operators-redhat''"
definition lokiStackName :: string where "lokiStackName = ''logging-loki''"
definition lokiStorageSecret :: string where "lokiStorageSecret = ''loki-s3''"

definition print_config :: "DeployConfig \<Rightarrow> ('w, unit) io" where
  "print_config cfg = do {
     _ \<leftarrow> fprintln '''';
     _ \<leftarrow> fprintln ''Deployment configuration:'';
     _ \<leftarrow> fprint (''  S3 bucket                       '' @ Bucket (S3 cfg) @ newline);
     _ \<leftarrow> (if Endpoint (S3 cfg) \<noteq> '''' then fprint (''  S3 endpoint                     '' @ Endpoint (S3 cfg) @ newline)
           else fprintln ''  S3 endpoint                     AWS default'');
     _ \<leftarrow> (if Region (S3 cfg) \<noteq> '''' then fprint (''  S3 region                       '' @ Region (S3 cfg) @ newline) else ret ());
     _ \<leftarrow> fprintln ''  S3 credentials                  PROVIDED'';
     _ \<leftarrow> fprintln '''';
     _ \<leftarrow> fprintln ''Running cluster preflight...'';
     fprintln '''' }"

text \<open>The storage class and the retention, read from the environment.\<close>

definition storage_class :: "DeployConfig \<Rightarrow> ClusterInfo \<Rightarrow> string go" where
  "storage_class cfg clusterInfo = (let storageClass = or_default (dc_StorageClass cfg) (RecommendedStorageClass clusterInfo) in
     if storageClass = '''' then Inl (Errorf ''no StorageClass was selected or discovered'') else Inr storageClass)"

definition retention_days :: "'w kvo \<Rightarrow> int go" where
  "retention_days K = (let raw = env K ''KVO_LOKI_RETENTION_DAYS'' in
     if raw \<noteq> '''' then (case Atoi raw of
         None \<Rightarrow> Inl (Errorf (''invalid KVO_LOKI_RETENTION_DAYS '' @ quoted K raw @ '': expected an integer''))
       | Some value \<Rightarrow>
           if value < 1 \<or> value > 30 then
             Inl (Errorf (''invalid KVO_LOKI_RETENTION_DAYS '' @ Itoa value @ '': supported range is 1-30 days''))
           else Inr value)
     else Inr 7)"

definition deploy_plan :: "'w kvo \<Rightarrow> DeployConfig \<Rightarrow> ('w, (string \<times> int) go) io" where
  "deploy_plan K cfg =
     bindE (wrapE ''preflight failed: '' (RunPreflight K)) (\<lambda>_.
     bindE (wrapE ''create Kubernetes clients: '' (NewClients K)) (\<lambda>clients.
     bindE (wrapE ''discover cluster: '' (DiscoverCluster K clients)) (\<lambda>clusterInfo.
       ret (goE (storage_class cfg clusterInfo) (\<lambda>storageClass.
         goE (retention_days K) (\<lambda>days. Inr (storageClass, days)))))))"

section \<open>The operators\<close>

text \<open>The ticks each wait takes before its deadline.\<close>

record Ticks =
  logging_ticks :: nat
  loki_ticks :: nat
  stack_ticks :: nat
  forwarder_ticks :: nat
  certificate_ticks :: nat
  install_ticks :: nat
  ready_ticks :: nat

definition install_config_of :: "string \<Rightarrow> string \<Rightarrow> string \<Rightarrow> PackageInfo \<Rightarrow> InstallConfig" where
  "install_config_of package namespace groupName info = \<lparr>Package = package, TargetNamespace = namespace,
     OperatorGroupName = groupName, CatalogSource = pi_CatalogSource info,
     CatalogNamespace = pi_CatalogSourceNamespace info, Channel = DefaultChannel info\<rparr>"

definition logging_operator :: string where "logging_operator = ''OpenShift Logging Operator''"
definition loki_operator :: string where "loki_operator = ''Loki Operator''"

definition wait_for_operator :: "'w kvo \<Rightarrow> string \<Rightarrow> string \<Rightarrow> string \<Rightarrow> nat \<Rightarrow> ('w, unit go) io" where
  "wait_for_operator K what package namespace n =
     bindE (wrapE (''wait for '' @ what @ '': '') (WaitForReady K \<lparr>wc_Package = package, wc_Namespace = namespace\<rparr> n)) (\<lambda>_. do {
       _ \<leftarrow> status_only what ''READY''; ok () })"

definition deploy_operators :: "'w kvo \<Rightarrow> Ticks \<Rightarrow> ('w, unit go) io" where
  "deploy_operators K t = do {
     _ \<leftarrow> fprintln '''';
     _ \<leftarrow> fprintln ''Discovering required operators...'';
     bindE (wrapE ''discover OpenShift Logging Operator: '' (DiscoverPackage K loggingPackage redHatCatalog)) (\<lambda>loggingInfo. do {
     _ \<leftarrow> status_detail logging_operator ''FOUND'' (DefaultChannel loggingInfo);
     bindE (wrapE ''discover Loki Operator: '' (DiscoverPackage K lokiPackage redHatCatalog)) (\<lambda>lokiInfo. do {
     _ \<leftarrow> status_detail loki_operator ''FOUND'' (DefaultChannel lokiInfo);
     _ \<leftarrow> fprintln '''';
     _ \<leftarrow> fprintln ''Ensuring required operators...'';
     bindE (wrapE ''install OpenShift Logging Operator: ''
       (EnsureInstalled K (install_config_of loggingPackage loggingNamespace ''cluster-logging'' loggingInfo))) (\<lambda>_. do {
     _ \<leftarrow> status_detail logging_operator ''ENSURED'' (DefaultChannel loggingInfo);
     bindE (wrapE ''install Loki Operator: ''
       (EnsureInstalled K (install_config_of lokiPackage lokiNamespace ''loki-operator'' lokiInfo))) (\<lambda>_. do {
     _ \<leftarrow> status_detail loki_operator ''ENSURED'' (DefaultChannel lokiInfo);
     _ \<leftarrow> fprintln '''';
     _ \<leftarrow> fprintln ''Waiting for operators to become ready...'';
     bindE (wait_for_operator K logging_operator loggingPackage loggingNamespace (logging_ticks t)) (\<lambda>_.
       wait_for_operator K loki_operator lokiPackage lokiNamespace (loki_ticks t)) }) }) }) }) }"

section \<open>Loki\<close>

definition deploy_loki_config :: "DeployConfig \<Rightarrow> string \<Rightarrow> int \<Rightarrow> LokiConfig" where
  "deploy_loki_config cfg storageClass retentionDays = \<lparr>lk_Name = lokiStackName, lk_Namespace = loggingNamespace,
     lk_Size = ''1x.medium'', lk_StorageClass = storageClass, RetentionDays = retentionDays,
     StorageSecret = lokiStorageSecret, SchemaVersion = ''v13'', SchemaDate = ''2024-04-02'',
     lk_S3 = \<lparr>lk_Bucket = Bucket (S3 cfg), lk_Endpoint = Endpoint (S3 cfg), lk_Region = Region (S3 cfg),
       lk_AccessKey = AccessKey (S3 cfg), lk_SecretKey = SecretKey (S3 cfg)\<rparr>\<rparr>"

definition deploy_loki :: "'w kvo \<Rightarrow> LokiConfig \<Rightarrow> Ticks \<Rightarrow> ('w, unit go) io" where
  "deploy_loki K lokiConfig t = do {
     _ \<leftarrow> fprintln '''';
     _ \<leftarrow> fprintln ''Configuring Loki storage...'';
     bindE (wrapE ''configure Loki S3 Secret: '' (EnsureStorageSecret K lokiConfig)) (\<lambda>_. do {
     _ \<leftarrow> status_detail ''Loki S3 Secret'' ''READY'' (loggingNamespace @ ''/'' @ lokiStorageSecret);
     _ \<leftarrow> fprintln '''';
     _ \<leftarrow> fprintln ''Deploying LokiStack...'';
     bindE (wrapE ''deploy LokiStack: '' (EnsureLokiStack K lokiConfig)) (\<lambda>_. do {
     _ \<leftarrow> status_detail ''LokiStack'' ''DEPLOYED'' lokiStackName;
     _ \<leftarrow> fprintln '''';
     _ \<leftarrow> fprintln ''Waiting for LokiStack to become ready...'';
     bindE (wrapE ''wait for LokiStack: '' (WaitForReadyWithProgress K loggingNamespace lokiStackName fprint (stack_ticks t))) (\<lambda>_. do {
     _ \<leftarrow> status_detail ''LokiStack'' ''READY'' lokiStackName;
     _ \<leftarrow> fprintln '''';
     _ \<leftarrow> fprintln '''';
     _ \<leftarrow> fprintln ''Loki deployment completed successfully.'';
     _ \<leftarrow> fprintln ''ClusterLogForwarder deployment will run in the next stage.'';
     ok () }) }) }) }"

section \<open>Log forwarding\<close>

definition deploy_logging_config :: LoggingConfig where
  "deploy_logging_config = \<lparr>lg_Name = ''vm-log-forwarder'', lg_Namespace = loggingNamespace, ServiceAccountName = ''collector'',
     LokiStackName = lokiStackName, LokiStackNamespace = loggingNamespace, MaxRecordsPerSecond = 200,
     CollectorCPURequest = ''1'', CollectorMemoryRequest = ''1Gi'', CollectorCPULimit = ''6'', CollectorMemoryLimit = ''4Gi''\<rparr>"

definition deploy_logging :: "'w kvo \<Rightarrow> Ticks \<Rightarrow> ('w, unit go) io" where
  "deploy_logging K t = (let cfg = deploy_logging_config in do {
     _ \<leftarrow> fprintln '''';
     _ \<leftarrow> fprintln ''Configuring log collector...'';
     bindE (wrapE ''create collector ServiceAccount: '' (EnsureCollectorServiceAccount K cfg)) (\<lambda>_. do {
     _ \<leftarrow> status_detail ''Collector ServiceAccount'' ''READY'' (loggingNamespace @ ''/'' @ ServiceAccountName cfg);
     bindE (wrapE ''configure collector RBAC: '' (EnsureCollectorRBAC K cfg)) (\<lambda>_. do {
     _ \<leftarrow> status_only ''Collector RBAC'' ''READY'';
     _ \<leftarrow> fprintln '''';
     _ \<leftarrow> fprintln ''Deploying ClusterLogForwarder...'';
     bindE (wrapE ''deploy ClusterLogForwarder: '' (EnsureClusterLogForwarder K cfg)) (\<lambda>_. do {
     _ \<leftarrow> status_detail ''ClusterLogForwarder'' ''DEPLOYED'' (lg_Name cfg);
     _ \<leftarrow> fprintln ''Waiting for ClusterLogForwarder to become ready...'';
     bindE (wrapE ''wait for ClusterLogForwarder: '' (LoggingWaitForReady K loggingNamespace (lg_Name cfg) (forwarder_ticks t))) (\<lambda>_. do {
     _ \<leftarrow> status_detail ''ClusterLogForwarder'' ''READY'' (lg_Name cfg);
     _ \<leftarrow> fprintln '''';
     _ \<leftarrow> fprintln ''Loki and OpenShift log forwarding deployment completed successfully.'';
     ok () }) }) }) }) })"

section \<open>Grafana and alerting\<close>

definition deploy_reader :: "'w kvo \<Rightarrow> ('w, unit go) io" where
  "deploy_reader K = do {
     _ \<leftarrow> fprintln '''';
     _ \<leftarrow> fprintln ''Configuring Loki query access...'';
     bindE (wrapE ''ensure Grafana namespace for Loki query access: '' (GrafanaEnsureNamespace K GrafanaNamespace)) (\<lambda>_.
     bindE (wrapE ''configure Loki reader RBAC: '' (EnsureReaderFoundation K GrafanaNamespace)) (\<lambda>_. do {
     _ \<leftarrow> status_detail ''Loki Reader ServiceAccount'' ''READY'' (GrafanaNamespace @ ''/'' @ DefaultReaderServiceAccount);
     _ \<leftarrow> status_only ''Loki Application Reader'' ''READY'';
     ok () })) }"

definition deploy_grafana :: "'w kvo \<Rightarrow> ('w, unit go) io" where
  "deploy_grafana K = do {
     _ \<leftarrow> fprintln '''';
     _ \<leftarrow> fprintln ''Configuring Grafana...'';
     bindE (wrapE ''deploy Grafana observability dashboards: '' (GrafanaInstall K DefaultGrafanaConfig)) (\<lambda>grafanaResult. do {
     _ \<leftarrow> status_detail ''Grafana'' ''READY'' (dr_Namespace grafanaResult @ ''/'' @ dr_Deployment grafanaResult);
     _ \<leftarrow> status_detail ''Prometheus Datasource'' ''READY'' (PrometheusUID DefaultGrafanaConfig);
     _ \<leftarrow> status_detail ''Loki Datasource'' ''READY'' (LokiUID DefaultGrafanaConfig);
     _ \<leftarrow> status_detail ''VM Metrics Dashboard'' ''READY'' ''vm-monitoring-production-v6.json'';
     _ \<leftarrow> status_detail ''VM Loki Dashboard'' ''READY'' ''vm-loki-failures-v6.json'';
     _ \<leftarrow> fprintln '''';
     ok () }) }"

definition report_alerting :: "AlertingResult go \<Rightarrow> ('w, unit) io" where
  "report_alerting r = (case r of
     Inl err \<Rightarrow> status_detail ''Slack Alerting'' ''SKIPPED'' ''unable to configure alert integration''
   | Inr res \<Rightarrow>
       if \<not> ar_Enabled res then status_detail ''Slack Alerting'' ''DISABLED'' (ar_Reason res)
       else if \<not> Configured res then status_detail ''Slack Alerting'' ''SKIPPED'' (ar_Reason res)
       else do {
         _ \<leftarrow> status_only ''User Workload Alertmanager'' ''READY'';
         _ \<leftarrow> status_only ''AlertmanagerConfig API'' ''READY'';
         status_detail ''Slack Webhook Secret'' ''READY'' (ar_Namespace res @ ''/'' @ ar_SecretName res) })"

text \<open>An error of alerting is reported and forgotten; a panic ends the program.\<close>

definition deploy_alerting :: "'w kvo \<Rightarrow> ('w, unit go) io" where
  "deploy_alerting K = do {
     _ \<leftarrow> fprintln ''Configuring alerting...'';
     r \<leftarrow> AlertingInstall K (DefaultAlertingConfig K);
     if (case r of Inl err \<Rightarrow> is_panic err | Inr _ \<Rightarrow> False) then ret (map_sum id (\<lambda>_. ()) r)
     else do {
       _ \<leftarrow> report_alerting r;
       _ \<leftarrow> fprintln '''';
       ok () } }"

section \<open>The operator of this repository\<close>

definition deploy_vm_config :: "'w kvo \<Rightarrow> VMConfig" where
  "deploy_vm_config K = DefaultVMConfig\<lparr>
     OperatorImage := or_default (env K ''KVO_OPERATOR_IMAGE'') (OperatorImage DefaultVMConfig),
     ConfigDir := or_default (env K ''KVO_CONFIG_DIR'') (ConfigDir DefaultVMConfig)\<rparr>"

definition kvo_operator :: string where "kvo_operator = ''KubeVirt Observability Operator''"

definition deploy_vm_monitoring :: "'w kvo \<Rightarrow> Ticks \<Rightarrow> ('w, unit go) io" where
  "deploy_vm_monitoring K t = (let cfg = deploy_vm_config K in do {
     _ \<leftarrow> fprintln ''Deploying KubeVirt Observability Operator...'';
     bindE (wrapE ''deploy KubeVirt Observability Operator: '' (VMInstall K cfg (certificate_ticks t) (install_ticks t))) (\<lambda>_. do {
     _ \<leftarrow> status_detail ''VM Monitoring Namespace'' ''READY'' (vc_Namespace cfg);
     _ \<leftarrow> status_detail ''Linux SSH Credentials'' ''READY'' (SSHUsername cfg);
     _ \<leftarrow> status_detail ''Loki Token ServiceAccount'' ''READY'' (LokiNamespace cfg @ ''/'' @ LokiWriterSA cfg);
     _ \<leftarrow> status_detail ''Loki Writer Token'' ''READY'' (vc_Namespace cfg @ ''/'' @ LokiWriterTokenSecret);
     _ \<leftarrow> status_detail ''Operator Image'' ''CONFIGURED'' (OperatorImage cfg);
     _ \<leftarrow> fprintln '''';
     _ \<leftarrow> fprintln ''Waiting for KubeVirt Observability Operator to become ready...'';
     bindE (wrapE ''wait for KubeVirt Observability Operator: '' (VMWaitForReady K cfg (ready_ticks t))) (\<lambda>_. do {
     _ \<leftarrow> status_detail kvo_operator ''READY'' (OperatorImage cfg);
     _ \<leftarrow> fprintln '''';
     _ \<leftarrow> fprintln ''KubeVirt Observability Platform deployment completed successfully.'';
     ok () }) }) })"

section \<open>Run\<close>

definition DeployRun :: "'w kvo \<Rightarrow> Ticks \<Rightarrow> string \<Rightarrow> ('w, unit go) io" where
  "DeployRun K t input = do {
     _ \<leftarrow> fprintln ''KubeVirt Observability Platform Deployment'';
     _ \<leftarrow> fprintln '''';
     bindE (wrapE ''load deployment configuration: '' (LoadConfig K input)) (\<lambda>cfg. do {
     _ \<leftarrow> print_config cfg;
     bindE (deploy_plan K cfg) (\<lambda>(storageClass, retentionDays).
     bindE (deploy_operators K t) (\<lambda>_.
     bindE (deploy_loki K (deploy_loki_config cfg storageClass retentionDays) t) (\<lambda>_.
     bindE (deploy_logging K t) (\<lambda>_.
     bindE (deploy_reader K) (\<lambda>_.
     bindE (deploy_grafana K) (\<lambda>_.
     bindE (deploy_alerting K) (\<lambda>_.
       deploy_vm_monitoring K t))))))) }) }"

end
