(* ===== verification/ReadyCluster.thy ===== *)
theory ReadyCluster imports Deploy begin

text \<open>
  A cluster on which a deployment succeeds: the operators are there, every object that is
  waited for is ready, and every Secret has its keys. It shows that the properties of a
  deployment speak of runs that go all the way. Each stage is evaluated by itself.
\<close>

text \<open>Each wait takes one tick.\<close>

definition one_tick :: Ticks where
  "one_tick = \<lparr>logging_ticks = 1, loki_ticks = 1, stack_ticks = 1, forwarder_ticks = 1, certificate_ticks = 1,
     install_ticks = 1, ready_ticks = 1\<rparr>"

text \<open>One object that serves as Subscription, CSV, LokiStack, forwarder, Route and package.\<close>

definition seen_object :: "gvr \<Rightarrow> string \<Rightarrow> string \<Rightarrow> gval" where
  "seen_object r ns n = GMap [
     (''metadata'', GMap [(''name'', GString n), (''namespace'', GString ns)]),
     (''spec'', GMap [(''host'', GString ''host.example'')]),
     (''status'', GMap [(''installedCSV'', GString ''csv''), (''phase'', GString ''Succeeded''),
        (''catalogSource'', GString redHatCatalog), (''defaultChannel'', GString ''stable''),
        (''conditions'', GSlice [GMap [(''type'', GString ''Ready''), (''status'', GString ''True'')]])])]"

text \<open>
  The environment sets everything but the retention. ClusterRoles, their bindings,
  Services, Namespaces and ConfigMaps are not there yet; the manifests have no documents.
\<close>

definition ready_kvo :: "unit kvo" where
  "ready_kvo = offline_kvo (idle_client\<lparr>
       getSecret := (\<lambda>ns n w. (Inr \<lparr>sec_Meta = meta ns n None None, sec_Type = ''Opaque'', sec_Data = Some (fmap_of_list
         [(''tls.crt'', ''crt''), (''tls.key'', ''key''), (''token'', ''t'')])\<rparr>, w))\<rparr>)
     \<lparr>env := (\<lambda>x. if x = ''KVO_LOKI_RETENTION_DAYS'' then '''' else ''value''),
      d_get := (\<lambda>r ns n w. (Inr (seen_object r ns n), w)),
      d_list := (\<lambda>r ns w. (Inr (map (seen_object r ns) [loggingPackage, lokiPackage]), w)),
      t_serviceaccount := (\<lambda>ns n w. (Inr \<lparr>sa_Meta = meta ns n None None, sa_Rest = GMap []\<rparr>, w)),
      t_deployment := (\<lambda>ns n w. (Inr \<lparr>dep_Meta = meta ns n None None, dep_ResourceVersion = ''7'', Generation = 1,
        Containers = [\<lparr>ctr_Name = ''grafana'', Image = '''', Env = [], VolumeMounts = [], ctr_Rest = GNil\<rparr>],
        PodVolumes = [], dep_Rest = GNil, ObservedGeneration = 1, ReadyReplicas = 1, AvailableReplicas = 1\<rparr>, w)),
      t_storageclass := (\<lambda>n w. (Inr \<lparr>sc_Name = n, sc_Annotations = None\<rparr>, w)),
      read_dir := (\<lambda>_ w. (Inr [(''vm.json'', False)], w)), read_file := (\<lambda>_ w. (Inr ''{}'', w))\<rparr>"

section \<open>Evaluating a run stage by stage\<close>

lemma result_bind: "result (bind m k) s = result (k (result m s)) (snd (run_state m s))"
  by (simp add: result_def split_beta)

lemma result_bindE: "result (bindE m k) s = (case result m s of Inl e \<Rightarrow> Inl e | Inr x \<Rightarrow> result (k x) (snd (run_state m s)))"
  by (auto simp: result_def bindE_def split_beta split: sum.splits)

lemma result_wrapE: "result (wrapE p m) s = (case result m s of Inl e \<Rightarrow> Inl (Wrapf p e) | Inr x \<Rightarrow> Inr x)"
  by (auto simp: result_def wrapE_def split_beta split: sum.splits)

section \<open>The stages\<close>

definition ready_config :: DeployConfig where
  "ready_config = \<lparr>S3 = \<lparr>Bucket = ''value'', Endpoint = ''value'', Region = ''value'', AccessKey = ''value'', SecretKey = ''value''\<rparr>,
     dc_StorageClass = ''value''\<rparr>"

lemma ready_stage1: "result (LoadConfig ready_kvo '''') s = Inr ready_config"
  by (cases s) code_simp

lemma ready_stage2: "result (deploy_plan ready_kvo ready_config) s = Inr (''value'', 7)"
  by (cases s) code_simp

lemma ready_stage3: "result (deploy_operators ready_kvo one_tick) s = Inr ()"
  by (cases s) code_simp

lemma ready_stage4: "result (deploy_loki ready_kvo (deploy_loki_config ready_config ''value'' 7) one_tick) s = Inr ()"
  by (cases s) code_simp

lemma ready_stage5: "result (deploy_logging ready_kvo one_tick) s = Inr ()"
  by (cases s) code_simp

lemma ready_stage6: "result (deploy_reader ready_kvo) s = Inr ()"
  by (cases s) code_simp

lemma ready_stage7: "result (deploy_grafana ready_kvo) s = Inr ()"
  by (cases s) code_simp

lemma ready_stage8: "result (deploy_alerting ready_kvo) s = Inr ()"
  by (cases s) code_simp

lemma ready_stage9: "result (deploy_vm_monitoring ready_kvo one_tick) s = Inr ()"
  by (cases s) code_simp

lemma ready_deployment: "result (DeployRun ready_kvo one_tick '''') s = Inr ()"
  by (simp add: ready_stage1 ready_stage2 ready_stage3 ready_stage4 ready_stage5 ready_stage6 ready_stage7 ready_stage8 ready_stage9 DeployRun_def result_bind result_bindE result_wrapE)

lemma ready_honest: "honest (kube ready_kvo)"
  by (simp add: ready_kvo_def honest_def answers_def named_def offline_kvo_def idle_client_def meta_def)

end
