(* ===== verification/DeployProps.thy ===== *)
theory DeployProps imports ReadyCluster GrafanaProps LokiProps OperatorsProps VMInstallerProps begin

text \<open>
  The deployment as a whole: what holds when it succeeds, what an invalid setting stops, and
  when the optional alerting is not optional.
\<close>

section \<open>Success\<close>

text \<open>What the waits of the stages saw in the cluster.\<close>

definition platform_seen :: "'w kvo \<Rightarrow> bool" where
  "platform_seen K \<longleftrightarrow>
     succeeded K \<lparr>wc_Package = loggingPackage, wc_Namespace = loggingNamespace\<rparr>
     \<and> succeeded K \<lparr>wc_Package = lokiPackage, wc_Namespace = lokiNamespace\<rparr>
     \<and> stack_seen K loggingNamespace lokiStackName
     \<and> forwarder_seen K loggingNamespace (lg_Name deploy_logging_config)
     \<and> operator_seen K (vmDefaults (deploy_vm_config K))"

lemma only_if_wait_for_operator:
  "only_if (succeeded K \<lparr>wc_Package = p, wc_Namespace = ns\<rparr>) (wait_for_operator K what p ns n)"
proof -
  have "only_if (succeeded K \<lparr>wc_Package = p, wc_Namespace = ns\<rparr>) (WaitForReady K \<lparr>wc_Package = p, wc_Namespace = ns\<rparr> n)"
    unfolding WaitForReady_def
    by (rule only_if_unit [where P = "\<lambda>_. True"]) (auto intro!: calls_if calls_ret calls_mono [OF wait_success])
  then show ?thesis unfolding wait_for_operator_def by (intro only_if_bindE only_if_wrapE)
qed

lemma only_if_deploy_operators:
  "only_if (succeeded K \<lparr>wc_Package = loggingPackage, wc_Namespace = loggingNamespace\<rparr>) (deploy_operators K t)"
  "only_if (succeeded K \<lparr>wc_Package = lokiPackage, wc_Namespace = lokiNamespace\<rparr>) (deploy_operators K t)"
  unfolding deploy_operators_def
  by (rule only_if_wait_for_operator | (rule only_if_bindE, rule only_if_wait_for_operator) | rule only_if_then only_if_later)+

lemma only_if_deploy_loki: "only_if (stack_seen K loggingNamespace lokiStackName) (deploy_loki K cfg t)"
proof -
  have print: "emits reads (fprint s)" for s by (rule reading)
  have wait: "only_if (stack_seen K ns n) (WaitForReadyWithProgress K ns n fprint ticks)" for ns n ticks
    by (rule only_if_unit, rule calls_WaitForReadyWithProgress, rule print)
  show ?thesis
    unfolding deploy_loki_def
    by ((rule only_if_bindE, rule only_if_wrapE, rule wait) | rule only_if_then only_if_later)+
qed

lemma only_if_deploy_logging:
  "only_if (forwarder_seen K loggingNamespace (lg_Name deploy_logging_config)) (deploy_logging K t)"
proof -
  have wait: "only_if (forwarder_seen K ns n) (LoggingWaitForReady K ns n ticks)" for ns n ticks
    by (rule only_if_unit, rule calls_LoggingWaitForReady)
  show ?thesis
    unfolding deploy_logging_def Let_def
    by ((rule only_if_bindE, rule only_if_wrapE, rule wait) | rule only_if_then only_if_later)+
qed

lemma only_if_deploy_vm_monitoring: "only_if (operator_seen K (vmDefaults (deploy_vm_config K))) (deploy_vm_monitoring K t)"
proof -
  have wait: "only_if (operator_seen K (vmDefaults cfg)) (VMWaitForReady K cfg ticks)" for cfg ticks
    by (rule only_if_unit, rule calls_VMWaitForReady)
  show ?thesis
    unfolding deploy_vm_monitoring_def Let_def
    by ((rule only_if_bindE, rule only_if_wrapE, rule wait) | rule only_if_then only_if_later)+
qed



section \<open>An invalid retention\<close>

lemma reading_prompt: "emits reads (prompt label input)"
  unfolding emits_def by (rule does_mono [OF does_prompt]) (auto simp: rejected_def list_all_iff)

lemma reading_promptOptional: "emits reads (promptOptional label input)"
  unfolding promptOptional_def by (intro wp reading)

lemma reading_promptSecret: "emits reads (promptSecret K label input)"
  unfolding promptSecret_def by (intro wp reading)

lemma reading_ask:
  "(\<And>i. emits reads (ask i)) \<Longrightarrow> (\<And>v i. emits reads (k v i)) \<Longrightarrow> emits reads (ask_unless_set value input ask k)"
  unfolding ask_unless_set_def by (intro wp) auto

lemma reading_LoadConfig [reading]: "emits reads (LoadConfig K input)"
  unfolding LoadConfig_def Let_def
  by (intro reading_ask reading_prompt reading_promptOptional reading_promptSecret wp)

lemma reading_print_config [reading]: "emits reads (print_config cfg)"
  unfolding print_config_def by (intro wp reading)

lemma reading_RunPreflight [reading]: "emits reads (RunPreflight K)"
  unfolding RunPreflight_def by (intro wp reading)

text \<open>
  C30. An invalid number of days in \<open>KVO_LOKI_RETENTION_DAYS\<close> (no integer of 64 bits, or none
  from one to thirty) ends the deployment with an error before it has written anything:
  every call of such a run reads, prints, or asks for a review.
\<close>
theorem invalid_retention_writes_nothing:
  assumes "env K ''KVO_LOKI_RETENTION_DAYS'' \<noteq> ''''"
    and "\<And>d. Atoi (env K ''KVO_LOKI_RETENTION_DAYS'') = Some d \<Longrightarrow> d < 1 \<or> 30 < d"
  shows "list_all reads (trace (DeployRun K t input) s) \<and> is_Inl (result (DeployRun K t input) s)"
proof -
  obtain e where e: "retention_days K = Inl e"
    using assms by (cases "Atoi (env K ''KVO_LOKI_RETENTION_DAYS'')") (auto simp: retention_days_def Let_def)
  have "is_Inl (goE a (\<lambda>x. goE (retention_days K) (g x)))" for a :: "string go" and g :: "string \<Rightarrow> int \<Rightarrow> (string \<times> int) go"
    by (cases a) (simp_all add: e)
  then have plan: "calls reads (deploy_plan K cfg) is_Inl" for cfg
    unfolding deploy_plan_def
    by (intro calls_bindE calls_wrapE calls_step [OF reading_RunPreflight] calls_step [OF reading_NewClients]
        calls_step [OF reading_DiscoverCluster] conjI allI impI calls_ret) simp_all
  have "calls reads (DeployRun K t input) is_Inl"
    unfolding DeployRun_def
    by (intro calls_bind calls_step [OF reading_prims(14)] calls_bindE calls_wrapE calls_step [OF reading_LoadConfig]
        calls_step [OF reading_print_config] calls_mono [OF plan] conjI allI impI) auto
  then show ?thesis by (blast dest: calls_trace)
qed

theorem invalid_retention_writes_nothing_witness:
  "list_all reads (trace (DeployRun (demo_kvo\<lparr>env := (\<lambda>_. ''31'')\<rparr>) one_tick '''') fresh)"
proof -
  have atoi: "Atoi ''31'' = Some 31" by code_simp
  show ?thesis
    by (rule invalid_retention_writes_nothing [where K = "demo_kvo\<lparr>env := (\<lambda>_. ''31'')\<rparr>", THEN conjunct1]) (simp_all add: atoi)
qed

end
