(* ===== verification/DeployWrites.thy ===== *)
theory DeployWrites imports DeployProps begin

text \<open>
  What a deployment may do to the cluster, and that the objects it sends through the dynamic
  client, which checks nothing, are objects of the resource they are sent to.
\<close>

section \<open>Well-typed objects\<close>

text \<open>A JSON value in which no map has a key twice.\<close>

fun json_ok :: "gval \<Rightarrow> bool"
  and slice_ok :: "gval list \<Rightarrow> bool"
  and entries_ok :: "(string \<times> gval) list \<Rightarrow> bool" where
  "json_ok (GSlice xs) \<longleftrightarrow> slice_ok xs"
| "json_ok (GMap m) \<longleftrightarrow> distinct (map fst m) \<and> entries_ok m"
| "json_ok _ \<longleftrightarrow> True"
| "slice_ok [] \<longleftrightarrow> True"
| "slice_ok (x # xs) \<longleftrightarrow> json_ok x \<and> slice_ok xs"
| "entries_ok [] \<longleftrightarrow> True"
| "entries_ok ((k, v) # m) \<longleftrightarrow> json_ok v \<and> entries_ok m"

text \<open>The kinds of the resources that are written whole.\<close>

definition resource_kinds :: "(gvr \<times> string) list" where
  "resource_kinds = [(operatorgroups, ''OperatorGroup''), (subscriptions, ''Subscription''),
     (lokistacks, ''LokiStack''), (clusterlogforwarders, ''ClusterLogForwarder'')]"

fun api_version :: "gvr \<Rightarrow> string" where
  "api_version (GVR g v r) = g @ ''/'' @ v"

definition typed_object :: "gvr \<Rightarrow> string \<Rightarrow> gval \<Rightarrow> bool" where
  "typed_object r ns x \<longleftrightarrow> json_ok x \<and> NestedString [''apiVersion''] x = api_version r
     \<and> map_of resource_kinds r = Some (NestedString [''kind''] x) \<and> GetNamespace x = ns \<and> GetName x \<noteq> ''''"

text \<open>
  Objects of these resources are typed when they are created, and when they are replaced; the
  update of a Subscription sends back what the server has, and a Route is converted by the
  library.
\<close>

definition typed_request :: "action \<Rightarrow> bool" where
  "typed_request a \<longleftrightarrow> (case a of
     Req r \<Rightarrow> (case r of
         DCreate g ns x \<Rightarrow> g = routeGVR \<or> typed_object g ns x
       | DUpdate g ns x \<Rightarrow> g = subscriptions \<or> typed_object g ns x
       | _ \<Rightarrow> True)
   | _ \<Rightarrow> True)"

lemma resources_differ [simp]:
  "operatorgroups \<noteq> subscriptions" "operatorgroups \<noteq> lokistacks" "operatorgroups \<noteq> clusterlogforwarders"
  "subscriptions \<noteq> lokistacks" "subscriptions \<noteq> clusterlogforwarders" "lokistacks \<noteq> clusterlogforwarders"
  "subscriptions \<noteq> operatorgroups" "lokistacks \<noteq> operatorgroups" "clusterlogforwarders \<noteq> operatorgroups"
  "lokistacks \<noteq> subscriptions" "clusterlogforwarders \<noteq> subscriptions" "clusterlogforwarders \<noteq> lokistacks"
  by (simp_all add: operatorgroups_def subscriptions_def lokistacks_def clusterlogforwarders_def)

lemma typed_objects:
  "name \<noteq> '''' \<Longrightarrow> typed_object operatorgroups ns (operator_group ns name)"
  "Package c \<noteq> '''' \<Longrightarrow> TargetNamespace c = ns \<Longrightarrow> typed_object subscriptions ns (subscription c)"
  "lk_Name l \<noteq> '''' \<Longrightarrow> lk_Namespace l = ns \<Longrightarrow> typed_object lokistacks ns (loki_stack l)"
  "lk_Name l \<noteq> '''' \<Longrightarrow> lk_Namespace l = ns \<Longrightarrow> typed_object lokistacks ns (SetResourceVersion v (loki_stack l))"
  "lg_Name f \<noteq> '''' \<Longrightarrow> lg_Namespace f = ns \<Longrightarrow> typed_object clusterlogforwarders ns (forwarder f)"
  "lg_Name f \<noteq> '''' \<Longrightarrow> lg_Namespace f = ns \<Longrightarrow> typed_object clusterlogforwarders ns (SetResourceVersion v (forwarder f))"
  by (simp_all add: typed_object_def resource_kinds_def operator_group_def subscription_def loki_stack_def match_labels_def
      forwarder_def SetResourceVersion_def goE_def GetNamespace_def GetName_def NestedString_def,
      simp_all add: operatorgroups_def subscriptions_def lokistacks_def clusterlogforwarders_def)

lemma defaults_keep [simp]:
  "Package (with_catalog_defaults c) = Package c" "TargetNamespace (with_catalog_defaults c) = TargetNamespace c"
  "lk_Name (stackDefaults l) = lk_Name l" "lk_Namespace (stackDefaults l) = lk_Namespace l"
  "lg_Name (forwarderDefaults f) = lg_Name f" "lg_Namespace (forwarderDefaults f) = lg_Namespace f"
  by (simp_all add: with_catalog_defaults_def stackDefaults_def forwarderDefaults_def)

section \<open>What a deployment writes\<close>

text \<open>The resources of the dynamic client that a deployment writes.\<close>

definition platform_resources :: "gvr set" where
  "platform_resources = {operatorgroups, subscriptions, lokistacks, clusterlogforwarders, routeGVR}"

definition platform_act :: "action \<Rightarrow> bool" where
  "platform_act a \<longleftrightarrow> reads a \<or> (case a of
     Create x \<Rightarrow> (case x of OVM _ \<Rightarrow> False | _ \<Rightarrow> True)
   | Req r \<Rightarrow> (case r of
         DCreate g _ _ \<Rightarrow> g \<in> platform_resources
       | DUpdate g _ _ \<Rightarrow> g \<in> platform_resources
       | TUpdate x \<Rightarrow> (case x of OVM _ \<Rightarrow> False | _ \<Rightarrow> True)
       | CreateToken _ _ _ \<Rightarrow> True
       | _ \<Rightarrow> False)
   | _ \<Rightarrow> False)"

text \<open>What every call of a deployment is.\<close>

definition platform_call :: "action \<Rightarrow> bool" where
  "platform_call a \<longleftrightarrow> platform_act a \<and> typed_request a"

lemma platform_reads: "reads a \<Longrightarrow> platform_call a"
  by (auto simp: platform_call_def platform_act_def typed_request_def reads_def split: action.splits request.splits)

lemma platform_reading: "emits reads m \<Longrightarrow> emits platform_call m"
  by (erule emits_mono) (rule platform_reads)

lemma platform_prints [wp]:
  "emits platform_call (fprint x)" "emits platform_call (fprintln x)" "emits platform_call (status_detail n st d)"
  "emits platform_call (status_only n st)"
  unfolding status_detail_def status_only_def by (intro platform_reading reading)+

lemma platform_operators: "emits platform_call (deploy_operators K t)"
proof -
  have ensure: "emits platform_call (EnsureInstalled K cfg)" for cfg
    unfolding EnsureInstalled_def ensureNamespace_def ensureOperatorGroup_def ensureSubscription_def Let_def kvo_prims prim_defs
    by (intro wp; simp add: platform_call_def platform_act_def platform_resources_def typed_request_def typed_objects)
  show ?thesis
    unfolding deploy_operators_def wait_for_operator_def
    by (intro wp ensure platform_reading [OF reading_DiscoverPackage] platform_reading [OF reading_WaitForReady])
qed

lemma platform_loki: "emits platform_call (deploy_loki K cfg t)"
proof -
  have print: "emits reads (fprint x)" for x by (rule reading)
  have storage: "emits platform_call (EnsureStorageSecret K c)" "emits platform_call (EnsureLokiStack K c)" for c
    unfolding EnsureStorageSecret_def EnsureLokiStack_def apply_dynamic_def Let_def kvo_prims prim_defs
    by (intro wp; simp add: platform_call_def platform_act_def platform_resources_def typed_request_def typed_objects)+
  show ?thesis
    unfolding deploy_loki_def
    by (intro wp storage platform_reading [OF calls_emits [OF calls_WaitForReadyWithProgress]] print)
qed

lemma platform_logging: "emits platform_call (deploy_logging K t)"
proof -
  have bind: "emits platform_call (ensure_bindings K c bs)" for c bs
    by (induction bs) (auto simp: ensureClusterRoleBinding_def ensure_binding_def Let_def kvo_prims prim_defs platform_call_def platform_act_def typed_request_def intro!: wp)
  have ensure: "emits platform_call (EnsureCollectorServiceAccount K c)" "emits platform_call (EnsureClusterLogForwarder K c)" for c
    unfolding EnsureCollectorServiceAccount_def EnsureClusterLogForwarder_def apply_dynamic_def Let_def kvo_prims prim_defs
    by (intro wp; simp add: platform_call_def platform_act_def platform_resources_def typed_request_def typed_objects)+
  show ?thesis
    unfolding deploy_logging_def EnsureCollectorRBAC_def Let_def
    by (intro wp bind ensure platform_reading [OF calls_emits [OF calls_LoggingWaitForReady]])
qed

lemma platform_grafana: "emits platform_call (deploy_reader K)" "emits platform_call (deploy_grafana K)"
proof -
  have around: "platform_call a" if "around_grafana a" for a
    using that by (auto simp: around_grafana_def platform_call_def platform_act_def typed_request_def reads_def split: action.splits kobj.splits request.splits)
  have ns: "emits platform_call (GrafanaEnsureNamespace K n)" for n
    by (rule emits_mono [OF around_steps(3)], erule around)
  have reader: "emits platform_call (EnsureReaderFoundation K n)" for n
    unfolding EnsureReaderFoundation_def ensureServiceAccount_def ensureLokiApplicationReaderRole_def ensureReaderBinding_def
      ensure_binding_def Let_def kvo_prims prim_defs
    by (intro wp; simp add: platform_call_def platform_act_def typed_request_def)
  show "emits platform_call (deploy_reader K)"
    unfolding deploy_reader_def by (intro wp ns reader)
  have expose: "emits platform_call (EnsureService K c)" "emits platform_call (EnsureRoute K c)"
    "emits platform_call (EnsureDatasourceTokenSecrets K c)" for c
    unfolding EnsureService_def EnsureRoute_def EnsureDatasourceTokenSecrets_def ensureTokenSecret_def Let_def kvo_prims prim_defs
    by (intro wp; simp add: platform_call_def platform_act_def platform_resources_def typed_request_def typed_objects)+
  have steps: "emits platform_call (EnsureServiceAccountAndRBAC K c)" "emits platform_call (EnsureDatasourceConfigMap K c)"
    "emits platform_call (EnsureDashboardConfigMaps K c)" "emits platform_call (EnsureDeployment K c)"
    "emits platform_call (DiscoverGrafana K)" "emits platform_call (DiscoverLokiDatasourceURL K)" for c
    by (rule emits_mono [OF around_steps(4)] emits_mono [OF around_steps(5)] emits_mono [OF around_dashboards]
        emits_mono [OF around_steps(6)] emits_mono [OF around_steps(1)] emits_mono [OF around_steps(2)], erule around)+
  have parts: "emits platform_call (install_parts K existing c)" for existing c
    unfolding install_parts_def unless_existing_def by (intro wp ns expose steps)
  show "emits platform_call (deploy_grafana K)"
    unfolding deploy_grafana_def GrafanaInstall_def Let_def by (intro wp parts steps)
qed

lemma platform_alerting: "emits platform_call (deploy_alerting K)"
  unfolding deploy_alerting_def AlertingInstall_def discoverCapabilities_def has_alertmanagerconfigs_def
    enableUserWorkloadAlertmanager_def ensureWebhookSecret_def ensureAlertingNamespace_def report_alerting_def Let_def
    Get_Namespace_def Get_ConfigMap_def Get_Secret_def Create_Obj_def T_Update_def Server_Resources_def
  by (intro wp; simp add: platform_call_def platform_act_def typed_request_def)

lemma platform_vm_monitoring:
  assumes "honest (kube K)"
  shows "emits platform_call (deploy_vm_monitoring K t)"
proof -
  have installs: "platform_call a" if "installs c a" for a c
    using that by (auto simp: installs_def installer_writes_def platform_call_def platform_act_def typed_request_def reads_def split: action.splits kobj.splits request.splits)
  have install: "emits platform_call (VMInstall K c n m)" for c n m
  proof -
    have "emits (installs (vmDefaults c)) (VMInstall K c n m)" by (rule calls_emits [OF calls_VMInstall [OF assms]])
    then show ?thesis by (rule emits_mono) (rule installs)
  qed
  show ?thesis
    unfolding deploy_vm_monitoring_def Let_def
    by (intro wp install platform_reading [OF calls_emits [OF calls_VMWaitForReady]])
qed

lemma platform_DeployRun:
  assumes "honest (kube K)"
  shows "emits platform_call (DeployRun K t input)"
proof -
  have plan: "emits platform_call (deploy_plan K cfg)" for cfg
    unfolding deploy_plan_def by (intro platform_reading wp reading)
  show ?thesis
    unfolding DeployRun_def
    by (intro wp plan platform_operators platform_loki platform_logging platform_grafana platform_alerting
        platform_vm_monitoring [OF assms] platform_reading [OF reading_LoadConfig] platform_reading [OF reading_print_config])
qed





end
