(* ===== verification/Kvoctl.thy ===== *)
theory Kvoctl imports Deploy Onboarding begin

text \<open>
  \<open>cmd/kvoctl/main.go\<close>: the commands of \<open>kvoctl\<close>, and the flags of \<open>onboard\<close> as the package
  flag of the standard library parses them. The record of calls does not tell the standard
  output from the standard error; the messages that flag itself prints there are left out.
\<close>

section \<open>Flags\<close>

text \<open>\<open>strconv.ParseBool\<close>.\<close>

definition ParseBool :: "string \<Rightarrow> bool option" where
  "ParseBool s =
     (if s \<in> {''1'', ''t'', ''T'', ''true'', ''TRUE'', ''True''} then Some True
      else if s \<in> {''0'', ''f'', ''F'', ''false'', ''FALSE'', ''False''} then Some False
      else None)"

text \<open>A flag is one of a string or a truth value, and sets a field of the configuration.\<close>

datatype flag = StringVar "string \<Rightarrow> OnboardConfig \<Rightarrow> OnboardConfig" | BoolVar "bool \<Rightarrow> OnboardConfig \<Rightarrow> OnboardConfig"

definition onboard_flags :: "(string \<times> flag) list" where
  "onboard_flags = [
     (''namespace'', StringVar (\<lambda>v cfg. cfg\<lparr>oc_Namespace := v\<rparr>)),
     (''vm'', StringVar (\<lambda>v cfg. cfg\<lparr>OnboardConfig.VMName := v\<rparr>)),
     (''linux-selector'', StringVar (\<lambda>v cfg. cfg\<lparr>LinuxSelector := v\<rparr>)),
     (''windows-selector'', StringVar (\<lambda>v cfg. cfg\<lparr>WindowsSelector := v\<rparr>)),
     (''dry-run'', BoolVar (\<lambda>v cfg. cfg\<lparr>DryRun := v\<rparr>))]"

text \<open>An argument as a flag: no flag, the end of the flags, bad syntax, or a name and its value.\<close>

datatype arg = NoFlag | EndOfFlags | BadSyntax | Flag string "string option"

definition split_value :: "string \<Rightarrow> string \<times> string option" where
  "split_value body = (let rest = dropWhile (\<lambda>c. c \<noteq> CHR ''='') (tl body) in
     (take 1 body @ takeWhile (\<lambda>c. c \<noteq> CHR ''='') (tl body), if rest = '''' then None else Some (tl rest)))"

definition read_arg :: "string \<Rightarrow> arg" where
  "read_arg s = (case s of
     c # d # r \<Rightarrow>
       if c \<noteq> CHR ''-'' then NoFlag
       else if d = CHR ''-'' \<and> r = '''' then EndOfFlags
       else let body = (if d = CHR ''-'' then r else d # r) in
         if hd body = CHR ''-'' \<or> hd body = CHR ''='' then BadSyntax
         else (case split_value body of (name, value) \<Rightarrow> Flag name value)
   | _ \<Rightarrow> NoFlag)"

fun parse_flags :: "'w kvo \<Rightarrow> string list \<Rightarrow> OnboardConfig \<Rightarrow> OnboardConfig go" where
  "parse_flags K [] cfg = Inr cfg"
| "parse_flags K (s # args) cfg = (case read_arg s of
     NoFlag \<Rightarrow> Inr cfg
   | EndOfFlags \<Rightarrow> Inr cfg
   | BadSyntax \<Rightarrow> Inl (Errorf (''bad flag syntax: '' @ s))
   | Flag name value \<Rightarrow> (case map_of onboard_flags name of
       None \<Rightarrow> if name = ''help'' \<or> name = ''h'' then Inl (Errorf ''flag: help requested'')
         else Inl (Errorf (''flag provided but not defined: -'' @ name))
     | Some (BoolVar set_it) \<Rightarrow> (case value of
           None \<Rightarrow> parse_flags K args (set_it True cfg)
         | Some v \<Rightarrow> (case ParseBool v of
             None \<Rightarrow> Inl (Errorf (''invalid boolean value '' @ quoted K v @ '' for -'' @ name @ '': parse error''))
           | Some b \<Rightarrow> parse_flags K args (set_it b cfg)))
     | Some (StringVar set_it) \<Rightarrow> (case value of
           Some v \<Rightarrow> parse_flags K args (set_it v cfg)
         | None \<Rightarrow> (case args of
             [] \<Rightarrow> Inl (Errorf (''flag needs an argument: -'' @ name))
           | v # rest \<Rightarrow> parse_flags K rest (set_it v cfg)))))"

section \<open>The commands\<close>

definition env_config :: "'w kvo \<Rightarrow> OnboardConfig" where
  "env_config K = \<lparr>oc_Namespace = '''', VMName = '''', LinuxSelector = '''', WindowsSelector = '''', DryRun = False,
     LinuxUser = env K ''KVO_LINUX_USER'', LinuxPassword = env K ''KVO_LINUX_PASSWORD'',
     WindowsUser = env K ''KVO_WINDOWS_USER'', WindowsPassword = env K ''KVO_WINDOWS_PASSWORD'',
     SSHPort = 0, JumpHost = env K ''KVO_OCP_JUMP_HOST'', JumpUser = env K ''KVO_OCP_JUMP_USER'', JumpPort = 0,
     JumpKey = env K ''KVO_OCP_JUMP_KEY'', KeySecretNamespace = '''', KeySecretName = ''''\<rparr>"

definition onboard_config :: "'w kvo \<Rightarrow> string list \<Rightarrow> OnboardConfig go" where
  "onboard_config K args = goE (parse_flags K args (env_config K)) (\<lambda>cfg.
     if OnboardConfig.VMName cfg \<noteq> '''' \<and> oc_Namespace cfg = '''' then Inl (Errorf ''--vm requires --namespace'') else Inr cfg)"

definition runOnboard :: "'w kvo \<Rightarrow> string list \<Rightarrow> ('w, unit go) io" where
  "runOnboard K args = (case onboard_config K args of Inl err \<Rightarrow> fail err | Inr cfg \<Rightarrow> Run K cfg)"

definition usage :: string where
  "usage = unlines [
     ''kvoctl - KubeVirt Observability CLI'',
     '''',
     ''Usage:'',
     ''  kvoctl <command>'',
     '''',
     ''Commands:'',
     ''  preflight    Check cluster prerequisites'',
     ''  deploy       Deploy the KubeVirt Observability Platform'',
     ''  onboard      Integrate existing VMs with KubeVirt Observability'',
     ''  version      Print kvoctl version information'',
     '''',
     ''Examples:'',
     ''  kvoctl preflight'',
     ''  kvoctl deploy'',
     ''  kvoctl onboard --dry-run'',
     ''  kvoctl onboard --namespace my-vms'',
     ''  kvoctl onboard --linux-selector '' @ squote @ ''kubevirt.io/os=ubuntu'' @ squote,
     ''  kvoctl version'',
     '''',
     ''Environment variables for non-interactive deployment:'',
     ''  LOKI_S3_BUCKET'',
     ''  LOKI_S3_ENDPOINT'',
     ''  LOKI_S3_REGION'',
     ''  LOKI_S3_ACCESS_KEY'',
     ''  LOKI_S3_SECRET_KEY'',
     ''  KVO_STORAGE_CLASS'',
     ''  KVO_OPERATOR_IMAGE'',
     ''  KVO_CONFIG_DIR'',
     '''',
     ''Optional alerting:'',
     '''',
     ''  KVO_SLACK_WEBHOOK_URL'',
     ''      Slack incoming webhook used for alert notifications.'',
     ''      When omitted, alert integration is not configured and deployment continues normally.'']"

text \<open>The version, the commit and the date are set by the linker.\<close>

record Build =
  version :: string
  commit :: string
  buildDate :: string

definition version_text :: "Build \<Rightarrow> string" where
  "version_text b = ''kvoctl '' @ version b @ newline @ ''commit: '' @ commit b @ newline
     @ ''build date: '' @ buildDate b @ newline"

text \<open>The exit code of a command: an error is printed.\<close>

definition exit_code :: "('w, unit go) io \<Rightarrow> ('w, nat) io" where
  "exit_code m = do {
     r \<leftarrow> m;
     case r of
       Inl err \<Rightarrow> do { _ \<leftarrow> fprint (newline @ ''ERROR: '' @ Error err @ newline); ret 1 }
     | Inr _ \<Rightarrow> ret 0 }"

text \<open>\<open>args\<close> are the arguments after the name of the program, \<open>input\<close> is the standard input.\<close>

definition kvoctl_main :: "'w kvo \<Rightarrow> Build \<Rightarrow> Ticks \<Rightarrow> string \<Rightarrow> string list \<Rightarrow> ('w, nat) io" where
  "kvoctl_main K b t input args = (case args of
     [] \<Rightarrow> do { _ \<leftarrow> fprint usage; ret 1 }
   | command # rest \<Rightarrow>
       if command = ''preflight'' then exit_code (RunPreflight K)
       else if command = ''deploy'' then exit_code (DeployRun K t input)
       else if command = ''onboard'' then exit_code (runOnboard K rest)
       else if command = ''version'' then do { _ \<leftarrow> fprint (version_text b); ret 0 }
       else do {
         _ \<leftarrow> fprint (''unknown command: '' @ command @ newline @ newline);
         _ \<leftarrow> fprint usage;
         ret 1 })"

section \<open>Properties\<close>

text \<open>The arguments that set a configuration, as a user writes them.\<close>

definition arguments :: "string \<Rightarrow> string \<Rightarrow> string \<Rightarrow> string \<Rightarrow> bool \<Rightarrow> string list" where
  "arguments ns vm ls ws dry = [''--namespace'', ns, ''--vm='' @ vm, ''-linux-selector'', ls, ''--windows-selector='' @ ws]
     @ (if dry then [''--dry-run''] else [''--dry-run=false''])"

lemma read_arg_value [simp]:
  "read_arg (''--vm='' @ v) = Flag ''vm'' (Some v)"
  "read_arg (''--windows-selector='' @ v) = Flag ''windows-selector'' (Some v)"
  by (simp_all add: read_arg_def split_value_def)

text \<open>
  C39. Flags read back: whatever the texts are (with spaces, dashes or equal signs in them, or
  empty), the five flags of \<open>onboard\<close> set their five fields and nothing else, with one dash
  or two, with the value behind an equal sign or in the next argument. A VM without a
  namespace is refused.
\<close>
theorem onboard_flags_roundtrip:
  "onboard_config K (arguments ns vm ls ws dry) =
     (if vm \<noteq> '''' \<and> ns = '''' then Inl (Errorf ''--vm requires --namespace'')
      else Inr ((env_config K)\<lparr>oc_Namespace := ns, OnboardConfig.VMName := vm, LinuxSelector := ls, WindowsSelector := ws, DryRun := dry\<rparr>))"
proof -
  have words: "read_arg ''--namespace'' = Flag ''namespace'' None" "read_arg ''-linux-selector'' = Flag ''linux-selector'' None"
    "read_arg ''--dry-run'' = Flag ''dry-run'' None" "read_arg ''--dry-run=false'' = Flag ''dry-run'' (Some ''false'')"
    by (simp_all add: read_arg_def split_value_def)
  have parse: "parse_flags K ([''--namespace'', ns, a, ''-linux-selector'', ls, b] @ (if dry then [''--dry-run''] else [''--dry-run=false''])) cfg
      = Inr (cfg\<lparr>oc_Namespace := ns, OnboardConfig.VMName := vm, LinuxSelector := ls, WindowsSelector := ws, DryRun := dry\<rparr>)"
    if "read_arg a = Flag ''vm'' (Some vm)" "read_arg b = Flag ''windows-selector'' (Some ws)" for a b cfg
    using that by (simp add: words onboard_flags_def ParseBool_def)
  have "parse_flags K (arguments ns vm ls ws dry) cfg
      = Inr (cfg\<lparr>oc_Namespace := ns, OnboardConfig.VMName := vm, LinuxSelector := ls, WindowsSelector := ws, DryRun := dry\<rparr>)" for cfg
    unfolding arguments_def by (rule parse) (rule read_arg_value)+
  then show ?thesis by (simp add: onboard_config_def goE_def)
qed

end
