(* ===== verification/WinRM.thy ===== *)
theory WinRM imports Remediation begin

text \<open>
  \<open>internal/remediation/windows_winrm.go\<close>: running a command over WinRM. The client of the
  third-party package is a parameter over its own world. The encoding of the command is read
  back as PowerShell reads it.
\<close>

section \<open>The client\<close>

record WinRMEndpoint =
  ep_Host :: string
  ep_Port :: int
  ep_HTTPS :: bool
  ep_Insecure :: bool
  ep_Timeout :: nat

text \<open>\<open>NewClientWithParameters\<close>, with the timeout of the parameters as a text, makes a client; its
  \<open>Run\<close> gives the exit code, the two outputs and the error.\<close>

record 'w winrm =
  NewClientWithParameters :: "WinRMEndpoint \<Rightarrow> string \<Rightarrow> string \<Rightarrow> string \<Rightarrow> nat go"
  client_Run :: "nat \<Rightarrow> string \<Rightarrow> 'w \<Rightarrow> (int \<times> string \<times> string \<times> goerr option) \<times> 'w"

record WindowsWinRMConfig =
  wr_Address :: string
  wr_Username :: string
  wr_Password :: string
  wr_Timeout :: nat

text \<open>\<open>Duration.String\<close> of whole seconds.\<close>

definition duration_String :: "nat \<Rightarrow> string" where
  "duration_String d = (let h = d div 3600; m = d div 60 mod 60; s = nat_digits (d mod 60) @ ''s'' in
     if d < 60 then s
     else if d < 3600 then nat_digits m @ ''m'' @ s
     else nat_digits h @ ''h'' @ nat_digits m @ ''m'' @ s)"

section \<open>Runs\<close>

type_synonym outputs = "string \<times> string \<times> goerr option"

definition RunWindowsCommand :: "'w winrm \<Rightarrow> WindowsWinRMConfig \<Rightarrow> string \<Rightarrow> 'w \<Rightarrow> outputs \<times> 'w" where
  "RunWindowsCommand W cfg command w =
     (let endpoint = \<lparr>ep_Host = hostFromAddress (wr_Address cfg), ep_Port = portFromAddress (wr_Address cfg),
        ep_HTTPS = False, ep_Insecure = False, ep_Timeout = wr_Timeout cfg\<rparr> in
      case NewClientWithParameters W endpoint (wr_Username cfg) (wr_Password cfg) (duration_String (wr_Timeout cfg)) of
        Inl err \<Rightarrow> (('''', '''', Some (Wrapf ''failed to create winrm client: '' err)), w)
      | Inr client \<Rightarrow> (case client_Run W client command w of ((exitCode, stdout, stderr, err), w) \<Rightarrow>
          (case err of
             Some err \<Rightarrow> ((stdout, stderr, Some (Wrapf ''remote command failed: '' err)), w)
           | None \<Rightarrow>
               if exitCode \<noteq> 0 then
                 ((stdout, stderr, Some (Errorf (''remote command returned exit code '' @ Itoa exitCode))), w)
               else ((stdout, stderr, None), w))))"

definition powershell_command :: "(string \<Rightarrow> string) \<Rightarrow> string \<Rightarrow> string" where
  "powershell_command u16 script =
     ''powershell.exe -NoProfile -NonInteractive -ExecutionPolicy Bypass -EncodedCommand '' @ powershellEncodedCommand u16 script"

definition RunWindowsBootstrap :: "'w winrm \<Rightarrow> (string \<Rightarrow> string) \<Rightarrow> WindowsWinRMConfig \<Rightarrow> string \<Rightarrow> 'w \<Rightarrow> goerr option \<times> 'w" where
  "RunWindowsBootstrap W u16 cfg script w =
     (case RunWindowsCommand W cfg (powershell_command u16 script) w of ((stdout, stderr, err), w) \<Rightarrow>
        (case err of
           Some err \<Rightarrow> (Some (suffixed ''remote powershell failed: '' err ('' stdout='' @ stdout @ '' stderr='' @ stderr)), w)
         | None \<Rightarrow> (None, w)))"

section \<open>Reading the command back\<close>

text \<open>The ASCII text that a UTF-16 text in little endian is.\<close>

fun ascii_of_utf16 :: "string \<Rightarrow> string option" where
  "ascii_of_utf16 [] = Some []"
| "ascii_of_utf16 (c # z # s) = (if is_ascii c \<and> z = CHR 0x00 then map_option ((#) c) (ascii_of_utf16 s) else None)"
| "ascii_of_utf16 [c] = None"

lemma ascii_of_utf16le: "list_all is_ascii s \<Longrightarrow> ascii_of_utf16 (utf16le u16 s) = Some s"
  by (induction s) simp_all

text \<open>Every line ends with a carriage return and a line feed.\<close>

fun with_crlf :: "string \<Rightarrow> string" where
  "with_crlf [] = []"
| "with_crlf [c] = (if c = CHR 0x0A then crlf else [c])"
| "with_crlf (c # d # s) =
     (if c = CHR 0x0D \<and> d = CHR 0x0A then crlf @ with_crlf s
      else if c = CHR 0x0A then crlf @ with_crlf (d # s)
      else c # with_crlf (d # s))"

lemma replace_crlf:
  "ReplaceAll [] crlf newline = []"
  "ReplaceAll (CHR 0x0D # CHR 0x0A # s) crlf newline = CHR 0x0A # ReplaceAll s crlf newline"
  "\<not> (c = CHR 0x0D \<and> s \<noteq> [] \<and> hd s = CHR 0x0A) \<Longrightarrow> ReplaceAll (c # s) crlf newline = c # ReplaceAll s crlf newline"
  by (subst ReplaceAll.simps; cases s; auto simp: crlf_def newline_def)+

lemma replace_newline:
  "ReplaceAll [] newline crlf = []"
  "ReplaceAll (c # s) newline crlf = (if c = CHR 0x0A then crlf else [c]) @ ReplaceAll s newline crlf"
  by (subst ReplaceAll.simps; auto simp: newline_def)+

lemma normalised: "ReplaceAll (ReplaceAll s crlf newline) newline crlf = with_crlf s"
  by (induction s rule: with_crlf.induct) (auto simp: replace_crlf replace_newline)

lemma with_crlf_idem: "with_crlf (with_crlf s) = with_crlf s"
proof -
  have feed: "with_crlf (CHR 0x0D # CHR 0x0A # s) = CHR 0x0D # CHR 0x0A # with_crlf s" for s by (simp add: crlf_def)
  have other: "with_crlf (c # s) = c # with_crlf s" if "c \<noteq> CHR 0x0A" "s = [] \<or> hd s \<noteq> CHR 0x0A" for c s
    using that by (cases s) auto
  have head: "with_crlf (d # s) = [] \<or> hd (with_crlf (d # s)) \<noteq> CHR 0x0A" for d s
    by (cases s) (auto simp: crlf_def)
  show ?thesis
  proof (induction s rule: with_crlf.induct)
    case (3 c d s)
    consider "c = CHR 0x0D \<and> d = CHR 0x0A" | "c = CHR 0x0A" | "c \<noteq> CHR 0x0A" "\<not> (c = CHR 0x0D \<and> d = CHR 0x0A)" by blast
    then show ?case
    proof cases
      case 3
      with "3.IH"(3) have "with_crlf (with_crlf (d # s)) = with_crlf (d # s)" by simp
      with 3 other [OF 3(1) head [of d s]] show ?thesis by auto
    qed (use "3.IH" feed in \<open>simp_all add: crlf_def del: with_crlf.simps(3), simp_all add: crlf_def\<close>)
  qed (simp_all add: crlf_def)
qed

lemma ascii_with_crlf: "list_all is_ascii s \<Longrightarrow> list_all is_ascii (with_crlf s)"
  by (induction s rule: with_crlf.induct) (auto simp: crlf_def is_ascii_def)

text \<open>
  The command carries the script. PowerShell, which decodes the argument of
  \<open>-EncodedCommand\<close> as base64 of UTF-16, gets an ASCII script back with every line end, of
  either kind or mixed, as a carriage return and a line feed; and a script with these line
  ends comes back as it is.
\<close>
theorem encoded_command_roundtrip:
  assumes "list_all is_ascii script"
  shows "Option.bind (DecodeString (powershellEncodedCommand u16 script)) ascii_of_utf16 = Some (with_crlf script)
    \<and> Option.bind (DecodeString (powershellEncodedCommand u16 (with_crlf script))) ascii_of_utf16 = Some (with_crlf script)"
  using ascii_of_utf16le [OF ascii_with_crlf [OF assms]]
  by (simp add: powershellEncodedCommand_def Let_def b64.decode_encode normalised with_crlf_idem)

theorem encoded_command_roundtrip_witness:
  "Option.bind (DecodeString (powershellEncodedCommand id (''a'' @ newline @ ''b''))) ascii_of_utf16 = Some (''a'' @ crlf @ ''b'')"
  using encoded_command_roundtrip [of "''a'' @ newline @ ''b''" id] by (simp add: newline_def crlf_def is_ascii_def)

text \<open>
  A run reports success only if the client was made, the command that carries the script ran,
  and its exit code was zero; the world is then the one the command left.
\<close>
lemma RunWindowsBootstrap_success:
  assumes "RunWindowsBootstrap W u16 cfg script w = (None, w')"
  shows "\<exists>client stdout stderr. client_Run W client (powershell_command u16 script) w = ((0, stdout, stderr, None), w')"
  using assms unfolding RunWindowsBootstrap_def RunWindowsCommand_def Let_def
  by (auto split: sum.splits prod.splits option.splits if_splits)

end
