(* ===== verification/Manager.thy ===== *)
theory Manager imports VMController begin

text \<open>
  \<open>cmd/manager/main.go\<close> and \<open>SetupWithManager\<close>: how the process of the operator starts. The
  manager of controller-runtime is a parameter; what the code asks of it is recorded in
  order. Flags of the logger and the schemes of the API types are left out.
\<close>

section \<open>What is asked of the manager\<close>

record ManagerOptions =
  MetricsBindAddress :: string
  HealthProbeBindAddress :: string
  WebhookPort :: int
  LeaderElection :: bool
  LeaderElectionID :: string

text \<open>Delays in seconds.\<close>

record ControllerOptions =
  For_kind :: string
  Owns_kind :: string
  MaxConcurrentReconciles :: nat
  BaseDelay :: nat
  MaxDelay :: nat

datatype startup =
    NewManager ManagerOptions
  | Complete ControllerOptions
  | RegisterWebhook string
  | AddHealthzCheck string
  | AddReadyzCheck string
  | Start

record 'w manager =
  ask :: "startup \<Rightarrow> 'w \<Rightarrow> goerr option \<times> 'w"

section \<open>The start\<close>

definition SetupWithManager :: ControllerOptions where
  "SetupWithManager = \<lparr>For_kind = ''VirtualMachine'', Owns_kind = ''VirtualMachineInstance'',
     MaxConcurrentReconciles = 5, BaseDelay = 5, MaxDelay = 5 * 60\<rparr>"

definition manager_options :: "bool \<Rightarrow> ManagerOptions" where
  "manager_options enableLeaderElection = \<lparr>MetricsBindAddress = '':8080'', HealthProbeBindAddress = '':8081'',
     WebhookPort = 9443, LeaderElection = enableLeaderElection,
     LeaderElectionID = ''vm-observability-operator.kubevirt-observability.io''\<rparr>"

text \<open>The steps in order, and whether the process exits when one fails.\<close>

definition start_steps :: "bool option \<Rightarrow> (startup \<times> bool) list" where
  "start_steps leader_elect = [
     (NewManager (manager_options (case leader_elect of None \<Rightarrow> True | Some b \<Rightarrow> b)), True),
     (Complete SetupWithManager, True),
     (RegisterWebhook ''/mutate-kubevirt-io-v1-virtualmachine'', False),
     (AddHealthzCheck ''healthz'', False),
     (AddReadyzCheck ''readyz'', False),
     (Start, True)]"

fun run_steps :: "'w manager \<Rightarrow> (startup \<times> bool) list \<Rightarrow> 'w \<Rightarrow> nat \<times> startup list" where
  "run_steps M [] w = (0, [])"
| "run_steps M ((x, exits) # steps) w = (case ask M x w of (r, w) \<Rightarrow>
     if exits \<and> r \<noteq> None then (1, [x])
     else (case run_steps M steps w of (code, done_steps) \<Rightarrow> (code, x # done_steps)))"

text \<open>The exit code and the steps that were taken; the flag may be given or not.\<close>

definition manager_main :: "'w manager \<Rightarrow> bool option \<Rightarrow> 'w \<Rightarrow> nat \<times> startup list" where
  "manager_main M leader_elect w = run_steps M (start_steps leader_elect) w"

section \<open>What is served\<close>

lemma run_steps_prefix: "\<exists>rest. map fst steps = snd (run_steps M steps w) @ rest"
  by (induction M steps w rule: run_steps.induct) (auto split: prod.splits)

lemma run_steps_code: "fst (run_steps M steps w) = 0 \<Longrightarrow> snd (run_steps M steps w) = map fst steps"
  by (induction M steps w rule: run_steps.induct) (auto split: prod.splits if_splits)

text \<open>
  The manager starts only after the controller and the webhook were registered with it, and
  the exit code is zero only if it ran; whatever the manager answers, a step that exits is
  the last one.
\<close>
lemma manager_main_order:
  "(Start \<in> set (snd (manager_main M f w)) \<longrightarrow> snd (manager_main M f w) = map fst (start_steps f))
   \<and> (fst (manager_main M f w) = 0 \<longrightarrow> Start \<in> set (snd (manager_main M f w)))"
proof -
  have "snd (manager_main M f w) = map fst (start_steps f)" if "Start \<in> set (snd (manager_main M f w))"
  proof -
    obtain rest where rest: "map fst (start_steps f) = snd (manager_main M f w) @ rest"
      using run_steps_prefix unfolding manager_main_def by metis
    have "rest = []"
    proof (rule ccontr)
      assume "rest \<noteq> []"
      then have "snd (manager_main M f w) = take (length (snd (manager_main M f w))) (butlast (map fst (start_steps f)))"
        unfolding rest by (simp add: butlast_append)
      then have "set (snd (manager_main M f w)) \<subseteq> set (butlast (map fst (start_steps f)))"
        by (metis set_take_subset)
      with that show False by (auto simp: start_steps_def)
    qed
    with rest show ?thesis by simp
  qed
  moreover have "fst (manager_main M f w) = 0 \<longrightarrow> Start \<in> set (snd (manager_main M f w))"
    using run_steps_code [of M "start_steps f" w] by (auto simp: manager_main_def start_steps_def)
  ultimately show ?thesis by blast
qed

end
