(* ===== verification/Spec2Isabelle.thy ===== *)
theory Spec2Isabelle imports Webhook Sysprep GuestScripts Remediation Alerting VMLifecycle VMGuest OnboardedVM OperatorsProps
  VMInstallerProps GrafanaProps LokiProps DeployProps DeployWrites Kvoctl WinRM Manager begin

text \<open>
  KubeVirt Observability Operator: a verification development.

  The program. The operator makes KubeVirt virtual machines observable. An admission webhook
  (\<open>webhook/vm_mutator.go\<close>) changes a VM when it is created so that its guest installs a
  metrics exporter at first boot: \<open>internal/patch\<close> decides by the OS of the VM
  (\<open>internal/osdetect\<close>) and by its first bootstrap volume (\<open>internal/bootstrapdetect\<close>) what to
  merge where, \<open>internal/cloudinitmerge\<close> and \<open>internal/sysprepmerge\<close> do the merge, and
  annotations (\<open>api/constants.go\<close>) record what is still to be done. A controller
  (\<open>controllers/vm_controller.go\<close>) then reconciles each managed VM: it prepares the namespace
  (labels, alert rules by \<open>internal/alerting\<close>, mirrored keys, role bindings), merges the
  sources that are Secrets or ConfigMaps, remediates guests over SSH
  (\<open>internal/remediation\<close>), keeps Service, Endpoints and ServiceMonitor, installs the log
  collector (\<open>internal/alloyconfig\<close>) and marks the VM.

  The command line tool \<open>kvoctl\<close> (\<open>cmd/kvoctl\<close>, \<open>pkg\<close>) surrounds the operator. \<open>preflight\<close>
  reports whether a cluster is ready (\<open>pkg/platform\<close>, \<open>pkg/deploy/preflight.go\<close>). \<open>deploy\<close>
  (\<open>pkg/deploy\<close>) asks for a configuration and installs, in this order, the operators it needs
  (\<open>pkg/operators\<close>), a LokiStack (\<open>pkg/loki\<close>), the log forwarder (\<open>pkg/logging\<close>), the reader's
  account and Grafana (\<open>pkg/grafana\<close>), alerting (\<open>pkg/alerting\<close>) and the operator itself with its
  webhook (\<open>pkg/vmmonitoring\<close>). \<open>onboard\<close> (\<open>pkg/onboarding\<close>) finds VMs that exist already,
  gives their guests the operator's key and marks them for the controller.

  How it is modelled.
    \<^item> Strings are lists of bytes. Go errors are values \<open>goerr\<close> with the class that
      \<open>IsNotFound\<close>, \<open>IsAlreadyExists\<close> and \<open>IsNoMatchError\<close> see; a panic is the class
      \<open>KPanic\<close>, which no error branch handles (\<open>catching\<close> lets it pass).
    \<^item> A Go map is a finite map, a possibly nil one an option of it; structs are records
      with the fields the code uses (theory Kube); an unstructured object is a tree of
      type \<open>gval\<close> (theory Unstruct).
    \<^item> Effects. The Kubernetes client, SSH, TCP and the clock are functions of a record
      \<open>'w client\<close> over an abstract world; every call is appended to a log of actions. \<open>kvoctl\<close>
      adds its own (\<open>'w kvo\<close>: the dynamic client, discovery, programs of the host, the
      environment, the output). \<open>does m Q\<close> says for all clients, worlds and logs what calls an
      operation makes and what it returns; \<open>calls P m Q\<close> and \<open>emits P m\<close> are special cases
      with syntax-directed rules. Where a property needs what a server stores, \<open>wpt\<close> (Store)
      and \<open>wps\<close> (Ensure) are weakest preconditions over its contents, and \<open>achieves\<close>,
      \<open>only_if\<close> (Success) say what must have happened when an operation succeeded.
    \<^item> YAML, XML and JSON libraries are parameters (\<open>cc_yaml\<close>, \<open>xml_codec\<close>, \<open>libs\<close>); their
      documented behaviour is a named hypothesis where a property needs it (\<open>yaml_law\<close>,
      \<open>xml_law\<close>, \<open>manifest_law\<close>), with a witness. \<open>honest\<close>, \<open>secret_store\<close>, \<open>secret_server\<close>
      and \<open>dyn_store\<close> are contracts of the API server.
    \<^item> The parts of the Go library the code relies on are written out: base64
      (\<open>GoBase64\<close>), quoting (\<open>AlloyConfig\<close>), SHA-256 and hexadecimal (\<open>Sha256\<close>), RFC 3339
      times (\<open>GoTime\<close>), string functions (\<open>Prelude\<close>, on ASCII where case matters), buffered
      reading of lines (\<open>DeployConfig\<close>), flag parsing (\<open>Kvoctl\<close>).

  The theories of the operator.
    \<^item> Prelude, Api, Kube: strings, errors, maps, the locales \<open>append_unless\<close> (find or
      append) and \<open>key_finder\<close> (the data key of a Secret); constants; objects and effects.
    \<^item> OsDetect: \<open>Detect\<close>, \<open>DetectBootstrap\<close>; the locale \<open>keyword_classifier\<close>.
    \<^item> CloudInitScripts, CloudInit: the bootstrap scripts and \<open>Merge\<close>, \<open>MergeSecretData\<close>. A
      merge monitors the guest and keeps the user's entries; merging twice is merging once,
      except for Windows documents, which the next merge takes for PowerShell.
    \<^item> Sysprep: \<open>ensureBootstrapCommand\<close>, \<open>sysprep_Merge\<close>, \<open>MergeMapData\<close>: one command with a
      new order is appended, everything else of the model is kept.
    \<^item> Patch, Webhook: \<open>EnsureMonitoringBootstrap\<close> and \<open>Handle\<close>: what admission records, what
      it leaves alone, and where requests for a later merge are lost.
    \<^item> AlloyConfig, GuestScripts: the rendered configurations determine their values, and the
      guest's shell reads the whole script out of the here-documents.
    \<^item> DemoClient: a concrete client for the witnesses.
    \<^item> Remediation: SSH runs (\<open>RunLinuxBootstrap\<close>, \<open>RunWindowsSSHBootstrap\<close>) close what they
      open and run a script only after its upload.
    \<^item> WinRM: runs over WinRM, with the third-party client as a parameter; PowerShell reads the
      encoded script back.
    \<^item> Cluster: contracts of the API server, the calculus \<open>calls\<close>, and \<open>confined\<close>: what the
      controller may write.
    \<^item> AlertTemplates, Alerting: the embedded rules and \<open>ReconcileNamespace\<close>; the copy of the
      Slack webhook settles.
    \<^item> VMSecrets, VMScrape, VMMerge, Sha256, VMAlloy, GoTime, VMController: the controller,
      one theory per group of its functions; \<open>Reconcile\<close> is the composition of its stages
      (\<open>reconcile_known\<close>, \<open>remediate\<close>, \<open>merge_sources\<close>, \<open>syncMetricsScrapeResources\<close>).
    \<^item> VMControllerProps, VMGuest, VMLifecycle: what holds of the whole: writes are confined,
      no VM is lost while it waits, marks about the guest are earned, and the state machine
      of a VM object from admission through any interleaving of edits and reconciliations.
    \<^item> Manager: the start of the process, \<open>cmd/manager/main.go\<close>: the manager starts only after
      the controller and the webhook were registered.

  The theories of \<open>kvoctl\<close>.
    \<^item> Unstruct, KvoApi, Store, Ensure, Success: nested objects and their accessors; the
      calls of \<open>kvoctl\<close>; what a server stores; the find, create or update steps and the
      polling loop that all installers share, the latter with the locale \<open>readiness\<close>; success
      of a sequence of steps.
    \<^item> Platform, Operators, OperatorsProps: discovery and permission checks; an operator is
      installed by a Namespace, an OperatorGroup and a Subscription, a second installation
      changes nothing, and waiting is bounded.
    \<^item> Onboarding, OnboardingProps, OnboardedVM: which VMs are ready, that only these are
      touched, and that what \<open>kvoctl\<close> writes into a VM is what \<open>Reconcile\<close> reads.
    \<^item> DeployConfig, GrafanaDiscovery, Preflight: the prompts and the configuration, the
      search for an existing Grafana and the report of readiness.
    \<^item> GrafanaDeployment, GrafanaInstall, GrafanaProps: the Deployment of Grafana is merged
      into one that is there (the locale \<open>append_or_refuse\<close>): what is needed is added, what
      the user has stays, and a second merge changes nothing; where a Grafana that was found is not reused.
    \<^item> Logging, Loki, LokiProps: the forwarder, its roles and the LokiStack with its storage
      secret; the bounds of the retention, and what the waiting loops report.
    \<^item> AlertingInstall: the webhook secret and the configuration of user workload monitoring,
      in which two switches are set and nothing else is changed.
    \<^item> VMInstaller, VMInstallerProps: the operator's own objects: the key pair that is
      never replaced, the writer's token, the Deployment and the webhook configuration.
    \<^item> Deploy, ReadyCluster, DeployProps, DeployWrites: \<open>Run\<close>, the composition
      of all of these: success means that everything it waits for was seen ready, an invalid
      retention stops before the first write, the VMs are left alone, and the objects sent through the dynamic client are typed. On the
      cluster of ReadyCluster a whole run succeeds.
    \<^item> Kvoctl: the commands and their flags.

  Loops and bounds. The loops of the operator are over finite lists or maps and are
  structural recursion; nothing uses fuel. The waiting loops of \<open>kvoctl\<close> select over a ticker
  and a deadline: their schedule, the number of ticks before the deadline fires, is an
  argument (\<open>Ticks\<close>, one per loop), on which they recurse, and the properties hold for
  every number of ticks. The limit of 2048 bytes for inline user data is
  \<open>maxInlineCloudInitBytes\<close>. Orders of sysprep commands wrap at 64 bits (\<open>wrap64\<close>). Times are
  nanoseconds, timeouts and requeue delays whole seconds.

  Not modelled. The inner workings of third-party libraries (client-go, controller-runtime,
  the SSH and WinRM clients, YAML, XML), which are parameters; the structured log lines; what
  guest scripts do inside the guest; contexts other than the deadlines of the waiting loops;
  the usage texts of the flag library and the registration of API types; the VMs that one
  controller reconciles at the same time, of which each run is modelled by itself.
\<close>

end
